(* ===== verification/Js_Prelude.thy ===== *)
theory Js_Prelude
  imports Main "HOL-Library.Word"
begin

unbundle bit_operations_syntax

text \<open>
  The prelude of the development: the part of JavaScript that the scripts of the repository use.
  It holds the values a script handles, the outcome of a statement (a value or a thrown
  exception), the statement combinators of the shallow embedding (\<open>js_let\<close>, \<open>js_seq\<close>,
  \<open>js_try_catch\<close>, \<open>js_try_finally\<close> and so on), the integer operators with their conversion to 32
  bits, little-endian words in a byte memory, and the generic lemmas on them that the component
  theories share.
\<close>

section \<open>Fact collections\<close>

named_theorems js_simps \<open>evaluation of the statement combinators\<close>
named_theorems int32_simps \<open>the 32-bit conversions away from wrap-around\<close>

section \<open>Values\<close>

type_synonym u8 = "8 word"
type_synonym u16 = "16 word"

text \<open>A JavaScript string is a sequence of UTF-16 code units, well formed or not.\<close>

type_synonym js_string = "u16 list"

text \<open>
  The values that cross the scripts. Integers are \<open>Num\<close>; a number that is not an integer
  (a fraction, a NaN, an infinity, minus zero) is the \<open>Flt\<close> of its IEEE bit pattern, which the
  scripts only pass on. \<open>Ref\<close> is a reference to an object of the host environment, \<open>Clo\<close> a
  function object made by \<^verbatim>\<open>makeMutClosure\<close>, \<open>Export\<close> a function that the wasm module exports, \<open>Obj\<close> an
  object of a class that the script defines,
  \<open>Buf\<close> a typed array over a range of the module's
  memory (kind, buffer, first byte, length in elements), \<open>Err\<close> an object made by \<^verbatim>\<open>new Error(m)\<close> and
  \<open>EngineErr\<close> an error raised by the engine itself, known by its name only.
\<close>

datatype js_val =
    Undefined
  | Null
  | Bool bool
  | Num int
  | Flt "64 word"
  | Str js_string
  | Sym nat
  | Ref nat
  | Clo nat
  | Export string
  | Obj nat
  | Buf string nat int int
  | Err js_string
  | EngineErr string

definition js :: "string \<Rightarrow> js_string" where
  "js cs = map (\<lambda>c. of_nat (of_char c)) cs"

fun truthy :: "js_val \<Rightarrow> bool" where
  "truthy Undefined = False"
| "truthy Null = False"
| "truthy (Bool b) = b"
| "truthy (Num n) = (n \<noteq> 0)"
| "truthy (Flt w) = (\<not> (drop_bit 52 (take_bit 63 w) = 0x7FF \<and> take_bit 52 w \<noteq> 0)
                      \<and> take_bit 63 w \<noteq> 0)"
| "truthy (Str s) = (s \<noteq> [])"
| "truthy _ = True"

section \<open>Outcomes and statements\<close>

datatype 'a outcome = Ret 'a | Throw js_val

type_synonym ('s, 'a) js = "'s \<Rightarrow> 'a outcome \<times> 's"

definition js_return :: "'a \<Rightarrow> ('s, 'a) js" where
  "js_return v = (\<lambda>s. (Ret v, s))"

definition js_throw :: "js_val \<Rightarrow> ('s, 'a) js" where
  "js_throw e = (\<lambda>s. (Throw e, s))"

definition js_let :: "('s, 'a) js \<Rightarrow> ('a \<Rightarrow> ('s, 'b) js) \<Rightarrow> ('s, 'b) js" where
  "js_let m f = (\<lambda>s. case m s of
     (Ret v, s') \<Rightarrow> f v s'
   | (Throw e, s') \<Rightarrow> (Throw e, s'))"

definition js_seq :: "('s, 'a) js \<Rightarrow> ('s, 'b) js \<Rightarrow> ('s, 'b) js" where
  "js_seq m n = js_let m (\<lambda>_. n)"

definition js_try_catch :: "('s, 'a) js \<Rightarrow> (js_val \<Rightarrow> ('s, 'a) js) \<Rightarrow> ('s, 'a) js" where
  "js_try_catch m h = (\<lambda>s. case m s of
     (Ret v, s') \<Rightarrow> (Ret v, s')
   | (Throw e, s') \<Rightarrow> h e s')"

text \<open>The \<^verbatim>\<open>finally\<close> block runs on both ways out; an exception of its own replaces the outcome.\<close>

definition js_try_finally :: "('s, 'a) js \<Rightarrow> ('s, 'b) js \<Rightarrow> ('s, 'a) js" where
  "js_try_finally m fin = (\<lambda>s. case m s of
     (r, s') \<Rightarrow> (case fin s' of
        (Ret _, s'') \<Rightarrow> (r, s'')
      | (Throw e, s'') \<Rightarrow> (Throw e, s'')))"

definition js_gets :: "('s \<Rightarrow> 'a) \<Rightarrow> ('s, 'a) js" where
  "js_gets f = (\<lambda>s. (Ret (f s), s))"

definition js_modify :: "('s \<Rightarrow> 's) \<Rightarrow> ('s, js_val) js" where
  "js_modify f = (\<lambda>s. (Ret Undefined, f s))"

text \<open>Arguments are evaluated from left to right.\<close>

fun js_args :: "('s, 'a) js list \<Rightarrow> ('s, 'a list) js" where
  "js_args [] = js_return []"
| "js_args (m # ms) = js_let m (\<lambda>v. js_let (js_args ms) (\<lambda>vs. js_return (v # vs)))"

lemma js_return_run [simp, js_simps]: "js_return v s = (Ret v, s)"
  by (simp add: js_return_def)

lemma js_throw_run [simp, js_simps]: "js_throw e s = (Throw e, s)"
  by (simp add: js_throw_def)

lemma js_gets_run [simp, js_simps]: "js_gets f s = (Ret (f s), s)"
  by (simp add: js_gets_def)

lemma js_modify_run [simp, js_simps]: "js_modify f s = (Ret Undefined, f s)"
  by (simp add: js_modify_def)

lemma js_let_Ret [js_simps]: "m s = (Ret v, s') \<Longrightarrow> js_let m f s = f v s'"
  by (simp add: js_let_def)

lemma js_let_Throw [js_simps]: "m s = (Throw e, s') \<Longrightarrow> js_let m f s = (Throw e, s')"
  by (simp add: js_let_def)

lemma js_seq_Ret [js_simps]: "m s = (Ret v, s') \<Longrightarrow> js_seq m n s = n s'"
  by (simp add: js_seq_def js_let_def)

lemma js_seq_Throw [js_simps]: "m s = (Throw e, s') \<Longrightarrow> js_seq m n s = (Throw e, s')"
  by (simp add: js_seq_def js_let_def)

lemma js_let_return [simp]: "js_let (js_return v) f = f v"
  by (simp add: js_let_def fun_eq_iff)

lemma js_let_throw [simp]: "js_let (js_throw e) f = js_throw e"
  by (simp add: js_let_def fun_eq_iff)

lemma js_let_assoc: "js_let (js_let m f) g = js_let m (\<lambda>v. js_let (f v) g)"
  by (simp add: js_let_def fun_eq_iff split: prod.splits outcome.splits)

lemma js_seq_return [simp]: "js_seq (js_return v) n = n"
  by (simp add: js_seq_def)

lemma js_let_right_id: "js_let m js_return = m"
  by (simp add: js_let_def fun_eq_iff split: prod.splits outcome.splits)

text \<open>Inversion of the combinators, for the proofs that follow a run of a statement.\<close>

lemma js_let_RetE:
  assumes "js_let m f s = (Ret v, t)"
  obtains u s' where "m s = (Ret u, s')" and "f u s' = (Ret v, t)"
  using assms by (auto simp: js_let_def split: prod.splits outcome.splits)

lemma js_seq_RetE:
  assumes "js_seq m n s = (Ret v, t)"
  obtains u s' where "m s = (Ret u, s')" and "n s' = (Ret v, t)"
  using assms by (auto simp: js_seq_def elim: js_let_RetE)

lemma js_try_finally_Ret:
  "m s = (r, s') \<Longrightarrow> fin s' = (Ret u, s'') \<Longrightarrow> js_try_finally m fin s = (r, s'')"
  by (simp add: js_try_finally_def)

lemma js_try_catch_Ret [js_simps]:
  "m s = (Ret v, s') \<Longrightarrow> js_try_catch m h s = (Ret v, s')"
  by (simp add: js_try_catch_def)

lemma js_try_catch_Throw [js_simps]:
  "m s = (Throw e, s') \<Longrightarrow> js_try_catch m h s = h e s'"
  by (simp add: js_try_catch_def)

section \<open>Integer operators\<close>

text \<open>
  JavaScript's bitwise operators convert their operands to signed 32-bit integers
  (\<^verbatim>\<open>ToInt32\<close>); \<^verbatim>\<open>x >>> 0\<close> converts to an unsigned one (\<^verbatim>\<open>ToUint32\<close>).
\<close>

definition to_int32 :: "int \<Rightarrow> int" where
  "to_int32 x = signed_take_bit 31 x"

definition to_uint32 :: "int \<Rightarrow> int" where
  "to_uint32 x = take_bit 32 x"

definition js_or :: "int \<Rightarrow> int \<Rightarrow> int" where
  "js_or a b = to_int32 a OR to_int32 b"

definition js_and :: "int \<Rightarrow> int \<Rightarrow> int" where
  "js_and a b = to_int32 a AND to_int32 b"

definition js_shl :: "int \<Rightarrow> nat \<Rightarrow> int" where
  "js_shl a c = to_int32 (push_bit (c mod 32) (to_int32 a))"

definition js_shr :: "int \<Rightarrow> nat \<Rightarrow> int" where
  "js_shr a c = drop_bit (c mod 32) (to_int32 a)"

lemma to_uint32_range: "0 \<le> to_uint32 x" "to_uint32 x < 2 ^ 32"
  using take_bit_int_less_exp [of 32 x] by (simp_all add: to_uint32_def)

lemma to_uint32_id [int32_simps]: "0 \<le> x \<Longrightarrow> x < 2 ^ 32 \<Longrightarrow> to_uint32 x = x"
  by (simp add: to_uint32_def take_bit_int_eq_self)

lemma to_uint32_neg [int32_simps]:
  assumes "- (2 ^ 31) \<le> x" "x < 0"
  shows "to_uint32 x = x + 2 ^ 32"
proof -
  have "x mod 2 ^ 32 = (x + 2 ^ 32) mod 2 ^ 32" by simp
  also have "\<dots> = x + 2 ^ 32" using assms by (intro mod_pos_pos_trivial) simp_all
  finally show ?thesis by (simp add: to_uint32_def take_bit_eq_mod)
qed

lemma to_uint32_idem [simp]: "to_uint32 (to_uint32 x) = to_uint32 x"
  by (simp add: to_uint32_def)

lemma to_int32_id [int32_simps]: "0 \<le> x \<Longrightarrow> x < 2 ^ 31 \<Longrightarrow> to_int32 x = x"
  by (simp add: to_int32_def signed_take_bit_int_eq_self)

lemma to_int32_range: "- (2 ^ 31) \<le> to_int32 x" "to_int32 x < 2 ^ 31"
  using signed_take_bit_int_greater_eq_minus_exp [of 31 x] signed_take_bit_int_less_exp [of 31 x]
  by (simp_all add: to_int32_def)

text \<open>A pointer that wasm hands out as a signed 32-bit integer is recovered by \<^verbatim>\<open>>>> 0\<close>.\<close>

lemma to_uint32_to_int32 [simp]: "to_uint32 (to_int32 x) = to_uint32 x"
  by (simp add: to_uint32_def to_int32_def take_bit_signed_take_bit)

text \<open>Joining disjoint bit fields is addition.\<close>

lemma or_eq_add_shifted:
  fixes x y :: int
  assumes "0 \<le> y" "y < 2 ^ k"
  shows "push_bit k x OR y = x * 2 ^ k + y"
proof -
  have "take_bit k y = y" using assms by (simp add: take_bit_int_eq_self)
  then have "\<And>n. \<not> (bit (push_bit k x) n \<and> bit y n)"
    by (metis bit_push_bit_iff_int bit_take_bit_iff not_less)
  then have "push_bit k x OR y = push_bit k x + y"
    by (simp add: disjunctive_add_eq_or[symmetric] bit_eq_iff bit_simps)
  then show ?thesis by (simp add: push_bit_eq_mult)
qed

text \<open>The operators on small non-negative numbers, as arithmetic.\<close>

lemma js_or_disjoint:
  assumes "0 \<le> x" "0 \<le> y" "y < 2 ^ k" "x * 2 ^ k + y < 2 ^ 31"
  shows "js_or (x * 2 ^ k) y = x * 2 ^ k + y"
proof -
  have "x * 2 ^ k < 2 ^ 31" "y < 2 ^ 31" using assms by (auto simp: add_strict_increasing2 intro: le_less_trans[rotated])
  then show ?thesis using assms or_eq_add_shifted [of y k x]
    by (simp add: js_or_def to_int32_id push_bit_eq_mult)
qed

lemma js_and_mask:
  assumes "0 \<le> x" "x < 2 ^ 31" "k < 31"
  shows "js_and x (2 ^ k - 1) = x mod 2 ^ k"
proof -
  have "(2::int) ^ k < 2 ^ 31" using assms(3) by (intro power_strict_increasing) auto
  then have "(0::int) \<le> 2 ^ k - 1" "(2::int) ^ k - 1 < 2 ^ 31" by auto
  then show ?thesis using assms
    by (simp add: js_and_def to_int32_id take_bit_eq_mod[symmetric] take_bit_eq_mask mask_eq_exp_minus_1)
qed

lemma js_shr_div: "0 \<le> x \<Longrightarrow> x < 2 ^ 31 \<Longrightarrow> c < 32 \<Longrightarrow> js_shr x c = x div 2 ^ c"
  by (simp add: js_shr_def to_int32_id drop_bit_eq_div)

lemma js_shl_mult:
  assumes "0 \<le> x" "c < 32" "x * 2 ^ c < 2 ^ 31"
  shows "js_shl x c = x * 2 ^ c"
proof -
  have "x \<le> x * 2 ^ c" using assms(1) by (simp add: mult_le_cancel_left1)
  then show ?thesis using assms by (simp add: js_shl_def to_int32_id push_bit_eq_mult)
qed

lemma js_and_field:
  assumes "0 \<le> x" "x < 2 ^ k" "0 \<le> q" "q * 2 ^ k + x < 2 ^ 31" "k < 31"
  shows "js_and (q * 2 ^ k + x) (2 ^ k - 1) = x"
  using js_and_mask [of "q * 2 ^ k + x" k] assms by simp

end
