(* ===== verification/Text_Codec.thy ===== *)
theory Text_Codec
  imports Js_Prelude
begin

unbundle bit_operations_syntax

text \<open>
  The UTF-8 codec that the audio worklet of the rattlegram example loads
  (\<^verbatim>\<open>src/examples/rattlegram/assets/text-encoder.js\<close>): \<^verbatim>\<open>TextEncoder.prototype.encode\<close> and
  \<^verbatim>\<open>TextDecoder.prototype.decode\<close>, loop by loop, together with the string operations of the
  language they rest on. The reference is UTF-8 by arithmetic on code points; the codec is proved
  equal to it and to be a round trip on every JavaScript string.
\<close>

section \<open>Strings of the language\<close>

definition is_high_surrogate :: "int \<Rightarrow> bool" where
  "is_high_surrogate u \<longleftrightarrow> 0xD800 \<le> u \<and> u \<le> 0xDBFF"

definition is_low_surrogate :: "int \<Rightarrow> bool" where
  "is_low_surrogate u \<longleftrightarrow> 0xDC00 \<le> u \<and> u \<le> 0xDFFF"

definition join_surrogates :: "int \<Rightarrow> int \<Rightarrow> int" where
  "join_surrogates hi lo = (hi - 0xD800) * 0x400 + (lo - 0xDC00) + 0x10000"

definition charCodeAt :: "js_string \<Rightarrow> nat \<Rightarrow> int" where
  "charCodeAt s i = uint (s ! i)"

definition codePointAt :: "js_string \<Rightarrow> nat \<Rightarrow> int" where
  "codePointAt s i =
     (let first = charCodeAt s i in
      if is_high_surrogate first \<and> i + 1 < length s \<and> is_low_surrogate (charCodeAt s (i + 1))
      then join_surrogates first (charCodeAt s (i + 1))
      else first)"

definition utf16 :: "int \<Rightarrow> js_string" where
  "utf16 cp =
     (if cp \<le> 0xFFFF then [word_of_int cp]
      else [word_of_int (0xD800 + (cp - 0x10000) div 0x400),
            word_of_int (0xDC00 + (cp - 0x10000) mod 0x400)])"

definition fromCodePoint :: "int \<Rightarrow> js_string outcome" where
  "fromCodePoint cp =
     (if 0 \<le> cp \<and> cp \<le> 0x10FFFF then Ret (utf16 cp) else Throw (EngineErr ''RangeError''))"

section \<open>The encoder\<close>

text \<open>The trailing loop \<^verbatim>\<open>while (c >= 0)\<close> of the encoder.\<close>

function encode_trail :: "int \<Rightarrow> int \<Rightarrow> int list" where
  "encode_trail codePoint c =
     (if 0 \<le> c
      then js_or 0x80 (js_and (js_shr codePoint (nat c)) 0x3f) # encode_trail codePoint (c - 6)
      else [])"
  by pat_completeness auto
termination
  by (relation "measure (\<lambda>(codePoint, c). nat (c + 6))") auto

declare encode_trail.simps [simp del]

text \<open>The pair \<^verbatim>\<open>(c, bits)\<close> that the four range tests choose.\<close>

definition encode_class :: "int \<Rightarrow> int \<times> int" where
  "encode_class codePoint =
     (if codePoint \<le> 0x7f then (0, 0x00)
      else if codePoint \<le> 0x7ff then (6, 0xc0)
      else if codePoint \<le> 0xffff then (12, 0xe0)
      else if codePoint \<le> 0x1fffff then (18, 0xf0)
      else (0, 0))"

definition encode_point :: "int \<Rightarrow> int list" where
  "encode_point codePoint =
     (case encode_class codePoint of (c, bits) \<Rightarrow>
        js_or bits (js_shr codePoint (nat c)) # encode_trail codePoint (c - 6))"

function encode_loop :: "js_string \<Rightarrow> nat \<Rightarrow> int list \<Rightarrow> int list" where
  "encode_loop string i octets =
     (if i < length string
      then let codePoint = codePointAt string i in
           encode_loop string (i + (if 0x10000 \<le> codePoint then 2 else 1))
             (octets @ encode_point codePoint)
      else octets)"
  by pat_completeness auto
termination
  by (relation "measure (\<lambda>(string, i, octets). length string - i)") auto

declare encode_loop.simps [simp del]

definition encode :: "js_string \<Rightarrow> int list" where
  "encode string = encode_loop string 0 []"

section \<open>The decoder\<close>

text \<open>The pair \<^verbatim>\<open>(bytesNeeded, codePoint)\<close> chosen by the leading octet; an octet above \<^verbatim>\<open>0xf4\<close>
  leaves both at 0.\<close>

definition decode_lead :: "int \<Rightarrow> nat \<times> int" where
  "decode_lead octet =
     (if octet \<le> 0x7f then (0, js_and octet 0xff)
      else if octet \<le> 0xdf then (1, js_and octet 0x1f)
      else if octet \<le> 0xef then (2, js_and octet 0x0f)
      else if octet \<le> 0xf4 then (3, js_and octet 0x07)
      else (0, 0))"

text \<open>The loop \<^verbatim>\<open>while (k < bytesNeeded)\<close>.\<close>

function decode_trail :: "int list \<Rightarrow> nat \<Rightarrow> nat \<Rightarrow> nat \<Rightarrow> int \<Rightarrow> int" where
  "decode_trail octets i bytesNeeded k codePoint =
     (if k < bytesNeeded
      then decode_trail octets i bytesNeeded (k + 1)
             (js_or (js_shl codePoint 6) (js_and (octets ! (i + k + 1)) 0x3f))
      else codePoint)"
  by pat_completeness auto
termination
  by (relation "measure (\<lambda>(octets, i, n, k, cp). n - k)") auto

declare decode_trail.simps [simp del]

text \<open>One turn of the outer loop: the code point it appends and the final \<^verbatim>\<open>bytesNeeded\<close>.\<close>

definition decode_step :: "int list \<Rightarrow> nat \<Rightarrow> int \<times> nat" where
  "decode_step octets i =
     (case decode_lead (octets ! i) of (bytesNeeded, codePoint) \<Rightarrow>
        if int (length octets) - int i - int bytesNeeded > 0
        then (decode_trail octets i bytesNeeded 0 codePoint, bytesNeeded)
        else (0xfffd, length octets - i))"

function decode_loop :: "int list \<Rightarrow> nat \<Rightarrow> js_string \<Rightarrow> js_string outcome" where
  "decode_loop octets i string =
     (if i < length octets
      then case decode_step octets i of (codePoint, bytesNeeded) \<Rightarrow>
             (case fromCodePoint codePoint of
                Throw e \<Rightarrow> Throw e
              | Ret cs \<Rightarrow> decode_loop octets (i + (bytesNeeded + 1)) (string @ cs))
      else Ret string)"
  by pat_completeness auto
termination
  by (relation "measure (\<lambda>(octets, i, string). length octets - i)") auto

declare decode_loop.simps [simp del]

text \<open>\<^verbatim>\<open>decode()\<close> with no argument returns the empty string.\<close>

definition decode :: "int list option \<Rightarrow> js_string outcome" where
  "decode octets = (case octets of None \<Rightarrow> Ret [] | Some os \<Rightarrow> decode_loop os 0 [])"

section \<open>The reference: UTF-8 by arithmetic\<close>

definition utf8 :: "int \<Rightarrow> int list" where
  "utf8 cp =
     (if cp < 0x80 then [cp]
      else if cp < 0x800 then [0xC0 + cp div 0x40, 0x80 + cp mod 0x40]
      else if cp < 0x10000 then
        [0xE0 + cp div 0x1000, 0x80 + cp div 0x40 mod 0x40, 0x80 + cp mod 0x40]
      else
        [0xF0 + cp div 0x40000, 0x80 + cp div 0x1000 mod 0x40, 0x80 + cp div 0x40 mod 0x40,
         0x80 + cp mod 0x40])"

text \<open>The code points of a string, surrogate pairs joined and lone surrogates kept.\<close>

fun code_points :: "js_string \<Rightarrow> int list" where
  "code_points [] = []"
| "code_points [u] = [uint u]"
| "code_points (u # v # us) =
     (if is_high_surrogate (uint u) \<and> is_low_surrogate (uint v)
      then join_surrogates (uint u) (uint v) # code_points us
      else uint u # code_points (v # us))"

section \<open>The encoder computes UTF-8\<close>

lemma unit_range: "0 \<le> uint (u :: u16)" "uint (u :: u16) < 0x10000"
  using uint_lt2p [of u] by simp_all

lemma or_80: "0 \<le> x \<Longrightarrow> x < 0x40 \<Longrightarrow> js_or 0x80 x = 0x80 + x"
  using js_or_disjoint [of 2 x 6] by simp
lemma or_C0: "0 \<le> x \<Longrightarrow> x < 0x20 \<Longrightarrow> js_or 0xC0 x = 0xC0 + x"
  using js_or_disjoint [of 6 x 5] by simp
lemma or_E0: "0 \<le> x \<Longrightarrow> x < 0x10 \<Longrightarrow> js_or 0xE0 x = 0xE0 + x"
  using js_or_disjoint [of 14 x 4] by simp
lemma or_F0: "0 \<le> x \<Longrightarrow> x < 0x8 \<Longrightarrow> js_or 0xF0 x = 0xF0 + x"
  using js_or_disjoint [of 30 x 3] by simp
lemma or_0: "0 \<le> x \<Longrightarrow> x < 2 ^ 31 \<Longrightarrow> js_or 0 x = x"
  by (simp add: js_or_def to_int32_id)

lemma and_3f: "0 \<le> x \<Longrightarrow> x < 2 ^ 31 \<Longrightarrow> js_and x 0x3f = x mod 0x40"
  using js_and_mask [of x 6] by simp

lemma encode_point_utf8:
  assumes "0 \<le> cp" "cp \<le> 0x1fffff"
  shows "encode_point cp = utf8 cp"
proof -
  have r: "cp < 2 ^ 31" using assms by simp
  have d: "0 \<le> cp div 2 ^ k" "cp div 2 ^ k < 2 ^ 31" for k :: nat
    using assms r by (auto intro: order.strict_trans1 [OF zdiv_mono2 [of cp 1 "2^k", simplified]] simp: pos_imp_zdiv_nonneg_iff)
  note tr = encode_trail.simps [of cp]
  show ?thesis
    using assms d[of 6] d[of 12]
    by (auto simp: encode_point_def encode_class_def utf8_def tr js_shr_div r and_3f or_80 or_C0 or_E0 or_F0 or_0)
qed

lemma unit_le: "uint (u :: u16) \<le> 0x10FFFF"
  using unit_range [of u] by simp

lemma code_points_range: "cp \<in> set (code_points s) \<Longrightarrow> 0 \<le> cp \<and> cp \<le> 0x10FFFF"
  by (induction s rule: code_points.induct)
     (auto simp: is_high_surrogate_def is_low_surrogate_def join_surrogates_def unit_le split: if_splits)

lemma code_points_codePointAt:
  assumes "i < length s"
  shows "code_points (drop i s) =
    codePointAt s i # code_points (drop (i + (if 0x10000 \<le> codePointAt s i then 2 else 1)) s)"
proof (cases "i + 1 < length s")
  case True
  define u v where "u = s ! i" and "v = s ! (i + 1)"
  have d: "drop i s = u # v # drop (i + 2) s" and d1: "drop (i + 1) s = v # drop (i + 2) s"
    using True by (simp_all add: u_def v_def Cons_nth_drop_Suc)
  show ?thesis
  proof (cases "is_high_surrogate (uint u) \<and> is_low_surrogate (uint v)")
    case pair: True
    then have "codePointAt s i = join_surrogates (uint u) (uint v)"
      using True by (simp add: codePointAt_def charCodeAt_def u_def v_def Let_def)
    moreover from pair have "0x10000 \<le> join_surrogates (uint u) (uint v)"
      by (simp add: is_high_surrogate_def is_low_surrogate_def join_surrogates_def)
    ultimately show ?thesis using pair by (simp add: d)
  next
    case False
    then have "codePointAt s i = uint u"
      by (auto simp: codePointAt_def charCodeAt_def u_def v_def Let_def)
    moreover have "\<not> 0x10000 \<le> uint u" using unit_range [of u] by simp
    ultimately show ?thesis using False d1 by (auto simp: d)
  qed
next
  case False
  with assms have "drop i s = [s ! i]" "drop (i + 1) s = []" "i + 1 = length s"
    by (simp_all add: Cons_nth_drop_Suc [symmetric])
  moreover have "\<not> 0x10000 \<le> uint (s ! i)" using unit_range [of "s ! i"] by simp
  ultimately show ?thesis by (simp add: codePointAt_def charCodeAt_def Let_def)
qed

lemma encode_loop_utf8:
  "encode_loop s i octets = octets @ concat (map utf8 (code_points (drop i s)))"
proof (induction s i octets rule: encode_loop.induct)
  case (1 s i octets)
  show ?case
  proof (cases "i < length s")
    case True
    note cps = code_points_codePointAt [OF True]
    then have "codePointAt s i \<in> set (code_points (drop i s))" by simp
    then have "0 \<le> codePointAt s i" "codePointAt s i \<le> 0x10FFFF"
      using code_points_range by auto
    then have "encode_point (codePointAt s i) = utf8 (codePointAt s i)"
      by (simp add: encode_point_utf8)
    then show ?thesis
      using "1.IH" [OF True refl] by (subst encode_loop.simps) (simp add: True Let_def cps)
  next
    case False
    then show ?thesis by (subst encode_loop.simps) simp
  qed
qed

lemma encode_utf8: "encode s = concat (map utf8 (code_points s))"
  by (simp add: encode_def encode_loop_utf8)

lemma utf16_unit: "utf16 (uint (u :: u16)) = [u]"
  using unit_range [of u] by (simp add: utf16_def)

lemma utf16_pair:
  assumes "is_high_surrogate (uint u)" "is_low_surrogate (uint v)"
  shows "utf16 (join_surrogates (uint u) (uint v)) = [u, v]"
proof -
  define a b where "a = uint u - 0xD800" and "b = uint v - 0xDC00"
  have b: "0 \<le> b" "b < 0x400" and a: "0 \<le> a"
    using assms by (auto simp: a_def b_def is_high_surrogate_def is_low_surrogate_def)
  have "(a * 0x400 + b) div 0x400 = a" "(a * 0x400 + b) mod 0x400 = b"
    using b by simp_all
  then have "utf16 (a * 0x400 + b + 0x10000) = [word_of_int (0xD800 + a), word_of_int (0xDC00 + b)]"
    using a b by (simp add: utf16_def)
  then show ?thesis by (simp add: a_def b_def join_surrogates_def)
qed

lemma concat_utf16_code_points: "concat (map utf16 (code_points s)) = s"
  by (induction s rule: code_points.induct) (auto simp: utf16_unit utf16_pair)

lemma decode_trail_unfold:
  "decode_trail os i n n cp = cp"
  "k < n \<Longrightarrow> decode_trail os i n k cp =
     decode_trail os i n (k + 1) (js_or (js_shl cp 6) (js_and (os ! (i + k + 1)) 0x3f))"
  by (subst decode_trail.simps, simp)+

lemma join6: "0 \<le> x \<Longrightarrow> x * 0x40 + b < 2 ^ 31 \<Longrightarrow> 0 \<le> b \<Longrightarrow> b < 0x40 \<Longrightarrow>
   js_or (js_shl x 6) (js_and (0x80 + b) 0x3f) = x * 0x40 + b"
  using js_or_disjoint [of x b 6] js_and_field [of b 6 2] js_shl_mult [of x 6] by simp

lemma and_1f: "0 \<le> x \<Longrightarrow> x < 0x20 \<Longrightarrow> js_and (0xC0 + x) 0x1f = x"
  using js_and_field [of x 5 6] by simp
lemma and_0f: "0 \<le> x \<Longrightarrow> x < 0x10 \<Longrightarrow> js_and (0xE0 + x) 0x0f = x"
  using js_and_field [of x 4 14] by simp
lemma and_07: "0 \<le> x \<Longrightarrow> x < 0x8 \<Longrightarrow> js_and (0xF0 + x) 0x07 = x"
  using js_and_field [of x 3 30] by simp
lemma and_ff: "0 \<le> x \<Longrightarrow> x < 0x80 \<Longrightarrow> js_and x 0xff = x"
  using js_and_field [of x 8 0] by simp

lemma join64:
  fixes x :: int
  shows "x div 0x40 * 0x40 + x mod 0x40 = x"
    and "x div 0x1000 * 0x40 + x div 0x40 mod 0x40 = x div 0x40"
    and "x div 0x40000 * 0x40 + x div 0x1000 mod 0x40 = x div 0x1000"
  using div_mult_mod_eq [of x 64] div_mult_mod_eq [of "x div 64" 64]
    div_mult_mod_eq [of "x div 4096" 64]
  by (simp_all add: zdiv_zmult2_eq [symmetric])

lemma div_range: "0 \<le> x \<Longrightarrow> x < n \<Longrightarrow> 0 < k \<Longrightarrow> 0 \<le> x div k \<and> x div k < (n::int)"
  using zdiv_mono2 [of x 1 k] by (simp add: pos_imp_zdiv_nonneg_iff)

lemma join6_eq:
  assumes "q * 0x40 + m = v" "0 \<le> q" "v < 2 ^ 31" "0 \<le> m" "m < 0x40"
  shows "js_or (js_shl q 6) (js_and (0x80 + m) 0x3f) = v"
  using join6 [of q m] assms by simp

lemma joins:
  assumes "0 \<le> cp" "cp < 2 ^ 31"
  shows "js_or (js_shl (cp div 0x40) 6) (js_and (0x80 + cp mod 0x40) 0x3f) = cp"
    and "js_or (js_shl (cp div 0x1000) 6) (js_and (0x80 + cp div 0x40 mod 0x40) 0x3f) = cp div 0x40"
    and "js_or (js_shl (cp div 0x40000) 6) (js_and (0x80 + cp div 0x1000 mod 0x40) 0x3f) = cp div 0x1000"
proof -
  have d: "0 \<le> cp div k \<and> cp div k < 2 ^ 31" if "0 < k" for k
    by (rule div_range [OF assms that])
  show "js_or (js_shl (cp div 0x40) 6) (js_and (0x80 + cp mod 0x40) 0x3f) = cp"
    by (rule join6_eq [OF join64(1)]) (use d assms in auto)
  show "js_or (js_shl (cp div 0x1000) 6) (js_and (0x80 + cp div 0x40 mod 0x40) 0x3f) = cp div 0x40"
    by (rule join6_eq [OF join64(2)]) (use d [of 4096] d [of 64] in simp_all)
  show "js_or (js_shl (cp div 0x40000) 6) (js_and (0x80 + cp div 0x1000 mod 0x40) 0x3f) = cp div 0x1000"
    by (rule join6_eq [OF join64(3)]) (use d [of "0x40000"] d [of 4096] in simp_all)
qed

lemma nth_block: "os = pre @ xs @ post \<Longrightarrow> j < length xs \<Longrightarrow> os ! (length pre + j) = xs ! j"
  by (simp add: nth_append)

lemma decode_trail_1: "decode_trail os i (Suc 0) 0 cp = js_or (js_shl cp 6) (js_and (os ! (i + 1)) 0x3f)"
  by (simp add: decode_trail_unfold)

lemma decode_trail_2:
  "decode_trail os i 2 0 cp =
     js_or (js_shl (js_or (js_shl cp 6) (js_and (os ! (i + 1)) 0x3f)) 6) (js_and (os ! (i + 2)) 0x3f)"
  using decode_trail_unfold(1) [of os i 2]
  by (simp add: decode_trail_unfold(2) numeral_2_eq_2)

lemma decode_trail_3:
  "decode_trail os i 3 0 cp =
     js_or (js_shl (js_or (js_shl (js_or (js_shl cp 6) (js_and (os ! (i + 1)) 0x3f)) 6)
       (js_and (os ! (i + 2)) 0x3f)) 6) (js_and (os ! (i + 3)) 0x3f)"
  using decode_trail_unfold(1) [of os i 3]
  by (simp add: decode_trail_unfold(2) numeral_3_eq_3 numeral_2_eq_2)

lemma lead_1: "0xC0 \<le> b \<Longrightarrow> b \<le> 0xDF \<Longrightarrow> decode_lead b = (1, b - 0xC0)"
  using and_1f [of "b - 0xC0"] by (simp add: decode_lead_def)
lemma lead_2: "0xE0 \<le> b \<Longrightarrow> b \<le> 0xEF \<Longrightarrow> decode_lead b = (2, b - 0xE0)"
  using and_0f [of "b - 0xE0"] by (simp add: decode_lead_def)
lemma lead_3: "0xF0 \<le> b \<Longrightarrow> b \<le> 0xF4 \<Longrightarrow> decode_lead b = (3, b - 0xF0)"
  using and_07 [of "b - 0xF0"] by (simp add: decode_lead_def)
lemma lead_0: "0 \<le> b \<Longrightarrow> b \<le> 0x7F \<Longrightarrow> decode_lead b = (0, b)"
  by (simp add: decode_lead_def and_ff)

lemma decode_step_utf8:
  assumes r: "0 \<le> cp" "cp \<le> 0x10FFFF" and os: "os = pre @ utf8 cp @ post"
  shows "decode_step os (length pre) = (cp, length (utf8 cp) - 1)"
proof -
  note at = nth_block [OF os]
  have r31: "0 \<le> cp" "cp < 2147483648" using r by simp_all
  have len: "length os = length pre + length (utf8 cp) + length post" using os by simp
  consider (a) "cp < 0x80" | (b) "0x80 \<le> cp" "cp < 0x800" | (c) "0x800 \<le> cp" "cp < 0x10000"
    | (d) "0x10000 \<le> cp" by linarith
  then show ?thesis
  proof cases
    case a
    then have u: "utf8 cp = [cp]" by (simp add: utf8_def)
    show ?thesis using r a at [of 0] len
      by (simp add: u decode_step_def lead_0 decode_trail_unfold)
  next
    case b
    then have u: "utf8 cp = [0xC0 + cp div 0x40, 0x80 + cp mod 0x40]" by (simp add: utf8_def)
    have "0 \<le> cp div 0x40" "cp div 0x40 < 0x20" using b by auto
    then show ?thesis using at [of 0] at [of 1] len
      by (simp add: u decode_step_def lead_1 decode_trail_1 joins r31)
  next
    case c
    then have u: "utf8 cp = [0xE0 + cp div 0x1000, 0x80 + cp div 0x40 mod 0x40, 0x80 + cp mod 0x40]"
      by (simp add: utf8_def)
    have q: "0 \<le> cp div 0x1000" "cp div 0x1000 < 0x10" using c by auto
    have "decode_trail os (length pre) 2 0 (cp div 0x1000) = cp"
      unfolding decode_trail_2 using at [of 1] at [of 2] by (simp add: u joins r31)
    moreover have "decode_lead (os ! length pre) = (2, cp div 0x1000)"
      using at [of 0] lead_2 [of "0xE0 + cp div 0x1000"] q by (simp add: u)
    ultimately show ?thesis using len by (simp add: u decode_step_def)
  next
    case d
    then have u: "utf8 cp = [0xF0 + cp div 0x40000, 0x80 + cp div 0x1000 mod 0x40,
        0x80 + cp div 0x40 mod 0x40, 0x80 + cp mod 0x40]"
      by (simp add: utf8_def)
    have q: "0 \<le> cp div 0x40000" "cp div 0x40000 < 5" using d r by auto
    have "decode_trail os (length pre) 3 0 (cp div 0x40000) = cp"
      unfolding decode_trail_3 using at [of 1] at [of 2] at [of 3] by (simp add: u joins r31)
    moreover have "decode_lead (os ! length pre) = (3, cp div 0x40000)"
      using at [of 0] lead_3 [of "0xF0 + cp div 0x40000"] q by (simp add: u)
    ultimately show ?thesis using len by (simp add: u decode_step_def)
  qed
qed

lemma utf8_nonempty [simp]: "utf8 cp \<noteq> []"
  by (simp add: utf8_def)

lemma decode_loop_utf8:
  assumes "\<forall>cp \<in> set cps. 0 \<le> cp \<and> cp \<le> 0x10FFFF"
  shows "decode_loop (pre @ concat (map utf8 cps)) (length pre) str = Ret (str @ concat (map utf16 cps))"
  using assms
proof (induction cps arbitrary: pre str)
  case Nil
  show ?case by (subst decode_loop.simps) simp
next
  case (Cons cp cps)
  let ?os = "pre @ utf8 cp @ concat (map utf8 cps)"
  have r: "0 \<le> cp" "cp \<le> 0x10FFFF" using Cons.prems by simp_all
  have st: "decode_step ?os (length pre) = (cp, length (utf8 cp) - 1)"
    by (rule decode_step_utf8 [OF r refl])
  have n: "Suc (length pre + (length (utf8 cp) - Suc 0)) = length (pre @ utf8 cp)"
    using utf8_nonempty [of cp] by (cases "utf8 cp") auto
  have "decode_loop ?os (length pre) str = decode_loop ?os (length (pre @ utf8 cp)) (str @ utf16 cp)"
  proof -
    have "length pre < length ?os" using utf8_nonempty [of cp] by simp
    then show ?thesis using r
      by (subst decode_loop.simps) (simp add: st fromCodePoint_def n del: length_append)
  qed
  also have "\<dots> = Ret (str @ concat (map utf16 (cp # cps)))"
    using Cons.IH [of "pre @ utf8 cp" "str @ utf16 cp"] Cons.prems by simp
  finally show ?case by simp
qed

lemma decode_encode: "decode (Some (encode s)) = Ret s"
  using decode_loop_utf8 [of "code_points s" "[]" "[]"] code_points_range
  by (auto simp: decode_def encode_utf8 concat_utf16_code_points)

lemma utf8_bytes: "0 \<le> cp \<Longrightarrow> cp \<le> 0x10FFFF \<Longrightarrow> b \<in> set (utf8 cp) \<Longrightarrow> 0 \<le> b \<and> b < 0x100"
  by (auto simp: utf8_def split: if_splits)

lemma encode_bytes: "b \<in> set (encode s) \<Longrightarrow> 0 \<le> b \<and> b < 0x100"
  using code_points_range utf8_bytes by (auto simp: encode_utf8)

lemma utf8_length: "length (utf8 cp) \<le> (if cp < 0x10000 then 3 else 4)"
  by (simp add: utf8_def)

lemma encode_length: "length (encode s) \<le> 3 * length s"
  unfolding encode_utf8
proof (induction s rule: code_points.induct)
  case (2 u)
  show ?case using utf8_length [of "uint u"] unit_range [of u] by simp
next
  case (3 u v us)
  then show ?case
    using utf8_length [of "uint u"] unit_range [of u]
      utf8_length [of "join_surrogates (uint u) (uint v)"]
    by (auto split: if_splits)
qed simp

lemma encode_ascii_Cons:
  assumes "uint u < 0x80"
  shows "encode (u # s) = uint u # encode s"
proof -
  have "code_points (u # s) = uint u # code_points s"
    using assms by (cases s) (auto simp: is_high_surrogate_def)
  then show ?thesis using assms by (simp add: encode_utf8 utf8_def)
qed

lemma encode_Nil: "encode [] = []"
  by (simp add: encode_utf8)

section \<open>The browser's own codec\<close>

text \<open>
  Outside the worklet the scripts use the engine's \<^verbatim>\<open>TextEncoder\<close> and
  \<^verbatim>\<open>TextDecoder('utf-8', {ignoreBOM: true, fatal: true})\<close>: lone surrogates are replaced by U+FFFD
  on the way out, and a byte sequence that is not UTF-8 (an overlong form, a surrogate, a point
  above U+10FFFF, a truncated sequence) is a \<^verbatim>\<open>TypeError\<close> on the way in.
\<close>

definition scalar_value :: "int \<Rightarrow> int" where
  "scalar_value cp = (if 0xD800 \<le> cp \<and> cp \<le> 0xDFFF then 0xFFFD else cp)"

definition native_encode :: "js_string \<Rightarrow> u8 list" where
  "native_encode s = map word_of_int (concat (map utf8 (map scalar_value (code_points s))))"

definition cont_byte :: "int \<Rightarrow> bool" where
  "cont_byte b \<longleftrightarrow> 0x80 \<le> b \<and> b \<le> 0xBF"

fun native_points :: "int list \<Rightarrow> int list option" where
  "native_points [] = Some []"
| "native_points (b # bs) =
     (if b \<le> 0x7F then map_option ((#) b) (native_points bs)
      else if 0xC2 \<le> b \<and> b \<le> 0xDF then
        (case bs of
           c # rest \<Rightarrow> if cont_byte c
             then map_option ((#) ((b - 0xC0) * 0x40 + (c - 0x80))) (native_points rest) else None
         | _ \<Rightarrow> None)
      else if 0xE0 \<le> b \<and> b \<le> 0xEF then
        (case bs of
           c # d # rest \<Rightarrow> if cont_byte c \<and> cont_byte d \<and> (b = 0xE0 \<longrightarrow> 0xA0 \<le> c) \<and> (b = 0xED \<longrightarrow> c \<le> 0x9F)
             then map_option ((#) ((b - 0xE0) * 0x1000 + (c - 0x80) * 0x40 + (d - 0x80))) (native_points rest)
             else None
         | _ \<Rightarrow> None)
      else if 0xF0 \<le> b \<and> b \<le> 0xF4 then
        (case bs of
           c # d # e # rest \<Rightarrow> if cont_byte c \<and> cont_byte d \<and> cont_byte e \<and> (b = 0xF0 \<longrightarrow> 0x90 \<le> c) \<and> (b = 0xF4 \<longrightarrow> c \<le> 0x8F)
             then map_option ((#) ((b - 0xF0) * 0x40000 + (c - 0x80) * 0x1000 + (d - 0x80) * 0x40 + (e - 0x80))) (native_points rest)
             else None
         | _ \<Rightarrow> None)
      else None)"

text \<open>\<^verbatim>\<open>encodeInto\<close> stops before the first scalar value that does not fit.\<close>

fun encode_fitting :: "nat \<Rightarrow> int list \<Rightarrow> int list" where
  "encode_fitting n [] = []"
| "encode_fitting n (cp # cps) =
     (if length (utf8 cp) \<le> n then utf8 cp @ encode_fitting (n - length (utf8 cp)) cps else [])"

definition native_encodeInto :: "js_string \<Rightarrow> nat \<Rightarrow> u8 list" where
  "native_encodeInto s n = map word_of_int (encode_fitting n (map scalar_value (code_points s)))"

definition native_decode :: "u8 list \<Rightarrow> js_string outcome" where
  "native_decode bs = (case native_points (map uint bs) of
     Some cps \<Rightarrow> Ret (concat (map utf16 cps))
   | None \<Rightarrow> Throw (EngineErr ''TypeError''))"

definition well_formed :: "js_string \<Rightarrow> bool" where
  "well_formed s \<longleftrightarrow> (\<forall>cp \<in> set (code_points s). \<not> (0xD800 \<le> cp \<and> cp \<le> 0xDFFF))"

lemma split3: "(x::int) div 0x1000 * 0x1000 + x div 0x40 mod 0x40 * 0x40 + x mod 0x40 = x"
  using join64(1) [of x] join64(2) [of x] by linarith
lemma split4: "(x::int) div 0x40000 * 0x40000 + x div 0x1000 mod 0x40 * 0x1000 + x div 0x40 mod 0x40 * 0x40 + x mod 0x40 = x"
  using join64(1) [of x] join64(2) [of x] join64(3) [of x] by linarith

lemma native_points_2: "2 \<le> q \<Longrightarrow> q < 0x20 \<Longrightarrow> 0 \<le> x \<Longrightarrow> x \<le> 0x3F \<Longrightarrow>
  native_points ((0xC0 + q) # (0x80 + x) # rest) =
    map_option ((#) (q * 0x40 + x)) (native_points rest)"
  by (simp add: cont_byte_def)

lemma native_points_3: "0 \<le> q \<Longrightarrow> q < 0x10 \<Longrightarrow> 0 \<le> x \<Longrightarrow> x \<le> 0x3F \<Longrightarrow> 0 \<le> y \<Longrightarrow> y \<le> 0x3F \<Longrightarrow>
  (q = 0 \<Longrightarrow> 0x20 \<le> x) \<Longrightarrow> (q = 0xD \<Longrightarrow> x \<le> 0x1F) \<Longrightarrow>
  native_points ((0xE0 + q) # (0x80 + x) # (0x80 + y) # rest) =
    map_option ((#) (q * 0x1000 + x * 0x40 + y)) (native_points rest)"
  by (simp add: cont_byte_def)

lemma native_points_4: "0 \<le> q \<Longrightarrow> q < 5 \<Longrightarrow> 0 \<le> x \<Longrightarrow> x \<le> 0x3F \<Longrightarrow> 0 \<le> y \<Longrightarrow> y \<le> 0x3F \<Longrightarrow>
  0 \<le> z \<Longrightarrow> z \<le> 0x3F \<Longrightarrow> (q = 0 \<Longrightarrow> 0x10 \<le> x) \<Longrightarrow> (q = 4 \<Longrightarrow> x \<le> 0xF) \<Longrightarrow>
  native_points ((0xF0 + q) # (0x80 + x) # (0x80 + y) # (0x80 + z) # rest) =
    map_option ((#) (q * 0x40000 + x * 0x1000 + y * 0x40 + z)) (native_points rest)"
  by (simp add: cont_byte_def)

lemma mod64_range: "0 \<le> (x::int) mod 0x40" "(x::int) mod 0x40 \<le> 0x3F"
  using pos_mod_bound [of 64 x] by simp_all

lemma native_points_utf8:
  assumes "0 \<le> cp" "cp \<le> 0x10FFFF" "\<not> (0xD800 \<le> cp \<and> cp \<le> 0xDFFF)"
  shows "native_points (utf8 cp @ rest) = map_option ((#) cp) (native_points rest)"
proof -
  consider (a) "cp < 0x80" | (b) "0x80 \<le> cp" "cp < 0x800" | (c) "0x800 \<le> cp" "cp < 0x10000"
    | (d) "0x10000 \<le> cp" by linarith
  then show ?thesis
  proof cases
    case a then show ?thesis using assms by (simp add: utf8_def)
  next
    case b
    have "2 \<le> cp div 0x40" "cp div 0x40 < 0x20" using b by auto
    then have "native_points ((0xC0 + cp div 0x40) # (0x80 + cp mod 0x40) # rest) =
        map_option ((#) cp) (native_points rest)"
      by (subst native_points_2) (simp_all only: mod64_range join64)
    then show ?thesis using b by (simp add: utf8_def del: native_points.simps)
  next
    case c
    have "0 \<le> cp div 0x1000" "cp div 0x1000 < 0x10" using c by auto
    moreover have "0x20 \<le> cp div 0x40 mod 0x40" if "cp div 0x1000 = 0"
    proof -
      have "0x20 \<le> cp div 0x40" using c by auto
      then show ?thesis using join64(2) [of cp] that by linarith
    qed
    moreover have "cp div 0x40 mod 0x40 \<le> 0x1F" if "cp div 0x1000 = 0xD"
    proof -
      have "cp < 0xE000" using that by auto
      then have "cp < 0xD800" using assms(3) by linarith
      then have "cp div 0x40 \<le> 0x35F" by auto
      then show ?thesis using join64(2) [of cp] that by linarith
    qed
    ultimately have "native_points ((0xE0 + cp div 0x1000) # (0x80 + cp div 0x40 mod 0x40) #
        (0x80 + cp mod 0x40) # rest) = map_option ((#) cp) (native_points rest)"
      by (subst native_points_3) (simp_all only: mod64_range split3)
    then show ?thesis using c by (simp add: utf8_def del: native_points.simps)
  next
    case d
    have "0 \<le> cp div 0x40000" "cp div 0x40000 < 5" using d assms by auto
    moreover have "0x10 \<le> cp div 0x1000 mod 0x40" if "cp div 0x40000 = 0"
    proof -
      have "0x10 \<le> cp div 0x1000" using d by auto
      then show ?thesis using join64(3) [of cp] that by linarith
    qed
    moreover have "cp div 0x1000 mod 0x40 \<le> 0xF" if "cp div 0x40000 = 4"
    proof -
      have "cp div 0x1000 \<le> 0x10F" using assms(2) by auto
      then show ?thesis using join64(3) [of cp] that by linarith
    qed
    ultimately have "native_points ((0xF0 + cp div 0x40000) # (0x80 + cp div 0x1000 mod 0x40) #
        (0x80 + cp div 0x40 mod 0x40) # (0x80 + cp mod 0x40) # rest) =
        map_option ((#) cp) (native_points rest)"
      by (subst native_points_4) (simp_all only: mod64_range split4)
    then show ?thesis using d by (simp add: utf8_def del: native_points.simps)
  qed
qed

lemma native_points_concat:
  assumes "\<forall>cp \<in> set cps. 0 \<le> cp \<and> cp \<le> 0x10FFFF \<and> \<not> (0xD800 \<le> cp \<and> cp \<le> 0xDFFF)"
  shows "native_points (concat (map utf8 cps)) = Some cps"
  using assms by (induction cps) (simp_all add: native_points_utf8)

lemma map_uint_word_of_int_bytes:
  "\<forall>b \<in> set bs. 0 \<le> b \<and> b < 0x100 \<Longrightarrow> map (\<lambda>b. uint (word_of_int b :: u8)) bs = bs"
  by (induction bs) (simp_all add: uint_word_of_int)

lemma well_formed_scalar: "well_formed s \<Longrightarrow> map scalar_value (code_points s) = code_points s"
  by (auto simp: well_formed_def scalar_value_def intro: map_idI)

lemma native_encode_eq: "well_formed s \<Longrightarrow> native_encode s = map word_of_int (encode s)"
  by (simp only: native_encode_def well_formed_scalar encode_utf8)

lemma native_decode_encode: "well_formed s \<Longrightarrow> native_decode (native_encode s) = Ret s"
  using native_points_concat [of "code_points s"] code_points_range [of _ s] encode_bytes [of _ s]
    map_uint_word_of_int_bytes [of "encode s"]
  by (auto simp: native_decode_def native_encode_eq comp_def encode_utf8 concat_utf16_code_points well_formed_def)

lemma scalar_value_range: "0 \<le> cp \<Longrightarrow> cp \<le> 0x10FFFF \<Longrightarrow> 0 \<le> scalar_value cp \<and> scalar_value cp \<le> 0x10FFFF"
  by (simp add: scalar_value_def)

lemma native_encode_length: "length (native_encode s) \<le> 3 * length s"
proof -
  have "length (utf8 (scalar_value cp)) = length (utf8 cp)" for cp
    by (simp add: scalar_value_def utf8_def)
  then have "length (native_encode s) = length (encode s)"
    by (simp add: native_encode_def encode_utf8 length_concat comp_def)
  then show ?thesis using encode_length [of s] by simp
qed

lemma encode_fitting_all:
  "length (concat (map utf8 cps)) \<le> n \<Longrightarrow> encode_fitting n cps = concat (map utf8 cps)"
  by (induction cps arbitrary: n) auto

lemma native_encodeInto_all: "length (native_encode s) \<le> n \<Longrightarrow> native_encodeInto s n = native_encode s"
  by (simp add: native_encodeInto_def native_encode_def encode_fitting_all)

lemma native_encode_ascii_Cons:
  assumes "uint u < 0x80"
  shows "native_encode (u # s) = word_of_int (uint u) # native_encode s"
proof -
  have "code_points (u # s) = uint u # code_points s"
    using assms by (cases s) (auto simp: is_high_surrogate_def)
  then show ?thesis using assms by (simp add: native_encode_def utf8_def scalar_value_def)
qed

section \<open>The codec as an interface\<close>

text \<open>
  What the string passing of the wasm glue relies on: a code unit below 128 is one byte of its own,
  three bytes per code unit are always room enough, and decoding gives back what was encoded for the
  strings the codec keeps.
\<close>

locale text_codec =
  fixes enc :: "js_string \<Rightarrow> u8 list"
    and dec :: "u8 list \<Rightarrow> js_string outcome"
    and into :: "(js_string \<Rightarrow> nat \<Rightarrow> u8 list) option"
    and keeps :: "js_string \<Rightarrow> bool"
  assumes enc_Nil: "enc [] = []"
    and enc_ascii: "uint u < 0x80 \<Longrightarrow> enc (u # s) = word_of_int (uint u) # enc s"
    and enc_room: "length (enc s) \<le> 3 * length s"
    and into_room: "into = Some f \<Longrightarrow> length (enc s) \<le> n \<Longrightarrow> f s n = enc s"
    and dec_enc: "keeps s \<Longrightarrow> dec (enc s) = Ret s"
begin

lemma enc_ascii_append:
  "\<forall>u \<in> set p. uint u < 0x80 \<Longrightarrow> enc (p @ s) = map (\<lambda>u. word_of_int (uint u)) p @ enc s"
  by (induction p) (simp_all add: enc_ascii)

lemma enc_ascii_only:
  "\<forall>u \<in> set p. uint u < 0x80 \<Longrightarrow> enc p = map (\<lambda>u. word_of_int (uint u)) p"
  using enc_ascii_append [of p "[]"] by (simp add: enc_Nil)

end

text \<open>The worklet's codec, as the glue sees it: bytes in and out of a \<^verbatim>\<open>Uint8Array\<close>.\<close>

definition polyfill_encode :: "js_string \<Rightarrow> u8 list" where
  "polyfill_encode s = map word_of_int (encode s)"

definition polyfill_decode :: "u8 list \<Rightarrow> js_string outcome" where
  "polyfill_decode bs = decode (Some (map uint bs))"

lemma polyfill_decode_encode: "polyfill_decode (polyfill_encode s) = Ret s"
  using encode_bytes [of _ s] map_uint_word_of_int_bytes [of "encode s"]
  by (simp add: polyfill_decode_def polyfill_encode_def comp_def decode_encode)

interpretation polyfill: text_codec polyfill_encode polyfill_decode None "\<lambda>_. True"
  by unfold_locales
     (simp_all add: polyfill_encode_def encode_Nil encode_ascii_Cons encode_length
        polyfill_decode_encode [unfolded polyfill_encode_def])

interpretation native: text_codec native_encode native_decode "Some native_encodeInto" well_formed
  by unfold_locales
     (auto simp: native_encode_ascii_Cons native_encode_length native_decode_encode
        native_encodeInto_all native_encode_def [of "[]"])

section \<open>Properties\<close>

lemma trail_octet: "0 \<le> o' \<Longrightarrow> o' \<le> 0xF3 \<Longrightarrow> 0 \<le> js_and o' 0x3f \<and> js_and o' 0x3f < 0x40"
  by (simp add: and_3f)

lemma trail_join:
  assumes "0 \<le> x" "x < n" "n \<le> 0x1000000" "0 \<le> o'" "o' \<le> 0xF3"
  shows "0 \<le> js_or (js_shl x 6) (js_and o' 0x3f)" "js_or (js_shl x 6) (js_and o' 0x3f) < n * 0x40"
proof -
  have "js_or (js_shl x 6) (js_and o' 0x3f) = x * 0x40 + js_and o' 0x3f"
    using assms trail_octet [OF assms(4,5)] js_or_disjoint [of x "js_and o' 0x3f" 6] js_shl_mult [of x 6] by simp
  then show "0 \<le> js_or (js_shl x 6) (js_and o' 0x3f)" "js_or (js_shl x 6) (js_and o' 0x3f) < n * 0x40"
    using assms trail_octet [OF assms(4,5)] by auto
qed

lemma and_masks:
  assumes "0 \<le> o'" "o' \<le> 0xF3"
  shows "js_and o' 0x1f = o' mod 0x20" "js_and o' 0x0f = o' mod 0x10" "js_and o' 0x07 = o' mod 8"
    "js_and o' 0xff = o' mod 0x100"
  using js_and_mask [of o' 5] js_and_mask [of o' 4] js_and_mask [of o' 3] js_and_mask [of o' 8] assms by simp_all

lemma decode_step_scalar:
  assumes "\<forall>b \<in> set os. 0 \<le> b \<and> b \<le> 0xF3" "i < length os"
  shows "0 \<le> fst (decode_step os i)" "fst (decode_step os i) \<le> 0x10FFFF"
proof -
  let ?b = "os ! i"
  have b: "0 \<le> ?b" "?b \<le> 0xF3" using assms by auto
  have o: "0 \<le> os ! (i + k)" "os ! (i + k) \<le> 0xF3" if "i + k < length os" for k using assms that by auto
  have *: "0 \<le> fst (decode_step os i) \<and> fst (decode_step os i) \<le> 0x10FFFF"
  proof (cases "int (length os) - int i - int (fst (decode_lead ?b)) > 0")
    case False
    then show ?thesis by (cases "decode_lead ?b") (simp add: decode_step_def)
  next
    case True
    consider "?b \<le> 0x7F" | "0x7F < ?b" "?b \<le> 0xDF" | "0xDF < ?b" "?b \<le> 0xEF" | "0xEF < ?b" by linarith
    then show ?thesis
    proof cases
      case 1
      then show ?thesis using True b and_masks(4) [OF b]
        by (simp add: decode_step_def decode_lead_def decode_trail.simps)
    next
      case 2
      then have l: "i + 1 < length os" using True by (simp add: decode_lead_def)
      have "0 \<le> js_and ?b 0x1f" "js_and ?b 0x1f < 0x20" by (simp_all add: and_masks [OF b])
      from trail_join [OF this _ o [OF l]] show ?thesis using 2 True
        by (simp add: decode_step_def decode_lead_def decode_trail_1)
    next
      case 3
      then have l: "i + 1 < length os" "i + 2 < length os" using True by (simp_all add: decode_lead_def)
      have "0 \<le> js_and ?b 0x0f" "js_and ?b 0x0f < 0x10" by (simp_all add: and_masks [OF b])
      note t1 = trail_join [OF this _ o [OF l(1)]]
      from trail_join [OF t1(1) t1(2) _ o [OF l(2)]] show ?thesis using 3 True
        by (simp add: decode_step_def decode_lead_def decode_trail_2)
    next
      case 4
      then have l: "i + 1 < length os" "i + 2 < length os" "i + 3 < length os" using True b by (simp_all add: decode_lead_def)
      have "?b mod 8 < 4" using 4 b by presburger
      then have "0 \<le> js_and ?b 0x07" "js_and ?b 0x07 < 4" by (simp_all add: and_masks [OF b])
      note t1 = trail_join [OF this _ o [OF l(1)]]
      note t2 = trail_join [OF t1(1) t1(2) _ o [OF l(2)]]
      from trail_join [OF t2(1) t2(2) _ o [OF l(3)]] show ?thesis using 4 True b
        by (simp add: decode_step_def decode_lead_def decode_trail_3)
    qed
  qed
  then show "0 \<le> fst (decode_step os i)" "fst (decode_step os i) \<le> 0x10FFFF" by auto
qed

lemma decode_loop_returns:
  assumes "\<forall>b \<in> set os. 0 \<le> b \<and> b \<le> 0xF3"
  shows "\<exists>t. decode_loop os i str = Ret t"
  using assms
proof (induction os i str rule: decode_loop.induct)
  case (1 os i str)
  show ?case
  proof (cases "i < length os")
    case True
    obtain cp n where d: "decode_step os i = (cp, n)" by (cases "decode_step os i")
    then have "fromCodePoint cp = Ret (utf16 cp)"
      using decode_step_scalar [OF "1.prems" True] by (simp add: fromCodePoint_def)
    then show ?thesis using 1 True d by (subst decode_loop.simps) simp
  qed (simp add: decode_loop.simps)
qed

text \<open>
  Property C2. The decoder of the worklet's codec gives back every string that its encoder produced,
  also one with unpaired surrogates.
\<close>

theorem codec_roundtrip: "decode (Some (encode s)) = Ret s"
  by (rule decode_encode)

text \<open>
  Property C7. The encoder produces the UTF-8 form of the string's code points, each octet between 0 and
  255, and at most three octets for each UTF-16 code unit.
\<close>

theorem encode_is_utf8:
  "encode s = concat (map utf8 (code_points s)) \<and> list_all (\<lambda>b. 0 \<le> b \<and> b < 0x100) (encode s)
   \<and> length (encode s) \<le> 3 * length s"
  using encode_utf8 encode_length encode_bytes by (auto simp: list_all_iff)

text \<open>
  Property C20. On a string without unpaired surrogates the worklet's codec and the browser's produce the
  same bytes, and each decodes what the other encoded.
\<close>

theorem codec_agrees_with_native:
  assumes "well_formed s"
  shows "polyfill_encode s = native_encode s \<and> native_decode (polyfill_encode s) = Ret s
    \<and> polyfill_decode (native_encode s) = Ret s"
  using native_encode_eq [OF assms] native_decode_encode [OF assms] polyfill_decode_encode [of s]
  by (simp add: polyfill_encode_def)

theorem codec_agrees_with_native_witness:
  "well_formed [0x41, 0x20AC, 0xD83D, 0xDE00] \<and>
   polyfill_encode [0x41, 0x20AC, 0xD83D, 0xDE00] = native_encode [0x41, 0x20AC, 0xD83D, 0xDE00] \<and>
   native_decode (polyfill_encode [0x41, 0x20AC, 0xD83D, 0xDE00]) = Ret [0x41, 0x20AC, 0xD83D, 0xDE00]"
proof -
  have "well_formed [0x41, 0x20AC, 0xD83D, 0xDE00]"
    by (simp add: well_formed_def is_high_surrogate_def is_low_surrogate_def join_surrogates_def)
  then show ?thesis using codec_agrees_with_native by blast
qed

text \<open>
  Property C21. The decoder, which does not validate its input, returns a string for every sequence of
  octets up to \<^verbatim>\<open>0xF3\<close>, truncated or malformed ones included; only a sequence that starts with \<^verbatim>\<open>0xF4\<close> can
  give a code point for which \<^verbatim>\<open>String.fromCodePoint\<close> throws.
\<close>

theorem decode_returns:
  assumes "list_all (\<lambda>b. 0 \<le> b \<and> b \<le> 0xF3) octets"
  shows "\<exists>s. decode (Some octets) = Ret s"
  using decode_loop_returns [of octets 0 "[]"] assms by (simp add: decode_def list_all_iff)

theorem decode_returns_witness:
  "list_all (\<lambda>b. 0 \<le> b \<and> b \<le> (0xF3::int)) [0xE2, 0x28, 0xF0, 0x9F] \<and> (\<exists>s. decode (Some [0xE2, 0x28, 0xF0, 0x9F]) = Ret s)
   \<and> decode (Some [0xF4, 0x90, 0x80, 0x80]) = Throw (EngineErr ''RangeError'')"
proof -
  have "decode (Some [0xF4, 0x90, 0x80, 0x80]) = Throw (EngineErr ''RangeError'')"
    by code_simp
  then show ?thesis using decode_returns [of "[0xE2, 0x28, 0xF0, 0x9F]"] by simp
qed

end
