(* ===== verification/Debug_String.thy ===== *)
theory Debug_String
  imports Js_Prelude
begin

text \<open>
  \<^verbatim>\<open>debugString\<close> of the wasm-bindgen glue (\<^verbatim>\<open>src/crates/prophecy/dist/prophecy-e16c97ecc1556028.js\<close>,
  repeated in the other generated modules): the text that Rust's \<^verbatim>\<open>Debug\<close> prints for a JavaScript
  value. What the function observes of a value is a finite tree, unless the value is an array that
  contains itself; \<open>debug_stack\<close> is the same recursion over objects with an identity and with the call
  stack of the engine, and the termination theorem says on which values it returns.
\<close>

section \<open>What the function observes of a value\<close>

text \<open>
  A number by its decimal text, a symbol by its description, a function by its \<^verbatim>\<open>name\<close> when that is a
  string, an array by its elements, any other object by the result of \<^verbatim>\<open>Object.prototype.toString\<close>,
  by \<^verbatim>\<open>JSON.stringify\<close> (which may throw) and, for an \<^verbatim>\<open>Error\<close>, by its name, message and stack.
\<close>

datatype shape =
    DNumber js_string
  | DBoolean bool
  | DUndefined
  | DNull
  | DString js_string
  | DSymbol "js_string option"
  | DFunction "js_string option"
  | DArray "shape list"
  | DObject js_string "js_string outcome" "(js_string \<times> js_string \<times> js_string) option"

definition starts_with :: "js_string \<Rightarrow> js_string \<Rightarrow> bool" where
  "starts_with p s \<longleftrightarrow> take (length p) s = p"

text \<open>\<^verbatim>\<open>/\[object ([^\]]+)\]/.exec(s)\<close>: the text of the group at the leftmost match.\<close>

fun builtInMatch :: "js_string \<Rightarrow> js_string option" where
  "builtInMatch [] = None"
| "builtInMatch (c # cs) =
     (let rest = drop 8 (c # cs); name = takeWhile (\<lambda>u. u \<noteq> 93) rest in
      if starts_with (js ''[object '') (c # cs) \<and> name \<noteq> [] \<and> length name < length rest
      then Some name
      else builtInMatch cs)"

fun debugString :: "shape \<Rightarrow> js_string" where
  "debugString (DNumber t) = t"
| "debugString (DBoolean b) = (if b then js ''true'' else js ''false'')"
| "debugString DUndefined = js ''undefined''"
| "debugString DNull = js ''null''"
| "debugString (DString s) = js ''\"'' @ s @ js ''\"''"
| "debugString (DSymbol d) =
     (case d of None \<Rightarrow> js ''Symbol'' | Some t \<Rightarrow> js ''Symbol('' @ t @ js '')'')"
| "debugString (DFunction n) =
     (case n of
        None \<Rightarrow> js ''Function''
      | Some t \<Rightarrow> if length t > 0 then js ''Function('' @ t @ js '')'' else js ''Function'')"
| "debugString (DArray vs) =
     js ''['' @
     (case vs of
        [] \<Rightarrow> []
      | v # rest \<Rightarrow> debugString v @ concat (map (\<lambda>w. js '', '' @ debugString w) rest)) @
     js '']''"
| "debugString (DObject tag json err) =
     (case builtInMatch tag of
        None \<Rightarrow> tag
      | Some className \<Rightarrow>
          if className = js ''Object'' then
            (case json of Ret t \<Rightarrow> js ''Object('' @ t @ js '')'' | Throw _ \<Rightarrow> js ''Object'')
          else (case err of
                  Some (name, message, stack) \<Rightarrow> name @ js '': '' @ message @ [10] @ stack
                | None \<Rightarrow> className))"

section \<open>Lemmas\<close>

fun join :: "js_string \<Rightarrow> js_string list \<Rightarrow> js_string" where
  "join sep [] = []"
| "join sep [s] = s"
| "join sep (s # t # ts) = s @ sep @ join sep (t # ts)"

lemma join_Cons: "join sep (s # ts) = s @ concat (map (\<lambda>t. sep @ t) ts)"
  by (induction ts arbitrary: s) simp_all

lemma debugString_array:
  "debugString (DArray vs) = js ''['' @ join (js '', '') (map debugString vs) @ js '']''"
  by (cases vs) (simp_all add: join_Cons comp_def)

lemma builtInMatch_tag:
  assumes "c \<noteq> []" "93 \<notin> set c"
  shows "builtInMatch (js ''[object '' @ c @ js '']'') = Some c"
proof -
  have s: "js ''[object '' @ c @ js '']'' = 91 # (tl (js ''[object '') @ c @ [93])"
    by (simp add: js_def)
  have d: "drop 8 (js ''[object '' @ c @ js '']'') = c @ [93]"
    by (simp add: js_def)
  have w: "takeWhile (\<lambda>u. u \<noteq> 93) (c @ [93]) = c"
    using assms(2) by (induction c) auto
  have p: "starts_with (js ''[object '') (js ''[object '' @ c @ js '']'')"
    by (simp add: starts_with_def)
  show ?thesis
    using d w p assms(1) unfolding s by (simp add: Let_def)
qed

section \<open>Arrays with an identity\<close>

text \<open>
  An array refers to its elements by their identity, so it may contain itself. \<open>debug_stack k\<close> is the function with
  room for \<open>k\<close> nested calls; \<open>None\<close> is the \<^verbatim>\<open>RangeError\<close> of an exhausted call stack.
\<close>

datatype node = Other shape | Elements "nat list"

fun debug_elements :: "js_string list \<Rightarrow> js_string" where
  "debug_elements [] = js ''['' @ js '']''"
| "debug_elements (t # ts) = js ''['' @ t @ concat (map (\<lambda>u. js '', '' @ u) ts) @ js '']''"

fun debug_stack :: "nat \<Rightarrow> (nat \<Rightarrow> node) \<Rightarrow> nat \<Rightarrow> js_string option" where
  "debug_stack 0 h v = None"
| "debug_stack (Suc k) h v =
     (case h v of
        Other sh \<Rightarrow> Some (debugString sh)
      | Elements vs \<Rightarrow>
          (case those (map (debug_stack k h) vs) of
             None \<Rightarrow> None
           | Some ts \<Rightarrow> Some (debug_elements ts)))"

definition element_of :: "(nat \<Rightarrow> node) \<Rightarrow> nat \<Rightarrow> nat \<Rightarrow> bool" where
  "element_of h w v \<longleftrightarrow> (\<exists>vs. h v = Elements vs \<and> w \<in> set vs)"

text \<open>The tree that a value unfolds to.\<close>

inductive observed :: "(nat \<Rightarrow> node) \<Rightarrow> nat \<Rightarrow> shape \<Rightarrow> bool" for h :: "nat \<Rightarrow> node" where
  observed_other: "h v = Other sh \<Longrightarrow> observed h v sh"
| observed_array: "h v = Elements vs \<Longrightarrow> list_all2 (observed h) vs shs \<Longrightarrow> observed h v (DArray shs)"

lemma those_map_eq_Some: "those (map f xs) = Some ys \<longleftrightarrow> list_all2 (\<lambda>x y. f x = Some y) xs ys"
proof (induction xs arbitrary: ys)
  case (Cons x xs)
  then show ?case by (cases ys) (auto split: option.splits)
qed auto

lemma debug_stack_Elements:
  "h v = Elements vs \<Longrightarrow> debug_stack (Suc k) h v = Some t \<longleftrightarrow>
     (\<exists>ts. list_all2 (\<lambda>w u. debug_stack k h w = Some u) vs ts \<and> t = debug_elements ts)"
  by (cases "those (map (debug_stack k h) vs)") (auto simp: those_map_eq_Some [symmetric])

lemma debug_elements_tree: "debug_elements (map debugString shs) = debugString (DArray shs)"
  by (cases shs) (simp_all add: comp_def)

lemma debug_stack_mono: "debug_stack k h v = Some t \<Longrightarrow> k \<le> l \<Longrightarrow> debug_stack l h v = Some t"
proof (induction k arbitrary: v t l)
  case (Suc k)
  then obtain m where l: "l = Suc m" "k \<le> m" by (cases l) auto
  show ?case
  proof (cases "h v")
    case (Elements vs)
    then obtain ts where ts: "list_all2 (\<lambda>w u. debug_stack k h w = Some u) vs ts" "t = debug_elements ts"
      using Suc.prems(1) debug_stack_Elements by blast
    have "list_all2 (\<lambda>w u. debug_stack m h w = Some u) vs ts"
      using ts(1) by (rule list_all2_mono) (use Suc.IH l(2) in blast)
    then show ?thesis using debug_stack_Elements [of h v vs, OF Elements] ts(2) l(1) by blast
  qed (use Suc.prems l in simp)
qed simp

lemma debug_stack_tree: "debug_stack k h v = Some t \<Longrightarrow> \<exists>sh. observed h v sh \<and> t = debugString sh"
proof (induction k arbitrary: v t)
  case (Suc k)
  show ?case
  proof (cases "h v")
    case (Other sh)
    then show ?thesis using Suc.prems by (auto intro: observed_other)
  next
    case (Elements vs)
    then obtain ts where ts: "list_all2 (\<lambda>w u. debug_stack k h w = Some u) vs ts" "t = debug_elements ts"
      using Suc.prems debug_stack_Elements by blast
    from ts(1) have "\<exists>shs. list_all2 (observed h) vs shs \<and> ts = map debugString shs"
    proof (induction rule: list_all2_induct)
      case (Cons w ws u us)
      then obtain shs where "list_all2 (observed h) ws shs" "us = map debugString shs" by blast
      moreover obtain sh where "observed h w sh" "u = debugString sh" using Suc.IH Cons.hyps(1) by blast
      ultimately show ?case by (intro exI [of _ "sh # shs"]) simp
    qed simp
    then show ?thesis using Elements ts(2) debug_elements_tree observed_array by metis
  qed
qed simp

lemma debug_stack_accp: "debug_stack k h v = Some t \<Longrightarrow> Wellfounded.accp (element_of h) v"
proof (induction k arbitrary: v t)
  case (Suc k)
  show ?case
  proof (rule accp.accI)
    fix w assume "element_of h w v"
    then obtain vs where vs: "h v = Elements vs" "w \<in> set vs" by (auto simp: element_of_def)
    obtain ts where "list_all2 (\<lambda>w u. debug_stack k h w = Some u) vs ts"
      using Suc.prems debug_stack_Elements [of h v vs, OF vs(1)] by blast
    then obtain u where "debug_stack k h w = Some u" using vs(2) by (auto simp: list_all2_conv_all_nth in_set_conv_nth)
    then show "Wellfounded.accp (element_of h) w" by (rule Suc.IH)
  qed
qed simp

lemma enough_stack_list:
  "\<forall>w \<in> set vs. \<exists>k t. debug_stack k h w = Some t \<Longrightarrow> \<exists>k ts. list_all2 (\<lambda>w u. debug_stack k h w = Some u) vs ts"
proof (induction vs)
  case (Cons w vs)
  then obtain k ts where "list_all2 (\<lambda>w u. debug_stack k h w = Some u) vs ts" by auto
  then have "list_all2 (\<lambda>w u. debug_stack (max k l) h w = Some u) vs ts" for l
    by (rule list_all2_mono) (erule debug_stack_mono, simp)
  moreover obtain l t where "debug_stack l h w = Some t" using Cons.prems by auto
  ultimately have "list_all2 (\<lambda>w u. debug_stack (max k l) h w = Some u) (w # vs) (t # ts)"
    using debug_stack_mono [of l h w t "max k l"] by simp
  then show ?case by blast
qed auto

lemma enough_stack: "Wellfounded.accp (element_of h) v \<Longrightarrow> \<exists>k t. debug_stack k h v = Some t"
proof (induction v rule: accp.induct)
  case (accI v)
  show ?case
  proof (cases "h v")
    case (Other sh)
    then have "debug_stack (Suc 0) h v = Some (debugString sh)" by simp
    then show ?thesis by blast
  next
    case (Elements vs)
    then have "\<forall>w \<in> set vs. \<exists>k t. debug_stack k h w = Some t" using accI.IH by (auto simp: element_of_def)
    from enough_stack_list [OF this] Elements show ?thesis using debug_stack_Elements by blast
  qed
qed

lemma self_element: "Wellfounded.accp (element_of h) v \<Longrightarrow> \<not> element_of h v v"
  by (induction v rule: accp.induct) blast

section \<open>Properties\<close>

text \<open>
  The regular expression finds the class name in every tag of the form \<^verbatim>\<open>[object Name]\<close>, so an
  object that is neither plain nor an error prints as its class name.
\<close>

theorem debugString_class_name:
  assumes "c \<noteq> []" "93 \<notin> set c" "c \<noteq> js ''Object''"
  shows "debugString (DObject (js ''[object '' @ c @ js '']'') json None) = c"
  using builtInMatch_tag [OF assms(1,2)] assms(3) by simp

theorem debugString_class_name_witness:
  "debugString (DObject (js ''[object '' @ js ''Map'' @ js '']'') (Ret []) None) = js ''Map''"
  by (rule debugString_class_name) (simp_all add: js_def)

text \<open>
  Property C23. \<^verbatim>\<open>debugString\<close> returns, given enough stack, exactly on the values whose arrays are well-founded, and
  what it returns is the text of the tree that the value unfolds to; an array that contains itself
  exhausts every stack.
\<close>

theorem debugString_terminates:
  "((\<exists>k t. debug_stack k h v = Some t) \<longleftrightarrow> Wellfounded.accp (element_of h) v)
   \<and> (\<forall>k t. debug_stack k h v = Some t \<longrightarrow> (\<exists>sh. observed h v sh \<and> t = debugString sh))
   \<and> (element_of h v v \<longrightarrow> (\<forall>k. debug_stack k h v = None))"
  using debug_stack_accp [of _ h v] enough_stack [of h v] debug_stack_tree [of _ h v] self_element [of h v]
  by (metis option.exhaust)

definition sample_heap :: "nat \<Rightarrow> node" where
  "sample_heap v = (if v = 0 then Elements [1, 2] else if v = 3 then Elements [0, 3] else Other (DBoolean (v = 1)))"

theorem debugString_terminates_witness:
  "debug_stack 2 sample_heap 0 = Some (js ''[true, false]'') \<and> Wellfounded.accp (element_of sample_heap) 0
   \<and> debug_stack 1000000 sample_heap 3 = None"
proof -
  have "debug_stack 2 sample_heap 0 = Some (js ''[true, false]'')"
    by (simp add: sample_heap_def numeral_eq_Suc js_def)
  moreover have "element_of sample_heap 3 3" by (simp add: element_of_def sample_heap_def)
  ultimately show ?thesis using debugString_terminates [of sample_heap 0] debugString_terminates [of sample_heap 3] by blast
qed

end
