(* ===== verification/Wasm_Runtime.thy ===== *)
theory Wasm_Runtime
  imports Text_Codec Debug_String
begin

text \<open>
  The runtime part of the wasm-bindgen glue: the script's view of the module's memory (cached typed
  arrays that go stale when the memory grows), strings in and out of that memory, the table of
  external references and the reporting of exceptions. The functions are those of
  \<^verbatim>\<open>src/examples/rattlegram/worklet/wasm-decoder.js\<close> and
  \<^verbatim>\<open>src/crates/prophecy/dist/prophecy-e16c97ecc1556028.js\<close>; the other generated modules
  repeat them, up to the names of the caches and of the exported tables.
\<close>

section \<open>State and environment\<close>

text \<open>The state object that \<^verbatim>\<open>makeMutClosure\<close> attaches to a closure. \<open>clo_f\<close> names the
  adapter; \<open>clo_counted\<close> is false for the plain \<^verbatim>\<open>{a, b}\<close> object of the promise constructor, which has no
  reference count.\<close>

record closure =
  clo_a :: int
  clo_b :: int
  clo_cnt :: int
  clo_dtor :: js_val
  clo_f :: string
  clo_counted :: bool

text \<open>
  An object of one of the classes that wrap a Rust value: its \<^verbatim>\<open>__wbg_ptr\<close> and whether the finalization
  registry of its class still holds it.
\<close>

record wbg_object =
  wbg_ptr :: int
  wbg_registered :: bool

text \<open>
  The module-level variables of a glue script, and the memory and the reference table of the module
  instance. \<open>mem\<close> is the contents of \<^verbatim>\<open>wasm.memory.buffer\<close> and \<open>buffer\<close> the identity of that
  \<^verbatim>\<open>ArrayBuffer\<close>: growing the memory detaches the old buffer and installs a new one. A cached typed
  array is the buffer it views, or \<open>None\<close> for \<^verbatim>\<open>null\<close>. \<open>registry\<close> holds the closures
  registered with \<^verbatim>\<open>CLOSURE_DTORS\<close>, \<open>objects\<close> the instances of the exported classes; \<open>wasm\<close> is
  the variable of that name (\<^verbatim>\<open>undefined\<close> until the module is instantiated) and \<open>world\<close> the rest of the
  browser.
\<close>

record 'w js_state =
  mem :: "u8 list"
  buffer :: nat
  cachedUint8Memory0 :: "nat option"
  cachedInt32Memory0 :: "nat option"
  cachedFloat32Memory0 :: "nat option"
  cachedUint16Memory0 :: "nat option"
  cachedUint32Memory0 :: "nat option"
  cachedDataViewMemory0 :: "nat option"
  WASM_VECTOR_LEN :: int
  numBytesDecoded :: int
  externrefs :: "js_val list"
  closures :: "nat \<Rightarrow> closure option"
  next_closure :: nat
  registry :: "nat set"
  objects :: "nat \<Rightarrow> wbg_object option"
  next_object :: nat
  wasm :: js_val
  wasm_module :: js_val
  world :: 'w

text \<open>
  What is not JavaScript of the repository is a parameter: the exported functions of the compiled
  module (\<open>wasm_call\<close> by name, \<open>wasm_table_call\<close> through its function table), the objects of the
  browser (reading, writing and indexing properties, calling and constructing, object literals, awaiting a promise,
  global variables),
  and the text codec that the page provides. Every parameter is a function on the whole state, since
  a call may re-enter the script.
\<close>

record 'w js_env =
  text_encode :: "js_string \<Rightarrow> u8 list"
  text_decode :: "u8 list \<Rightarrow> js_string outcome"
  encodeInto :: "(js_string \<Rightarrow> nat \<Rightarrow> u8 list) option"
  has_detached :: bool
  wasm_call :: "string \<Rightarrow> js_val list \<Rightarrow> ('w js_state, js_val) js"
  wasm_table_call :: "js_val \<Rightarrow> js_val list \<Rightarrow> ('w js_state, js_val) js"
  wasm_memory :: js_val
  host_get :: "js_val \<Rightarrow> string \<Rightarrow> ('w js_state, js_val) js"
  host_set :: "js_val \<Rightarrow> string \<Rightarrow> js_val \<Rightarrow> ('w js_state, js_val) js"
  host_index :: "js_val \<Rightarrow> int \<Rightarrow> ('w js_state, js_val) js"
  host_apply :: "js_val \<Rightarrow> js_val \<Rightarrow> js_val list \<Rightarrow> ('w js_state, js_val) js"
  host_construct :: "js_val \<Rightarrow> js_val list \<Rightarrow> ('w js_state, js_val) js"
  host_global :: "string \<Rightarrow> 'w js_state \<Rightarrow> js_val option"
  host_instanceof :: "js_val \<Rightarrow> js_val \<Rightarrow> ('w js_state, bool) js"
  host_typeof :: "nat \<Rightarrow> 'w js_state \<Rightarrow> string"
  host_shape :: "js_val \<Rightarrow> 'w js_state \<Rightarrow> shape"
  host_object :: "(string \<times> js_val) list \<Rightarrow> ('w js_state, js_val) js"
  host_await :: "js_val \<Rightarrow> ('w js_state, js_val) js"
  pass_nonstring :: "js_val \<Rightarrow> ('w js_state, int) js"

type_synonym ('w, 'a) wjs = "('w js_state, 'a) js"

text \<open>The number an argument stands for where wasm passes an \<^verbatim>\<open>i32\<close>.\<close>

fun js_number :: "js_val \<Rightarrow> int" where
  "js_number (Num n) = n"
| "js_number (Bool b) = of_bool b"
| "js_number _ = 0"

section \<open>Views of the memory\<close>

text \<open>The \<^verbatim>\<open>byteLength\<close> of a typed array on a buffer: 0 once the buffer is detached.\<close>

definition byteLength :: "nat \<Rightarrow> 'w js_state \<Rightarrow> nat" where
  "byteLength b s = (if b = buffer s then length (mem s) else 0)"

definition stale :: "nat option \<Rightarrow> 'w js_state \<Rightarrow> bool" where
  "stale c s = (case c of None \<Rightarrow> True | Some b \<Rightarrow> byteLength b s = 0)"

definition getUint8Memory0 :: "('w, nat) wjs" where
  "getUint8Memory0 = (\<lambda>s.
     if stale (cachedUint8Memory0 s) s
     then (Ret (buffer s), s\<lparr>cachedUint8Memory0 := Some (buffer s)\<rparr>)
     else (Ret (the (cachedUint8Memory0 s)), s))"

definition getInt32Memory0 :: "('w, nat) wjs" where
  "getInt32Memory0 = (\<lambda>s.
     if stale (cachedInt32Memory0 s) s
     then (Ret (buffer s), s\<lparr>cachedInt32Memory0 := Some (buffer s)\<rparr>)
     else (Ret (the (cachedInt32Memory0 s)), s))"

definition getFloat32Memory0 :: "('w, nat) wjs" where
  "getFloat32Memory0 = (\<lambda>s.
     if stale (cachedFloat32Memory0 s) s
     then (Ret (buffer s), s\<lparr>cachedFloat32Memory0 := Some (buffer s)\<rparr>)
     else (Ret (the (cachedFloat32Memory0 s)), s))"

definition getUint16ArrayMemory0 :: "('w, nat) wjs" where
  "getUint16ArrayMemory0 = (\<lambda>s.
     if stale (cachedUint16Memory0 s) s
     then (Ret (buffer s), s\<lparr>cachedUint16Memory0 := Some (buffer s)\<rparr>)
     else (Ret (the (cachedUint16Memory0 s)), s))"

definition getUint32ArrayMemory0 :: "('w, nat) wjs" where
  "getUint32ArrayMemory0 = (\<lambda>s.
     if stale (cachedUint32Memory0 s) s
     then (Ret (buffer s), s\<lparr>cachedUint32Memory0 := Some (buffer s)\<rparr>)
     else (Ret (the (cachedUint32Memory0 s)), s))"

text \<open>
  \<^verbatim>\<open>buffer.detached\<close> is \<^verbatim>\<open>undefined\<close> in an engine without that property; the script then compares
  the buffers themselves.
\<close>

definition detached :: "'w js_env \<Rightarrow> nat \<Rightarrow> 'w js_state \<Rightarrow> js_val" where
  "detached E b s = (if has_detached E then Bool (b \<noteq> buffer s) else Undefined)"

definition getDataViewMemory0 :: "'w js_env \<Rightarrow> ('w, nat) wjs" where
  "getDataViewMemory0 E = (\<lambda>s.
     case cachedDataViewMemory0 s of
       None \<Rightarrow> (Ret (buffer s), s\<lparr>cachedDataViewMemory0 := Some (buffer s)\<rparr>)
     | Some b \<Rightarrow>
         if detached E b s = Bool True \<or> (detached E b s = Undefined \<and> b \<noteq> buffer s)
         then (Ret (buffer s), s\<lparr>cachedDataViewMemory0 := Some (buffer s)\<rparr>)
         else (Ret b, s))"

section \<open>Reading and writing through a view\<close>

definition write_bytes :: "u8 list \<Rightarrow> nat \<Rightarrow> u8 list \<Rightarrow> u8 list" where
  "write_bytes xs i bs = take i xs @ bs @ drop (i + length bs) xs"

text \<open>A store through a typed array: out of range, or on a detached buffer, it does nothing.\<close>

definition u8_store :: "nat \<Rightarrow> int \<Rightarrow> int \<Rightarrow> ('w, js_val) wjs" where
  "u8_store view i v = js_modify (\<lambda>s.
     if view = buffer s \<and> 0 \<le> i \<and> i < int (length (mem s))
     then s\<lparr>mem := (mem s)[nat i := word_of_int v]\<rparr> else s)"

text \<open>The range that \<^verbatim>\<open>subarray(a, b)\<close> selects in an array of \<open>n\<close> elements.\<close>

definition rel_index :: "nat \<Rightarrow> int \<Rightarrow> nat" where
  "rel_index n i = (if i < 0 then nat (max 0 (int n + i)) else min (nat i) n)"

definition subarray :: "nat \<Rightarrow> int \<Rightarrow> int \<Rightarrow> nat \<times> nat" where
  "subarray n a b = (let i = rel_index n a in (i, rel_index n b - i))"

definition u8_subarray :: "int \<Rightarrow> int \<Rightarrow> 'w js_state \<Rightarrow> u8 list" where
  "u8_subarray a b s = (case subarray (length (mem s)) a b of (i, n) \<Rightarrow> take n (drop i (mem s)))"

text \<open>\<^verbatim>\<open>view.subarray(a, b).set(buf)\<close>: a \<^verbatim>\<open>RangeError\<close> when \<^verbatim>\<open>buf\<close> is longer than the range.\<close>

definition u8_subarray_set :: "int \<Rightarrow> int \<Rightarrow> u8 list \<Rightarrow> ('w, js_val) wjs" where
  "u8_subarray_set a b buf = (\<lambda>s.
     case subarray (length (mem s)) a b of (i, n) \<Rightarrow>
       if length buf \<le> n then (Ret Undefined, s\<lparr>mem := write_bytes (mem s) i buf\<rparr>)
       else (Throw (EngineErr ''RangeError''), s))"

definition le32 :: "int \<Rightarrow> u8 list" where
  "le32 v = map (\<lambda>k. word_of_int (v div 256 ^ k)) [0, 1, 2, 3]"

definition setInt32 :: "nat \<Rightarrow> int \<Rightarrow> int \<Rightarrow> ('w, js_val) wjs" where
  "setInt32 view off v = (\<lambda>s.
     if view \<noteq> buffer s then (Throw (EngineErr ''TypeError''), s)
     else if off < 0 \<or> int (length (mem s)) < off + 4 then (Throw (EngineErr ''RangeError''), s)
     else (Ret Undefined, s\<lparr>mem := write_bytes (mem s) (nat off) (le32 v)\<rparr>))"

text \<open>The signed 32-bit integer at an address.\<close>

definition read32 :: "u8 list \<Rightarrow> nat \<Rightarrow> int" where
  "read32 xs i = to_int32 (uint (xs ! i) + 256 * uint (xs ! (i + 1))
     + 256 ^ 2 * uint (xs ! (i + 2)) + 256 ^ 3 * uint (xs ! (i + 3)))"

section \<open>Strings\<close>

text \<open>\<^verbatim>\<open>getStringFromWasm0\<close>: the view is fresh, so the range is read from the current memory.\<close>

definition getStringFromWasm0 :: "'w js_env \<Rightarrow> int \<Rightarrow> int \<Rightarrow> ('w, js_string) wjs" where
  "getStringFromWasm0 E ptr len =
     (let ptr = to_uint32 ptr in
      js_let getUint8Memory0 (\<lambda>view.
      js_let (js_gets (u8_subarray ptr (ptr + len))) (\<lambda>bytes s.
        (text_decode E bytes, s))))"

text \<open>\<^verbatim>\<open>encodeString(arg, view)\<close> on the subarray \<open>[a, b)\<close> of the memory: the number of bytes written.\<close>

definition encodeString :: "'w js_env \<Rightarrow> js_string \<Rightarrow> int \<Rightarrow> int \<Rightarrow> ('w, int) wjs" where
  "encodeString E arg a b =
     (case encodeInto E of
        Some into \<Rightarrow>
          js_let (js_gets (\<lambda>s. snd (subarray (length (mem s)) a b))) (\<lambda>n.
          let buf = into arg n in
          js_seq (u8_subarray_set a b buf) (js_return (int (length buf))))
      | None \<Rightarrow>
          let buf = text_encode E arg in
          js_seq (u8_subarray_set a b buf) (js_return (int (length buf))))"

text \<open>The loop that copies the leading ASCII characters; it returns the final \<^verbatim>\<open>offset\<close>.\<close>

fun write_ascii :: "nat \<Rightarrow> int \<Rightarrow> int \<Rightarrow> js_string \<Rightarrow> ('w, int) wjs" where
  "write_ascii view ptr offset [] = js_return offset"
| "write_ascii view ptr offset (u # us) =
     (if 0x7F < uint u then js_return offset
      else js_seq (u8_store view (ptr + offset) (uint u))
             (write_ascii view ptr (offset + 1) us))"

type_synonym 'w mallocT = "int \<Rightarrow> int \<Rightarrow> ('w, int) wjs"
type_synonym 'w reallocT = "int \<Rightarrow> int \<Rightarrow> int \<Rightarrow> int \<Rightarrow> ('w, int) wjs"

text \<open>The block \<^verbatim>\<open>if (offset !== len)\<close>: the rest of the string, from its first code unit above 127.\<close>

definition pass_nonascii ::
  "'w js_env \<Rightarrow> js_string \<Rightarrow> 'w reallocT \<Rightarrow> int \<Rightarrow> int \<Rightarrow> int \<Rightarrow> ('w, int \<times> int) wjs" where
  "pass_nonascii E arg realloc ptr len offset =
     (let arg = (if offset \<noteq> 0 then drop (nat offset) arg else arg);
          len' = offset + int (length arg) * 3 in
      js_let (realloc ptr len len' 1) (\<lambda>p. let ptr = to_uint32 p in
      js_let getUint8Memory0 (\<lambda>view.
      js_let (encodeString E arg (ptr + offset) (ptr + len')) (\<lambda>written.
      let offset = offset + written in
      js_let (realloc ptr len' offset 1) (\<lambda>p.
      js_return (to_uint32 p, offset))))))"

definition passStringToWasm0 ::
  "'w js_env \<Rightarrow> js_string \<Rightarrow> 'w mallocT \<Rightarrow> 'w reallocT option \<Rightarrow> ('w, int) wjs" where
  "passStringToWasm0 E arg malloc realloc =
     (case realloc of
        None \<Rightarrow>
          let buf = text_encode E arg; n = int (length buf) in
          js_let (malloc n 1) (\<lambda>p. let ptr = to_uint32 p in
          js_let getUint8Memory0 (\<lambda>view.
          js_seq (u8_subarray_set ptr (ptr + n) buf)
          (js_seq (js_modify (\<lambda>s. s\<lparr>WASM_VECTOR_LEN := n\<rparr>))
          (js_return ptr))))
      | Some realloc \<Rightarrow>
          let len = int (length arg) in
          js_let (malloc len 1) (\<lambda>p. let ptr = to_uint32 p in
          js_let getUint8Memory0 (\<lambda>view.
          js_let (write_ascii view ptr 0 arg) (\<lambda>offset.
          js_let (if offset \<noteq> len then pass_nonascii E arg realloc ptr len offset
                  else js_return (ptr, offset)) (\<lambda>(ptr, offset).
          js_seq (js_modify (\<lambda>s. s\<lparr>WASM_VECTOR_LEN := offset\<rparr>))
          (js_return ptr))))))"

section \<open>Arrays, references and exceptions\<close>

text \<open>
  \<^verbatim>\<open>view.subarray(ptr / width, ptr / width + len)\<close>, a typed array over a range of the buffer that the view is of. The
  quotients are fractions, which \<^verbatim>\<open>subarray\<close> truncates towards zero; a view of a detached buffer has no elements.
\<close>

definition js_trunc :: "int \<Rightarrow> nat \<Rightarrow> int" where
  "js_trunc a w = (if 0 \<le> a then a div int w else - (- a div int w))"

definition typed_subarray :: "string \<Rightarrow> nat \<Rightarrow> nat \<Rightarrow> int \<Rightarrow> int \<Rightarrow> 'w js_state \<Rightarrow> js_val" where
  "typed_subarray kind width view ptr len s =
     (case subarray (byteLength view s div width) (js_trunc ptr width) (js_trunc (ptr + len * int width) width) of
        (i, n) \<Rightarrow> Buf kind view (int (i * width)) (int n))"

definition getArrayU8FromWasm0 :: "int \<Rightarrow> int \<Rightarrow> ('w, js_val) wjs" where
  "getArrayU8FromWasm0 ptr len =
     (let ptr = to_uint32 ptr in
      js_let getUint8Memory0 (\<lambda>view. js_gets (typed_subarray ''Uint8Array'' 1 view ptr len)))"

definition getArrayU16FromWasm0 :: "int \<Rightarrow> int \<Rightarrow> ('w, js_val) wjs" where
  "getArrayU16FromWasm0 ptr len =
     (let ptr = to_uint32 ptr in
      js_let getUint16ArrayMemory0 (\<lambda>view. js_gets (typed_subarray ''Uint16Array'' 2 view ptr len)))"

definition getArrayU32FromWasm0 :: "int \<Rightarrow> int \<Rightarrow> ('w, js_val) wjs" where
  "getArrayU32FromWasm0 ptr len =
     (let ptr = to_uint32 ptr in
      js_let getUint32ArrayMemory0 (\<lambda>view. js_gets (typed_subarray ''Uint32Array'' 4 view ptr len)))"

definition getArrayF32FromWasm0 :: "int \<Rightarrow> int \<Rightarrow> ('w, js_val) wjs" where
  "getArrayF32FromWasm0 ptr len =
     (let ptr = to_uint32 ptr in
      js_let getFloat32Memory0 (\<lambda>view. js_gets (typed_subarray ''Float32Array'' 4 view ptr len)))"

text \<open>
  \<^verbatim>\<open>table.set(idx, obj)\<close> on the table of external references: a negative index is a \<^verbatim>\<open>TypeError\<close>,
  one past the end a \<^verbatim>\<open>RangeError\<close>.
\<close>

definition table_set :: "int \<Rightarrow> js_val \<Rightarrow> ('w, js_val) wjs" where
  "table_set idx v = (\<lambda>s.
     if idx < 0 then (Throw (EngineErr ''TypeError''), s)
     else if int (length (externrefs s)) \<le> idx then (Throw (EngineErr ''RangeError''), s)
     else (Ret Undefined, s\<lparr>externrefs := (externrefs s)[nat idx := v]\<rparr>))"

definition table_get :: "int \<Rightarrow> ('w, js_val) wjs" where
  "table_get idx = (\<lambda>s.
     if idx < 0 then (Throw (EngineErr ''TypeError''), s)
     else if int (length (externrefs s)) \<le> idx then (Throw (EngineErr ''RangeError''), s)
     else (Ret (externrefs s ! nat idx), s))"

text \<open>\<^verbatim>\<open>table.grow(n)\<close> appends \<^verbatim>\<open>undefined\<close> and returns the old size.\<close>

definition table_grow :: "nat \<Rightarrow> ('w, int) wjs" where
  "table_grow n = (\<lambda>s. (Ret (int (length (externrefs s))),
     s\<lparr>externrefs := externrefs s @ replicate n Undefined\<rparr>))"

definition wbindgen_init_externref_table :: "('w, js_val) wjs" where
  "wbindgen_init_externref_table =
     js_let (table_grow 4) (\<lambda>offset.
     js_seq (table_set 0 Undefined)
     (js_seq (table_set (offset + 0) Undefined)
     (js_seq (table_set (offset + 1) Null)
     (js_seq (table_set (offset + 2) (Bool True))
     (js_seq (table_set (offset + 3) (Bool False))
     (js_return Undefined))))))"

definition addToExternrefTable0 :: "'w js_env \<Rightarrow> js_val \<Rightarrow> ('w, js_val) wjs" where
  "addToExternrefTable0 E obj =
     js_let (wasm_call E ''__externref_table_alloc'' []) (\<lambda>idx.
     js_seq (table_set (js_number idx) obj)
     (js_return idx))"

definition handleError :: "'w js_env \<Rightarrow> ('w, js_val) wjs \<Rightarrow> ('w, js_val) wjs" where
  "handleError E f =
     js_try_catch f (\<lambda>e.
       js_let (addToExternrefTable0 E e) (\<lambda>idx.
       js_seq (wasm_call E ''__wbindgen_exn_store'' [idx])
       (js_return Undefined)))"

definition isLikeNone :: "js_val \<Rightarrow> bool" where
  "isLikeNone x \<longleftrightarrow> x = Undefined \<or> x = Null"

section \<open>Views are never stale\<close>

lemma stale_cached: "\<not> stale c s \<Longrightarrow> c = Some (buffer s)"
  by (auto simp: stale_def byteLength_def split: option.splits if_splits)

lemma getUint8Memory0_run:
  "getUint8Memory0 s = (Ret (buffer s), s\<lparr>cachedUint8Memory0 := Some (buffer s)\<rparr>)"
  using stale_cached [of "cachedUint8Memory0 s" s] by (auto simp: getUint8Memory0_def)

lemma getInt32Memory0_run:
  "getInt32Memory0 s = (Ret (buffer s), s\<lparr>cachedInt32Memory0 := Some (buffer s)\<rparr>)"
  using stale_cached [of "cachedInt32Memory0 s" s] by (auto simp: getInt32Memory0_def)

lemma getDataViewMemory0_run:
  "getDataViewMemory0 E s = (Ret (buffer s), s\<lparr>cachedDataViewMemory0 := Some (buffer s)\<rparr>)"
  by (cases "cachedDataViewMemory0 s") (auto simp: getDataViewMemory0_def detached_def)

lemma length_write_bytes [simp]:
  "i + length bs \<le> length xs \<Longrightarrow> length (write_bytes xs i bs) = length xs"
  by (simp add: write_bytes_def)

lemma write_bytes_Nil [simp]: "write_bytes xs i [] = xs"
  by (simp add: write_bytes_def)

lemma take_drop_write_bytes:
  "i + length bs \<le> length xs \<Longrightarrow> take (length bs) (drop i (write_bytes xs i bs)) = bs"
  by (simp add: write_bytes_def)

lemma write_bytes_Cons:
  "i < length xs \<Longrightarrow> write_bytes (xs[i := b]) (Suc i) bs = write_bytes xs i (b # bs)"
  by (simp add: write_bytes_def take_Suc_conv_app_nth list_update_append)

lemma nth_write_bytes:
  assumes "i + length bs \<le> length xs" "j < length xs"
  shows "write_bytes xs i bs ! j = (if i \<le> j \<and> j < i + length bs then bs ! (j - i) else xs ! j)"
  using assms by (auto simp: write_bytes_def nth_append min_def)

definition ascii_prefix :: "js_string \<Rightarrow> js_string" where
  "ascii_prefix = takeWhile (\<lambda>u. uint u \<le> 0x7F)"

abbreviation byte_of :: "u16 \<Rightarrow> u8" where
  "byte_of u \<equiv> word_of_int (uint u)"

lemma write_ascii_run:
  assumes "0 \<le> ptr + offset" "nat (ptr + offset) + length us \<le> length (mem s)"
  shows "write_ascii (buffer s) ptr offset us s =
    (Ret (offset + int (length (ascii_prefix us))),
     s\<lparr>mem := write_bytes (mem s) (nat (ptr + offset)) (map byte_of (ascii_prefix us))\<rparr>)"
  using assms
proof (induction us arbitrary: offset s)
  case Nil
  then show ?case by (simp add: ascii_prefix_def)
next
  case (Cons u us)
  show ?case
  proof (cases "0x7F < uint u")
    case True
    then show ?thesis by (simp add: ascii_prefix_def)
  next
    case False
    let ?s = "s\<lparr>mem := (mem s)[nat (ptr + offset) := byte_of u]\<rparr>"
    have i: "nat (ptr + offset) < length (mem s)" using Cons.prems by simp
    have st: "u8_store (buffer s) (ptr + offset) (uint u) s = (Ret Undefined, ?s)"
      using Cons.prems i by (auto simp: u8_store_def)
    have n: "nat (ptr + (offset + 1)) = Suc (nat (ptr + offset))" using Cons.prems(1) by simp
    have "write_ascii (buffer s) ptr (offset + 1) us ?s =
      (Ret (offset + 1 + int (length (ascii_prefix us))),
       ?s\<lparr>mem := write_bytes (mem ?s) (nat (ptr + (offset + 1))) (map byte_of (ascii_prefix us))\<rparr>)"
      using Cons.IH [of "offset + 1" ?s] Cons.prems n by simp
    then show ?thesis using False i n
      by (simp add: js_seq_Ret st ascii_prefix_def write_bytes_Cons)
  qed
qed

lemma subarray_in: "0 \<le> a \<Longrightarrow> a \<le> b \<Longrightarrow> b \<le> int n \<Longrightarrow> subarray n a b = (nat a, nat b - nat a)"
  by (simp add: subarray_def rel_index_def Let_def)

lemma u8_subarray_set_run:
  assumes "0 \<le> a" "a \<le> b" "b \<le> int (length (mem s))" "int (length buf) \<le> b - a"
  shows "u8_subarray_set a b buf s = (Ret Undefined, s\<lparr>mem := write_bytes (mem s) (nat a) buf\<rparr>)"
  using assms by (simp add: u8_subarray_set_def subarray_in)

definition region :: "'w js_state \<Rightarrow> int \<Rightarrow> int \<Rightarrow> u8 list" where
  "region s p n = take (nat n) (drop (nat p) (mem s))"

definition fits :: "'w js_state \<Rightarrow> int \<Rightarrow> int \<Rightarrow> bool" where
  "fits s p n \<longleftrightarrow> 0 \<le> p \<and> 0 \<le> n \<and> p + n \<le> int (length (mem s))"

text \<open>
  What the module's allocator promises. \<open>r\<close> is a range of the memory that is not part of the heap
  (the module's stack, where a caller keeps its return slot): the memory always covers it and no block
  overlaps it. An exception of the allocator (out of memory) satisfies \<open>trap\<close>.
\<close>

definition covers :: "int \<times> int \<Rightarrow> 'w js_state \<Rightarrow> bool" where
  "covers r s \<longleftrightarrow> snd r \<le> int (length (mem s))"

definition outside :: "int \<times> int \<Rightarrow> int \<Rightarrow> int \<Rightarrow> bool" where
  "outside r p n \<longleftrightarrow> p + n \<le> fst r \<or> snd r \<le> p"

definition malloc_contract :: "int \<times> int \<Rightarrow> (js_val \<Rightarrow> bool) \<Rightarrow> 'w mallocT \<Rightarrow> bool" where
  "malloc_contract r trap malloc \<longleftrightarrow> (\<forall>n s. 0 \<le> n \<longrightarrow> covers r s \<longrightarrow>
     (case malloc n 1 s of
        (Ret p, s') \<Rightarrow> fits s' (to_uint32 p) n \<and> covers r s' \<and> outside r (to_uint32 p) n
      | (Throw e, s') \<Rightarrow> trap e))"

text \<open>
  Only a block that the allocator has handed out may be reallocated. \<open>own s p n\<close> is the allocator's record that the
  \<open>n\<close> bytes at \<open>p\<close> are such a block. It may be kept anywhere but in the block itself, so that a script which writes
  into the block only does not lose it.
\<close>

definition owned_frame :: "('w js_state \<Rightarrow> int \<Rightarrow> int \<Rightarrow> bool) \<Rightarrow> bool" where
  "owned_frame own \<longleftrightarrow> (\<forall>s t p n. own s p n \<longrightarrow> length (mem t) = length (mem s) \<longrightarrow> buffer t = buffer s \<longrightarrow> world t = world s \<longrightarrow>
     (\<forall>i < length (mem s). int i < p \<or> p + n \<le> int i \<longrightarrow> mem t ! i = mem s ! i) \<longrightarrow> own t p n)"

definition reallocates ::
  "('w js_state \<Rightarrow> int \<Rightarrow> int \<Rightarrow> bool) \<Rightarrow> int \<times> int \<Rightarrow> (js_val \<Rightarrow> bool) \<Rightarrow> 'w reallocT \<Rightarrow> bool" where
  "reallocates own r trap realloc \<longleftrightarrow> (\<forall>p old new s. own s p old \<longrightarrow> fits s p old \<longrightarrow> 0 \<le> new \<longrightarrow> covers r s \<longrightarrow>
     (case realloc p old new 1 s of
        (Ret q, s') \<Rightarrow> own s' (to_uint32 q) new \<and> fits s' (to_uint32 q) new \<and> covers r s' \<and> outside r (to_uint32 q) new
            \<and> region s' (to_uint32 q) (min old new) = region s p (min old new)
      | (Throw e, s') \<Rightarrow> trap e))"

definition realloc_contract :: "int \<times> int \<Rightarrow> (js_val \<Rightarrow> bool) \<Rightarrow> 'w mallocT \<Rightarrow> 'w reallocT \<Rightarrow> bool" where
  "realloc_contract r trap malloc realloc \<longleftrightarrow> (\<exists>own. owned_frame own
     \<and> (\<forall>n s p t. 0 \<le> n \<longrightarrow> covers r s \<longrightarrow> malloc n 1 s = (Ret p, t) \<longrightarrow> own t (to_uint32 p) n)
     \<and> reallocates own r trap realloc)"

lemma u8_subarray_region:
  "fits s p n \<Longrightarrow> u8_subarray p (p + n) s = region s p n"
  by (simp add: fits_def region_def u8_subarray_def subarray_in nat_add_distrib)

lemma getStringFromWasm0_run:
  assumes "fits s (to_uint32 p) n"
  shows "getStringFromWasm0 E p n s =
    (text_decode E (region s (to_uint32 p) n), s\<lparr>cachedUint8Memory0 := Some (buffer s)\<rparr>)"
proof -
  let ?s = "s\<lparr>cachedUint8Memory0 := Some (buffer s)\<rparr>"
  have "u8_subarray (to_uint32 p) (to_uint32 p + n) ?s = region ?s (to_uint32 p) n"
    using assms by (intro u8_subarray_region) (simp add: fits_def)
  then show ?thesis
    by (simp add: getStringFromWasm0_def Let_def js_let_Ret [OF getUint8Memory0_run]
        js_let_Ret [OF js_gets_run] region_def)
qed

lemma malloc_Ret:
  assumes "malloc_contract r trap malloc" "0 \<le> n" "covers r s" "malloc n 1 s = (Ret p, s')"
  shows "fits s' (to_uint32 p) n" "covers r s'" "outside r (to_uint32 p) n"
  using assms(1) [unfolded malloc_contract_def, rule_format, OF assms(2,3)] assms(4) by simp_all

lemma malloc_Throw:
  assumes "malloc_contract r trap malloc" "0 \<le> n" "covers r s" "malloc n 1 s = (Throw e, s')"
  shows "trap e"
  using assms(1) [unfolded malloc_contract_def, rule_format, OF assms(2,3)] assms(4) by simp

lemma realloc_Ret:
  assumes "reallocates own r trap realloc" "own s p old" "fits s p old" "0 \<le> new" "covers r s"
    "realloc p old new 1 s = (Ret q, s')"
  shows "fits s' (to_uint32 q) new" "region s' (to_uint32 q) (min old new) = region s p (min old new)"
    "covers r s'" "outside r (to_uint32 q) new" "own s' (to_uint32 q) new"
  using assms(1) [unfolded reallocates_def, rule_format, OF assms(2-5)] assms(6) by simp_all

lemma realloc_Throw:
  assumes "reallocates own r trap realloc" "own s p old" "fits s p old" "0 \<le> new" "covers r s"
    "realloc p old new 1 s = (Throw e, s')"
  shows "trap e"
  using assms(1) [unfolded reallocates_def, rule_format, OF assms(2-5)] assms(6) by simp

lemma own_write:
  assumes "owned_frame own" "own s p n" "0 \<le> p" "p \<le> q" "nat q + length bs \<le> length (mem s)" "q + int (length bs) \<le> p + n"
  shows "own (s\<lparr>cachedUint8Memory0 := c, mem := write_bytes (mem s) (nat q) bs\<rparr>) p n"
proof (rule assms(1) [unfolded owned_frame_def, rule_format, OF assms(2)])
  fix i assume i: "i < length (mem s)" "int i < p \<or> p + n \<le> int i"
  then have "i < nat q \<or> nat q + length bs \<le> i" using assms(3,4,6) by linarith
  then show "mem (s\<lparr>cachedUint8Memory0 := c, mem := write_bytes (mem s) (nat q) bs\<rparr>) ! i = mem s ! i"
    using i(1) assms(5) by (auto simp: nth_write_bytes)
qed (use assms(5) in simp_all)

text \<open>What a call of \<^verbatim>\<open>passStringToWasm0\<close> leaves behind: a block that holds exactly \<open>bs\<close>.\<close>

definition passed :: "int \<times> int \<Rightarrow> (js_val \<Rightarrow> bool) \<Rightarrow> u8 list \<Rightarrow> int outcome \<times> 'w js_state \<Rightarrow> bool" where
  "passed r trap bs res = (case res of
     (Ret ptr, s') \<Rightarrow> to_uint32 ptr = ptr \<and> WASM_VECTOR_LEN s' = int (length bs) \<and> fits s' ptr (int (length bs))
         \<and> region s' ptr (int (length bs)) = bs \<and> covers r s' \<and> outside r ptr (int (length bs))
   | (Throw e, s') \<Rightarrow> trap e)"

lemma region_write_bytes:
  assumes "0 \<le> p" "nat p + length bs \<le> length (mem s)"
  shows "region (s\<lparr>mem := write_bytes (mem s) (nat p) bs\<rparr>) p (int (length bs)) = bs"
  using assms by (simp add: region_def take_drop_write_bytes)

lemma passed_finish:
  assumes "fits s ptr (int (length bs))" "region s ptr (int (length bs)) = bs" "to_uint32 ptr = ptr"
    "off = int (length bs)" "covers r s" "outside r ptr (int (length bs))"
  shows "passed r trap bs (js_seq (js_modify (\<lambda>s. s\<lparr>WASM_VECTOR_LEN := off\<rparr>)) (js_return ptr) s)"
  using assms by (simp add: passed_def js_seq_Ret fits_def region_def covers_def)

lemma passed_letI:
  assumes "\<And>v s'. m s = (Ret v, s') \<Longrightarrow> passed r trap bs (f v s')"
    and "\<And>e s'. m s = (Throw e, s') \<Longrightarrow> trap e"
  shows "passed r trap bs (js_let m f s)"
  using assms by (auto simp: js_let_def passed_def split: prod.splits outcome.splits)

lemma passed_let_Ret: "m s = (Ret v, s') \<Longrightarrow> passed r trap bs (f v s') \<Longrightarrow> passed r trap bs (js_let m f s)"
  by (simp add: js_let_Ret)

lemma passed_seq_Ret: "m s = (Ret v, s') \<Longrightarrow> passed r trap bs (n s') \<Longrightarrow> passed r trap bs (js_seq m n s)"
  by (simp add: js_seq_Ret)

lemma pass_without_realloc:
  assumes m: "malloc_contract r trap malloc" and cov: "covers r s"
  shows "passed r trap (text_encode E arg) (passStringToWasm0 E arg malloc None s)"
proof -
  let ?buf = "text_encode E arg" let ?n = "int (length ?buf)"
  show ?thesis
    unfolding passStringToWasm0_def Let_def option.case
  proof (rule passed_letI)
    fix p s1 assume a: "malloc ?n 1 s = (Ret p, s1)"
    let ?p = "to_uint32 p"
    let ?s1 = "s1\<lparr>cachedUint8Memory0 := Some (buffer s1)\<rparr>"
    let ?s2 = "?s1\<lparr>mem := write_bytes (mem s1) (nat ?p) ?buf\<rparr>"
    have f: "fits s1 ?p ?n" and c1: "covers r s1" and o1: "outside r ?p ?n"
      using malloc_Ret [OF m _ cov a] by simp_all
    have w: "u8_subarray_set ?p (?p + ?n) ?buf ?s1 = (Ret Undefined, ?s2)"
      using f by (subst u8_subarray_set_run) (auto simp: fits_def)
    have len: "nat ?p + length ?buf \<le> length (mem s1)" using f by (auto simp: fits_def)
    have f2: "fits ?s2 ?p ?n" using f len by (simp add: fits_def)
    have r2: "region ?s2 ?p ?n = ?buf"
      using region_write_bytes [of ?p ?buf ?s1] len to_uint32_range(1) by simp
    show "passed r trap ?buf (js_let getUint8Memory0 (\<lambda>view. js_seq (u8_subarray_set ?p (?p + ?n) ?buf)
       (js_seq (js_modify (\<lambda>s. s\<lparr>WASM_VECTOR_LEN := ?n\<rparr>)) (js_return ?p))) s1)"
      by (rule passed_let_Ret [OF getUint8Memory0_run], rule passed_seq_Ret, rule w,
          rule passed_finish [OF f2 r2]) (use o1 c1 len in \<open>simp_all add: covers_def\<close>)
  qed (rule malloc_Throw [OF m _ cov], simp_all)
qed

context text_codec
begin

lemma encodeString_run:
  assumes E: "text_encode E = enc" "encodeInto E = into"
    and r: "0 \<le> a" "a \<le> b" "b \<le> int (length (mem s))" "int (length (enc arg)) \<le> b - a"
  shows "encodeString E arg a b s =
    (Ret (int (length (enc arg))), s\<lparr>mem := write_bytes (mem s) (nat a) (enc arg)\<rparr>)"
proof (cases into)
  case None
  then show ?thesis using E r
    by (simp add: encodeString_def Let_def js_seq_Ret u8_subarray_set_run)
next
  case (Some f)
  have "length (enc arg) \<le> nat b - nat a" using r by linarith
  then have "f arg (nat b - nat a) = enc arg" using Some by (simp add: into_room)
  then show ?thesis using E r Some
    by (simp add: encodeString_def Let_def js_let_Ret js_seq_Ret u8_subarray_set_run subarray_in)
qed

lemma ascii_prefix_ascii: "\<forall>u \<in> set (ascii_prefix s). uint u < 0x80"
  by (auto simp: ascii_prefix_def dest: set_takeWhileD)

lemma enc_split:
  "enc s = map byte_of (ascii_prefix s) @ enc (drop (length (ascii_prefix s)) s)"
  using enc_ascii_append [OF ascii_prefix_ascii, of s "drop (length (ascii_prefix s)) s"]
  by (simp add: ascii_prefix_def takeWhile_dropWhile_id dropWhile_eq_drop [symmetric])

end

lemma length_ascii_prefix: "length (ascii_prefix s) \<le> length s"
  by (simp add: ascii_prefix_def length_takeWhile_le)

lemma region_append:
  assumes "fits s p (m + n)" "0 \<le> m" "0 \<le> n"
  shows "region s p (m + n) = region s p m @ region s (p + m) n"
  using assms by (simp add: region_def fits_def nat_add_distrib take_add add.commute)

lemma region_nth:
  "fits s p n \<Longrightarrow> i < nat n \<Longrightarrow> region s p n ! i = mem s ! (nat p + i)"
  by (auto simp: region_def fits_def)

lemma length_region [simp]: "fits s p n \<Longrightarrow> length (region s p n) = nat n"
  by (auto simp: region_def fits_def)

lemma region_frame:
  assumes "fits s p n" "0 \<le> q" "p + n \<le> q" "nat q + length bs \<le> length (mem s)"
  shows "region (s\<lparr>mem := write_bytes (mem s) (nat q) bs\<rparr>) p n = region s p n"
proof (rule nth_equalityI)
  have f: "fits (s\<lparr>mem := write_bytes (mem s) (nat q) bs\<rparr>) p n"
    using assms by (simp add: fits_def)
  then show "length (region (s\<lparr>mem := write_bytes (mem s) (nat q) bs\<rparr>) p n) = length (region s p n)"
    using assms by simp
  fix i assume "i < length (region (s\<lparr>mem := write_bytes (mem s) (nat q) bs\<rparr>) p n)"
  then have i: "i < nat n" using f by simp
  then have "nat p + i < nat q" "nat p + i < length (mem s)" using assms by (auto simp: fits_def)
  then show "region (s\<lparr>mem := write_bytes (mem s) (nat q) bs\<rparr>) p n ! i = region s p n ! i"
    using i f assms by (simp add: region_nth nth_write_bytes)
qed

lemma region_prefix:
  assumes "region s q m = region s' p m" "k \<le> m" "0 \<le> k"
  shows "region s q k = region s' p k"
proof -
  have "region s q k = take (nat k) (region s q m)" "region s' p k = take (nat k) (region s' p m)"
    using assms(2) by (simp_all add: region_def min_def nat_mono)
  then show ?thesis using assms(1) by simp
qed

context text_codec
begin

lemma pass_tail:
  assumes E: "text_encode E = enc" "encodeInto E = into"
    and r: "reallocates own r trap realloc" and fr: "owned_frame own" and cov: "covers r s"
    and o: "own s p (int (length arg))"
    and k: "k = int (length (ascii_prefix arg))" and rest: "rest = drop (nat k) arg"
    and f: "fits s p (int (length arg))"
    and pre: "region s p k = map byte_of (ascii_prefix arg)"
    and l: "l = k + int (length rest) * 3"
  shows "passed r trap (enc arg) (js_let (pass_nonascii E arg realloc p (int (length arg)) k) (\<lambda>(ptr, offset).
      js_seq (js_modify (\<lambda>s. s\<lparr>WASM_VECTOR_LEN := offset\<rparr>)) (js_return ptr)) s)"
proof -
  have e: "(if k \<noteq> 0 then drop (nat k) arg else arg) = rest" by (simp add: rest)
  show ?thesis
  unfolding pass_nonascii_def Let_def e l [symmetric] js_let_assoc
proof (rule passed_letI)
  have k0: "0 \<le> k" "k \<le> int (length arg)" using length_ascii_prefix [of arg] by (simp_all add: k)
  have len: "int (length arg) \<le> l" and l0: "0 \<le> l" using k0 by (simp_all add: l rest)
  {
    fix e s' assume "realloc p (int (length arg)) l 1 s = (Throw e, s')"
    then show "trap e" using realloc_Throw [OF r o f l0 cov] by simp
  }
  fix q s3 assume a: "realloc p (int (length arg)) l 1 s = (Ret q, s3)"
  let ?q = "to_uint32 q" and ?n = "int (length (enc rest))"
  let ?s3 = "s3\<lparr>cachedUint8Memory0 := Some (buffer s3)\<rparr>"
  let ?s4 = "?s3\<lparr>mem := write_bytes (mem s3) (nat (?q + k)) (enc rest)\<rparr>"
  have room: "?n \<le> int (length rest) * 3" using enc_room [of rest] by simp
  have f3: "fits s3 ?q l" using realloc_Ret(1) [OF r o f l0 cov a] .
  have pre3: "region s3 ?q k = map byte_of (ascii_prefix arg)"
    using region_prefix [of s3 ?q "min (int (length arg)) l" s p k] realloc_Ret(2) [OF r o f l0 cov a] k0 len pre
    by simp
  have w: "encodeString E rest (?q + k) (?q + l) ?s3 = (Ret ?n, ?s4)"
    using f3 k0 room to_uint32_range(1) [of q]
    by (subst encodeString_run [OF E]) (auto simp: fits_def l)
  have fit4: "nat (?q + k) + length (enc rest) \<le> length (mem s3)"
    using f3 k0 room by (auto simp: fits_def l)
  have f4: "fits ?s4 ?q l" using f3 fit4 by (simp add: fits_def)
  have c4: "covers r ?s4" using realloc_Ret(3) [OF r o f l0 cov a] fit4 by (simp add: covers_def)
  have o4: "own ?s4 ?q l"
    using own_write [OF fr realloc_Ret(5) [OF r o f l0 cov a], of "?q + k" "enc rest"] fit4 k0 room to_uint32_range(1) [of q]
    by (simp add: l)
  have f4': "fits ?s4 ?q (k + ?n)" using f4 room k0 by (simp add: fits_def l)
  have "region ?s4 ?q k = map byte_of (ascii_prefix arg)"
    using region_frame [of ?s3 ?q k "?q + k" "enc rest"] f3 k0 fit4 pre3 to_uint32_range(1) [of q]
    by (simp add: fits_def region_def l)
  moreover have "region ?s4 (?q + k) ?n = enc rest"
    using region_write_bytes [of "?q + k" "enc rest" ?s3] fit4 k0 to_uint32_range(1) [of q] by simp
  ultimately have r4: "region ?s4 ?q (k + ?n) = enc arg"
    using region_append [OF f4'] k0 enc_split [of arg] by (simp add: rest k)
  have n: "k + ?n = int (length (enc arg))" using enc_split [of arg] by (simp add: rest k)
  show "passed r trap (enc arg) (js_let getUint8Memory0 (\<lambda>v. js_let (encodeString E rest (?q + k) (?q + l))
      (\<lambda>va. js_let (realloc ?q l (k + va) 1) (\<lambda>vb. js_let (js_return (to_uint32 vb, k + va)) (\<lambda>(ptr, offset).
      js_seq (js_modify (\<lambda>s. s\<lparr>WASM_VECTOR_LEN := offset\<rparr>)) (js_return ptr))))) s3)"
  proof (rule passed_let_Ret [OF getUint8Memory0_run], rule passed_let_Ret, rule w, rule passed_letI)
    fix e s' assume b: "realloc ?q l (k + ?n) 1 ?s4 = (Throw e, s')"
    show "trap e" using realloc_Throw [OF r o4 f4 _ c4 b] n by simp
  next
    fix v s5 assume b: "realloc ?q l (k + ?n) 1 ?s4 = (Ret v, s5)"
    have "fits s5 (to_uint32 v) (k + ?n)" using realloc_Ret(1) [OF r o4 f4 _ c4 b] n by simp
    moreover have "region s5 (to_uint32 v) (k + ?n) = enc arg"
      using realloc_Ret(2) [OF r o4 f4 _ c4 b] n r4 room by (simp add: l)
    ultimately show "passed r trap (enc arg) (js_let (js_return (to_uint32 v, k + ?n)) (\<lambda>(ptr, offset).
      js_seq (js_modify (\<lambda>s. s\<lparr>WASM_VECTOR_LEN := offset\<rparr>)) (js_return ptr)) s5)"
      using n realloc_Ret(3,4) [OF r o4 f4 _ c4 b] by (simp add: passed_finish)
  qed
qed
qed

lemma pass_with_realloc:
  assumes E: "text_encode E = enc" "encodeInto E = into"
    and m: "malloc_contract r trap malloc" and c: "realloc_contract r trap malloc realloc"
    and cov: "covers r s"
  shows "passed r trap (enc arg) (passStringToWasm0 E arg malloc (Some realloc) s)"
  unfolding passStringToWasm0_def Let_def option.case
proof (rule passed_letI)
  obtain own where fr: "owned_frame own" and r: "reallocates own r trap realloc"
    and new: "\<And>n s p t. 0 \<le> n \<Longrightarrow> covers r s \<Longrightarrow> malloc n 1 s = (Ret p, t) \<Longrightarrow> own t (to_uint32 p) n"
    using c unfolding realloc_contract_def by blast
  fix p s1 assume a: "malloc (int (length arg)) 1 s = (Ret p, s1)"
  let ?p = "to_uint32 p" and ?k = "int (length (ascii_prefix arg))"
  let ?s1 = "s1\<lparr>cachedUint8Memory0 := Some (buffer s1)\<rparr>"
  let ?s2 = "?s1\<lparr>mem := write_bytes (mem s1) (nat ?p) (map byte_of (ascii_prefix arg))\<rparr>"
  have f: "fits s1 ?p (int (length arg))" and c1: "covers r s1" and o1: "outside r ?p (int (length arg))"
    using malloc_Ret [OF m _ cov a] by simp_all
  have k: "?k \<le> int (length arg)" using length_ascii_prefix [of arg] by simp
  have w: "write_ascii (buffer s1) ?p 0 arg ?s1 = (Ret ?k, ?s2)"
    using write_ascii_run [of ?p 0 arg ?s1] f by (auto simp: fits_def)
  have fit: "nat ?p + length (map byte_of (ascii_prefix arg)) \<le> length (mem s1)"
    using f k by (auto simp: fits_def)
  have f2: "fits ?s2 ?p (int (length arg))" using f fit by (simp add: fits_def)
  have c2: "covers r ?s2" using c1 fit by (simp add: covers_def)
  have o2: "own ?s2 ?p (int (length arg))"
    using own_write [OF fr new [OF _ cov a], of ?p "map byte_of (ascii_prefix arg)"] fit k to_uint32_range(1) [of p] by simp
  have pre: "region ?s2 ?p ?k = map byte_of (ascii_prefix arg)"
    using region_write_bytes [of ?p "map byte_of (ascii_prefix arg)" ?s1] fit to_uint32_range(1) by simp
  show "passed r trap (enc arg) (js_let getUint8Memory0 (\<lambda>view. js_let (write_ascii view ?p 0 arg) (\<lambda>offset.
     js_let (if offset \<noteq> int (length arg) then pass_nonascii E arg realloc ?p (int (length arg)) offset
       else js_return (?p, offset)) (\<lambda>(ptr, offset).
     js_seq (js_modify (\<lambda>s. s\<lparr>WASM_VECTOR_LEN := offset\<rparr>)) (js_return ptr)))) s1)"
  proof (rule passed_let_Ret [OF getUint8Memory0_run], rule passed_let_Ret, rule w)
    show "passed r trap (enc arg) (js_let (if ?k \<noteq> int (length arg)
         then pass_nonascii E arg realloc ?p (int (length arg)) ?k else js_return (?p, ?k)) (\<lambda>(ptr, offset).
       js_seq (js_modify (\<lambda>s. s\<lparr>WASM_VECTOR_LEN := offset\<rparr>)) (js_return ptr)) ?s2)"
    proof (cases "?k = int (length arg)")
      case True
      then have "enc arg = map byte_of (ascii_prefix arg)" using enc_split [of arg] by (simp add: enc_Nil)
      then show ?thesis using True f2 pre c2 o1 by (simp add: passed_finish)
    next
      case False
      then show ?thesis using pass_tail [OF E r fr c2 o2 refl refl f2 pre refl] by simp
    qed
  qed
qed (rule malloc_Throw [OF m _ cov], simp_all)

end

text \<open>An allocator that meets the contracts: it always appends to the memory and never reuses a block.\<close>

definition bump :: "int \<Rightarrow> u8 list \<Rightarrow> ('w, int) wjs" where
  "bump n keep = (\<lambda>s.
     if int (length (mem s)) + n < 2 ^ 32
     then (Ret (to_int32 (int (length (mem s)))),
           s\<lparr>mem := mem s @ take (nat n) keep @ replicate (nat n - length keep) 0, buffer := buffer s + 1\<rparr>)
     else (Throw (EngineErr ''RuntimeError''), s))"

definition bump_malloc :: "'w mallocT" where
  "bump_malloc n align = bump n []"

definition bump_realloc :: "'w reallocT" where
  "bump_realloc p old new align = (\<lambda>s. bump new (region s p old) s)"

lemma bump_malloc_contract: "malloc_contract r ((=) (EngineErr ''RuntimeError'')) bump_malloc"
  by (auto simp: malloc_contract_def bump_malloc_def bump_def fits_def to_uint32_id covers_def outside_def)

lemma bump_reallocates: "reallocates fits r ((=) (EngineErr ''RuntimeError'')) bump_realloc"
  unfolding reallocates_def
proof (intro allI impI)
  fix p old new :: int and s :: "'w js_state"
  assume f: "fits s p old" and n: "0 \<le> new" and c: "covers r s"
  show "case bump_realloc p old new 1 s of
      (Ret q, s') \<Rightarrow> fits s' (to_uint32 q) new \<and> fits s' (to_uint32 q) new \<and> covers r s' \<and> outside r (to_uint32 q) new \<and>
         region s' (to_uint32 q) (min old new) = region s p (min old new)
    | (Throw e, s') \<Rightarrow> EngineErr ''RuntimeError'' = e"
  proof (cases "int (length (mem s)) + new < 2 ^ 32")
    case True
    have "take (nat (min old new)) (region s p old) = region s p (min old new)"
      by (simp add: region_def min_def nat_mono)
    moreover have "nat (min old new) \<le> length (region s p old)" "nat (min old new) \<le> nat new"
      using f by (auto simp: nat_mono)
    ultimately show ?thesis using True f n c
      by (simp add: bump_realloc_def bump_def to_uint32_id fits_def covers_def outside_def
          region_def [of "s\<lparr>mem := _, buffer := _\<rparr>"] min_def)
  qed (simp add: bump_realloc_def bump_def)
qed

lemma bump_realloc_contract: "realloc_contract r ((=) (EngineErr ''RuntimeError'')) bump_malloc bump_realloc"
  unfolding realloc_contract_def
proof (intro exI [of _ fits] conjI bump_reallocates allI impI)
  fix n p :: int and s t :: "'w js_state"
  assume "0 \<le> n" "covers r s" "bump_malloc n 1 s = (Ret p, t)"
  then show "fits t (to_uint32 p) n" using malloc_Ret(1) [OF bump_malloc_contract] by blast
qed (simp add: owned_frame_def fits_def)

section \<open>References and exceptions\<close>

lemma table_set_run:
  "0 \<le> i \<Longrightarrow> i < int (length (externrefs s)) \<Longrightarrow>
   table_set i v s = (Ret Undefined, s\<lparr>externrefs := (externrefs s)[nat i := v]\<rparr>)"
  by (simp add: table_set_def)

lemma table_get_run:
  "0 \<le> i \<Longrightarrow> i < int (length (externrefs s)) \<Longrightarrow> table_get i s = (Ret (externrefs s ! nat i), s)"
  by (simp add: table_get_def)

lemma addToExternrefTable0_run:
  assumes "wasm_call E ''__externref_table_alloc'' [] s = (Ret (Num i), t)"
    and "0 \<le> i" "i < int (length (externrefs t))"
  shows "addToExternrefTable0 E v s = (Ret (Num i), t\<lparr>externrefs := (externrefs t)[nat i := v]\<rparr>)"
  using assms by (simp add: addToExternrefTable0_def js_let_Ret js_seq_Ret table_set_run)

lemma handleError_Ret: "m s = (Ret v, t) \<Longrightarrow> handleError E m s = (Ret v, t)"
  by (simp add: handleError_def js_try_catch_Ret)

lemma handleError_Throw:
  assumes "m s = (Throw e, t)"
    and "wasm_call E ''__externref_table_alloc'' [] t = (Ret (Num i), u)"
    and "0 \<le> i" "i < int (length (externrefs u))"
    and "wasm_call E ''__wbindgen_exn_store'' [Num i] (u\<lparr>externrefs := (externrefs u)[nat i := e]\<rparr>) = (Ret w, x)"
  shows "handleError E m s = (Ret Undefined, x)"
  using assms
  by (simp add: handleError_def js_try_catch_Throw js_let_Ret addToExternrefTable0_run js_seq_Ret)

text \<open>
  What the module promises of the two exports: \<^verbatim>\<open>__externref_table_alloc\<close> returns the index of a
  slot of the table and \<^verbatim>\<open>__wbindgen_exn_store\<close> returns.
\<close>

definition exn_contract :: "'w js_env \<Rightarrow> bool" where
  "exn_contract E \<longleftrightarrow>
     (\<forall>s. \<exists>i t. wasm_call E ''__externref_table_alloc'' [] s = (Ret (Num i), t)
            \<and> 0 \<le> i \<and> i < int (length (externrefs t))) \<and>
     (\<forall>i s. \<exists>v t. wasm_call E ''__wbindgen_exn_store'' [Num i] s = (Ret v, t))"

lemma handleError_returns:
  assumes "exn_contract E"
  shows "\<exists>v t. handleError E m s = (Ret v, t)"
proof (cases "m s")
  case (Pair r t)
  show ?thesis
  proof (cases r)
    case (Ret v)
    with Pair show ?thesis by (auto intro: handleError_Ret)
  next
    case (Throw e)
    obtain i u where u: "wasm_call E ''__externref_table_alloc'' [] t = (Ret (Num i), u)"
      "0 \<le> i" "i < int (length (externrefs u))"
      using assms unfolding exn_contract_def by blast
    obtain v x where
      "wasm_call E ''__wbindgen_exn_store'' [Num i] (u\<lparr>externrefs := (externrefs u)[nat i := e]\<rparr>) = (Ret v, x)"
      using assms unfolding exn_contract_def by blast
    with Pair Throw u show ?thesis by (blast intro: handleError_Throw)
  qed
qed

lemma init_table_run:
  "wbindgen_init_externref_table s =
     (Ret Undefined, s\<lparr>externrefs :=
        (if externrefs s = [] then [] else (externrefs s)[0 := Undefined]) @ [Undefined, Null, Bool True, Bool False]\<rparr>)"
proof -
  let ?n = "length (externrefs s)"
  let ?t = "(externrefs s @ replicate 4 Undefined)[0 := Undefined]"
  have "?t = (if externrefs s = [] then [] else (externrefs s)[0 := Undefined]) @ replicate 4 Undefined"
    by (simp add: list_update_append1 numeral_eq_Suc)
  then obtain xs where xs: "?t = xs @ replicate 4 Undefined" "length xs = ?n"
    and xs': "xs = (if externrefs s = [] then [] else (externrefs s)[0 := Undefined])"
    by auto
  have "?t[?n := Undefined, Suc ?n := Null, Suc (Suc ?n) := Bool True, Suc (Suc (Suc ?n)) := Bool False]
     = xs @ [Undefined, Null, Bool True, Bool False]"
    unfolding xs(1) xs(2) [symmetric] by (simp add: list_update_append numeral_eq_Suc)
  then show ?thesis
    unfolding xs' [symmetric]
    by (simp add: wbindgen_init_externref_table_def js_let_def js_seq_def table_grow_def table_set_def
        nat_add_distrib numeral_eq_Suc)
qed

end
