(* ===== verification/Js_Interop.thy ===== *)
theory Js_Interop
  imports Wasm_Runtime
begin

text \<open>
  The expressions from which the import functions of the glue modules are made: reading, writing and
  calling members of host objects, constructing, testing with \<^verbatim>\<open>instanceof\<close> and \<^verbatim>\<open>typeof\<close>, passing
  strings and optional references between the two sides. Each combinator follows the evaluation order
  of the language, so that it is visible which exception comes first.
\<close>

section \<open>Members, calls and globals\<close>

abbreviation TypeError :: js_val where
  "TypeError \<equiv> EngineErr ''TypeError''"

definition js_member :: "'w js_env \<Rightarrow> js_val \<Rightarrow> string \<Rightarrow> ('w, js_val) wjs" where
  "js_member E obj p = (if isLikeNone obj then js_throw TypeError else host_get E obj p)"

text \<open>\<^verbatim>\<open>obj.p = e\<close>: the right-hand side is evaluated before the base is tested.\<close>

definition js_assign :: "'w js_env \<Rightarrow> js_val \<Rightarrow> string \<Rightarrow> ('w, js_val) wjs \<Rightarrow> ('w, js_val) wjs" where
  "js_assign E obj p e =
     js_let e (\<lambda>v. if isLikeNone obj then js_throw TypeError
                   else js_seq (host_set E obj p v) (js_return Undefined))"

definition js_elem :: "'w js_env \<Rightarrow> js_val \<Rightarrow> int \<Rightarrow> ('w, js_val) wjs" where
  "js_elem E obj i = (if isLikeNone obj then js_throw TypeError else host_index E obj i)"

text \<open>\<^verbatim>\<open>obj.m(es)\<close>: the member is read first, then the arguments are evaluated, then it is called.\<close>

definition js_method ::
  "'w js_env \<Rightarrow> js_val \<Rightarrow> string \<Rightarrow> ('w, js_val) wjs list \<Rightarrow> ('w, js_val) wjs" where
  "js_method E obj m es =
     js_let (js_member E obj m) (\<lambda>f. js_let (js_args es) (host_apply E f obj))"

text \<open>The same call as a statement: its value is dropped.\<close>

definition js_do :: "('w, js_val) wjs \<Rightarrow> ('w, js_val) wjs" where
  "js_do e = js_seq e (js_return Undefined)"

definition js_global :: "'w js_env \<Rightarrow> string \<Rightarrow> ('w, js_val) wjs" where
  "js_global E x = (\<lambda>s. case host_global E x s of
     Some v \<Rightarrow> (Ret v, s)
   | None \<Rightarrow> (Throw (EngineErr ''ReferenceError''), s))"

definition js_call :: "'w js_env \<Rightarrow> string \<Rightarrow> ('w, js_val) wjs list \<Rightarrow> ('w, js_val) wjs" where
  "js_call E f es = js_let (js_global E f) (\<lambda>g. js_let (js_args es) (host_apply E g Undefined))"

definition js_static ::
  "'w js_env \<Rightarrow> string \<Rightarrow> string \<Rightarrow> ('w, js_val) wjs list \<Rightarrow> ('w, js_val) wjs" where
  "js_static E obj m es = js_let (js_global E obj) (\<lambda>o'. js_method E o' m es)"

definition js_new :: "'w js_env \<Rightarrow> string \<Rightarrow> ('w, js_val) wjs list \<Rightarrow> ('w, js_val) wjs" where
  "js_new E c es = js_let (js_global E c) (\<lambda>k. js_let (js_args es) (host_construct E k))"

text \<open>\<^verbatim>\<open>new Error(e)\<close> with a string argument, and with none.\<close>

definition js_new_error :: "('w, js_string) wjs \<Rightarrow> ('w, js_val) wjs" where
  "js_new_error e = js_let e (\<lambda>m. js_return (Err m))"

text \<open>\<^verbatim>\<open>typeof x === 'undefined' ? null : x\<close> on a global: no \<^verbatim>\<open>ReferenceError\<close>.\<close>

definition js_global_or_null :: "'w js_env \<Rightarrow> string \<Rightarrow> ('w, js_val) wjs" where
  "js_global_or_null E x = js_gets (\<lambda>s. case host_global E x s of
     Some v \<Rightarrow> if v = Undefined then Null else v
   | None \<Rightarrow> Null)"

fun js_typeof :: "'w js_env \<Rightarrow> js_val \<Rightarrow> 'w js_state \<Rightarrow> string" where
  "js_typeof E Undefined s = ''undefined''"
| "js_typeof E Null s = ''object''"
| "js_typeof E (Bool b) s = ''boolean''"
| "js_typeof E (Num n) s = ''number''"
| "js_typeof E (Flt w) s = ''number''"
| "js_typeof E (Str t) s = ''string''"
| "js_typeof E (Sym n) s = ''symbol''"
| "js_typeof E (Ref r) s = host_typeof E r s"
| "js_typeof E (Clo i) s = ''function''"
| "js_typeof E (Export n) s = ''function''"
| "js_typeof E (Obj i) s = ''object''"
| "js_typeof E (Buf k b i n) s = ''object''"
| "js_typeof E (Err m) s = ''object''"
| "js_typeof E (EngineErr m) s = ''object''"

text \<open>\<^verbatim>\<open>try { result = v instanceof C } catch (_) { result = false }\<close>\<close>

definition js_instanceof :: "'w js_env \<Rightarrow> js_val \<Rightarrow> string \<Rightarrow> ('w, js_val) wjs" where
  "js_instanceof E v c =
     js_try_catch
       (js_let (js_global E c) (\<lambda>k. js_let (host_instanceof E v k) (\<lambda>b. js_return (Bool b))))
       (\<lambda>_. js_return (Bool False))"

section \<open>Arguments\<close>

text \<open>\<^verbatim>\<open>x >>> 0\<close>, \<^verbatim>\<open>x !== 0\<close> and an entry of an enumeration table, on an \<^verbatim>\<open>i32\<close> argument.\<close>

definition js_u32 :: "js_val \<Rightarrow> js_val" where
  "js_u32 v = Num (to_uint32 (js_number v))"

definition js_nonzero :: "js_val \<Rightarrow> js_val" where
  "js_nonzero v = Bool (v \<noteq> Num 0)"

definition enum_at :: "string list \<Rightarrow> js_val \<Rightarrow> js_val" where
  "enum_at tbl v =
     (let i = js_number v in
      if 0 \<le> i \<and> i < int (length tbl) then Str (js (tbl ! nat i)) else Undefined)"

definition index_of :: "string list \<Rightarrow> js_val \<Rightarrow> int" where
  "index_of tbl v =
     (let n = length (takeWhile (\<lambda>t. Str (js t) \<noteq> v) tbl) in
      if n < length tbl then int n else - 1)"

text \<open>\<^verbatim>\<open>(tbl.indexOf(ret) + 1 || d) - 1\<close>\<close>

definition enum_index :: "string list \<Rightarrow> int \<Rightarrow> js_val \<Rightarrow> js_val" where
  "enum_index tbl d v = (let i = index_of tbl v + 1 in Num ((if i \<noteq> 0 then i else d) - 1))"

text \<open>\<^verbatim>\<open>getStringFromWasm0(p, n)\<close> as an expression, and \<^verbatim>\<open>p === 0 ? undefined : getStringFromWasm0(p, n)\<close>.\<close>

definition js_str :: "'w js_env \<Rightarrow> js_val \<Rightarrow> js_val \<Rightarrow> ('w, js_val) wjs" where
  "js_str E p n = js_let (getStringFromWasm0 E (js_number p) (js_number n)) (\<lambda>t. js_return (Str t))"

definition js_opt_str :: "'w js_env \<Rightarrow> js_val \<Rightarrow> js_val \<Rightarrow> ('w, js_val) wjs" where
  "js_opt_str E p n = (if p = Num 0 then js_return Undefined else js_str E p n)"

text \<open>
  The parameters of a function: a missing argument is \<^verbatim>\<open>undefined\<close>, one too many is ignored.
\<close>

definition js_param :: "js_val list \<Rightarrow> nat \<Rightarrow> js_val" where
  "js_param args i = (if i < length args then args ! i else Undefined)"

definition fn0 :: "('w, js_val) wjs \<Rightarrow> js_val list \<Rightarrow> ('w, js_val) wjs" where
  "fn0 f args = f"

definition fn1 :: "(js_val \<Rightarrow> ('w, js_val) wjs) \<Rightarrow> js_val list \<Rightarrow> ('w, js_val) wjs" where
  "fn1 f args = f (js_param args 0)"

definition fn2 :: "(js_val \<Rightarrow> js_val \<Rightarrow> ('w, js_val) wjs) \<Rightarrow> js_val list \<Rightarrow> ('w, js_val) wjs" where
  "fn2 f args = fn1 (f (js_param args 0)) (tl args)"

definition fn3 :: "(js_val \<Rightarrow> js_val \<Rightarrow> js_val \<Rightarrow> ('w, js_val) wjs) \<Rightarrow> js_val list \<Rightarrow> ('w, js_val) wjs" where
  "fn3 f args = fn2 (f (js_param args 0)) (tl args)"

definition fn4 ::
  "(js_val \<Rightarrow> js_val \<Rightarrow> js_val \<Rightarrow> js_val \<Rightarrow> ('w, js_val) wjs) \<Rightarrow> js_val list \<Rightarrow> ('w, js_val) wjs" where
  "fn4 f args = fn3 (f (js_param args 0)) (tl args)"

definition fn5 ::
  "(js_val \<Rightarrow> js_val \<Rightarrow> js_val \<Rightarrow> js_val \<Rightarrow> js_val \<Rightarrow> ('w, js_val) wjs) \<Rightarrow>
   js_val list \<Rightarrow> ('w, js_val) wjs" where
  "fn5 f args = fn4 (f (js_param args 0)) (tl args)"

definition fn6 ::
  "(js_val \<Rightarrow> js_val \<Rightarrow> js_val \<Rightarrow> js_val \<Rightarrow> js_val \<Rightarrow> js_val \<Rightarrow> ('w, js_val) wjs) \<Rightarrow>
   js_val list \<Rightarrow> ('w, js_val) wjs" where
  "fn6 f args = fn5 (f (js_param args 0)) (tl args)"

definition fn7 ::
  "(js_val \<Rightarrow> js_val \<Rightarrow> js_val \<Rightarrow> js_val \<Rightarrow> js_val \<Rightarrow> js_val \<Rightarrow> js_val \<Rightarrow> ('w, js_val) wjs) \<Rightarrow>
   js_val list \<Rightarrow> ('w, js_val) wjs" where
  "fn7 f args = fn6 (f (js_param args 0)) (tl args)"

definition fn8 ::
  "(js_val \<Rightarrow> js_val \<Rightarrow> js_val \<Rightarrow> js_val \<Rightarrow> js_val \<Rightarrow> js_val \<Rightarrow> js_val \<Rightarrow> js_val \<Rightarrow> ('w, js_val) wjs) \<Rightarrow>
   js_val list \<Rightarrow> ('w, js_val) wjs" where
  "fn8 f args = fn7 (f (js_param args 0)) (tl args)"

definition fn11 ::
  "(js_val \<Rightarrow> js_val \<Rightarrow> js_val \<Rightarrow> js_val \<Rightarrow> js_val \<Rightarrow> js_val \<Rightarrow> js_val \<Rightarrow> js_val \<Rightarrow> js_val \<Rightarrow> js_val \<Rightarrow>
    js_val \<Rightarrow> ('w, js_val) wjs) \<Rightarrow> js_val list \<Rightarrow> ('w, js_val) wjs" where
  "fn11 f args = fn8 (f (js_param args 0) (js_param args 1) (js_param args 2)) (drop 3 args)"

section \<open>Results\<close>

text \<open>The two allocator exports as \<^verbatim>\<open>passStringToWasm0\<close> receives them.\<close>

definition wasm_malloc :: "'w js_env \<Rightarrow> 'w mallocT" where
  "wasm_malloc E n align =
     js_let (wasm_call E ''__wbindgen_malloc'' [Num n, Num align]) (\<lambda>p. js_return (js_number p))"

definition wasm_realloc :: "'w js_env \<Rightarrow> 'w reallocT" where
  "wasm_realloc E p old new align =
     js_let (wasm_call E ''__wbindgen_realloc'' [Num p, Num old, Num new, Num align])
       (\<lambda>q. js_return (js_number q))"

definition wasm_free :: "'w js_env \<Rightarrow> js_val \<Rightarrow> js_val \<Rightarrow> ('w, js_val) wjs" where
  "wasm_free E p n = js_do (wasm_call E ''__wbindgen_free'' [p, n, Num 1])"

text \<open>
  \<^verbatim>\<open>passStringToWasm0(ret, wasm.__wbindgen_malloc, wasm.__wbindgen_realloc)\<close>. Reading \<^verbatim>\<open>ret.length\<close> of
  \<^verbatim>\<open>null\<close> or \<^verbatim>\<open>undefined\<close> is a \<^verbatim>\<open>TypeError\<close>; the browser gives a string everywhere else, and what the
  function would do with another value is left open.
\<close>

definition pass_value :: "'w js_env \<Rightarrow> js_val \<Rightarrow> ('w, int) wjs" where
  "pass_value E ret =
     (case ret of
        Str t \<Rightarrow> passStringToWasm0 E t (wasm_malloc E) (Some (wasm_realloc E))
      | _ \<Rightarrow> if isLikeNone ret then js_throw TypeError else pass_nonstring E ret)"

text \<open>
  The end of every import that returns a string or an optional string:
  \<^verbatim>\<open>setInt32(arg0 + 4 * 1, len1, true)\<close> and then \<^verbatim>\<open>setInt32(arg0 + 4 * 0, ptr1, true)\<close>.
\<close>

definition write_ptr_len :: "'w js_env \<Rightarrow> js_val \<Rightarrow> int \<Rightarrow> int \<Rightarrow> ('w, js_val) wjs" where
  "write_ptr_len E arg0 ptr1 len1 =
     js_let (getDataViewMemory0 E) (\<lambda>view.
     js_seq (setInt32 view (js_number arg0 + 4 * 1) len1)
     (js_let (getDataViewMemory0 E) (\<lambda>view.
     js_seq (setInt32 view (js_number arg0 + 4 * 0) ptr1)
     (js_return Undefined))))"

definition ret_string :: "'w js_env \<Rightarrow> js_val \<Rightarrow> js_val \<Rightarrow> ('w, js_val) wjs" where
  "ret_string E arg0 ret =
     js_let (pass_value E ret) (\<lambda>ptr1.
     js_let (js_gets WASM_VECTOR_LEN) (\<lambda>len1.
     write_ptr_len E arg0 ptr1 len1))"

definition ret_opt_string :: "'w js_env \<Rightarrow> js_val \<Rightarrow> js_val \<Rightarrow> ('w, js_val) wjs" where
  "ret_opt_string E arg0 ret =
     js_let (if isLikeNone ret then js_return 0 else pass_value E ret) (\<lambda>ptr1.
     js_let (js_gets WASM_VECTOR_LEN) (\<lambda>len1.
     write_ptr_len E arg0 ptr1 len1))"

text \<open>\<^verbatim>\<open>isLikeNone(ret) ? 0 : addToExternrefTable0(ret)\<close>\<close>

definition ret_opt_ref :: "'w js_env \<Rightarrow> js_val \<Rightarrow> ('w, js_val) wjs" where
  "ret_opt_ref E ret = (if isLikeNone ret then js_return (Num 0) else addToExternrefTable0 E ret)"

text \<open>
  \<^verbatim>\<open>try { m(getStringFromWasm0(...)) } finally { wasm.__wbindgen_free(...) }\<close>: strings that Rust hands
  over are freed whatever the call does.
\<close>

definition with_deferred :: "'w js_env \<Rightarrow> (js_val \<times> js_val) list \<Rightarrow> ('w, js_val) wjs \<Rightarrow> ('w, js_val) wjs" where
  "with_deferred E strs body =
     js_try_finally (js_do body) (js_args (map (\<lambda>(p, n). wasm_free E p n) strs))"

text \<open>The destructor of a closure: an entry of the function table, or an export.\<close>

definition call_dtor :: "'w js_env \<Rightarrow> js_val \<Rightarrow> js_val list \<Rightarrow> ('w, js_val) wjs" where
  "call_dtor E dtor args =
     (case dtor of Export n \<Rightarrow> wasm_call E n args | _ \<Rightarrow> wasm_table_call E dtor args)"

section \<open>Decoding with a byte count\<close>

text \<open>
  \<^verbatim>\<open>decodeText\<close> of the newer modules (\<^verbatim>\<open>wlan\<close>, \<^verbatim>\<open>wlan_debug\<close>, \<^verbatim>\<open>wlan-swap\<close>): a decoder of one browser fails
  after two gigabytes, so the script counts the bytes and takes a new decoder before that.
\<close>

definition MAX_SAFARI_DECODE_BYTES :: int where
  "MAX_SAFARI_DECODE_BYTES = 2146435072"

definition decodeText :: "'w js_env \<Rightarrow> int \<Rightarrow> int \<Rightarrow> ('w, js_string) wjs" where
  "decodeText E ptr len =
     js_seq (js_modify (\<lambda>s. s\<lparr>numBytesDecoded := numBytesDecoded s + len\<rparr>))
     (js_seq (js_modify (\<lambda>s. if MAX_SAFARI_DECODE_BYTES \<le> numBytesDecoded s
                             then s\<lparr>numBytesDecoded := len\<rparr> else s))
     (js_let getUint8Memory0 (\<lambda>view.
      js_let (js_gets (u8_subarray ptr (ptr + len))) (\<lambda>bytes s. (text_decode E bytes, s)))))"

definition getStringFromWasm0_counted :: "'w js_env \<Rightarrow> int \<Rightarrow> int \<Rightarrow> ('w, js_string) wjs" where
  "getStringFromWasm0_counted E ptr len = (let ptr = to_uint32 ptr in decodeText E ptr len)"

definition js_text :: "'w js_env \<Rightarrow> js_val \<Rightarrow> js_val \<Rightarrow> ('w, js_val) wjs" where
  "js_text E p n = js_let (getStringFromWasm0_counted E (js_number p) (js_number n)) (\<lambda>t. js_return (Str t))"

definition js_opt_text :: "'w js_env \<Rightarrow> js_val \<Rightarrow> js_val \<Rightarrow> ('w, js_val) wjs" where
  "js_opt_text E p n = (if p = Num 0 then js_return Undefined else js_text E p n)"

text \<open>The count aside, both readers decode the same bytes, and the count stays below the limit.\<close>

lemma decodeText_run:
  assumes "fits s (to_uint32 p) n"
  shows "getStringFromWasm0_counted E p n s =
    (text_decode E (region s (to_uint32 p) n),
     s\<lparr>cachedUint8Memory0 := Some (buffer s),
       numBytesDecoded := (if MAX_SAFARI_DECODE_BYTES \<le> numBytesDecoded s + n then n
                           else numBytesDecoded s + n)\<rparr>)"
proof -
  let ?s = "s\<lparr>numBytesDecoded := (if MAX_SAFARI_DECODE_BYTES \<le> numBytesDecoded s + n then n
                           else numBytesDecoded s + n)\<rparr>"
  have "fits ?s (to_uint32 p) n" using assms by (simp add: fits_def)
  then have "getStringFromWasm0 E p n ?s =
      (text_decode E (region ?s (to_uint32 p) n), ?s\<lparr>cachedUint8Memory0 := Some (buffer s)\<rparr>)"
    using getStringFromWasm0_run by fastforce
  then show ?thesis
    by (simp add: getStringFromWasm0_counted_def getStringFromWasm0_def decodeText_def Let_def js_seq_Ret
        region_def split: if_splits)
qed

section \<open>What an import that returns a string leaves behind\<close>

lemma length_le32 [simp]: "length (le32 v) = 4"
  by (simp add: le32_def)

lemma byte_sum:
  fixes v :: int
  shows "v mod 256 + 256 * (v div 256 mod 256) + 256 ^ 2 * (v div 256 ^ 2 mod 256)
       + 256 ^ 3 * (v div 256 ^ 3 mod 256) = v mod 2 ^ 32"
proof -
  have step: "v mod (256 ^ k * 256) = 256 ^ k * (v div 256 ^ k mod 256) + v mod 256 ^ k" for k :: nat
    by (rule zmod_zmult2_eq) simp
  have "v mod 2 ^ 32 = v mod (256 ^ 3 * 256)" by simp
  also have "\<dots> = 256 ^ 3 * (v div 256 ^ 3 mod 256) + v mod (256 ^ 2 * 256)"
    by (subst step) simp
  also have "v mod (256 ^ 2 * 256) = 256 ^ 2 * (v div 256 ^ 2 mod 256) + v mod (256 ^ 1 * 256)"
    by (subst step) simp
  also have "v mod (256 ^ 1 * 256) = 256 * (v div 256 mod 256) + v mod 256"
    by (subst step) simp
  finally show ?thesis by (simp only: ac_simps)
qed

lemma read32_le32:
  assumes "i + 4 \<le> length xs"
  shows "read32 (write_bytes xs i (le32 v)) i = to_int32 v"
proof -
  have n: "write_bytes xs i (le32 v) ! (i + k) = word_of_int (v div 256 ^ k)" if "k < 4" for k
    using assms that by (auto simp: nth_write_bytes le32_def numeral_eq_Suc less_Suc_eq)
  have u: "uint (word_of_int x :: u8) = x mod 256" for x
    by (simp add: uint_word_of_int)
  have "read32 (write_bytes xs i (le32 v)) i = to_int32 (v div 256 ^ 0 mod 256 + 256 * (v div 256 ^ 1 mod 256)
      + 256 ^ 2 * (v div 256 ^ 2 mod 256) + 256 ^ 3 * (v div 256 ^ 3 mod 256))"
    using n [of 0] n [of 1] n [of 2] n [of 3] by (simp only: read32_def u add_0_right)
  also have "\<dots> = to_int32 (v mod 2 ^ 32)"
    using byte_sum [of v] by (simp only: power_0 power_one_right div_by_1)
  also have "\<dots> = to_int32 v"
    unfolding take_bit_eq_mod [symmetric] by (simp add: to_int32_def signed_take_bit_take_bit)
  finally show ?thesis .
qed

text \<open>The return slot at an address holds a pointer and a length.\<close>

definition slot_holds :: "'w js_state \<Rightarrow> int \<Rightarrow> int \<Rightarrow> int \<Rightarrow> bool" where
  "slot_holds s a ptr len \<longleftrightarrow>
     to_uint32 (read32 (mem s) (nat a)) = to_uint32 ptr \<and> to_uint32 (read32 (mem s) (nat a + 4)) = to_uint32 len"

lemma setInt32_run:
  "fits s a 4 \<Longrightarrow> setInt32 (buffer s) a v s = (Ret Undefined, s\<lparr>mem := write_bytes (mem s) (nat a) (le32 v)\<rparr>)"
  by (auto simp: setInt32_def fits_def)

lemma read32_frame:
  assumes "i + 4 \<le> length xs" "j + length bs \<le> length xs" "i + 4 \<le> j \<or> j + length bs \<le> i"
  shows "read32 (write_bytes xs j bs) i = read32 xs i"
proof -
  have "write_bytes xs j bs ! (i + k) = xs ! (i + k)" if "k < 4" for k
    using assms that by (auto simp: nth_write_bytes)
  from this [of 0] this [of 1] this [of 2] this [of 3] show ?thesis by (simp add: read32_def)
qed

definition slot_written :: "int \<Rightarrow> int \<Rightarrow> int \<Rightarrow> 'w js_state \<Rightarrow> 'w js_state" where
  "slot_written a ptr len s = s\<lparr>cachedDataViewMemory0 := Some (buffer s),
     mem := write_bytes (write_bytes (mem s) (nat (a + 4)) (le32 len)) (nat a) (le32 ptr)\<rparr>"

lemma write_ptr_len_run:
  assumes "fits s a 8"
  shows "write_ptr_len E (Num a) ptr len s = (Ret Undefined, slot_written a ptr len s)"
proof -
  let ?s = "s\<lparr>cachedDataViewMemory0 := Some (buffer s)\<rparr>"
  let ?t = "?s\<lparr>mem := write_bytes (mem s) (nat (a + 4)) (le32 len)\<rparr>"
  have "fits ?s (a + 4) 4" "fits ?t a 4" using assms by (auto simp: fits_def)
  moreover have "?t\<lparr>cachedDataViewMemory0 := Some (buffer ?t)\<rparr> = ?t" by simp
  then have "getDataViewMemory0 E ?t = (Ret (buffer s), ?t)" using getDataViewMemory0_run [of E ?t] by simp
  ultimately show ?thesis using setInt32_run [of ?s "a + 4" len] setInt32_run [of ?t a ptr]
      getDataViewMemory0_run [of E s]
    by (simp add: write_ptr_len_def js_let_Ret js_seq_Ret slot_written_def)
qed

lemma slot_written_holds:
  assumes "fits s a 8"
  shows "slot_holds (slot_written a ptr len s) a ptr len"
proof -
  have n: "nat (a + 4) = nat a + 4" "nat a + 8 \<le> length (mem s)" using assms by (auto simp: fits_def)
  show ?thesis using n
    by (simp add: slot_holds_def slot_written_def read32_le32 read32_frame)
qed

lemma slot_written_region:
  assumes "fits s a 8" "fits s p n" "outside (a, a + 8) p n"
  shows "region (slot_written a ptr len s) p n = region s p n"
proof (rule nth_equalityI)
  have n: "nat (a + 4) = nat a + 4" "nat a + 8 \<le> length (mem s)" using assms by (auto simp: fits_def)
  have f: "fits (slot_written a ptr len s) p n" using assms n by (simp add: fits_def slot_written_def)
  then show "length (region (slot_written a ptr len s) p n) = length (region s p n)" using assms by simp
  fix i assume "i < length (region (slot_written a ptr len s) p n)"
  then have i: "i < nat n" using f by simp
  then have "nat p + i < length (mem s)" "nat p + i < nat a \<or> nat a + 8 \<le> nat p + i"
    using assms by (auto simp: fits_def outside_def)
  then show "region (slot_written a ptr len s) p n ! i = region s p n ! i"
    unfolding region_nth [OF f i] region_nth [OF assms(2) i]
    using n by (auto simp: slot_written_def nth_write_bytes)
qed

text \<open>
  The contract of an import that returns a string: Rust finds in its return slot the address and the
  length of a block that holds the encoded string.
\<close>

definition string_returned :: "(js_val \<Rightarrow> bool) \<Rightarrow> u8 list \<Rightarrow> int \<Rightarrow> js_val outcome \<times> 'w js_state \<Rightarrow> bool" where
  "string_returned trap bs a res =
     (case res of
        (Ret v, s) \<Rightarrow> v = Undefined \<and> (\<exists>ptr. to_uint32 ptr = ptr \<and> slot_holds s a ptr (int (length bs))
             \<and> fits s ptr (int (length bs)) \<and> region s ptr (int (length bs)) = bs)
      | (Throw e, s) \<Rightarrow> trap e)"

context text_codec
begin

lemma ret_string_returned:
  assumes E: "text_encode E = enc" "encodeInto E = into"
    and m: "malloc_contract (a, a + 8) trap (wasm_malloc E)" and r: "realloc_contract (a, a + 8) trap (wasm_malloc E) (wasm_realloc E)"
    and f: "fits s a 8"
  shows "string_returned trap (enc t) a (ret_string E (Num a) (Str t) s)"
proof -
  let ?n = "int (length (enc t))"
  have c: "covers (a, a + 8) s" using f by (simp add: covers_def fits_def)
  have p: "passed (a, a + 8) trap (enc t) (passStringToWasm0 E t (wasm_malloc E) (Some (wasm_realloc E)) s)"
    by (rule pass_with_realloc [OF E m r c])
  show ?thesis
  proof (cases "passStringToWasm0 E t (wasm_malloc E) (Some (wasm_realloc E)) s")
    case (Pair o' s1)
    show ?thesis
    proof (cases o')
      case (Throw e)
      then show ?thesis using Pair p
        by (simp add: ret_string_def pass_value_def js_let_Throw string_returned_def passed_def)
    next
      case (Ret ptr)
      have q: "to_uint32 ptr = ptr" "WASM_VECTOR_LEN s1 = ?n" "fits s1 ptr ?n" "region s1 ptr ?n = enc t"
        "covers (a, a + 8) s1" "outside (a, a + 8) ptr ?n"
        using p Pair Ret by (simp_all add: passed_def)
      have f1: "fits s1 a 8" using f q(5) by (simp add: fits_def covers_def)
      have "ret_string E (Num a) (Str t) s = (Ret Undefined, slot_written a ptr ?n s1)"
        using Pair Ret q(2) write_ptr_len_run [OF f1]
        by (simp add: ret_string_def pass_value_def js_let_Ret)
      moreover have "fits (slot_written a ptr ?n s1) ptr ?n"
        using q(3) f1 by (auto simp: fits_def slot_written_def)
      ultimately show ?thesis
        using q(1,4) slot_written_holds [OF f1] slot_written_region [OF f1 q(3) q(6)]
        by (auto simp: string_returned_def)
    qed
  qed
qed

end

lemma ret_string_nullish: "isLikeNone v \<Longrightarrow> ret_string E a v s = (Throw TypeError, s)"
  by (auto simp: ret_string_def pass_value_def isLikeNone_def js_let_Throw)

lemma ret_opt_ref_run:
  "isLikeNone v \<Longrightarrow> ret_opt_ref E v s = (Ret (Num 0), s)"
  by (simp add: ret_opt_ref_def)

end
