(* ===== verification/Wasm_Init.thy ===== *)
theory Wasm_Init
  imports Js_Interop
begin

text \<open>
  Loading and instantiating a module: \<^verbatim>\<open>__wbg_load\<close>, \<^verbatim>\<open>__wbg_init_memory\<close>, \<^verbatim>\<open>__wbg_finalize_init\<close>,
  \<^verbatim>\<open>initSync\<close> and \<^verbatim>\<open>__wbg_init\<close> of \<^verbatim>\<open>src/crates/prophecy/dist/prophecy-e16c97ecc1556028.js\<close>, the older
  forms of \<^verbatim>\<open>src/examples/rattlegram/worklet/wasm-decoder.js\<close> and the newer ones of
  \<^verbatim>\<open>src/examples/wlan/dist/frontend-886c4e58df3ed73f.js\<close>. An \<^verbatim>\<open>await\<close> is a step of the host, which
  may run any other code of the page before it resumes. The import object is an argument; its
  contents are the import tables.
\<close>

section \<open>Helpers\<close>

definition js_typeof_global :: "'w js_env \<Rightarrow> string \<Rightarrow> 'w js_state \<Rightarrow> string" where
  "js_typeof_global E x s = (case host_global E x s of None \<Rightarrow> ''undefined'' | Some v \<Rightarrow> js_typeof E v s)"

text \<open>\<^verbatim>\<open>typeof C === 'function' && v instanceof C\<close>\<close>

definition is_a :: "'w js_env \<Rightarrow> js_val \<Rightarrow> string \<Rightarrow> ('w, bool) wjs" where
  "is_a E v c =
     js_let (js_gets (js_typeof_global E c)) (\<lambda>ty.
       if ty \<noteq> ''function'' then js_return False
       else js_let (js_global E c) (host_instanceof E v))"

text \<open>A member of the \<^verbatim>\<open>WebAssembly\<close> object.\<close>

definition webassembly :: "'w js_env \<Rightarrow> string \<Rightarrow> ('w, js_val) wjs" where
  "webassembly E p = js_let (js_global E ''WebAssembly'') (\<lambda>w. js_member E w p)"

definition instance_of :: "'w js_env \<Rightarrow> js_val \<Rightarrow> string \<Rightarrow> ('w, bool) wjs" where
  "instance_of E v p = js_let (webassembly E p) (host_instanceof E v)"

definition await :: "'w js_env \<Rightarrow> ('w, js_val) wjs \<Rightarrow> ('w, js_val) wjs" where
  "await E m = js_let m (host_await E)"

section \<open>Loading\<close>

text \<open>
  The \<^verbatim>\<open>try\<close> around \<^verbatim>\<open>instantiateStreaming\<close>: \<open>Some\<close> its result, or \<open>None\<close> when the script falls back to
  \<^verbatim>\<open>instantiate\<close> because of the content type.
\<close>

definition wrong_mime :: "'w js_env \<Rightarrow> js_val \<Rightarrow> ('w, bool) wjs" where
  "wrong_mime E module =
     js_let (js_member E module ''headers'') (\<lambda>h.
     js_let (js_method E h ''get'' [js_return (Str (js ''Content-Type''))]) (\<lambda>ct.
     js_return (ct \<noteq> Str (js ''application/wasm''))))"

text \<open>The warning of the fallback; the older module writes \<^verbatim>\<open>wasm\<close> where the others have \<^verbatim>\<open>Wasm\<close>.\<close>

definition mime_text :: "string \<Rightarrow> js_string" where
  "mime_text w = js (''`WebAssembly.instantiateStreaming` failed because your server does not serve '' @ w @
     '' with `application/wasm` MIME type. Falling back to `WebAssembly.instantiate` which is slower. Original error:'') @ [10]"

definition mime_warning :: js_string where
  "mime_warning = mime_text ''Wasm''"

definition mime_warning_old :: js_string where
  "mime_warning_old = mime_text ''wasm''"

definition load_streaming :: "'w js_env \<Rightarrow> js_string \<Rightarrow> js_val \<Rightarrow> js_val \<Rightarrow> ('w, js_val option) wjs" where
  "load_streaming E warning module imports =
     js_try_catch
       (js_let (await E (js_static E ''WebAssembly'' ''instantiateStreaming'' [js_return module, js_return imports]))
          (\<lambda>r. js_return (Some r)))
       (\<lambda>e. js_let (wrong_mime E module) (\<lambda>wrong.
          if wrong
          then js_seq (js_static E ''console'' ''warn'' [js_return (Str warning), js_return e]) (js_return None)
          else js_throw e))"

definition load_bytes :: "'w js_env \<Rightarrow> js_val \<Rightarrow> js_val \<Rightarrow> ('w, js_val) wjs" where
  "load_bytes E module imports =
     js_let (await E (js_method E module ''arrayBuffer'' [])) (\<lambda>bytes.
     await E (js_static E ''WebAssembly'' ''instantiate'' [js_return bytes, js_return imports]))"

text \<open>\<^verbatim>\<open>__wbg_load\<close>, over the \<^verbatim>\<open>try\<close> statement that a module has for the streaming case.\<close>

definition load_with ::
  "'w js_env \<Rightarrow> (js_val \<Rightarrow> js_val \<Rightarrow> ('w, js_val option) wjs) \<Rightarrow> js_val \<Rightarrow> js_val \<Rightarrow> ('w, js_val) wjs" where
  "load_with E streaming module imports =
     js_let (is_a E module ''Response'') (\<lambda>resp.
     if resp then
       js_let (webassembly E ''instantiateStreaming'') (\<lambda>f.
       js_let (js_gets (js_typeof E f)) (\<lambda>ty.
       js_let (if ty = ''function'' then streaming module imports else js_return None) (\<lambda>r.
       case r of Some v \<Rightarrow> js_return v | None \<Rightarrow> load_bytes E module imports)))
     else
       js_let (await E (js_static E ''WebAssembly'' ''instantiate'' [js_return module, js_return imports])) (\<lambda>inst.
       js_let (instance_of E inst ''Instance'') (\<lambda>b.
       if b then host_object E [(''instance'', inst), (''module'', module)] else js_return inst)))"

definition wbg_load :: "'w js_env \<Rightarrow> js_val \<Rightarrow> js_val \<Rightarrow> ('w, js_val) wjs" where
  "wbg_load E = load_with E (load_streaming E mime_warning)"

definition wbg_load_old :: "'w js_env \<Rightarrow> js_val \<Rightarrow> js_val \<Rightarrow> ('w, js_val) wjs" where
  "wbg_load_old E = load_with E (load_streaming E mime_warning_old)"

text \<open>
  The newer modules fall back only on a response that is a success and of an expected type
  (\<^verbatim>\<open>module.ok && expectedResponseType(module.type)\<close>).
\<close>

definition expectedResponseType :: "js_val \<Rightarrow> bool" where
  "expectedResponseType ty \<longleftrightarrow> ty \<in> set (map (\<lambda>t. Str (js t)) [''basic'', ''cors'', ''default''])"

definition validResponse :: "'w js_env \<Rightarrow> js_val \<Rightarrow> ('w, bool) wjs" where
  "validResponse E module =
     js_let (js_member E module ''ok'') (\<lambda>ok.
       if \<not> truthy ok then js_return False
       else js_let (js_member E module ''type'') (\<lambda>ty. js_return (expectedResponseType ty)))"

definition load_streaming_checked :: "'w js_env \<Rightarrow> js_val \<Rightarrow> js_val \<Rightarrow> ('w, js_val option) wjs" where
  "load_streaming_checked E module imports =
     js_try_catch
       (js_let (await E (js_static E ''WebAssembly'' ''instantiateStreaming'' [js_return module, js_return imports]))
          (\<lambda>r. js_return (Some r)))
       (\<lambda>e. js_let (validResponse E module) (\<lambda>valid.
          js_let (if valid then wrong_mime E module else js_return False) (\<lambda>fallback.
          if fallback
          then js_seq (js_static E ''console'' ''warn'' [js_return (Str mime_warning), js_return e]) (js_return None)
          else js_throw e)))"

definition wbg_load_checked :: "'w js_env \<Rightarrow> js_val \<Rightarrow> js_val \<Rightarrow> ('w, js_val) wjs" where
  "wbg_load_checked E = load_with E (load_streaming_checked E)"

section \<open>Instantiating\<close>

text \<open>\<^verbatim>\<open>imports.wbg.memory = memory || new WebAssembly.Memory({initial:512,maximum:65536})\<close>\<close>

definition memory_or_new :: "'w js_env \<Rightarrow> js_val \<Rightarrow> ('w, js_val) wjs" where
  "memory_or_new E memory =
     (if truthy memory then js_return memory
      else js_let (webassembly E ''Memory'') (\<lambda>k.
           js_let (host_object E [(''initial'', Num 512), (''maximum'', Num 65536)]) (\<lambda>d.
           host_construct E k [d])))"

definition wbg_init_memory :: "'w js_env \<Rightarrow> js_val \<Rightarrow> js_val \<Rightarrow> ('w, js_val) wjs" where
  "wbg_init_memory E imports memory =
     js_let (js_member E imports ''wbg'') (\<lambda>w. js_assign E w ''memory'' (memory_or_new E memory))"

text \<open>
  The cached views. A module declares those it uses and its \<^verbatim>\<open>__wbg_finalize_init\<close> clears them, here the
  list \<open>cs\<close> of the module.
\<close>

datatype cache = Uint8_view | Int32_view | Float32_view | Uint16_view | Uint32_view | Data_view

fun cached :: "cache \<Rightarrow> 'w js_state \<Rightarrow> nat option" where
  "cached Uint8_view s = cachedUint8Memory0 s"
| "cached Int32_view s = cachedInt32Memory0 s"
| "cached Float32_view s = cachedFloat32Memory0 s"
| "cached Uint16_view s = cachedUint16Memory0 s"
| "cached Uint32_view s = cachedUint32Memory0 s"
| "cached Data_view s = cachedDataViewMemory0 s"

fun clear_cache :: "cache \<Rightarrow> 'w js_state \<Rightarrow> 'w js_state" where
  "clear_cache Uint8_view s = s\<lparr>cachedUint8Memory0 := None\<rparr>"
| "clear_cache Int32_view s = s\<lparr>cachedInt32Memory0 := None\<rparr>"
| "clear_cache Float32_view s = s\<lparr>cachedFloat32Memory0 := None\<rparr>"
| "clear_cache Uint16_view s = s\<lparr>cachedUint16Memory0 := None\<rparr>"
| "clear_cache Uint32_view s = s\<lparr>cachedUint32Memory0 := None\<rparr>"
| "clear_cache Data_view s = s\<lparr>cachedDataViewMemory0 := None\<rparr>"

definition clear_caches :: "cache list \<Rightarrow> 'w js_state \<Rightarrow> 'w js_state" where
  "clear_caches cs = fold clear_cache cs"

definition wbg_finalize_init :: "'w js_env \<Rightarrow> cache list \<Rightarrow> js_val \<Rightarrow> js_val \<Rightarrow> ('w, js_val) wjs" where
  "wbg_finalize_init E cs inst module =
     js_let (js_member E inst ''exports'') (\<lambda>ex.
     js_seq (js_modify (\<lambda>s. s\<lparr>wasm := ex\<rparr>))
     (js_seq (js_modify (\<lambda>s. s\<lparr>wasm_module := module\<rparr>))
     (js_seq (js_modify (clear_caches cs))
     (js_seq (wasm_call E ''__wbindgen_start'' [])
     (js_gets wasm)))))"

text \<open>The module's own \<^verbatim>\<open>__wbg_finalize_init\<close> and \<^verbatim>\<open>__wbg_load\<close> are arguments of what calls them.\<close>

type_synonym 'w two_values = "js_val \<Rightarrow> js_val \<Rightarrow> ('w, js_val) wjs"

definition instantiate_sync :: "'w js_env \<Rightarrow> 'w two_values \<Rightarrow> js_val \<Rightarrow> js_val \<Rightarrow> ('w, js_val) wjs" where
  "instantiate_sync E fin imports module =
     js_let (js_let (instance_of E module ''Module'') (\<lambda>b.
       if b then js_return module else js_let (webassembly E ''Module'') (\<lambda>k. host_construct E k [module]))) (\<lambda>module.
     js_let (js_let (webassembly E ''Instance'') (\<lambda>k. host_construct E k [module, imports])) (\<lambda>inst.
     fin inst module))"

text \<open>
  The arguments of the newer modules: one object with both values, or (deprecated, with a warning) the
  two values themselves.
\<close>

definition init_args :: "'w js_env \<Rightarrow> string \<Rightarrow> string \<Rightarrow> js_val \<Rightarrow> js_val \<Rightarrow> ('w, js_val \<times> js_val) wjs" where
  "init_args E key what arg memory =
     (if arg = Undefined then js_return (arg, memory)
      else
        js_let (js_static E ''Object'' ''getPrototypeOf'' [js_return arg]) (\<lambda>p.
        js_let (js_let (js_global E ''Object'') (\<lambda>ob. js_member E ob ''prototype'')) (\<lambda>q.
        if p = q then
          js_let (js_member E arg key) (\<lambda>m.
          js_let (js_member E arg ''memory'') (\<lambda>memory. js_return (m, memory)))
        else
          js_seq (js_static E ''console'' ''warn'' [js_return (Str (js (''using deprecated parameters for '' @ what @
             ''; pass a single object instead'')))])
          (js_return (arg, memory)))))"

definition initSync :: "'w js_env \<Rightarrow> 'w two_values \<Rightarrow> js_val \<Rightarrow> js_val \<Rightarrow> js_val \<Rightarrow> ('w, js_val) wjs" where
  "initSync E fin imports module memory =
     js_let (js_gets wasm) (\<lambda>w.
     if w \<noteq> Undefined then js_return w
     else
       js_let (init_args E ''module'' ''`initSync()`'' module memory) (\<lambda>(module, memory).
       js_seq (wbg_init_memory E imports memory)
       (instantiate_sync E fin imports module)))"

definition fetch_if_url :: "'w js_env \<Rightarrow> js_val \<Rightarrow> ('w, js_val) wjs" where
  "fetch_if_url E input =
     js_let (js_gets (js_typeof E input)) (\<lambda>ty.
     js_let (if ty = ''string'' then js_return True else
             js_let (is_a E input ''Request'') (\<lambda>r. if r then js_return True else is_a E input ''URL'')) (\<lambda>url.
     if url then js_call E ''fetch'' [js_return input] else js_return input))"

text \<open>
  \<^verbatim>\<open>const { instance, module } = await __wbg_load(await input, imports); return __wbg_finalize_init(instance, module);\<close>
\<close>

definition load_and_finalize ::
  "'w js_env \<Rightarrow> 'w two_values \<Rightarrow> 'w two_values \<Rightarrow> js_val \<Rightarrow> js_val \<Rightarrow> ('w, js_val) wjs" where
  "load_and_finalize E load fin input imports =
     js_let (host_await E input) (\<lambda>m.
     js_let (load m imports) (\<lambda>r.
     js_let (js_member E r ''instance'') (\<lambda>inst.
     js_let (js_member E r ''module'') (\<lambda>module.
     fin inst module))))"

text \<open>\<^verbatim>\<open>new URL('..._bg.wasm', import.meta.url)\<close>; \<open>base\<close> is \<^verbatim>\<open>import.meta.url\<close>.\<close>

definition bg_url :: "'w js_env \<Rightarrow> string \<Rightarrow> js_val \<Rightarrow> ('w, js_val) wjs" where
  "bg_url E name base = js_new E ''URL'' [js_return (Str (js name)), js_return base]"

definition wbg_init ::
  "'w js_env \<Rightarrow> 'w two_values \<Rightarrow> 'w two_values \<Rightarrow> js_val \<Rightarrow> ('w, js_val) wjs \<Rightarrow> 'w two_values" where
  "wbg_init E load fin imports url module_or_path memory =
     js_let (js_gets wasm) (\<lambda>w.
     if w \<noteq> Undefined then js_return w
     else
       js_let (init_args E ''module_or_path'' ''the initialization function'' module_or_path memory) (\<lambda>(input, memory).
       js_let (if input = Undefined then url else js_return input) (\<lambda>input.
       js_let (fetch_if_url E input) (\<lambda>input.
       js_seq (wbg_init_memory E imports memory)
       (load_and_finalize E load fin input imports)))))"

text \<open>The older forms, without the argument object.\<close>

definition initSync_old :: "'w js_env \<Rightarrow> 'w two_values \<Rightarrow> js_val \<Rightarrow> 'w two_values" where
  "initSync_old E fin imports module maybe_memory =
     js_let (js_gets wasm) (\<lambda>w.
     if w \<noteq> Undefined then js_return w
     else js_seq (wbg_init_memory E imports maybe_memory) (instantiate_sync E fin imports module))"

definition wbg_init_old ::
  "'w js_env \<Rightarrow> 'w two_values \<Rightarrow> 'w two_values \<Rightarrow> js_val \<Rightarrow> ('w, js_val) wjs \<Rightarrow> 'w two_values" where
  "wbg_init_old E load fin imports url input maybe_memory =
     js_let (js_gets wasm) (\<lambda>w.
     if w \<noteq> Undefined then js_return w
     else
       js_let (if input = Undefined then url else js_return input) (\<lambda>input.
       js_let (fetch_if_url E input) (\<lambda>input.
       js_seq (wbg_init_memory E imports maybe_memory)
       (load_and_finalize E load fin input imports))))"

text \<open>
  The newer forms: \<^verbatim>\<open>__wbg_get_imports(memory)\<close> evaluates the memory itself when it builds the import object,
  here \<open>build\<close> applied to it.
\<close>

definition initSync_new :: "'w js_env \<Rightarrow> 'w two_values \<Rightarrow> (js_val \<Rightarrow> ('w, js_val) wjs) \<Rightarrow> 'w two_values" where
  "initSync_new E fin build module memory =
     js_let (js_gets wasm) (\<lambda>w.
     if w \<noteq> Undefined then js_return w
     else
       js_let (init_args E ''module'' ''`initSync()`'' module memory) (\<lambda>(module, memory).
       js_let (js_let (memory_or_new E memory) build) (\<lambda>imports.
       instantiate_sync E fin imports module)))"

definition wbg_init_new ::
  "'w js_env \<Rightarrow> 'w two_values \<Rightarrow> 'w two_values \<Rightarrow> (js_val \<Rightarrow> ('w, js_val) wjs) \<Rightarrow> ('w, js_val) wjs \<Rightarrow> 'w two_values" where
  "wbg_init_new E load fin build url module_or_path memory =
     js_let (js_gets wasm) (\<lambda>w.
     if w \<noteq> Undefined then js_return w
     else
       js_let (init_args E ''module_or_path'' ''the initialization function'' module_or_path memory) (\<lambda>(input, memory).
       js_let (if input = Undefined then url else js_return input) (\<lambda>input.
       js_let (js_let (memory_or_new E memory) build) (\<lambda>imports.
       js_let (fetch_if_url E input) (\<lambda>input.
       load_and_finalize E load fin input imports)))))"

section \<open>Lemmas\<close>

text \<open>The start function of the module runs on the new exports, with the module's cached views dropped.\<close>

lemma finalize_run:
  assumes "\<not> isLikeNone inst" "host_get E inst ''exports'' s = (Ret ex, t)"
  shows "wbg_finalize_init E cs inst module s =
    js_seq (wasm_call E ''__wbindgen_start'' []) (js_gets wasm) (clear_caches cs (t\<lparr>wasm := ex, wasm_module := module\<rparr>))"
  using assms by (simp add: wbg_finalize_init_def js_member_def js_let_Ret js_seq_Ret)

lemma cached_clear_cache: "cached c (clear_cache d s) = (if c = d then None else cached c s)"
  by (cases c; cases d) simp_all

lemma cached_clear_caches: "cached c (clear_caches cs s) = (if c \<in> set cs then None else cached c s)"
  by (induction cs arbitrary: s) (auto simp: clear_caches_def cached_clear_cache)

lemma wasm_clear_cache [simp]: "wasm (clear_cache c s) = wasm s"
  by (cases c) simp_all

lemma wasm_clear_caches [simp]: "wasm (clear_caches cs s) = wasm s"
  by (induction cs arbitrary: s) (simp_all add: clear_caches_def)

subsection \<open>An entry point returns the exports\<close>

definition returns_wasm :: "('w, js_val) wjs \<Rightarrow> bool" where
  "returns_wasm m \<longleftrightarrow> (\<forall>s v t. m s = (Ret v, t) \<longrightarrow> v = wasm t)"

lemma returns_wasm_let: "(\<And>v. returns_wasm (f v)) \<Longrightarrow> returns_wasm (js_let m f)"
  unfolding returns_wasm_def by (blast elim: js_let_RetE)

lemma returns_wasm_seq: "returns_wasm n \<Longrightarrow> returns_wasm (js_seq m n)"
  unfolding returns_wasm_def by (blast elim: js_seq_RetE)

lemma returns_wasm_gets: "returns_wasm (js_gets wasm)"
  by (simp add: returns_wasm_def)

lemma returns_wasm_split: "(\<And>a b. returns_wasm (f a b)) \<Longrightarrow> returns_wasm (case p of (a, b) \<Rightarrow> f a b)"
  by (cases p) simp

text \<open>\<^verbatim>\<open>if (wasm !== undefined) return wasm;\<close>\<close>

lemma returns_wasm_guard:
  assumes "returns_wasm n"
  shows "returns_wasm (js_let (js_gets wasm) (\<lambda>w. if w \<noteq> Undefined then js_return w else n))"
  using assms by (auto simp: returns_wasm_def elim!: js_let_RetE split: if_splits)

lemmas returns_wasm_intros = returns_wasm_guard returns_wasm_let returns_wasm_seq returns_wasm_gets returns_wasm_split

lemma finalize_returns_wasm: "returns_wasm (wbg_finalize_init E cs inst m)"
  unfolding wbg_finalize_init_def by (intro returns_wasm_intros)

lemma instantiate_returns_wasm: "(\<And>a b. returns_wasm (fin a b)) \<Longrightarrow> returns_wasm (instantiate_sync E fin imports m)"
  unfolding instantiate_sync_def by (intro returns_wasm_intros)

lemma load_returns_wasm: "(\<And>a b. returns_wasm (fin a b)) \<Longrightarrow> returns_wasm (load_and_finalize E load fin input imports)"
  unfolding load_and_finalize_def by (intro returns_wasm_intros)

lemma entries_return_wasm:
  assumes "\<And>a b. returns_wasm (fin a b)"
  shows "returns_wasm (initSync E fin imports m memory)"
    "returns_wasm (wbg_init E load fin imports url m memory)"
    "returns_wasm (initSync_old E fin imports m memory)"
    "returns_wasm (wbg_init_old E load fin imports url m memory)"
    "returns_wasm (initSync_new E fin build m memory)"
    "returns_wasm (wbg_init_new E load fin build url m memory)"
  unfolding initSync_def wbg_init_def initSync_old_def wbg_init_old_def initSync_new_def wbg_init_new_def
  by (intro returns_wasm_intros instantiate_returns_wasm load_returns_wasm assms)+

lemma entries_return_early:
  assumes "wasm s \<noteq> Undefined"
  shows "initSync E fin imports m memory s = (Ret (wasm s), s)"
    "wbg_init E load fin imports url m memory s = (Ret (wasm s), s)"
    "initSync_old E fin imports m memory s = (Ret (wasm s), s)"
    "wbg_init_old E load fin imports url m memory s = (Ret (wasm s), s)"
    "initSync_new E fin build m memory s = (Ret (wasm s), s)"
    "wbg_init_new E load fin build url m memory s = (Ret (wasm s), s)"
  using assms
  by (simp_all add: initSync_def wbg_init_def initSync_old_def wbg_init_old_def initSync_new_def wbg_init_new_def
      js_let_Ret [OF js_gets_run])

subsection \<open>A failing initialisation\<close>

text \<open>Code that leaves the variable \<^verbatim>\<open>wasm\<close> alone, and a browser that does.\<close>

definition keeps_wasm :: "('w, 'a) wjs \<Rightarrow> bool" where
  "keeps_wasm m \<longleftrightarrow> (\<forall>s. wasm (snd (m s)) = wasm s)"

definition host_frame :: "'w js_env \<Rightarrow> bool" where
  "host_frame E \<longleftrightarrow> (\<forall>x p v xs n. keeps_wasm (host_get E x p) \<and> keeps_wasm (host_set E x p v) \<and>
     keeps_wasm (host_apply E x v xs) \<and> keeps_wasm (host_construct E x xs) \<and> keeps_wasm (host_instanceof E x v) \<and>
     keeps_wasm (host_object E n) \<and> keeps_wasm (host_await E x) \<and> keeps_wasm (wasm_call E p xs))"

lemma host_frameD:
  assumes "host_frame E"
  shows "keeps_wasm (host_get E x p)" "keeps_wasm (host_set E x p v)" "keeps_wasm (host_apply E x v xs)"
    "keeps_wasm (host_construct E x xs)" "keeps_wasm (host_instanceof E x v)" "keeps_wasm (host_object E n)"
    "keeps_wasm (host_await E x)" "keeps_wasm (wasm_call E p xs)"
  using assms unfolding host_frame_def by blast+

lemma keeps_wasm_let: "keeps_wasm m \<Longrightarrow> (\<And>v. keeps_wasm (f v)) \<Longrightarrow> keeps_wasm (js_let m f)"
  unfolding keeps_wasm_def js_let_def by (auto split: prod.splits outcome.splits) (metis snd_conv)+

lemma keeps_wasm_catch: "keeps_wasm m \<Longrightarrow> (\<And>e. keeps_wasm (h e)) \<Longrightarrow> keeps_wasm (js_try_catch m h)"
  unfolding keeps_wasm_def js_try_catch_def by (auto split: prod.splits outcome.splits) (metis snd_conv)+

lemma keeps_wasm_local:
  "keeps_wasm (js_return v)" "keeps_wasm (js_throw e)" "keeps_wasm (js_gets g)" "keeps_wasm (js_global E x)"
  by (simp_all add: keeps_wasm_def js_global_def split: option.splits)

lemma keeps_wasm_seq: "keeps_wasm m \<Longrightarrow> keeps_wasm n \<Longrightarrow> keeps_wasm (js_seq m n)"
  unfolding js_seq_def by (rule keeps_wasm_let)

lemma keeps_wasm_split: "(\<And>a b. keeps_wasm (f a b)) \<Longrightarrow> keeps_wasm (case p of (a, b) \<Rightarrow> f a b)"
  by (cases p) simp

lemma keeps_wasm_if: "keeps_wasm m \<Longrightarrow> keeps_wasm n \<Longrightarrow> keeps_wasm (if b then m else n)"
  by simp

lemma keeps_wasm_option: "keeps_wasm m \<Longrightarrow> (\<And>x. keeps_wasm (f x)) \<Longrightarrow> keeps_wasm (case r of None \<Rightarrow> m | Some x \<Rightarrow> f x)"
  by (cases r) simp_all

lemma keeps_wasm_args: "(\<And>m. m \<in> set ms \<Longrightarrow> keeps_wasm m) \<Longrightarrow> keeps_wasm (js_args ms)"
  by (induction ms) (auto intro!: keeps_wasm_let keeps_wasm_local)

lemmas keeps_wasm_intros = keeps_wasm_let keeps_wasm_seq keeps_wasm_catch keeps_wasm_if keeps_wasm_split
  keeps_wasm_option keeps_wasm_local

lemma keeps_wasm_calls:
  assumes "host_frame E"
  shows "keeps_wasm (js_member E x p)"
    "(\<And>m. m \<in> set ms \<Longrightarrow> keeps_wasm m) \<Longrightarrow> keeps_wasm (js_method E x p ms)"
    "(\<And>m. m \<in> set ms \<Longrightarrow> keeps_wasm m) \<Longrightarrow> keeps_wasm (js_static E c p ms)"
    "(\<And>m. m \<in> set ms \<Longrightarrow> keeps_wasm m) \<Longrightarrow> keeps_wasm (js_call E c ms)"
    "(\<And>m. m \<in> set ms \<Longrightarrow> keeps_wasm m) \<Longrightarrow> keeps_wasm (js_new E c ms)"
  unfolding js_static_def js_method_def js_member_def js_call_def js_new_def
  by (intro keeps_wasm_intros keeps_wasm_args host_frameD [OF assms]; assumption)+

lemma keeps_wasm_load:
  assumes "host_frame E"
  shows "keeps_wasm (load_with E (load_streaming E w) m imports)" "keeps_wasm (load_with E (load_streaming_checked E) m imports)"
  unfolding load_with_def load_streaming_def load_streaming_checked_def load_bytes_def wrong_mime_def validResponse_def
    is_a_def webassembly_def instance_of_def await_def
  by (intro keeps_wasm_intros keeps_wasm_calls [OF assms] host_frameD [OF assms]; auto simp: keeps_wasm_local)+

text \<open>
  An initialisation that throws leaves \<^verbatim>\<open>wasm\<close> as it was, except when the exports were already set and the
  start function of the module threw.
\<close>

definition start_failed :: "'w js_env \<Rightarrow> js_val \<Rightarrow> 'w js_state \<Rightarrow> bool" where
  "start_failed E e t \<longleftrightarrow> (\<exists>u. wasm_call E ''__wbindgen_start'' [] u = (Throw e, t) \<and> wasm u = wasm t)"

definition fails_clean :: "'w js_env \<Rightarrow> ('w, js_val) wjs \<Rightarrow> bool" where
  "fails_clean E m \<longleftrightarrow> (\<forall>s e t. m s = (Throw e, t) \<longrightarrow> wasm t = wasm s \<or> start_failed E e t)"

lemma fails_clean_keeps: "keeps_wasm m \<Longrightarrow> fails_clean E m"
  unfolding fails_clean_def keeps_wasm_def by (metis snd_conv)

lemma fails_clean_let:
  assumes "keeps_wasm m" "\<And>v. fails_clean E (f v)"
  shows "fails_clean E (js_let m f)"
  unfolding fails_clean_def
proof (intro allI impI)
  fix s e t assume run: "js_let m f s = (Throw e, t)"
  obtain r u where m: "m s = (r, u)" by fastforce
  have w: "wasm u = wasm s" using assms(1) m unfolding keeps_wasm_def by (metis snd_conv)
  show "wasm t = wasm s \<or> start_failed E e t"
  proof (cases r)
    case (Ret v)
    then have "f v u = (Throw e, t)" using run m by (simp add: js_let_Ret)
    then show ?thesis using assms(2) [of v] w unfolding fails_clean_def by fastforce
  next
    case (Throw x)
    then show ?thesis using run m w by (simp add: js_let_Throw)
  qed
qed

lemma fails_clean_seq: "keeps_wasm m \<Longrightarrow> fails_clean E n \<Longrightarrow> fails_clean E (js_seq m n)"
  unfolding js_seq_def by (rule fails_clean_let)

lemma fails_clean_if: "fails_clean E m \<Longrightarrow> fails_clean E n \<Longrightarrow> fails_clean E (if b then m else n)"
  by simp

lemma fails_clean_split: "(\<And>a b. fails_clean E (f a b)) \<Longrightarrow> fails_clean E (case p of (a, b) \<Rightarrow> f a b)"
  by (cases p) simp

lemmas fails_clean_intros = fails_clean_let fails_clean_seq fails_clean_if fails_clean_split

lemma finalize_fails_clean:
  fixes E :: "'w js_env"
  assumes "host_frame E"
  shows "fails_clean E (wbg_finalize_init E cs inst m)"
  unfolding wbg_finalize_init_def
proof (intro fails_clean_let keeps_wasm_calls [OF assms])
  fix ex
  show "fails_clean E (js_seq (js_modify (\<lambda>s. s\<lparr>wasm := ex\<rparr>)) (js_seq (js_modify (\<lambda>s. s\<lparr>wasm_module := m\<rparr>))
    (js_seq (js_modify (clear_caches cs)) (js_seq (wasm_call E ''__wbindgen_start'' []) (js_gets wasm)))))"
    unfolding fails_clean_def
  proof (intro allI impI)
    fix s t :: "'w js_state" and e
    let ?u = "clear_caches cs (s\<lparr>wasm := ex, wasm_module := m\<rparr>)"
    assume "js_seq (js_modify (\<lambda>s. s\<lparr>wasm := ex\<rparr>)) (js_seq (js_modify (\<lambda>s. s\<lparr>wasm_module := m\<rparr>))
      (js_seq (js_modify (clear_caches cs)) (js_seq (wasm_call E ''__wbindgen_start'' []) (js_gets wasm)))) s = (Throw e, t)"
    then have "wasm_call E ''__wbindgen_start'' [] ?u = (Throw e, t)"
      by (simp add: js_seq_def js_let_def split: prod.splits outcome.splits)
    moreover have "wasm t = wasm ?u"
      using host_frameD(8) [OF assms, of "''__wbindgen_start''" "[]"] calculation unfolding keeps_wasm_def by (metis snd_conv)
    ultimately show "wasm t = wasm s \<or> start_failed E e t" unfolding start_failed_def by metis
  qed
qed

lemma instantiate_fails_clean:
  "host_frame E \<Longrightarrow> (\<And>a b. fails_clean E (fin a b)) \<Longrightarrow> fails_clean E (instantiate_sync E fin imports m)"
  unfolding instantiate_sync_def webassembly_def instance_of_def
  by (intro fails_clean_intros keeps_wasm_intros keeps_wasm_calls host_frameD)

lemma load_fails_clean:
  "host_frame E \<Longrightarrow> (\<And>a b. keeps_wasm (load a b)) \<Longrightarrow> (\<And>a b. fails_clean E (fin a b)) \<Longrightarrow>
   fails_clean E (load_and_finalize E load fin input imports)"
  unfolding load_and_finalize_def by (intro fails_clean_intros keeps_wasm_calls host_frameD)

lemma keeps_wasm_setup:
  assumes "host_frame E"
  shows "keeps_wasm (memory_or_new E memory)" "keeps_wasm (wbg_init_memory E imports memory)"
    "keeps_wasm (init_args E key what arg memory)" "keeps_wasm (fetch_if_url E input)" "keeps_wasm (bg_url E name base)"
  unfolding memory_or_new_def wbg_init_memory_def init_args_def fetch_if_url_def webassembly_def is_a_def js_assign_def bg_url_def
  by (intro keeps_wasm_intros keeps_wasm_calls [OF assms] host_frameD [OF assms]; auto simp: keeps_wasm_local)+

lemma entries_fail_clean:
  assumes "host_frame E" "\<And>a b. fails_clean E (fin a b)" "\<And>a b. keeps_wasm (load a b)" "keeps_wasm url"
    "\<And>v. keeps_wasm (build v)"
  shows "fails_clean E (initSync E fin imports m memory)"
    "fails_clean E (wbg_init E load fin imports url m memory)"
    "fails_clean E (initSync_old E fin imports m memory)"
    "fails_clean E (wbg_init_old E load fin imports url m memory)"
    "fails_clean E (initSync_new E fin build m memory)"
    "fails_clean E (wbg_init_new E load fin build url m memory)"
  unfolding initSync_def wbg_init_def initSync_old_def wbg_init_old_def initSync_new_def wbg_init_new_def
  by (intro fails_clean_intros fails_clean_keeps keeps_wasm_intros keeps_wasm_setup instantiate_fails_clean load_fails_clean assms)+

subsection \<open>A successful initialisation\<close>

text \<open>When every instance has an object of exports, a module that was initialised has them.\<close>

definition has_exports :: "'w js_env \<Rightarrow> bool" where
  "has_exports E \<longleftrightarrow> (\<forall>inst s v t. host_get E inst ''exports'' s = (Ret v, t) \<longrightarrow> v \<noteq> Undefined)"

definition sets_wasm :: "('w, js_val) wjs \<Rightarrow> bool" where
  "sets_wasm m \<longleftrightarrow> (\<forall>s v t. m s = (Ret v, t) \<longrightarrow> wasm t \<noteq> Undefined)"

lemma sets_wasm_let: "(\<And>v. sets_wasm (f v)) \<Longrightarrow> sets_wasm (js_let m f)"
  unfolding sets_wasm_def by (blast elim: js_let_RetE)

lemma sets_wasm_seq: "sets_wasm n \<Longrightarrow> sets_wasm (js_seq m n)"
  unfolding sets_wasm_def by (blast elim: js_seq_RetE)

lemma sets_wasm_guard:
  assumes "sets_wasm n"
  shows "sets_wasm (js_let (js_gets wasm) (\<lambda>w. if w \<noteq> Undefined then js_return w else n))"
  using assms by (auto simp: sets_wasm_def elim!: js_let_RetE split: if_splits)

lemma finalize_sets_wasm:
  fixes E :: "'w js_env"
  assumes "host_frame E" "has_exports E"
  shows "sets_wasm (wbg_finalize_init E cs inst m)"
  unfolding sets_wasm_def
proof (intro allI impI)
  fix s t :: "'w js_state" and v
  assume "wbg_finalize_init E cs inst m s = (Ret v, t)"
  then obtain ex u x where u: "js_member E inst ''exports'' s = (Ret ex, u)"
    "wasm_call E ''__wbindgen_start'' [] (clear_caches cs (u\<lparr>wasm := ex, wasm_module := m\<rparr>)) = (Ret x, t)"
    by (auto simp: wbg_finalize_init_def elim!: js_let_RetE js_seq_RetE)
  have "ex \<noteq> Undefined" using u(1) assms(2) by (auto simp: js_member_def has_exports_def split: if_splits)
  moreover have "wasm t = wasm (clear_caches cs (u\<lparr>wasm := ex, wasm_module := m\<rparr>))"
    using u(2) host_frameD(8) [OF assms(1), of "''__wbindgen_start''" "[]"] unfolding keeps_wasm_def by (metis snd_conv)
  ultimately show "wasm t \<noteq> Undefined" by simp
qed

lemma init_old_sets_wasm:
  assumes "\<And>a b. sets_wasm (fin a b)"
  shows "sets_wasm (wbg_init_old E load fin imports url m memory)"
  unfolding wbg_init_old_def load_and_finalize_def by (intro sets_wasm_guard sets_wasm_let sets_wasm_seq assms)

section \<open>The entry points as an interface\<close>

text \<open>
  What a page may rely on: both entry points of a module return its exports, and once these are there
  neither does anything but return them. The modules are interpreted in \<^verbatim>\<open>Glue_Modules\<close>.
\<close>

locale glue_entry =
  fixes sync :: "'w two_values" and async :: "'w two_values"
  assumes sync_early: "wasm s \<noteq> Undefined \<Longrightarrow> sync m memory s = (Ret (wasm s), s)"
    and async_early: "wasm s \<noteq> Undefined \<Longrightarrow> async m memory s = (Ret (wasm s), s)"
    and sync_returns: "returns_wasm (sync m memory)"
    and async_returns: "returns_wasm (async m memory)"
begin

lemma once:
  assumes "sync m memory s = (Ret v, t) \<or> async m memory s = (Ret v, t)" "v \<noteq> Undefined"
  shows "sync m' memory' t = (Ret v, t)" "async m' memory' t = (Ret v, t)"
proof -
  have "v = wasm t" using assms(1) sync_returns async_returns unfolding returns_wasm_def by blast
  then show "sync m' memory' t = (Ret v, t)" "async m' memory' t = (Ret v, t)"
    using assms(2) sync_early async_early by simp_all
qed

lemma retry_after_failed_start:
  assumes "fails_clean E (sync m memory)" "fails_clean E (async m memory)"
    and "sync m memory s = (Throw e, t) \<or> async m memory s = (Throw e, t)" "wasm s = Undefined"
  shows "wasm t = Undefined \<or> start_failed E e t \<and> sync m' memory' t = (Ret (wasm t), t)
    \<and> async m' memory' t = (Ret (wasm t), t)"
  using assms sync_early [of t] async_early [of t] unfolding fails_clean_def by metis

end

section \<open>The fallback to \<open>instantiate\<close>\<close>

lemma load_streaming_Ret:
  "await E (js_static E ''WebAssembly'' ''instantiateStreaming'' [js_return module, js_return imports]) s = (Ret v, t)
   \<Longrightarrow> load_streaming E warning module imports s = (Ret (Some v), t)"
  by (simp add: load_streaming_def js_try_catch_Ret js_let_Ret)

lemma load_streaming_Throw:
  assumes "await E (js_static E ''WebAssembly'' ''instantiateStreaming'' [js_return module, js_return imports]) s = (Throw e, t)"
    and "wrong_mime E module t = (Ret wrong, u)"
  shows "load_streaming E warning module imports s =
    (if wrong
     then js_seq (js_static E ''console'' ''warn'' [js_return (Str warning), js_return e]) (js_return None) u
     else (Throw e, u))"
  using assms by (simp add: load_streaming_def js_try_catch_Throw js_let_Throw js_let_Ret)

lemma load_streaming_checked_Throw:
  assumes "await E (js_static E ''WebAssembly'' ''instantiateStreaming'' [js_return module, js_return imports]) s = (Throw e, t)"
    and "validResponse E module t = (Ret valid, u)"
    and "(if valid then wrong_mime E module else js_return False) u = (Ret fallback, v)"
  shows "load_streaming_checked E module imports s =
    (if fallback
     then js_seq (js_static E ''console'' ''warn'' [js_return (Str mime_warning), js_return e]) (js_return None) v
     else (Throw e, v))"
  using assms by (simp add: load_streaming_checked_def js_try_catch_Throw js_let_Throw js_let_Ret)

end
