(* ===== verification/Closures.thy ===== *)
theory Closures
  imports Js_Interop
begin

text \<open>
  Rust closures handed to JavaScript: \<^verbatim>\<open>makeMutClosure\<close>, the function object \<^verbatim>\<open>real\<close> it returns and the
  release of the Rust side, in the two forms the generated modules have. In the first
  (\<^verbatim>\<open>prophecy\<close>, \<^verbatim>\<open>spectrum\<close>, \<^verbatim>\<open>wlan-swap\<close>, \<^verbatim>\<open>wgpu\<close>) Rust lets go of a closure through
  \<^verbatim>\<open>__wbindgen_cb_drop\<close>; in the second (\<^verbatim>\<open>wlan\<close>, \<^verbatim>\<open>wlan_debug\<close>) through \<^verbatim>\<open>_wbg_cb_unref\<close>. A transition
  system over any nesting of calls shows that the Rust closure is released exactly once, and never
  while it runs.
\<close>

section \<open>The operations on the shared state object\<close>

text \<open>Entering \<^verbatim>\<open>real\<close>: \<^verbatim>\<open>state.cnt++; const a = state.a; state.a = 0;\<close>\<close>

definition closure_enter :: "closure \<Rightarrow> int \<times> closure" where
  "closure_enter c = (clo_a c, c\<lparr>clo_cnt := clo_cnt c + 1, clo_a := 0\<rparr>)"

text \<open>Leaving \<^verbatim>\<open>real\<close>, first form: the arguments of the destructor call, if one is made.\<close>

definition closure_exit :: "closure \<Rightarrow> int \<Rightarrow> (int \<times> int) option \<times> closure" where
  "closure_exit c a =
     (if clo_cnt c - 1 = 0 then (Some (a, clo_b c), c\<lparr>clo_cnt := clo_cnt c - 1\<rparr>)
      else (None, c\<lparr>clo_cnt := clo_cnt c - 1, clo_a := a\<rparr>))"

text \<open>\<^verbatim>\<open>__wbindgen_cb_drop\<close>: true tells Rust to free the closure itself.\<close>

definition cb_drop :: "closure \<Rightarrow> bool \<times> closure" where
  "cb_drop c =
     (if clo_cnt c = 1 then (True, c\<lparr>clo_cnt := clo_cnt c - 1, clo_a := 0\<rparr>)
      else (False, c\<lparr>clo_cnt := clo_cnt c - 1\<rparr>))"

text \<open>\<^verbatim>\<open>_wbg_cb_unref\<close> of the second form.\<close>

definition unref_count :: "closure \<Rightarrow> (int \<times> int) option \<times> closure" where
  "unref_count c =
     (if clo_cnt c - 1 = 0 then Some (clo_a c, clo_b c) else None, c\<lparr>clo_cnt := clo_cnt c - 1\<rparr>)"

definition cb_unref :: "closure \<Rightarrow> (int \<times> int) option \<times> closure" where
  "cb_unref c =
     (case unref_count c of
        (Some d, c') \<Rightarrow> (Some d, c'\<lparr>clo_a := 0\<rparr>)
      | (None, c') \<Rightarrow> (None, c'))"

text \<open>Leaving \<^verbatim>\<open>real\<close>, second form: \<^verbatim>\<open>state.a = a; real._wbg_cb_unref();\<close>\<close>

definition closure_exit_unref :: "closure \<Rightarrow> int \<Rightarrow> (int \<times> int) option \<times> closure" where
  "closure_exit_unref c a = cb_unref (c\<lparr>clo_a := a\<rparr>)"

section \<open>The functions of the script\<close>

definition makeMutClosure :: "int \<Rightarrow> int \<Rightarrow> js_val \<Rightarrow> string \<Rightarrow> ('w, js_val) wjs" where
  "makeMutClosure arg0 arg1 dtor f = (\<lambda>s.
     let i = next_closure s;
         state = \<lparr>clo_a = arg0, clo_b = arg1, clo_cnt = 1, clo_dtor = dtor, clo_f = f, clo_counted = True\<rparr>
     in (Ret (Clo i), s\<lparr>closures := (closures s)(i \<mapsto> state), next_closure := i + 1,
                        registry := insert i (registry s)\<rparr>))"

definition with_closure :: "nat \<Rightarrow> (closure \<Rightarrow> 'a \<times> closure) \<Rightarrow> ('w, 'a) wjs" where
  "with_closure i f = (\<lambda>s. case closures s i of
     None \<Rightarrow> (Throw (EngineErr ''TypeError''), s)
   | Some c \<Rightarrow> (case f c of (v, c') \<Rightarrow> (Ret v, s\<lparr>closures := (closures s)(i \<mapsto> c')\<rparr>)))"

definition unregister :: "nat \<Rightarrow> ('w, js_val) wjs" where
  "unregister i = js_modify (\<lambda>s. s\<lparr>registry := registry s - {i}\<rparr>)"

text \<open>\<^verbatim>\<open>real(...args)\<close>, first form. \<open>adapters\<close> finds the adapter function by its name.\<close>

definition call_closure ::
  "'w js_env \<Rightarrow> (string \<Rightarrow> js_val list \<Rightarrow> ('w, js_val) wjs) \<Rightarrow> nat \<Rightarrow> js_val list \<Rightarrow> ('w, js_val) wjs" where
  "call_closure E adapters i args =
     js_let (with_closure i (\<lambda>c. ((clo_f c, clo_b c, clo_dtor c), c))) (\<lambda>(f, b, dtor).
     js_let (with_closure i closure_enter) (\<lambda>a.
     js_try_finally (adapters f (Num a # Num b # args))
       (js_let (with_closure i (\<lambda>c. closure_exit c a)) (\<lambda>d.
          case d of
            Some (x, y) \<Rightarrow> js_seq (call_dtor E dtor [Num x, Num y]) (unregister i)
          | None \<Rightarrow> js_return Undefined))))"

text \<open>
  \<^verbatim>\<open>real(...args)\<close> and \<^verbatim>\<open>real._wbg_cb_unref()\<close>, second form: the destructor is an export, called by
  name, before \<^verbatim>\<open>state.a = 0\<close>.
\<close>

definition closure_unref :: "'w js_env \<Rightarrow> nat \<Rightarrow> ('w, js_val) wjs" where
  "closure_unref E i =
     js_let (with_closure i (\<lambda>c. (clo_dtor c, c))) (\<lambda>dtor.
     js_let (with_closure i unref_count) (\<lambda>d.
       case d of
         Some (x, y) \<Rightarrow>
           js_seq (call_dtor E dtor [Num x, Num y])
           (js_seq (with_closure i (\<lambda>c. ((), c\<lparr>clo_a := 0\<rparr>)))
           (unregister i))
       | None \<Rightarrow> js_return Undefined))"

definition call_closure_unref ::
  "'w js_env \<Rightarrow> (string \<Rightarrow> js_val list \<Rightarrow> ('w, js_val) wjs) \<Rightarrow> nat \<Rightarrow> js_val list \<Rightarrow> ('w, js_val) wjs" where
  "call_closure_unref E adapters i args =
     js_let (with_closure i (\<lambda>c. ((clo_f c, clo_b c), c))) (\<lambda>(f, b).
     js_let (with_closure i closure_enter) (\<lambda>a.
     js_try_finally (adapters f (Num a # Num b # args))
       (js_seq (with_closure i (\<lambda>c. ((), c\<lparr>clo_a := a\<rparr>)))
          (closure_unref E i))))"

text \<open>The finalizer of \<^verbatim>\<open>CLOSURE_DTORS\<close>, on the state object of a function object that was collected.\<close>

definition closure_finalize :: "'w js_env \<Rightarrow> nat \<Rightarrow> ('w, js_val) wjs" where
  "closure_finalize E i =
     js_let (with_closure i (\<lambda>c. ((clo_dtor c, clo_a c, clo_b c), c))) (\<lambda>(dtor, a, b).
     call_dtor E dtor [Num a, Num b])"

text \<open>
  \<^verbatim>\<open>arg0.original\<close> and \<^verbatim>\<open>arg0._wbg_cb_unref\<close> exist on the function objects of \<^verbatim>\<open>makeMutClosure\<close> only: on
  the executor of a promise they are \<^verbatim>\<open>undefined\<close> and the access that follows is a \<^verbatim>\<open>TypeError\<close>.
\<close>

definition counted_closure_state :: "nat \<Rightarrow> ('w, js_val) wjs" where
  "counted_closure_state i = (\<lambda>s. case closures s i of
     Some c \<Rightarrow> if clo_counted c then (Ret Undefined, s) else (Throw (EngineErr ''TypeError''), s)
   | None \<Rightarrow> (Throw (EngineErr ''TypeError''), s))"

text \<open>\<^verbatim>\<open>imports.wbg.__wbindgen_cb_drop\<close>.\<close>

definition wbindgen_cb_drop :: "js_val \<Rightarrow> ('w, js_val) wjs" where
  "wbindgen_cb_drop v =
     (case v of
        Clo i \<Rightarrow> js_let (counted_closure_state i) (\<lambda>_.
                   js_let (with_closure i cb_drop) (\<lambda>r. js_return (Bool r)))
      | _ \<Rightarrow> js_throw (EngineErr ''TypeError''))"

text \<open>\<^verbatim>\<open>arg0._wbg_cb_unref()\<close>, the import that drops a closure in the second form.\<close>

definition wbg_cb_unref :: "'w js_env \<Rightarrow> js_val \<Rightarrow> ('w, js_val) wjs" where
  "wbg_cb_unref E v =
     (case v of
        Clo i \<Rightarrow> js_seq (counted_closure_state i) (js_seq (closure_unref E i) (js_return Undefined))
      | _ \<Rightarrow> js_throw (EngineErr ''TypeError''))"

text \<open>
  A callback that lives for one call only, on the plain object \<^verbatim>\<open>state0 = {a, b}\<close>, which is cleared when
  the call returns: the executor \<^verbatim>\<open>cb0\<close> of \<^verbatim>\<open>new Promise(cb0)\<close> and of \<^verbatim>\<open>arg0.run(cb0)\<close>.
\<close>

definition with_callback :: "string \<Rightarrow> int \<Rightarrow> int \<Rightarrow> (js_val \<Rightarrow> ('w, js_val) wjs) \<Rightarrow> ('w, js_val) wjs" where
  "with_callback f arg0 arg1 body = (\<lambda>s.
     let i = next_closure s;
         state0 = \<lparr>clo_a = arg0, clo_b = arg1, clo_cnt = 0, clo_dtor = Undefined, clo_f = f,
                   clo_counted = False\<rparr>
     in js_try_finally (body (Clo i)) (with_closure i (\<lambda>c. ((), c\<lparr>clo_a := 0, clo_b := 0\<rparr>)))
          (s\<lparr>closures := (closures s)(i \<mapsto> state0), next_closure := i + 1\<rparr>))"

definition new_promise :: "'w js_env \<Rightarrow> string \<Rightarrow> js_val \<Rightarrow> js_val \<Rightarrow> ('w, js_val) wjs" where
  "new_promise E f arg0 arg1 =
     with_callback f (js_number arg0) (js_number arg1) (\<lambda>cb0. js_new E ''Promise'' [js_return cb0])"

text \<open>The executor \<^verbatim>\<open>cb0\<close>.\<close>

definition call_executor ::
  "(string \<Rightarrow> js_val list \<Rightarrow> ('w, js_val) wjs) \<Rightarrow> nat \<Rightarrow> js_val list \<Rightarrow> ('w, js_val) wjs" where
  "call_executor adapters i args =
     js_let (with_closure i (\<lambda>c. ((clo_f c, clo_b c, clo_a c), c\<lparr>clo_a := 0\<rparr>))) (\<lambda>(f, b, a).
     js_try_finally (adapters f (Num a # Num b # args))
       (with_closure i (\<lambda>c. ((), c\<lparr>clo_a := a\<rparr>))))"

section \<open>The life of one closure\<close>

text \<open>
  The events of one closure in any order the host and Rust may produce: a call enters \<^verbatim>\<open>real\<close>
  (calls nest, the most recent leaves first), a call leaves it, Rust drops its handle (once), and the
  garbage collector runs the finalizer once nothing can call \<^verbatim>\<open>real\<close> any more. \<open>released\<close> collects
  the pointers given back to Rust to free: by the destructor or, in the first form, by
  \<^verbatim>\<open>__wbindgen_cb_drop\<close> returning true. Rust ignores a null pointer, so only the others count.
\<close>

record life =
  state :: closure
  stack :: "int list"
  dropped :: bool
  registered :: bool
  collected :: bool
  released :: "int list"

definition life0 :: "int \<Rightarrow> closure \<Rightarrow> life" where
  "life0 p c = \<lparr>state = c\<lparr>clo_a := p, clo_cnt := 1\<rparr>, stack = [], dropped = False,
                registered = True, collected = False, released = []\<rparr>"

definition release :: "int \<Rightarrow> life \<Rightarrow> life" where
  "release a l = (if a = 0 then l else l\<lparr>released := a # released l\<rparr>)"

text \<open>
  The steps, over how a form leaves \<^verbatim>\<open>real\<close>, how it drops the handle and whether dropping the last
  reference also unregisters the finalizer.
\<close>

inductive life_step ::
  "(closure \<Rightarrow> int \<Rightarrow> (int \<times> int) option \<times> closure) \<Rightarrow> (closure \<Rightarrow> (int \<times> int) option \<times> closure) \<Rightarrow>
   bool \<Rightarrow> life \<Rightarrow> life \<Rightarrow> bool"
  for leave :: "closure \<Rightarrow> int \<Rightarrow> (int \<times> int) option \<times> closure"
    and drop_handle :: "closure \<Rightarrow> (int \<times> int) option \<times> closure"
    and unreg :: bool where
  enter: "\<not> collected l \<Longrightarrow> closure_enter (state l) = (a, c) \<Longrightarrow>
     life_step leave drop_handle unreg l (l\<lparr>state := c, stack := a # stack l\<rparr>)"
| leave_keep: "stack l = a # as \<Longrightarrow> leave (state l) a = (None, c) \<Longrightarrow>
     life_step leave drop_handle unreg l (l\<lparr>state := c, stack := as\<rparr>)"
| leave_free: "stack l = a # as \<Longrightarrow> leave (state l) a = (Some (x, y), c) \<Longrightarrow>
     life_step leave drop_handle unreg l
       (release x (l\<lparr>state := c, stack := as, registered := False\<rparr>))"
| drop_keep: "\<not> dropped l \<Longrightarrow> \<not> collected l \<Longrightarrow> drop_handle (state l) = (None, c) \<Longrightarrow>
     life_step leave drop_handle unreg l (l\<lparr>state := c, dropped := True\<rparr>)"
| drop_free: "\<not> dropped l \<Longrightarrow> \<not> collected l \<Longrightarrow> drop_handle (state l) = (Some (x, y), c) \<Longrightarrow>
     life_step leave drop_handle unreg l
       (release x (l\<lparr>state := c, dropped := True, registered := registered l \<and> \<not> unreg\<rparr>))"
| finalize: "stack l = [] \<Longrightarrow> registered l \<Longrightarrow> \<not> collected l \<Longrightarrow>
     life_step leave drop_handle unreg l
       (release (clo_a (state l)) (l\<lparr>registered := False, collected := True\<rparr>))"

text \<open>The two forms of the generated modules.\<close>

definition drop_handle :: "closure \<Rightarrow> (int \<times> int) option \<times> closure" where
  "drop_handle c =
     (case cb_drop c of
        (True, c') \<Rightarrow> (Some (clo_a c, clo_b c), c')
      | (False, c') \<Rightarrow> (None, c'))"

abbreviation drop_step :: "life \<Rightarrow> life \<Rightarrow> bool" where
  "drop_step \<equiv> life_step closure_exit drop_handle False"

abbreviation unref_step :: "life \<Rightarrow> life \<Rightarrow> bool" where
  "unref_step \<equiv> life_step closure_exit_unref cb_unref True"

section \<open>Reference counting as an interface\<close>

text \<open>
  Where the pointer of the Rust closure is: in the state object, saved by a running call, or
  released.
\<close>

definition life_inv :: "int \<Rightarrow> life \<Rightarrow> bool" where
  "life_inv p l \<longleftrightarrow>
     clo_cnt (state l) = of_bool (\<not> dropped l) + int (length (stack l))
   \<and> filter (\<lambda>a. a \<noteq> 0) ((if collected l then 0 else clo_a (state l)) # stack l @ released l) = [p]
   \<and> (stack l \<noteq> [] \<longrightarrow> clo_a (state l) = 0 \<and> (\<forall>a \<in> set (butlast (stack l)). a = 0) \<and> \<not> collected l)
   \<and> (dropped l \<and> stack l = [] \<longrightarrow> clo_a (state l) = 0)
   \<and> 0 \<notin> set (released l)"

locale counted_closure =
  fixes leave :: "closure \<Rightarrow> int \<Rightarrow> (int \<times> int) option \<times> closure"
    and drop_h :: "closure \<Rightarrow> (int \<times> int) option \<times> closure"
    and unreg :: bool
  assumes leave_last: "clo_cnt c = 1 \<Longrightarrow> clo_a c = 0 \<Longrightarrow>
      \<exists>c'. leave c a = (Some (a, clo_b c), c') \<and> clo_cnt c' = 0 \<and> clo_a c' = 0"
    and leave_more: "clo_cnt c \<noteq> 1 \<Longrightarrow>
      \<exists>c'. leave c a = (None, c') \<and> clo_cnt c' = clo_cnt c - 1 \<and> clo_a c' = a"
    and drop_last: "clo_cnt c = 1 \<Longrightarrow>
      \<exists>c'. drop_h c = (Some (clo_a c, clo_b c), c') \<and> clo_cnt c' = 0 \<and> clo_a c' = 0"
    and drop_more: "clo_cnt c \<noteq> 1 \<Longrightarrow>
      \<exists>c'. drop_h c = (None, c') \<and> clo_cnt c' = clo_cnt c - 1 \<and> clo_a c' = clo_a c"
begin

lemma step_inv:
  assumes "life_step leave drop_h unreg l l'" and inv: "life_inv p l"
  shows "life_inv p l'"
  using assms(1)
proof cases
  case (enter a c)
  then show ?thesis using inv by (auto simp: life_inv_def closure_enter_def)
next
  case (leave_keep a as c)
  have n: "clo_cnt (state l) \<noteq> 1"
    using leave_last [of "state l" a] leave_keep inv by (auto simp: life_inv_def)
  then show ?thesis using leave_keep leave_more [OF n, of a] inv
    by (auto simp: life_inv_def split: if_splits)
next
  case (leave_free a as x y c)
  have n: "clo_cnt (state l) = 1" using leave_more [of "state l" a] leave_free by auto
  then show ?thesis using leave_free leave_last [OF n, of a] inv
    by (auto simp: life_inv_def release_def split: if_splits)
next
  case (drop_keep c)
  have n: "clo_cnt (state l) \<noteq> 1" using drop_last [of "state l"] drop_keep by auto
  then show ?thesis using drop_keep drop_more [OF n] inv
    by (auto simp: life_inv_def split: if_splits)
next
  case (drop_free x y c)
  have n: "clo_cnt (state l) = 1" using drop_more [of "state l"] drop_free by auto
  then show ?thesis using drop_free drop_last [OF n] inv
    by (auto simp: life_inv_def release_def split: if_splits)
next
  case finalize
  then show ?thesis using inv by (auto simp: life_inv_def release_def split: if_splits)
qed

lemma run_inv: "(life_step leave drop_h unreg)\<^sup>*\<^sup>* l l' \<Longrightarrow> life_inv p l \<Longrightarrow> life_inv p l'"
  by (induction rule: rtranclp_induct) (auto intro: step_inv)

lemma inv_start: "p \<noteq> 0 \<Longrightarrow> life_inv p (life0 p c)"
  by (simp add: life_inv_def life0_def)

lemma reach_inv: "p \<noteq> 0 \<Longrightarrow> (life_step leave drop_h unreg)\<^sup>*\<^sup>* (life0 p c) l \<Longrightarrow> life_inv p l"
  using run_inv inv_start by blast

lemma released_once:
  assumes "p \<noteq> 0" "(life_step leave drop_h unreg)\<^sup>*\<^sup>* (life0 p c) l"
  shows "released l = [] \<or> released l = [p]"
    and "p \<in> set (stack l) \<Longrightarrow> released l = []"
    and "dropped l \<Longrightarrow> stack l = [] \<Longrightarrow> released l = [p]"
proof -
  have inv: "life_inv p l" using reach_inv [OF assms] .
  let ?f = "filter (\<lambda>a. a \<noteq> 0)"
  have r: "?f (released l) = released l"
    using inv by (auto simp: life_inv_def filter_id_conv intro: ccontr)
  have f: "?f [if collected l then 0 else clo_a (state l)] @ ?f (stack l) @ released l = [p]"
    using inv r by (simp add: life_inv_def split: if_splits)
  show "released l = [] \<or> released l = [p]"
    using f by (auto simp: append_eq_Cons_conv split: if_splits)
  show "released l = []" if "p \<in> set (stack l)"
  proof -
    have "?f (stack l) \<noteq> []" using that assms(1) by (auto simp: filter_empty_conv)
    then show ?thesis using f by (auto simp: append_eq_Cons_conv split: if_splits)
  qed
  show "released l = [p]" if "dropped l" "stack l = []"
    using f that inv by (auto simp: life_inv_def split: if_splits)
qed

end

section \<open>Both forms meet the interface\<close>

lemmas closure_ops =
  closure_exit_def drop_handle_def cb_drop_def closure_exit_unref_def cb_unref_def unref_count_def

interpretation drop_form: counted_closure closure_exit drop_handle False
  by unfold_locales (auto simp: closure_ops)

interpretation unref_form: counted_closure closure_exit_unref cb_unref True
  by unfold_locales (auto simp: closure_ops)

section \<open>A call of the function object\<close>

lemma with_closure_run:
  "closures s i = Some c \<Longrightarrow> with_closure i f s = (Ret (fst (f c)), s\<lparr>closures := (closures s)(i \<mapsto> snd (f c))\<rparr>)"
  by (simp add: with_closure_def split: prod.splits)

definition entered :: "nat \<Rightarrow> closure \<Rightarrow> 'w js_state \<Rightarrow> 'w js_state" where
  "entered i c s = s\<lparr>closures := (closures s)(i \<mapsto> snd (closure_enter c))\<rparr>"

lemma closures_self: "closures s i = Some c \<Longrightarrow> s\<lparr>closures := (closures s)(i \<mapsto> c)\<rparr> = s"
  by (simp add: fun_upd_idem)

text \<open>What the adapter left in the state object decides how the call ends.\<close>

lemma call_closure_run:
  assumes "closures s i = Some c"
    and "adapters (clo_f c) (Num (clo_a c) # Num (clo_b c) # args) (entered i c s) = (r, t)"
    and "closures t i = Some d"
  shows "call_closure E adapters i args s =
    js_try_finally (\<lambda>_. (r, t)) (js_let (with_closure i (\<lambda>x. closure_exit x (clo_a c))) (\<lambda>z.
       case z of Some (x, y) \<Rightarrow> js_seq (call_dtor E (clo_dtor c) [Num x, Num y]) (unregister i)
          | None \<Rightarrow> js_return Undefined)) s"
  using assms
  by (simp add: call_closure_def js_let_Ret [OF with_closure_run] closures_self
      closure_enter_def entered_def js_try_finally_def)

lemma call_closure_keeps:
  assumes "closures s i = Some c" and "clo_cnt c \<noteq> 0"
    and "adapters (clo_f c) (Num (clo_a c) # Num (clo_b c) # args) (entered i c s) = (r, t)"
    and "closures t i = Some (snd (closure_enter c))"
  shows "call_closure E adapters i args s = (r, t\<lparr>closures := (closures t)(i \<mapsto> c)\<rparr>)"
  using call_closure_run [of s i c adapters args r t _ E, OF assms(1,3,4)] assms(2,4)
  by (simp add: js_try_finally_def js_let_Ret [OF with_closure_run] closure_exit_def
      closure_enter_def)

lemma call_closure_drops:
  assumes "closures s i = Some c" and "clo_cnt c = 1"
    and "adapters (clo_f c) (Num (clo_a c) # Num (clo_b c) # args) (entered i c s) = (r, t)"
    and "closures t i = Some (snd (cb_drop (snd (closure_enter c))))"
    and "call_dtor E (clo_dtor c) [Num (clo_a c), Num (clo_b c)]
           (t\<lparr>closures := (closures t)(i \<mapsto> c\<lparr>clo_a := 0, clo_cnt := 0\<rparr>)\<rparr>) = (Ret v, u)"
  shows "call_closure E adapters i args s = (r, u\<lparr>registry := registry u - {i}\<rparr>)"
  using call_closure_run [of s i c adapters args r t _ E, OF assms(1,3,4)] assms(2,4,5)
  by (simp add: js_try_finally_def js_let_Ret [OF with_closure_run] closure_exit_def
      closure_enter_def cb_drop_def js_seq_Ret unregister_def)

text \<open>Second form: the count is given back through \<^verbatim>\<open>_wbg_cb_unref\<close>.\<close>

lemma closure_unref_keeps:
  assumes "closures s i = Some c" "clo_cnt c \<noteq> 1"
  shows "closure_unref E i s = (Ret Undefined, s\<lparr>closures := (closures s)(i \<mapsto> c\<lparr>clo_cnt := clo_cnt c - 1\<rparr>)\<rparr>)"
  using assms
  by (simp add: closure_unref_def js_let_Ret [OF with_closure_run] closures_self unref_count_def)

lemma closure_unref_last:
  assumes "closures s i = Some c" "clo_cnt c = 1"
    and "call_dtor E (clo_dtor c) [Num (clo_a c), Num (clo_b c)]
           (s\<lparr>closures := (closures s)(i \<mapsto> c\<lparr>clo_cnt := 0\<rparr>)\<rparr>) = (Ret v, u)"
    and "closures u i = Some d"
  shows "closure_unref E i s =
    (Ret Undefined, u\<lparr>closures := (closures u)(i \<mapsto> d\<lparr>clo_a := 0\<rparr>), registry := registry u - {i}\<rparr>)"
  using assms
  by (simp add: closure_unref_def js_let_Ret [OF with_closure_run] closures_self unref_count_def
      js_seq_Ret with_closure_run [OF assms(4)] unregister_def)

lemma call_closure_unref_keeps:
  assumes "closures s i = Some c" and "clo_cnt c \<noteq> 0"
    and "adapters (clo_f c) (Num (clo_a c) # Num (clo_b c) # args) (entered i c s) = (r, t)"
    and "closures t i = Some (snd (closure_enter c))"
  shows "call_closure_unref E adapters i args s = (r, t\<lparr>closures := (closures t)(i \<mapsto> c)\<rparr>)"
proof -
  let ?d = "snd (closure_enter c)\<lparr>clo_a := clo_a c\<rparr>"
  let ?t = "t\<lparr>closures := (closures t)(i \<mapsto> ?d)\<rparr>"
  have "closure_unref E i ?t = (Ret Undefined, ?t\<lparr>closures := (closures ?t)(i \<mapsto> ?d\<lparr>clo_cnt := clo_cnt ?d - 1\<rparr>)\<rparr>)"
    using assms(2) by (intro closure_unref_keeps) (auto simp: closure_enter_def)
  moreover have "?d\<lparr>clo_cnt := clo_cnt ?d - 1\<rparr> = c" by (simp add: closure_enter_def)
  ultimately have "closure_unref E i ?t = (Ret Undefined, t\<lparr>closures := (closures t)(i \<mapsto> c)\<rparr>)" by simp
  then show ?thesis using assms
    by (simp add: call_closure_unref_def js_let_Ret [OF with_closure_run] closures_self
        closure_enter_def entered_def js_try_finally_def js_seq_Ret [OF with_closure_run])
qed

lemma makeMutClosure_fresh:
  assumes "\<forall>j. closures s j \<noteq> None \<longrightarrow> j < next_closure s"
    and "makeMutClosure a b d f s = (r, t)"
  shows "\<exists>i. r = Ret (Clo i) \<and> closures s i = None \<and> closures t = (closures s)(i \<mapsto>
     \<lparr>clo_a = a, clo_b = b, clo_cnt = 1, clo_dtor = d, clo_f = f, clo_counted = True\<rparr>)
     \<and> i \<in> registry t \<and> (\<forall>j. closures t j \<noteq> None \<longrightarrow> j < next_closure t)"
  using assms by (cases "closures s (next_closure s)") (auto simp: makeMutClosure_def Let_def less_Suc_eq)

text \<open>Once the call has returned, the pointers of a callback are gone, however the call ended.\<close>

lemma with_callback_clears:
  assumes "with_callback f a b body s = (r, t)"
    and "\<And>u. closures u (next_closure s) \<noteq> None \<Longrightarrow>
           \<exists>c. closures (snd (body (Clo (next_closure s)) u)) (next_closure s) = Some c"
  shows "\<exists>c. closures t (next_closure s) = Some c \<and> clo_a c = 0 \<and> clo_b c = 0"
proof -
  let ?i = "next_closure s"
  let ?u = "s\<lparr>closures := (closures s)(?i \<mapsto>
     \<lparr>clo_a = a, clo_b = b, clo_cnt = 0, clo_dtor = Undefined, clo_f = f, clo_counted = False\<rparr>),
     next_closure := ?i + 1\<rparr>"
  obtain o' v where v: "body (Clo ?i) ?u = (o', v)" by (cases "body (Clo ?i) ?u")
  obtain c where "closures v ?i = Some c" using assms(2) [of ?u] v by auto
  then show ?thesis using assms(1) v
    by (auto simp: with_callback_def Let_def js_try_finally_def with_closure_run)
qed

section \<open>Properties\<close>

text \<open>
  Property C3. Modules with \<^verbatim>\<open>__wbindgen_cb_drop\<close>: whatever calls of the function object are nested, and
  whenever Rust drops its handle or the collector finalizes the object, the Rust closure is released
  at most once, never while a call still holds its pointer, and it has been released once the handle
  is dropped and no call is running.
\<close>

theorem closure_released_once_drop:
  assumes "p \<noteq> 0" "drop_step\<^sup>*\<^sup>* (life0 p c) l"
  shows "(released l = [] \<or> released l = [p]) \<and> (p \<in> set (stack l) \<longrightarrow> released l = [])
    \<and> (dropped l \<and> stack l = [] \<longrightarrow> released l = [p])"
  using drop_form.released_once [OF assms] by blast

text \<open>A run: the closure is called, dropped by Rust during the call, and released when the call ends.\<close>

definition sample_closure :: closure where
  "sample_closure = \<lparr>clo_a = 5, clo_b = 7, clo_cnt = 1, clo_dtor = Num 9, clo_f = ''adapter'', clo_counted = True\<rparr>"

definition sample_life :: "int list \<Rightarrow> int \<Rightarrow> int \<Rightarrow> bool \<Rightarrow> bool \<Rightarrow> int list \<Rightarrow> life" where
  "sample_life st a n d reg rel = \<lparr>state = sample_closure\<lparr>clo_a := a, clo_cnt := n\<rparr>, stack = st, dropped = d,
     registered = reg, collected = False, released = rel\<rparr>"

lemma sample_life0: "life0 5 sample_closure = sample_life [] 5 1 False True []"
  by (simp add: life0_def sample_life_def)

lemma sample_drop_run: "drop_step\<^sup>*\<^sup>* (life0 5 sample_closure) (sample_life [] 0 0 True False [5])"
proof -
  have "drop_step (sample_life [] 5 1 False True []) (sample_life [5] 0 2 False True [])"
    using enter [of "sample_life [] 5 1 False True []" 5 "sample_closure\<lparr>clo_a := 0, clo_cnt := 2\<rparr>"]
    by (simp add: sample_life_def closure_enter_def)
  moreover have "drop_step (sample_life [5] 0 2 False True []) (sample_life [5] 0 1 True True [])"
    using drop_keep [of "sample_life [5] 0 2 False True []" drop_handle "sample_closure\<lparr>clo_a := 0, clo_cnt := 1\<rparr>"]
    by (simp add: sample_life_def closure_ops)
  moreover have "drop_step (sample_life [5] 0 1 True True []) (sample_life [] 0 0 True False [5])"
    using leave_free [of "sample_life [5] 0 1 True True []" 5 "[]" closure_exit 5 7 "sample_closure\<lparr>clo_a := 0, clo_cnt := 0\<rparr>"]
    by (simp add: sample_life_def closure_ops release_def sample_closure_def)
  ultimately show ?thesis unfolding sample_life0 by (blast intro: converse_rtranclp_into_rtranclp)
qed

theorem closure_released_once_drop_witness:
  "drop_step\<^sup>*\<^sup>* (life0 5 sample_closure) (sample_life [] 0 0 True False [5]) \<and>
   released (sample_life [] 0 0 True False [5]) = [5]"
  using sample_drop_run closure_released_once_drop [OF _ sample_drop_run] by (simp add: sample_life_def)

text \<open>
  Property C16. Modules with \<^verbatim>\<open>_wbg_cb_unref\<close>: the same three facts hold for the other way in which the
  function object gives its reference back.
\<close>

theorem closure_released_once_unref:
  assumes "p \<noteq> 0" "unref_step\<^sup>*\<^sup>* (life0 p c) l"
  shows "(released l = [] \<or> released l = [p]) \<and> (p \<in> set (stack l) \<longrightarrow> released l = [])
    \<and> (dropped l \<and> stack l = [] \<longrightarrow> released l = [p])"
  using unref_form.released_once [OF assms] by blast

lemma sample_unref_run: "unref_step\<^sup>*\<^sup>* (life0 5 sample_closure) (sample_life [] 0 0 True False [5])"
proof -
  have "unref_step (sample_life [] 5 1 False True []) (sample_life [5] 0 2 False True [])"
    using enter [of "sample_life [] 5 1 False True []" 5 "sample_closure\<lparr>clo_a := 0, clo_cnt := 2\<rparr>"]
    by (simp add: sample_life_def closure_enter_def)
  moreover have "unref_step (sample_life [5] 0 2 False True []) (sample_life [5] 0 1 True True [])"
    using drop_keep [of "sample_life [5] 0 2 False True []" cb_unref "sample_closure\<lparr>clo_a := 0, clo_cnt := 1\<rparr>"]
    by (simp add: sample_life_def closure_ops)
  moreover have "unref_step (sample_life [5] 0 1 True True []) (sample_life [] 0 0 True False [5])"
    using leave_free [of "sample_life [5] 0 1 True True []" 5 "[]" closure_exit_unref 5 7 "sample_closure\<lparr>clo_a := 0, clo_cnt := 0\<rparr>"]
    by (simp add: sample_life_def closure_ops release_def sample_closure_def)
  ultimately show ?thesis unfolding sample_life0 by (blast intro: converse_rtranclp_into_rtranclp)
qed

theorem closure_released_once_unref_witness:
  "unref_step\<^sup>*\<^sup>* (life0 5 sample_closure) (sample_life [] 0 0 True False [5]) \<and>
   released (sample_life [] 0 0 True False [5]) = [5]"
  using sample_unref_run closure_released_once_unref [OF _ sample_unref_run] by (simp add: sample_life_def)

end
