(* ===== verification/Wbg_Objects.thy ===== *)
theory Wbg_Objects
  imports Js_Interop
begin

text \<open>
  The classes that wrap a Rust value: an object holds the value's address in \<^verbatim>\<open>__wbg_ptr\<close>, methods pass
  it to an export, and a method that gives the value back to Rust clears it first. The stream classes
  \<^verbatim>\<open>IntoUnderlyingByteSource\<close>, \<^verbatim>\<open>IntoUnderlyingSink\<close> and \<^verbatim>\<open>IntoUnderlyingSource\<close> are those of
  \<^verbatim>\<open>src/crates/prophecy/dist/prophecy-e16c97ecc1556028.js\<close>; the other generated modules repeat them. A
  transition system shows that a value is given back at most once and never used afterwards.
\<close>

section \<open>The wrapped pointer\<close>

definition with_object :: "nat \<Rightarrow> (wbg_object \<Rightarrow> 'a \<times> wbg_object) \<Rightarrow> ('w, 'a) wjs" where
  "with_object i f = (\<lambda>s. case objects s i of
     None \<Rightarrow> (Throw TypeError, s)
   | Some x \<Rightarrow> (case f x of (v, x') \<Rightarrow> (Ret v, s\<lparr>objects := (objects s)(i \<mapsto> x')\<rparr>)))"

text \<open>
  \<^verbatim>\<open>__destroy_into_raw\<close>: \<^verbatim>\<open>const ptr = this.__wbg_ptr; this.__wbg_ptr = 0; ...unregister(this); return ptr;\<close>
\<close>

definition take_ptr :: "wbg_object \<Rightarrow> int \<times> wbg_object" where
  "take_ptr x = (wbg_ptr x, x\<lparr>wbg_ptr := 0, wbg_registered := False\<rparr>)"

definition destroy_into_raw :: "nat \<Rightarrow> ('w, js_val) wjs" where
  "destroy_into_raw i = js_let (with_object i take_ptr) (\<lambda>ptr. js_return (Num ptr))"

definition this_ptr :: "nat \<Rightarrow> ('w, js_val) wjs" where
  "this_ptr i = with_object i (\<lambda>x. (Num (wbg_ptr x), x))"

section \<open>IntoUnderlyingByteSource\<close>

definition bytesource_free :: "'w js_env \<Rightarrow> nat \<Rightarrow> ('w, js_val) wjs" where
  "bytesource_free E i =
     js_let (destroy_into_raw i) (\<lambda>ptr.
     js_do (wasm_call E ''__wbg_intounderlyingbytesource_free'' [ptr, Num 0]))"

definition bytesource_finalize :: "'w js_env \<Rightarrow> js_val \<Rightarrow> ('w, js_val) wjs" where
  "bytesource_finalize E ptr = wasm_call E ''__wbg_intounderlyingbytesource_free'' [js_u32 ptr, Num 1]"

definition enum_ReadableStreamType :: "string list" where
  "enum_ReadableStreamType = [''bytes'']"

definition bytesource_type :: "'w js_env \<Rightarrow> nat \<Rightarrow> ('w, js_val) wjs" where
  "bytesource_type E i =
     js_let (this_ptr i) (\<lambda>ptr.
     js_let (wasm_call E ''intounderlyingbytesource_type'' [ptr]) (\<lambda>ret.
     js_return (enum_at enum_ReadableStreamType ret)))"

definition bytesource_autoAllocateChunkSize :: "'w js_env \<Rightarrow> nat \<Rightarrow> ('w, js_val) wjs" where
  "bytesource_autoAllocateChunkSize E i =
     js_let (this_ptr i) (\<lambda>ptr.
     js_let (wasm_call E ''intounderlyingbytesource_autoAllocateChunkSize'' [ptr]) (\<lambda>ret.
     js_return (js_u32 ret)))"

definition bytesource_start :: "'w js_env \<Rightarrow> nat \<Rightarrow> js_val \<Rightarrow> ('w, js_val) wjs" where
  "bytesource_start E i controller =
     js_let (this_ptr i) (\<lambda>ptr. js_do (wasm_call E ''intounderlyingbytesource_start'' [ptr, controller]))"

definition bytesource_pull :: "'w js_env \<Rightarrow> nat \<Rightarrow> js_val \<Rightarrow> ('w, js_val) wjs" where
  "bytesource_pull E i controller =
     js_let (this_ptr i) (\<lambda>ptr. wasm_call E ''intounderlyingbytesource_pull'' [ptr, controller])"

definition bytesource_cancel :: "'w js_env \<Rightarrow> nat \<Rightarrow> ('w, js_val) wjs" where
  "bytesource_cancel E i =
     js_let (destroy_into_raw i) (\<lambda>ptr. js_do (wasm_call E ''intounderlyingbytesource_cancel'' [ptr]))"

section \<open>IntoUnderlyingSink\<close>

definition sink_free :: "'w js_env \<Rightarrow> nat \<Rightarrow> ('w, js_val) wjs" where
  "sink_free E i =
     js_let (destroy_into_raw i) (\<lambda>ptr.
     js_do (wasm_call E ''__wbg_intounderlyingsink_free'' [ptr, Num 0]))"

definition sink_finalize :: "'w js_env \<Rightarrow> js_val \<Rightarrow> ('w, js_val) wjs" where
  "sink_finalize E ptr = wasm_call E ''__wbg_intounderlyingsink_free'' [js_u32 ptr, Num 1]"

definition sink_write :: "'w js_env \<Rightarrow> nat \<Rightarrow> js_val \<Rightarrow> ('w, js_val) wjs" where
  "sink_write E i chunk =
     js_let (this_ptr i) (\<lambda>ptr. wasm_call E ''intounderlyingsink_write'' [ptr, chunk])"

definition sink_close :: "'w js_env \<Rightarrow> nat \<Rightarrow> ('w, js_val) wjs" where
  "sink_close E i =
     js_let (destroy_into_raw i) (\<lambda>ptr. wasm_call E ''intounderlyingsink_close'' [ptr])"

definition sink_abort :: "'w js_env \<Rightarrow> nat \<Rightarrow> js_val \<Rightarrow> ('w, js_val) wjs" where
  "sink_abort E i reason =
     js_let (destroy_into_raw i) (\<lambda>ptr. wasm_call E ''intounderlyingsink_abort'' [ptr, reason])"

section \<open>IntoUnderlyingSource\<close>

definition source_free :: "'w js_env \<Rightarrow> nat \<Rightarrow> ('w, js_val) wjs" where
  "source_free E i =
     js_let (destroy_into_raw i) (\<lambda>ptr.
     js_do (wasm_call E ''__wbg_intounderlyingsource_free'' [ptr, Num 0]))"

definition source_finalize :: "'w js_env \<Rightarrow> js_val \<Rightarrow> ('w, js_val) wjs" where
  "source_finalize E ptr = wasm_call E ''__wbg_intounderlyingsource_free'' [js_u32 ptr, Num 1]"

definition source_pull :: "'w js_env \<Rightarrow> nat \<Rightarrow> js_val \<Rightarrow> ('w, js_val) wjs" where
  "source_pull E i controller =
     js_let (this_ptr i) (\<lambda>ptr. wasm_call E ''intounderlyingsource_pull'' [ptr, controller])"

definition source_cancel :: "'w js_env \<Rightarrow> nat \<Rightarrow> ('w, js_val) wjs" where
  "source_cancel E i =
     js_let (destroy_into_raw i) (\<lambda>ptr. js_do (wasm_call E ''intounderlyingsource_cancel'' [ptr]))"

section \<open>What a method passes to Rust\<close>

lemma with_object_run:
  "objects s i = Some x \<Longrightarrow> with_object i f s = (Ret (fst (f x)), s\<lparr>objects := (objects s)(i \<mapsto> snd (f x))\<rparr>)"
  by (simp add: with_object_def split: prod.splits)

text \<open>The object \<open>i\<close> holds no address any more and the finalization registry has forgotten it.\<close>

definition emptied :: "nat \<Rightarrow> 'w js_state \<Rightarrow> 'w js_state" where
  "emptied i s = s\<lparr>objects := (objects s)(i \<mapsto> \<lparr>wbg_ptr = 0, wbg_registered = False\<rparr>)\<rparr>"

lemma destroy_run: "objects s i = Some x \<Longrightarrow> destroy_into_raw i s = (Ret (Num (wbg_ptr x)), emptied i s)"
  by (cases x) (simp add: destroy_into_raw_def js_let_Ret [OF with_object_run] take_ptr_def emptied_def)

lemma this_ptr_run: "objects s i = Some x \<Longrightarrow> this_ptr i s = (Ret (Num (wbg_ptr x)), s)"
  by (simp add: this_ptr_def with_object_run fun_upd_idem)

text \<open>
  The methods that consume the value, by class: each runs its export on the address the object held,
  in a state in which the object is already empty.
\<close>

lemmas consumers = bytesource_free_def bytesource_cancel_def sink_free_def sink_close_def sink_abort_def
  source_free_def source_cancel_def

lemma consumers_run:
  assumes "objects s i = Some x"
  defines "t \<equiv> emptied i s"
  shows "bytesource_free E i s = js_do (wasm_call E ''__wbg_intounderlyingbytesource_free'' [Num (wbg_ptr x), Num 0]) t"
    "bytesource_cancel E i s = js_do (wasm_call E ''intounderlyingbytesource_cancel'' [Num (wbg_ptr x)]) t"
    "sink_free E i s = js_do (wasm_call E ''__wbg_intounderlyingsink_free'' [Num (wbg_ptr x), Num 0]) t"
    "sink_close E i s = wasm_call E ''intounderlyingsink_close'' [Num (wbg_ptr x)] t"
    "sink_abort E i v s = wasm_call E ''intounderlyingsink_abort'' [Num (wbg_ptr x), v] t"
    "source_free E i s = js_do (wasm_call E ''__wbg_intounderlyingsource_free'' [Num (wbg_ptr x), Num 0]) t"
    "source_cancel E i s = js_do (wasm_call E ''intounderlyingsource_cancel'' [Num (wbg_ptr x)]) t"
  using assms(1) by (simp_all add: consumers t_def js_let_Ret [OF destroy_run])

section \<open>The life of one object\<close>

text \<open>
  \<open>given_back\<close> collects the addresses handed over by a consuming method or by the finalizer, and \<open>used\<close>
  those that the other methods pass, each with the number of hand-overs before it. The finalization
  registry keeps the address the object was registered with.
\<close>

record box =
  object :: wbg_object
  held_value :: int
  gone :: bool
  given_back :: "int list"
  used :: "(int \<times> nat) list"

definition hand_over :: "int \<Rightarrow> box \<Rightarrow> box" where
  "hand_over p b = (if p = 0 then b else b\<lparr>given_back := p # given_back b\<rparr>)"

inductive box_step :: "box \<Rightarrow> box \<Rightarrow> bool" where
  consume: "\<not> gone b \<Longrightarrow> take_ptr (object b) = (p, x) \<Longrightarrow> box_step b (hand_over p (b\<lparr>object := x\<rparr>))"
| uses_ptr: "\<not> gone b \<Longrightarrow>
     box_step b (b\<lparr>used := (wbg_ptr (object b), length (given_back b)) # used b\<rparr>)"
| finalizer: "\<not> gone b \<Longrightarrow> wbg_registered (object b) \<Longrightarrow>
     box_step b (hand_over (held_value b) (b\<lparr>gone := True\<rparr>))"

definition new_box :: "int \<Rightarrow> bool \<Rightarrow> box" where
  "new_box p reg = \<lparr>object = \<lparr>wbg_ptr = p, wbg_registered = reg\<rparr>, held_value = p, gone = False,
                    given_back = [], used = []\<rparr>"

text \<open>Where the value is: in the object, or given back once.\<close>

definition box_inv :: "int \<Rightarrow> box \<Rightarrow> bool" where
  "box_inv p b \<longleftrightarrow>
     held_value b = p
   \<and> (wbg_registered (object b) \<and> \<not> gone b \<longrightarrow> wbg_ptr (object b) = p)
   \<and> (if gone b then given_back b = [p]
      else if wbg_ptr (object b) = 0 then given_back b = [p]
      else wbg_ptr (object b) = p \<and> given_back b = [])
   \<and> (\<forall>(q, n) \<in> set (used b). q = (if n = 0 then p else 0))"

lemma box_invD:
  assumes "box_inv p b"
  shows "held_value b = p"
    and "\<not> gone b \<Longrightarrow> wbg_registered (object b) \<Longrightarrow> wbg_ptr (object b) = p"
    and "\<not> gone b \<Longrightarrow> wbg_ptr (object b) \<noteq> 0 \<Longrightarrow> given_back b = []"
    and "\<forall>(q, n) \<in> set (used b). q = (if n = 0 then p else 0)"
  using assms by (simp_all add: box_inv_def)

lemma box_step_inv: "box_step b c \<Longrightarrow> p \<noteq> 0 \<Longrightarrow> box_inv p b \<Longrightarrow> box_inv p c"
proof (induction rule: box_step.induct)
  case (consume b q x)
  then show ?case by (cases "wbg_ptr (object b) = 0") (auto simp: box_inv_def hand_over_def take_ptr_def)
next
  case (uses_ptr b)
  then show ?case by (cases "wbg_ptr (object b) = 0") (simp_all add: box_inv_def)
next
  case (finalizer b)
  note i = box_invD [OF finalizer.prems(2)]
  have "given_back b = []" using i(2,3) finalizer.hyps finalizer.prems(1) by metis
  then have h: "hand_over (held_value b) (b\<lparr>gone := True\<rparr>) = b\<lparr>gone := True, given_back := [p]\<rparr>"
    using i(1) finalizer.prems(1) by (simp add: hand_over_def)
  show ?case unfolding h using i(1,4) by (simp add: box_inv_def)
qed

lemma box_reach_inv: "box_step\<^sup>*\<^sup>* (new_box p reg) b \<Longrightarrow> p \<noteq> 0 \<Longrightarrow> box_inv p b"
proof (induction rule: rtranclp_induct)
  case base
  then show ?case by (simp add: box_inv_def new_box_def)
next
  case (step b c)
  then show ?case using box_step_inv by blast
qed

lemma box_given_back_once:
  assumes "p \<noteq> 0" "box_step\<^sup>*\<^sup>* (new_box p reg) b"
  shows "given_back b = [] \<or> given_back b = [p]"
    and "given_back b = [] \<longleftrightarrow> wbg_ptr (object b) = p \<and> \<not> gone b"
    and "(q, n) \<in> set (used b) \<Longrightarrow> q = (if n = 0 then p else 0)"
  using box_reach_inv [OF assms(2,1)] assms(1) by (auto simp: box_inv_def split: if_splits)

section \<open>Properties\<close>

text \<open>
  Property C17. The Rust value behind an object is given back at most once over all consuming methods and
  the finalizer, it is still owned exactly as long as the object holds its address, and a method called
  after it was given back passes a null pointer instead of a dangling one.
\<close>

theorem object_given_back_once:
  assumes "p \<noteq> 0" "box_step\<^sup>*\<^sup>* (new_box p reg) b"
  shows "(given_back b = [] \<or> given_back b = [p]) \<and> (given_back b = [] \<longleftrightarrow> wbg_ptr (object b) = p \<and> \<not> gone b)
    \<and> (\<forall>q n. (q, n) \<in> set (used b) \<longrightarrow> q = (if n = 0 then p else 0))"
  using box_given_back_once [OF assms] by blast

lemma sample_box_run:
  "box_step\<^sup>*\<^sup>* (new_box 8 True) \<lparr>object = \<lparr>wbg_ptr = 0, wbg_registered = False\<rparr>, held_value = 8, gone = False,
     given_back = [8], used = [(0, 1)]\<rparr>"
proof -
  have "box_step (new_box 8 True) \<lparr>object = \<lparr>wbg_ptr = 0, wbg_registered = False\<rparr>, held_value = 8, gone = False,
     given_back = [8], used = []\<rparr>"
    using consume [of "new_box 8 True" 8 "\<lparr>wbg_ptr = 0, wbg_registered = False\<rparr>"]
    by (simp add: new_box_def take_ptr_def hand_over_def)
  moreover have "box_step \<lparr>object = \<lparr>wbg_ptr = 0, wbg_registered = False\<rparr>, held_value = 8, gone = False,
     given_back = [8], used = []\<rparr> \<lparr>object = \<lparr>wbg_ptr = 0, wbg_registered = False\<rparr>, held_value = 8, gone = False,
     given_back = [8], used = [(0, 1)]\<rparr>"
    using uses_ptr [of "\<lparr>object = \<lparr>wbg_ptr = 0, wbg_registered = False\<rparr>, held_value = 8, gone = False,
     given_back = [8], used = []\<rparr>"] by simp
  ultimately show ?thesis by (blast intro: converse_rtranclp_into_rtranclp)
qed

theorem object_given_back_once_witness:
  "box_step\<^sup>*\<^sup>* (new_box 8 True) \<lparr>object = \<lparr>wbg_ptr = 0, wbg_registered = False\<rparr>, held_value = 8, gone = False,
     given_back = [8], used = [(0, 1)]\<rparr> \<and> (0::int) = (if (1::nat) = 0 then 8 else 0)"
  using sample_box_run object_given_back_once [OF _ sample_box_run] by simp

end
