(* ===== verification/Import_Table.thy ===== *)
theory Import_Table
  imports Closures "HOL-Library.List_Lexorder" "HOL-Library.Char_ord"
begin

text \<open>
  The object that \<^verbatim>\<open>__wbg_get_imports\<close> returns, as a list of named functions in the order of the source,
  and what the kinds of import functions that all the modules share have in common: an import wrapped
  in \<^verbatim>\<open>handleError\<close> never throws into the wasm module, an \<^verbatim>\<open>instanceof\<close> test always answers, a string
  result is left where Rust looks for it.
\<close>

type_synonym 'w import_fn = "js_val list \<Rightarrow> ('w, js_val) wjs"
type_synonym 'w import_table = "(string \<times> 'w import_fn) list"

definition find_adapter :: "'w import_table \<Rightarrow> string \<Rightarrow> 'w import_fn" where
  "find_adapter tbl f args =
     (case map_of tbl f of Some g \<Rightarrow> g args | None \<Rightarrow> js_throw (EngineErr ''ReferenceError''))"

section \<open>Names\<close>

definition import_names :: "'w import_table \<Rightarrow> string list" where
  "import_names tbl = map fst tbl"

lemma import_names_append [simp]: "import_names (t @ u) = import_names t @ import_names u"
  by (simp add: import_names_def)

lemma import_names_Cons [simp]: "import_names ((n, f) # t) = n # import_names t"
  by (simp add: import_names_def)

lemma import_names_Nil [simp]: "import_names [] = []"
  by (simp add: import_names_def)

text \<open>Neighbours in order give the whole list in order, and then no name occurs twice.\<close>

fun ascending :: "string list \<Rightarrow> bool" where
  "ascending (x # y # xs) \<longleftrightarrow> x < y \<and> ascending (y # xs)"
| "ascending _ \<longleftrightarrow> True"

lemma ascending_sorted: "ascending xs \<Longrightarrow> sorted_wrt (<) xs"
proof (induction xs rule: ascending.induct)
  case (1 x y xs)
  then have "sorted_wrt (<) (y # xs)" and "x < y" by auto
  then show ?case by auto
qed auto

lemma ascending_distinct: "ascending xs \<Longrightarrow> distinct xs"
  using ascending_sorted strict_sorted_iff by blast

lemma ascending_append:
  "ascending xs \<Longrightarrow> ascending (y # ys) \<Longrightarrow> xs \<noteq> [] \<Longrightarrow> last xs < y \<Longrightarrow> ascending (xs @ y # ys)"
  by (induction xs rule: ascending.induct) auto

lemma ascending_parts:
  "ascending xs \<Longrightarrow> ascending ys \<Longrightarrow> xs \<noteq> [] \<Longrightarrow> ys \<noteq> [] \<Longrightarrow> last xs < hd ys \<Longrightarrow> ascending (xs @ ys)"
  using ascending_append [of xs "hd ys" "tl ys"] by simp

lemma import_found:
  "ascending (import_names tbl) \<Longrightarrow> (n, f) \<in> set tbl \<Longrightarrow> map_of tbl n = Some f"
  using ascending_distinct [of "import_names tbl"] by (simp add: import_names_def)

text \<open>A table has, under each of the given names, a function with the property that goes with the name.\<close>

definition provides :: "'w import_table \<Rightarrow> ('b \<Rightarrow> 'w import_fn \<Rightarrow> bool) \<Rightarrow> (string \<times> 'b) list \<Rightarrow> bool" where
  "provides tbl P ns \<longleftrightarrow> list_all (\<lambda>(n, x). \<exists>f. (n, f) \<in> set tbl \<and> P x f) ns"

abbreviation provides_all :: "'w import_table \<Rightarrow> ('w import_fn \<Rightarrow> bool) \<Rightarrow> string list \<Rightarrow> bool" where
  "provides_all tbl P ns \<equiv> provides tbl (\<lambda>_. P) (map (\<lambda>n. (n, ())) ns)"

lemma provides_part: "provides t P ns \<Longrightarrow> set t \<subseteq> set u \<Longrightarrow> provides u P ns"
  unfolding provides_def list_all_iff by blast

lemma provides_append [simp]: "provides t P (ns @ ms) \<longleftrightarrow> provides t P ns \<and> provides t P ms"
  by (simp add: provides_def)

lemma provides_found:
  "ascending (import_names tbl) \<Longrightarrow> provides tbl P ns \<Longrightarrow> (n, x) \<in> set ns \<Longrightarrow>
   \<exists>f. map_of tbl n = Some f \<and> P x f"
  using import_found unfolding provides_def list_all_iff by fastforce

lemma provides_all_found:
  "ascending (import_names tbl) \<Longrightarrow> provides_all tbl P ns \<Longrightarrow> n \<in> set ns \<Longrightarrow>
   \<exists>f. map_of tbl n = Some f \<and> P f"
  using provides_found [of tbl "\<lambda>_. P" "map (\<lambda>n. (n, ())) ns" n "()"] by auto

section \<open>Guarded imports\<close>

definition always_returns :: "'w import_fn \<Rightarrow> bool" where
  "always_returns f \<longleftrightarrow> (\<forall>args s. \<exists>v t. f args s = (Ret v, t))"

lemmas fn_defs = fn0_def fn1_def fn2_def fn3_def fn4_def fn5_def fn6_def fn7_def fn8_def fn11_def

lemma guarded_fn:
  assumes "exn_contract E"
  shows "always_returns (fn0 (handleError E m0))"
    "always_returns (fn1 (\<lambda>a. handleError E (m1 a)))"
    "always_returns (fn2 (\<lambda>a b. handleError E (m2 a b)))"
    "always_returns (fn3 (\<lambda>a b c. handleError E (m3 a b c)))"
    "always_returns (fn4 (\<lambda>a b c d. handleError E (m4 a b c d)))"
    "always_returns (fn5 (\<lambda>a b c d e. handleError E (m5 a b c d e)))"
    "always_returns (fn6 (\<lambda>a b c d e f. handleError E (m6 a b c d e f)))"
    "always_returns (fn7 (\<lambda>a b c d e f g. handleError E (m7 a b c d e f g)))"
    "always_returns (fn11 (\<lambda>a b c d e f g h i j k. handleError E (m11 a b c d e f g h i j k)))"
  using handleError_returns [OF assms] by (simp_all add: always_returns_def fn_defs)

section \<open>Type tests\<close>

lemma instanceof_answers: "\<exists>b t. js_instanceof E v c s = (Ret (Bool b), t)"
  by (auto simp: js_instanceof_def js_try_catch_def js_let_def split: prod.splits outcome.splits)

definition answers :: "'w import_fn \<Rightarrow> bool" where
  "answers f \<longleftrightarrow> (\<forall>args s. \<exists>b t. f args s = (Ret (Bool b), t))"

lemma instanceof_fn [simp]: "answers (fn1 (\<lambda>arg0. js_instanceof E arg0 c))"
  unfolding answers_def fn_defs using instanceof_answers by blast

section \<open>String results\<close>

text \<open>
  An import \<open>f\<close> that returns the string property \<open>p\<close> of its second argument through the return slot at
  the first.
\<close>

definition string_getter ::
  "'w js_env \<Rightarrow> (js_val \<Rightarrow> bool) \<Rightarrow> (js_string \<Rightarrow> u8 list) \<Rightarrow> string \<Rightarrow> 'w import_fn \<Rightarrow> bool" where
  "string_getter E trap enc p f \<longleftrightarrow>
     (\<forall>a obj s t s'. \<not> isLikeNone obj \<longrightarrow> host_get E obj p s = (Ret (Str t), s') \<longrightarrow> fits s' a 8 \<longrightarrow>
        malloc_contract (a, a + 8) trap (wasm_malloc E) \<longrightarrow> realloc_contract (a, a + 8) trap (wasm_malloc E) (wasm_realloc E) \<longrightarrow>
        string_returned trap (enc t) a (f [Num a, obj] s))"

text \<open>
  The same behind \<^verbatim>\<open>handleError\<close>: when the allocator fails or the property cannot be read, the exception goes to
  Rust and the import returns.
\<close>

definition handed_over :: "'w js_env \<Rightarrow> js_val outcome \<times> 'w js_state \<Rightarrow> js_val outcome \<times> 'w js_state" where
  "handed_over E = (\<lambda>(Ret v, s) \<Rightarrow> (Ret v, s) | (Throw e, s) \<Rightarrow> handleError E (js_throw e) s)"

definition guarded_getter ::
  "'w js_env \<Rightarrow> (js_val \<Rightarrow> bool) \<Rightarrow> (js_string \<Rightarrow> u8 list) \<Rightarrow> string \<Rightarrow> 'w import_fn \<Rightarrow> bool" where
  "guarded_getter E trap enc p f \<longleftrightarrow>
     (\<forall>a obj s t s'. \<not> isLikeNone obj \<longrightarrow> host_get E obj p s = (Ret (Str t), s') \<longrightarrow> fits s' a 8 \<longrightarrow>
        malloc_contract (a, a + 8) trap (wasm_malloc E) \<longrightarrow> realloc_contract (a, a + 8) trap (wasm_malloc E) (wasm_realloc E) \<longrightarrow>
        (\<exists>res. string_returned trap (enc t) a res \<and> f [Num a, obj] s = handed_over E res))
   \<and> (\<forall>a obj s e s'. \<not> isLikeNone obj \<longrightarrow> host_get E obj p s = (Throw e, s') \<longrightarrow>
        f [Num a, obj] s = handleError E (js_throw e) s')"

lemma handleError_handed_over: "handleError E m s = handed_over E (m s)"
  by (auto simp: handleError_def handed_over_def js_try_catch_def js_throw_def split: prod.splits outcome.splits)

context text_codec
begin

lemma string_getter_fn:
  assumes "text_encode E = enc" "encodeInto E = into"
  shows "string_getter E trap enc p (fn2 (\<lambda>arg0 arg1. js_let (js_member E arg1 p) (ret_string E arg0)))"
  using ret_string_returned [OF assms]
  by (auto simp: string_getter_def fn_defs js_param_def js_member_def js_let_Ret)

lemma guarded_getter_fn:
  assumes "text_encode E = enc" "encodeInto E = into"
  shows "guarded_getter E trap enc p (fn2 (\<lambda>arg0 arg1. handleError E (js_let (js_member E arg1 p) (ret_string E arg0))))"
proof -
  have "handleError E (js_let (js_member E obj p) (ret_string E (Num a))) s = handed_over E (ret_string E (Num a) (Str t) s')"
    if "\<not> isLikeNone obj" "host_get E obj p s = (Ret (Str t), s')" for a obj s t s'
    using that by (simp add: handleError_handed_over js_member_def js_let_Ret)
  moreover have "handleError E (js_let (js_member E obj p) (ret_string E (Num a))) s = handleError E (js_throw e) s'"
    if "\<not> isLikeNone obj" "host_get E obj p s = (Throw e, s')" for a obj s e s'
    using that by (simp add: handleError_handed_over js_member_def js_let_Throw js_throw_def)
  ultimately show ?thesis using ret_string_returned [OF assms] unfolding guarded_getter_def
    by (simp del: split_paired_Ex add: fn_defs js_param_def) blast
qed

end

section \<open>Closures\<close>

text \<open>
  An import that makes a closure with the destructor \<open>d\<close> and the adapter \<open>x\<close>, which is one of the module's
  adapters.
\<close>

definition closure_maker :: "'w import_table \<Rightarrow> js_val \<times> string \<Rightarrow> 'w import_fn \<Rightarrow> bool" where
  "closure_maker adapters = (\<lambda>(d, x) f. x \<in> set (map fst adapters)
     \<and> (\<forall>a b rest s. f (Num a # Num b # rest) s = makeMutClosure a b d x s))"

lemma closure_maker_fn:
  "closure_maker ad (d, x) (fn2 (\<lambda>arg0 arg1. makeMutClosure (js_number arg0) (js_number arg1) d x))
     \<longleftrightarrow> x \<in> set (map fst ad)"
  "closure_maker ad (d, x) (fn3 (\<lambda>arg0 arg1 arg2. makeMutClosure (js_number arg0) (js_number arg1) d x))
     \<longleftrightarrow> x \<in> set (map fst ad)"
  by (auto simp: closure_maker_def fn_defs js_param_def)

end
