(* ===== verification/Glue_Modules.thy ===== *)
theory Glue_Modules
  imports Wasm_Init Closures Wbg_Objects Import_Table
begin

text \<open>
  The six generated modules of the GUI and the examples, each with the runtime functions that it declares:
  which views of the memory it caches, how it reads and passes strings, how its closures are called, the
  stream classes with the methods it lists, and its own \<^verbatim>\<open>__wbg_load\<close>, \<^verbatim>\<open>__wbg_finalize_init\<close>, \<^verbatim>\<open>initSync\<close>
  and \<^verbatim>\<open>__wbg_init\<close>. The generator emits the same function into several modules; where two versions differ
  the definitions name the form that the module has. The theorems at the end are about all the modules.
\<close>

section \<open>What a module declares\<close>

text \<open>
  How a module reaches the memory, the reference table and the exceptions of its instance: the views it
  caches, the readers of typed arrays with the view that each goes through, the two string functions.
\<close>

record 'w memory_glue =
  views :: "cache list"
  arrays :: "(cache \<times> (int \<Rightarrow> int \<Rightarrow> ('w, js_val) wjs)) list"
  read_string :: "int \<Rightarrow> int \<Rightarrow> ('w, js_string) wjs"
  pass_string :: "js_string \<Rightarrow> 'w mallocT \<Rightarrow> 'w reallocT option \<Rightarrow> ('w, int) wjs"
  add_reference :: "js_val \<Rightarrow> ('w, js_val) wjs"
  guard :: "('w, js_val) wjs \<Rightarrow> ('w, js_val) wjs"

record 'w closure_glue =
  new_real :: "int \<Rightarrow> int \<Rightarrow> js_val \<Rightarrow> string \<Rightarrow> ('w, js_val) wjs"
  call_real :: "(string \<Rightarrow> js_val list \<Rightarrow> ('w, js_val) wjs) \<Rightarrow> nat \<Rightarrow> js_val list \<Rightarrow> ('w, js_val) wjs"
  collect_real :: "nat \<Rightarrow> ('w, js_val) wjs"

text \<open>The methods of a class by name, on an object and the arguments of the call.\<close>

type_synonym 'w method_fn = "nat \<Rightarrow> js_val list \<Rightarrow> ('w, js_val) wjs"
type_synonym 'w method_table = "(string \<times> 'w method_fn) list"

record 'w wrapper_class =
  methods :: "'w method_table"
  finalizer :: "js_val \<Rightarrow> ('w, js_val) wjs"

text \<open>\<^verbatim>\<open>if (Symbol.dispose) C.prototype[Symbol.dispose] = C.prototype.free;\<close>\<close>

definition on_dispose :: "bool \<Rightarrow> 'w method_fn \<Rightarrow> 'w method_table" where
  "on_dispose dispose free = (if dispose then [(''[Symbol.dispose]'', free)] else [])"

section \<open>The module of \<^verbatim>\<open>src/crates/prophecy/dist/prophecy-e16c97ecc1556028.js\<close>\<close>

definition prophecy_passStringToWasm0 :: "'w js_env \<Rightarrow> js_string \<Rightarrow> 'w mallocT \<Rightarrow> 'w reallocT option \<Rightarrow> ('w, int) wjs" where
  "prophecy_passStringToWasm0 E = passStringToWasm0 E"

definition prophecy_memory :: "'w js_env \<Rightarrow> 'w memory_glue" where
  "prophecy_memory E = \<lparr>views = [Uint8_view, Data_view], arrays = [],
     read_string = getStringFromWasm0 E, pass_string = prophecy_passStringToWasm0 E,
     add_reference = addToExternrefTable0 E, guard = handleError E\<rparr>"

definition prophecy_closure_glue :: "'w js_env \<Rightarrow> 'w closure_glue" where
  "prophecy_closure_glue E = \<lparr>new_real = makeMutClosure, call_real = call_closure E, collect_real = closure_finalize E\<rparr>"

definition prophecy_debugString :: "'w js_env \<Rightarrow> js_val \<Rightarrow> ('w, js_string) wjs" where
  "prophecy_debugString E val = js_gets (\<lambda>s. debugString (host_shape E val s))"

definition prophecy_IntoUnderlyingByteSource :: "'w js_env \<Rightarrow> 'w wrapper_class" where
  "prophecy_IntoUnderlyingByteSource E = \<lparr>methods = [
     (''free'', \<lambda>i args. bytesource_free E i),
     (''type'', \<lambda>i args. bytesource_type E i),
     (''autoAllocateChunkSize'', \<lambda>i args. bytesource_autoAllocateChunkSize E i),
     (''start'', \<lambda>i args. bytesource_start E i (js_param args 0)),
     (''pull'', \<lambda>i args. bytesource_pull E i (js_param args 0)),
     (''cancel'', \<lambda>i args. bytesource_cancel E i)],
     finalizer = bytesource_finalize E\<rparr>"

definition prophecy_IntoUnderlyingSink :: "'w js_env \<Rightarrow> 'w wrapper_class" where
  "prophecy_IntoUnderlyingSink E = \<lparr>methods = [
     (''free'', \<lambda>i args. sink_free E i),
     (''write'', \<lambda>i args. sink_write E i (js_param args 0)),
     (''close'', \<lambda>i args. sink_close E i),
     (''abort'', \<lambda>i args. sink_abort E i (js_param args 0))],
     finalizer = sink_finalize E\<rparr>"

definition prophecy_IntoUnderlyingSource :: "'w js_env \<Rightarrow> 'w wrapper_class" where
  "prophecy_IntoUnderlyingSource E = \<lparr>methods = [
     (''free'', \<lambda>i args. source_free E i),
     (''pull'', \<lambda>i args. source_pull E i (js_param args 0)),
     (''cancel'', \<lambda>i args. source_cancel E i)],
     finalizer = source_finalize E\<rparr>"

definition prophecy_load :: "'w js_env \<Rightarrow> 'w two_values" where
  "prophecy_load E = wbg_load E"

definition prophecy_finalize_init :: "'w js_env \<Rightarrow> 'w two_values" where
  "prophecy_finalize_init E = wbg_finalize_init E [Data_view, Uint8_view]"

definition prophecy_initSync :: "'w js_env \<Rightarrow> js_val \<Rightarrow> 'w two_values" where
  "prophecy_initSync E imports = initSync E (prophecy_finalize_init E) imports"

definition prophecy_init :: "'w js_env \<Rightarrow> js_val \<Rightarrow> js_val \<Rightarrow> 'w two_values" where
  "prophecy_init E imports base =
     wbg_init E (prophecy_load E) (prophecy_finalize_init E) imports
       (bg_url E ''prophecy_bg.wasm'' base)"

lemmas prophecy_entry_defs = prophecy_initSync_def prophecy_init_def prophecy_finalize_init_def prophecy_load_def

interpretation prophecy: glue_entry "prophecy_initSync E ob" "prophecy_init E ob base" for E ob base
  by unfold_locales (simp_all add: prophecy_entry_defs entries_return_early entries_return_wasm finalize_returns_wasm)

section \<open>The module of \<^verbatim>\<open>src/examples/spectrum/dist/frontend-beed6691b218adf.js\<close>\<close>

definition spectrum_passStringToWasm0 :: "'w js_env \<Rightarrow> js_string \<Rightarrow> 'w mallocT \<Rightarrow> 'w reallocT option \<Rightarrow> ('w, int) wjs" where
  "spectrum_passStringToWasm0 E = passStringToWasm0 E"

definition spectrum_arrays :: "(cache \<times> (int \<Rightarrow> int \<Rightarrow> ('w, js_val) wjs)) list" where
  "spectrum_arrays = [(Uint8_view, getArrayU8FromWasm0)]"

definition spectrum_memory :: "'w js_env \<Rightarrow> 'w memory_glue" where
  "spectrum_memory E = \<lparr>views = [Uint8_view, Data_view], arrays = spectrum_arrays,
     read_string = getStringFromWasm0 E, pass_string = spectrum_passStringToWasm0 E,
     add_reference = addToExternrefTable0 E, guard = handleError E\<rparr>"

definition spectrum_closure_glue :: "'w js_env \<Rightarrow> 'w closure_glue" where
  "spectrum_closure_glue E = \<lparr>new_real = makeMutClosure, call_real = call_closure E, collect_real = closure_finalize E\<rparr>"

definition spectrum_debugString :: "'w js_env \<Rightarrow> js_val \<Rightarrow> ('w, js_string) wjs" where
  "spectrum_debugString E val = js_gets (\<lambda>s. debugString (host_shape E val s))"

definition spectrum_IntoUnderlyingByteSource :: "'w js_env \<Rightarrow> 'w wrapper_class" where
  "spectrum_IntoUnderlyingByteSource E = \<lparr>methods = [
     (''free'', \<lambda>i args. bytesource_free E i),
     (''type'', \<lambda>i args. bytesource_type E i),
     (''autoAllocateChunkSize'', \<lambda>i args. bytesource_autoAllocateChunkSize E i),
     (''start'', \<lambda>i args. bytesource_start E i (js_param args 0)),
     (''pull'', \<lambda>i args. bytesource_pull E i (js_param args 0)),
     (''cancel'', \<lambda>i args. bytesource_cancel E i)],
     finalizer = bytesource_finalize E\<rparr>"

definition spectrum_IntoUnderlyingSink :: "'w js_env \<Rightarrow> 'w wrapper_class" where
  "spectrum_IntoUnderlyingSink E = \<lparr>methods = [
     (''free'', \<lambda>i args. sink_free E i),
     (''write'', \<lambda>i args. sink_write E i (js_param args 0)),
     (''close'', \<lambda>i args. sink_close E i),
     (''abort'', \<lambda>i args. sink_abort E i (js_param args 0))],
     finalizer = sink_finalize E\<rparr>"

definition spectrum_IntoUnderlyingSource :: "'w js_env \<Rightarrow> 'w wrapper_class" where
  "spectrum_IntoUnderlyingSource E = \<lparr>methods = [
     (''free'', \<lambda>i args. source_free E i),
     (''pull'', \<lambda>i args. source_pull E i (js_param args 0)),
     (''cancel'', \<lambda>i args. source_cancel E i)],
     finalizer = source_finalize E\<rparr>"

definition spectrum_load :: "'w js_env \<Rightarrow> 'w two_values" where
  "spectrum_load E = wbg_load E"

definition spectrum_finalize_init :: "'w js_env \<Rightarrow> 'w two_values" where
  "spectrum_finalize_init E = wbg_finalize_init E [Data_view, Uint8_view]"

definition spectrum_initSync :: "'w js_env \<Rightarrow> js_val \<Rightarrow> 'w two_values" where
  "spectrum_initSync E imports = initSync E (spectrum_finalize_init E) imports"

definition spectrum_init :: "'w js_env \<Rightarrow> js_val \<Rightarrow> js_val \<Rightarrow> 'w two_values" where
  "spectrum_init E imports base =
     wbg_init E (spectrum_load E) (spectrum_finalize_init E) imports
       (bg_url E ''frontend_bg.wasm'' base)"

lemmas spectrum_entry_defs = spectrum_initSync_def spectrum_init_def spectrum_finalize_init_def spectrum_load_def

interpretation spectrum: glue_entry "spectrum_initSync E ob" "spectrum_init E ob base" for E ob base
  by unfold_locales (simp_all add: spectrum_entry_defs entries_return_early entries_return_wasm finalize_returns_wasm)

section \<open>The module of \<^verbatim>\<open>src/examples/wlan-swap/dist/frontend-26c19e7ec5c5840c.js\<close>\<close>

definition wlan_swap_passStringToWasm0 :: "'w js_env \<Rightarrow> js_string \<Rightarrow> 'w mallocT \<Rightarrow> 'w reallocT option \<Rightarrow> ('w, int) wjs" where
  "wlan_swap_passStringToWasm0 E = passStringToWasm0 E"

definition wlan_swap_arrays :: "(cache \<times> (int \<Rightarrow> int \<Rightarrow> ('w, js_val) wjs)) list" where
  "wlan_swap_arrays = [(Uint8_view, getArrayU8FromWasm0), (Uint16_view, getArrayU16FromWasm0), (Float32_view, getArrayF32FromWasm0)]"

definition wlan_swap_memory :: "'w js_env \<Rightarrow> 'w memory_glue" where
  "wlan_swap_memory E = \<lparr>views = [Uint8_view, Data_view, Uint16_view, Float32_view], arrays = wlan_swap_arrays,
     read_string = getStringFromWasm0_counted E, pass_string = wlan_swap_passStringToWasm0 E,
     add_reference = addToExternrefTable0 E, guard = handleError E\<rparr>"

definition wlan_swap_closure_glue :: "'w js_env \<Rightarrow> 'w closure_glue" where
  "wlan_swap_closure_glue E = \<lparr>new_real = makeMutClosure, call_real = call_closure E, collect_real = closure_finalize E\<rparr>"

definition wlan_swap_debugString :: "'w js_env \<Rightarrow> js_val \<Rightarrow> ('w, js_string) wjs" where
  "wlan_swap_debugString E val = js_gets (\<lambda>s. debugString (host_shape E val s))"

definition wlan_swap_IntoUnderlyingByteSource :: "'w js_env \<Rightarrow> bool \<Rightarrow> 'w wrapper_class" where
  "wlan_swap_IntoUnderlyingByteSource E dispose = \<lparr>methods = [
     (''free'', \<lambda>i args. bytesource_free E i),
     (''autoAllocateChunkSize'', \<lambda>i args. bytesource_autoAllocateChunkSize E i),
     (''pull'', \<lambda>i args. bytesource_pull E i (js_param args 0)),
     (''start'', \<lambda>i args. bytesource_start E i (js_param args 0)),
     (''type'', \<lambda>i args. bytesource_type E i),
     (''cancel'', \<lambda>i args. bytesource_cancel E i)]
     @ on_dispose dispose (\<lambda>i args. bytesource_free E i), finalizer = bytesource_finalize E\<rparr>"

definition wlan_swap_IntoUnderlyingSink :: "'w js_env \<Rightarrow> bool \<Rightarrow> 'w wrapper_class" where
  "wlan_swap_IntoUnderlyingSink E dispose = \<lparr>methods = [
     (''free'', \<lambda>i args. sink_free E i),
     (''abort'', \<lambda>i args. sink_abort E i (js_param args 0)),
     (''close'', \<lambda>i args. sink_close E i),
     (''write'', \<lambda>i args. sink_write E i (js_param args 0))]
     @ on_dispose dispose (\<lambda>i args. sink_free E i), finalizer = sink_finalize E\<rparr>"

definition wlan_swap_IntoUnderlyingSource :: "'w js_env \<Rightarrow> bool \<Rightarrow> 'w wrapper_class" where
  "wlan_swap_IntoUnderlyingSource E dispose = \<lparr>methods = [
     (''free'', \<lambda>i args. source_free E i),
     (''pull'', \<lambda>i args. source_pull E i (js_param args 0)),
     (''cancel'', \<lambda>i args. source_cancel E i)]
     @ on_dispose dispose (\<lambda>i args. source_free E i), finalizer = source_finalize E\<rparr>"

definition wlan_swap_load :: "'w js_env \<Rightarrow> 'w two_values" where
  "wlan_swap_load E = wbg_load_checked E"

definition wlan_swap_finalize_init :: "'w js_env \<Rightarrow> 'w two_values" where
  "wlan_swap_finalize_init E = wbg_finalize_init E [Data_view, Float32_view, Uint16_view, Uint8_view]"

definition wlan_swap_initSync :: "'w js_env \<Rightarrow> js_val \<Rightarrow> 'w two_values" where
  "wlan_swap_initSync E imports = initSync E (wlan_swap_finalize_init E) imports"

definition wlan_swap_init :: "'w js_env \<Rightarrow> js_val \<Rightarrow> js_val \<Rightarrow> 'w two_values" where
  "wlan_swap_init E imports base =
     wbg_init E (wlan_swap_load E) (wlan_swap_finalize_init E) imports
       (bg_url E ''frontend_bg.wasm'' base)"

lemmas wlan_swap_entry_defs = wlan_swap_initSync_def wlan_swap_init_def wlan_swap_finalize_init_def wlan_swap_load_def

interpretation wlan_swap: glue_entry "wlan_swap_initSync E ob" "wlan_swap_init E ob base" for E ob base
  by unfold_locales (simp_all add: wlan_swap_entry_defs entries_return_early entries_return_wasm finalize_returns_wasm)

section \<open>The module of \<^verbatim>\<open>src/examples/wlan/dist/frontend-886c4e58df3ed73f.js\<close>\<close>

definition wlan_passStringToWasm0 :: "'w js_env \<Rightarrow> js_string \<Rightarrow> 'w mallocT \<Rightarrow> 'w reallocT option \<Rightarrow> ('w, int) wjs" where
  "wlan_passStringToWasm0 E = passStringToWasm0 E"

definition wlan_arrays :: "(cache \<times> (int \<Rightarrow> int \<Rightarrow> ('w, js_val) wjs)) list" where
  "wlan_arrays = [(Float32_view, getArrayF32FromWasm0), (Uint16_view, getArrayU16FromWasm0), (Uint8_view, getArrayU8FromWasm0)]"

definition wlan_memory :: "'w js_env \<Rightarrow> 'w memory_glue" where
  "wlan_memory E = \<lparr>views = [Data_view, Float32_view, Uint16_view, Uint8_view], arrays = wlan_arrays,
     read_string = getStringFromWasm0_counted E, pass_string = wlan_passStringToWasm0 E,
     add_reference = addToExternrefTable0 E, guard = handleError E\<rparr>"

definition wlan_closure_glue :: "'w js_env \<Rightarrow> 'w closure_glue" where
  "wlan_closure_glue E = \<lparr>new_real = makeMutClosure, call_real = call_closure_unref E, collect_real = closure_finalize E\<rparr>"

definition wlan_debugString :: "'w js_env \<Rightarrow> js_val \<Rightarrow> ('w, js_string) wjs" where
  "wlan_debugString E val = js_gets (\<lambda>s. debugString (host_shape E val s))"

definition wlan_IntoUnderlyingByteSource :: "'w js_env \<Rightarrow> bool \<Rightarrow> 'w wrapper_class" where
  "wlan_IntoUnderlyingByteSource E dispose = \<lparr>methods = [
     (''free'', \<lambda>i args. bytesource_free E i),
     (''autoAllocateChunkSize'', \<lambda>i args. bytesource_autoAllocateChunkSize E i),
     (''cancel'', \<lambda>i args. bytesource_cancel E i),
     (''pull'', \<lambda>i args. bytesource_pull E i (js_param args 0)),
     (''start'', \<lambda>i args. bytesource_start E i (js_param args 0)),
     (''type'', \<lambda>i args. bytesource_type E i)]
     @ on_dispose dispose (\<lambda>i args. bytesource_free E i), finalizer = bytesource_finalize E\<rparr>"

definition wlan_IntoUnderlyingSink :: "'w js_env \<Rightarrow> bool \<Rightarrow> 'w wrapper_class" where
  "wlan_IntoUnderlyingSink E dispose = \<lparr>methods = [
     (''free'', \<lambda>i args. sink_free E i),
     (''abort'', \<lambda>i args. sink_abort E i (js_param args 0)),
     (''close'', \<lambda>i args. sink_close E i),
     (''write'', \<lambda>i args. sink_write E i (js_param args 0))]
     @ on_dispose dispose (\<lambda>i args. sink_free E i), finalizer = sink_finalize E\<rparr>"

definition wlan_IntoUnderlyingSource :: "'w js_env \<Rightarrow> bool \<Rightarrow> 'w wrapper_class" where
  "wlan_IntoUnderlyingSource E dispose = \<lparr>methods = [
     (''free'', \<lambda>i args. source_free E i),
     (''cancel'', \<lambda>i args. source_cancel E i),
     (''pull'', \<lambda>i args. source_pull E i (js_param args 0))]
     @ on_dispose dispose (\<lambda>i args. source_free E i), finalizer = source_finalize E\<rparr>"

definition wlan_load :: "'w js_env \<Rightarrow> 'w two_values" where
  "wlan_load E = wbg_load_checked E"

definition wlan_finalize_init :: "'w js_env \<Rightarrow> 'w two_values" where
  "wlan_finalize_init E = wbg_finalize_init E [Data_view, Float32_view, Uint16_view, Uint8_view]"

definition wlan_import_object :: "'w js_env \<Rightarrow> (string \<times> js_val) list \<Rightarrow> js_val \<Rightarrow> ('w, js_val) wjs" where
  "wlan_import_object E functions memory =
     js_let (host_object E (functions @ [(''memory'', memory)])) (\<lambda>import0.
     host_object E [(''./frontend_bg.js'', import0)])"

definition wlan_initSync :: "'w js_env \<Rightarrow> (string \<times> js_val) list \<Rightarrow> 'w two_values" where
  "wlan_initSync E functions = initSync_new E (wlan_finalize_init E) (wlan_import_object E functions)"

definition wlan_init :: "'w js_env \<Rightarrow> (string \<times> js_val) list \<Rightarrow> js_val \<Rightarrow> 'w two_values" where
  "wlan_init E functions base =
     wbg_init_new E (wlan_load E) (wlan_finalize_init E) (wlan_import_object E functions)
       (bg_url E ''frontend_bg.wasm'' base)"

lemmas wlan_entry_defs = wlan_initSync_def wlan_init_def wlan_finalize_init_def wlan_load_def wlan_import_object_def

interpretation wlan: glue_entry "wlan_initSync E ob" "wlan_init E ob base" for E ob base
  by unfold_locales (simp_all add: wlan_entry_defs entries_return_early entries_return_wasm finalize_returns_wasm)

section \<open>The module of \<^verbatim>\<open>src/examples/wlan_debug/dist/frontend-8a18c05eb146efa7.js\<close>\<close>

definition wlan_debug_passStringToWasm0 :: "'w js_env \<Rightarrow> js_string \<Rightarrow> 'w mallocT \<Rightarrow> 'w reallocT option \<Rightarrow> ('w, int) wjs" where
  "wlan_debug_passStringToWasm0 E = passStringToWasm0 E"

definition wlan_debug_arrays :: "(cache \<times> (int \<Rightarrow> int \<Rightarrow> ('w, js_val) wjs)) list" where
  "wlan_debug_arrays = [(Float32_view, getArrayF32FromWasm0), (Uint16_view, getArrayU16FromWasm0), (Uint8_view, getArrayU8FromWasm0)]"

definition wlan_debug_memory :: "'w js_env \<Rightarrow> 'w memory_glue" where
  "wlan_debug_memory E = \<lparr>views = [Data_view, Float32_view, Uint16_view, Uint8_view], arrays = wlan_debug_arrays,
     read_string = getStringFromWasm0_counted E, pass_string = wlan_debug_passStringToWasm0 E,
     add_reference = addToExternrefTable0 E, guard = handleError E\<rparr>"

definition wlan_debug_closure_glue :: "'w js_env \<Rightarrow> 'w closure_glue" where
  "wlan_debug_closure_glue E = \<lparr>new_real = makeMutClosure, call_real = call_closure_unref E, collect_real = closure_finalize E\<rparr>"

definition wlan_debug_debugString :: "'w js_env \<Rightarrow> js_val \<Rightarrow> ('w, js_string) wjs" where
  "wlan_debug_debugString E val = js_gets (\<lambda>s. debugString (host_shape E val s))"

definition wlan_debug_IntoUnderlyingByteSource :: "'w js_env \<Rightarrow> bool \<Rightarrow> 'w wrapper_class" where
  "wlan_debug_IntoUnderlyingByteSource E dispose = \<lparr>methods = [
     (''free'', \<lambda>i args. bytesource_free E i),
     (''autoAllocateChunkSize'', \<lambda>i args. bytesource_autoAllocateChunkSize E i),
     (''cancel'', \<lambda>i args. bytesource_cancel E i),
     (''pull'', \<lambda>i args. bytesource_pull E i (js_param args 0)),
     (''start'', \<lambda>i args. bytesource_start E i (js_param args 0)),
     (''type'', \<lambda>i args. bytesource_type E i)]
     @ on_dispose dispose (\<lambda>i args. bytesource_free E i), finalizer = bytesource_finalize E\<rparr>"

definition wlan_debug_IntoUnderlyingSink :: "'w js_env \<Rightarrow> bool \<Rightarrow> 'w wrapper_class" where
  "wlan_debug_IntoUnderlyingSink E dispose = \<lparr>methods = [
     (''free'', \<lambda>i args. sink_free E i),
     (''abort'', \<lambda>i args. sink_abort E i (js_param args 0)),
     (''close'', \<lambda>i args. sink_close E i),
     (''write'', \<lambda>i args. sink_write E i (js_param args 0))]
     @ on_dispose dispose (\<lambda>i args. sink_free E i), finalizer = sink_finalize E\<rparr>"

definition wlan_debug_IntoUnderlyingSource :: "'w js_env \<Rightarrow> bool \<Rightarrow> 'w wrapper_class" where
  "wlan_debug_IntoUnderlyingSource E dispose = \<lparr>methods = [
     (''free'', \<lambda>i args. source_free E i),
     (''cancel'', \<lambda>i args. source_cancel E i),
     (''pull'', \<lambda>i args. source_pull E i (js_param args 0))]
     @ on_dispose dispose (\<lambda>i args. source_free E i), finalizer = source_finalize E\<rparr>"

definition wlan_debug_load :: "'w js_env \<Rightarrow> 'w two_values" where
  "wlan_debug_load E = wbg_load_checked E"

definition wlan_debug_finalize_init :: "'w js_env \<Rightarrow> 'w two_values" where
  "wlan_debug_finalize_init E = wbg_finalize_init E [Data_view, Float32_view, Uint16_view, Uint8_view]"

definition wlan_debug_import_object :: "'w js_env \<Rightarrow> (string \<times> js_val) list \<Rightarrow> js_val \<Rightarrow> ('w, js_val) wjs" where
  "wlan_debug_import_object E functions memory =
     js_let (host_object E (functions @ [(''memory'', memory)])) (\<lambda>import0.
     host_object E [(''./frontend_bg.js'', import0)])"

definition wlan_debug_initSync :: "'w js_env \<Rightarrow> (string \<times> js_val) list \<Rightarrow> 'w two_values" where
  "wlan_debug_initSync E functions = initSync_new E (wlan_debug_finalize_init E) (wlan_debug_import_object E functions)"

definition wlan_debug_init :: "'w js_env \<Rightarrow> (string \<times> js_val) list \<Rightarrow> js_val \<Rightarrow> 'w two_values" where
  "wlan_debug_init E functions base =
     wbg_init_new E (wlan_debug_load E) (wlan_debug_finalize_init E) (wlan_debug_import_object E functions)
       (bg_url E ''frontend_bg.wasm'' base)"

lemmas wlan_debug_entry_defs = wlan_debug_initSync_def wlan_debug_init_def wlan_debug_finalize_init_def wlan_debug_load_def wlan_debug_import_object_def

interpretation wlan_debug: glue_entry "wlan_debug_initSync E ob" "wlan_debug_init E ob base" for E ob base
  by unfold_locales (simp_all add: wlan_debug_entry_defs entries_return_early entries_return_wasm finalize_returns_wasm)

section \<open>The module of \<^verbatim>\<open>src/examples/wgpu/dist/loopback-65daf9cf8bd0f5a7.js\<close>\<close>

definition wgpu_passStringToWasm0 :: "'w js_env \<Rightarrow> js_string \<Rightarrow> 'w mallocT \<Rightarrow> 'w reallocT option \<Rightarrow> ('w, int) wjs" where
  "wgpu_passStringToWasm0 E = passStringToWasm0 E"

definition wgpu_arrays :: "(cache \<times> (int \<Rightarrow> int \<Rightarrow> ('w, js_val) wjs)) list" where
  "wgpu_arrays = [(Uint8_view, getArrayU8FromWasm0), (Uint32_view, getArrayU32FromWasm0)]"

definition wgpu_memory :: "'w js_env \<Rightarrow> 'w memory_glue" where
  "wgpu_memory E = \<lparr>views = [Uint8_view, Data_view, Uint32_view], arrays = wgpu_arrays,
     read_string = getStringFromWasm0 E, pass_string = wgpu_passStringToWasm0 E,
     add_reference = addToExternrefTable0 E, guard = handleError E\<rparr>"

definition wgpu_closure_glue :: "'w js_env \<Rightarrow> 'w closure_glue" where
  "wgpu_closure_glue E = \<lparr>new_real = makeMutClosure, call_real = call_closure E, collect_real = closure_finalize E\<rparr>"

definition wgpu_debugString :: "'w js_env \<Rightarrow> js_val \<Rightarrow> ('w, js_string) wjs" where
  "wgpu_debugString E val = js_gets (\<lambda>s. debugString (host_shape E val s))"

definition wgpu_load :: "'w js_env \<Rightarrow> 'w two_values" where
  "wgpu_load E = wbg_load E"

definition wgpu_finalize_init :: "'w js_env \<Rightarrow> 'w two_values" where
  "wgpu_finalize_init E = wbg_finalize_init E [Data_view, Uint32_view, Uint8_view]"

definition wgpu_initSync :: "'w js_env \<Rightarrow> js_val \<Rightarrow> 'w two_values" where
  "wgpu_initSync E imports = initSync E (wgpu_finalize_init E) imports"

definition wgpu_init :: "'w js_env \<Rightarrow> js_val \<Rightarrow> js_val \<Rightarrow> 'w two_values" where
  "wgpu_init E imports base =
     wbg_init E (wgpu_load E) (wgpu_finalize_init E) imports
       (bg_url E ''loopback_bg.wasm'' base)"

lemmas wgpu_entry_defs = wgpu_initSync_def wgpu_init_def wgpu_finalize_init_def wgpu_load_def

interpretation wgpu: glue_entry "wgpu_initSync E ob" "wgpu_init E ob base" for E ob base
  by unfold_locales (simp_all add: wgpu_entry_defs entries_return_early entries_return_wasm finalize_returns_wasm)

end
