(* ===== verification/Rattlegram_Decoder.thy ===== *)
theory Rattlegram_Decoder
  imports Wbg_Objects Wasm_Init Import_Table
begin

text \<open>
  The glue of the rattlegram decoder, \<^verbatim>\<open>src/examples/rattlegram/worklet/wasm-decoder.js\<close>: samples in,
  a decoded string out, the classes \<^verbatim>\<open>MessageSetter\<close> and \<^verbatim>\<open>WasmDecoder\<close>, and the import object. The
  string functions and views are those of the runtime theory. The theorems show that \<^verbatim>\<open>process\<close>
  gives the module's stack pointer back on every way out that is not a trap of the module itself, and
  that it returns the string the module left in its return slot.
\<close>

section \<open>Arrays and cached strings\<close>

text \<open>\<^verbatim>\<open>getFloat32Memory0().set(arg, off)\<close>; a sample is its 32-bit pattern.\<close>

type_synonym f32 = "32 word"

definition f32_bytes :: "f32 list \<Rightarrow> u8 list" where
  "f32_bytes xs = concat (map (\<lambda>x. le32 (uint x)) xs)"

definition f32_set :: "f32 list \<Rightarrow> int \<Rightarrow> ('w, js_val) wjs" where
  "f32_set arg off = (\<lambda>s.
     if int (length (mem s) div 4) < off + int (length arg) then (Throw (EngineErr ''RangeError''), s)
     else (Ret Undefined, s\<lparr>mem := write_bytes (mem s) (nat (4 * off)) (f32_bytes arg)\<rparr>))"

text \<open>\<open>None\<close> is the argument \<^verbatim>\<open>undefined\<close>: reading its length is a \<^verbatim>\<open>TypeError\<close>.\<close>

definition passArrayF32ToWasm0 :: "f32 list option \<Rightarrow> 'w mallocT \<Rightarrow> ('w, int) wjs" where
  "passArrayF32ToWasm0 arg malloc =
     (case arg of
        None \<Rightarrow> js_throw TypeError
      | Some xs \<Rightarrow>
          js_let (malloc (int (length xs) * 4) 4) (\<lambda>p. let ptr = to_uint32 p in
          js_let getFloat32Memory0 (\<lambda>view.
          js_seq (f32_set xs (ptr div 4))
          (js_seq (js_modify (\<lambda>s. s\<lparr>WASM_VECTOR_LEN := int (length xs)\<rparr>))
          (js_return ptr)))))"

text \<open>\<^verbatim>\<open>getInt32Memory0()[a / 4]\<close>, read and written.\<close>

definition i32_index :: "int \<Rightarrow> 'w js_state \<Rightarrow> bool" where
  "i32_index a s \<longleftrightarrow> 0 \<le> a \<and> 4 dvd a \<and> a div 4 < int (length (mem s) div 4)"

definition i32_load :: "int \<Rightarrow> ('w, js_val) wjs" where
  "i32_load a =
     js_let getInt32Memory0 (\<lambda>view.
     js_gets (\<lambda>s. if i32_index a s then Num (read32 (mem s) (nat a)) else Undefined))"

definition i32_store :: "int \<Rightarrow> int \<Rightarrow> ('w, js_val) wjs" where
  "i32_store a v =
     js_let getInt32Memory0 (\<lambda>view.
     js_modify (\<lambda>s. if i32_index a s then s\<lparr>mem := write_bytes (mem s) (nat a) (le32 v)\<rparr> else s))"

definition getFromExternrefTable0 :: "int \<Rightarrow> ('w, js_val) wjs" where
  "getFromExternrefTable0 idx = table_get idx"

definition getCachedStringFromWasm0 :: "'w js_env \<Rightarrow> js_val \<Rightarrow> js_val \<Rightarrow> ('w, js_val) wjs" where
  "getCachedStringFromWasm0 E ptr len =
     (if ptr = Num 0 then getFromExternrefTable0 (js_number len) else js_str E ptr len)"

definition notDefined :: "string \<Rightarrow> 'w import_fn" where
  "notDefined what = (\<lambda>args. js_throw (Err (js (what @ '' is not defined''))))"

section \<open>MessageSetter and WasmDecoder\<close>

definition messagesetter_free :: "'w js_env \<Rightarrow> nat \<Rightarrow> ('w, js_val) wjs" where
  "messagesetter_free E i =
     js_let (destroy_into_raw i) (\<lambda>ptr. js_do (wasm_call E ''__wbg_messagesetter_free'' [ptr]))"

definition messagesetter_finalize :: "'w js_env \<Rightarrow> js_val \<Rightarrow> ('w, js_val) wjs" where
  "messagesetter_finalize E ptr = wasm_call E ''__wbg_messagesetter_free'' [js_u32 ptr]"

definition messagesetter_message :: "'w js_env \<Rightarrow> nat \<Rightarrow> js_val \<Rightarrow> ('w, js_val) wjs" where
  "messagesetter_message E i v =
     js_let (pass_value E v) (\<lambda>ptr0.
     js_let (js_gets WASM_VECTOR_LEN) (\<lambda>len0.
     js_let (this_ptr i) (\<lambda>this.
     js_do (wasm_call E ''messagesetter_message'' [this, Num ptr0, Num len0]))))"

definition wasmdecoder_wrap :: "js_val \<Rightarrow> ('w, js_val) wjs" where
  "wasmdecoder_wrap ptr = (\<lambda>s.
     let i = next_object s; x = \<lparr>wbg_ptr = to_uint32 (js_number ptr), wbg_registered = True\<rparr>
     in (Ret (Obj i), s\<lparr>objects := (objects s)(i \<mapsto> x), next_object := i + 1\<rparr>))"

definition wasmdecoder_free :: "'w js_env \<Rightarrow> nat \<Rightarrow> ('w, js_val) wjs" where
  "wasmdecoder_free E i =
     js_let (destroy_into_raw i) (\<lambda>ptr. js_do (wasm_call E ''__wbg_wasmdecoder_free'' [ptr]))"

definition wasmdecoder_finalize :: "'w js_env \<Rightarrow> js_val \<Rightarrow> ('w, js_val) wjs" where
  "wasmdecoder_finalize E ptr = wasm_call E ''__wbg_wasmdecoder_free'' [js_u32 ptr]"

definition wasmdecoder_new :: "'w js_env \<Rightarrow> ('w, js_val) wjs" where
  "wasmdecoder_new E = js_let (wasm_call E ''wasmdecoder_new'' []) wasmdecoder_wrap"

definition add_to_stack_pointer :: "'w js_env \<Rightarrow> int \<Rightarrow> ('w, js_val) wjs" where
  "add_to_stack_pointer E d = wasm_call E ''__wbindgen_add_to_stack_pointer'' [Num d]"

definition process_body :: "'w js_env \<Rightarrow> nat \<Rightarrow> f32 list option \<Rightarrow> js_val \<Rightarrow> ('w, js_val) wjs" where
  "process_body E i samples retptr =
     js_let (passArrayF32ToWasm0 samples (wasm_malloc E)) (\<lambda>ptr0.
     js_let (js_gets WASM_VECTOR_LEN) (\<lambda>len0.
     js_let (this_ptr i) (\<lambda>this.
     js_seq (wasm_call E ''wasmdecoder_process'' [retptr, this, Num ptr0, Num len0])
     (js_let (i32_load (js_number retptr + 4 * 0)) (\<lambda>r0.
     js_let (i32_load (js_number retptr + 4 * 1)) (\<lambda>r1.
     js_let (getCachedStringFromWasm0 E r0 r1) (\<lambda>v2.
     js_seq (if r0 \<noteq> Num 0 then wasm_call E ''__wbindgen_free'' [r0, r1, Num 1] else js_return Undefined)
     (js_return v2))))))))"

definition wasmdecoder_process :: "'w js_env \<Rightarrow> nat \<Rightarrow> f32 list option \<Rightarrow> ('w, js_val) wjs" where
  "wasmdecoder_process E i samples =
     js_try_finally
       (js_let (add_to_stack_pointer E (- 16)) (process_body E i samples))
       (add_to_stack_pointer E 16)"

section \<open>Imports\<close>

text \<open>
  \<^verbatim>\<open>typeof console.m == 'function' ? console.m : notDefined('console.m')\<close>, read when the object is built.
\<close>

definition console_import :: "'w js_env \<Rightarrow> string \<Rightarrow> ('w, 'w import_fn) wjs" where
  "console_import E m =
     js_let (js_let (js_global E ''console'') (\<lambda>c. js_member E c m)) (\<lambda>f.
     js_let (js_gets (js_typeof E f)) (\<lambda>ty.
     if ty = ''function''
     then js_let (js_let (js_global E ''console'') (\<lambda>c. js_member E c m)) (\<lambda>g. js_return (host_apply E g Undefined))
     else js_return (notDefined (''console.'' @ m))))"

definition rattlegram_imports :: "'w js_env \<Rightarrow> ('w, 'w import_table) wjs" where
  "rattlegram_imports E =
     js_let (console_import E ''debug'') (\<lambda>c_debug.
     js_let (console_import E ''error'') (\<lambda>c_error.
     js_let (console_import E ''info'') (\<lambda>c_info.
     js_let (console_import E ''log'') (\<lambda>c_log.
     js_let (console_import E ''warn'') (\<lambda>c_warn.
     js_return [
       (''__wbindgen_string_new'', fn2 (\<lambda>arg0 arg1. js_str E arg0 arg1)),
       (''__wbg_new_abda76e883ba8a5f'', fn0 (js_new_error (js_return []))),
       (''__wbg_stack_658279fe44541cf6'', fn2 (\<lambda>arg0 arg1.
          js_let (js_member E arg1 ''stack'') (\<lambda>ret.
          js_let (pass_value E ret) (\<lambda>ptr1.
          js_let (js_gets WASM_VECTOR_LEN) (\<lambda>len1.
          js_seq (i32_store (js_number arg0 + 4 * 1) len1)
          (js_do (i32_store (js_number arg0 + 4 * 0) ptr1))))))),
       (''__wbg_error_f851667af71bcfc6'', fn2 (\<lambda>arg0 arg1.
          js_let (getCachedStringFromWasm0 E arg0 arg1) (\<lambda>v0.
          js_seq (if arg0 \<noteq> Num 0 then wasm_free E arg0 arg1 else js_return Undefined)
          (js_do (js_static E ''console'' ''error'' [js_return v0]))))),
       (''__wbg_debug_81bf1b6b83cc1a06'', c_debug),
       (''__wbg_error_1f4e3e298a7c97f6'', c_error),
       (''__wbg_info_24b7c0f9d7eb6623'', c_info),
       (''__wbg_log_9dfb3879776dd797'', c_log),
       (''__wbg_warn_0e0204547af47087'', c_warn),
       (''__wbindgen_throw'', fn2 (\<lambda>arg0 arg1.
          js_let (js_new_error (getStringFromWasm0 E (js_number arg0) (js_number arg1))) js_throw)),
       (''__wbindgen_init_externref_table'', fn0 wbindgen_init_externref_table)])))))"

section \<open>Loading the decoder\<close>

definition rattlegram_load :: "'w js_env \<Rightarrow> 'w two_values" where
  "rattlegram_load E = wbg_load_old E"

definition rattlegram_finalize_init :: "'w js_env \<Rightarrow> 'w two_values" where
  "rattlegram_finalize_init E = wbg_finalize_init E [Float32_view, Int32_view, Uint8_view]"

definition rattlegram_initSync :: "'w js_env \<Rightarrow> js_val \<Rightarrow> 'w two_values" where
  "rattlegram_initSync E imports = initSync_old E (rattlegram_finalize_init E) imports"

definition rattlegram_init :: "'w js_env \<Rightarrow> js_val \<Rightarrow> js_val \<Rightarrow> 'w two_values" where
  "rattlegram_init E imports base =
     wbg_init_old E (rattlegram_load E) (rattlegram_finalize_init E) imports
       (bg_url E ''wasm-decoder_bg.wasm'' base)"

lemmas rattlegram_entry_defs = rattlegram_initSync_def rattlegram_init_def rattlegram_finalize_init_def rattlegram_load_def

interpretation rattlegram: glue_entry "rattlegram_initSync E ob" "rattlegram_init E ob base" for E ob base
  by unfold_locales (simp_all add: rattlegram_entry_defs entries_return_early entries_return_wasm finalize_returns_wasm)

section \<open>The stack pointer\<close>

text \<open>
  The module keeps its stack pointer in a global variable, here a function of the world. The exports
  that \<^verbatim>\<open>process\<close> calls either return with the pointer as they found it or trap; the one that moves it
  moves it by its argument.
\<close>

definition stack_contract :: "'w js_env \<Rightarrow> ('w \<Rightarrow> int) \<Rightarrow> (js_val \<Rightarrow> bool) \<Rightarrow> bool" where
  "stack_contract E sp trap \<longleftrightarrow>
     (\<forall>d s. case add_to_stack_pointer E d s of
        (Ret v, t) \<Rightarrow> sp (world t) = sp (world s) + d
      | (Throw e, t) \<Rightarrow> trap e) \<and>
     (\<forall>f args s. f \<in> {''__wbindgen_malloc'', ''wasmdecoder_process'', ''__wbindgen_free''} \<longrightarrow>
        (case wasm_call E f args s of
           (Ret v, t) \<Rightarrow> sp (world t) = sp (world s)
         | (Throw e, t) \<Rightarrow> trap e))"

definition shifts :: "('w \<Rightarrow> int) \<Rightarrow> (js_val \<Rightarrow> bool) \<Rightarrow> int \<Rightarrow> ('w, 'a) wjs \<Rightarrow> bool" where
  "shifts sp trap d m \<longleftrightarrow>
     (\<forall>s r t. m s = (r, t) \<longrightarrow> sp (world t) = sp (world s) + d \<or> (\<exists>e. r = Throw e \<and> trap e))"

named_theorems shifts_intros \<open>how statements move the stack pointer\<close>

lemma shifts_let [shifts_intros]:
  assumes "shifts sp trap d m" "\<And>v. shifts sp trap 0 (f v)"
  shows "shifts sp trap d (js_let m f)"
  unfolding shifts_def
proof (intro allI impI)
  fix s r t assume run: "js_let m f s = (r, t)"
  obtain o' u where m: "m s = (o', u)" by (cases "m s")
  show "sp (world t) = sp (world s) + d \<or> (\<exists>e. r = Throw e \<and> trap e)"
  proof (cases o')
    case (Ret v)
    have "sp (world u) = sp (world s) + d" using assms(1) m Ret unfolding shifts_def by fastforce
    moreover have "sp (world t) = sp (world u) + 0 \<or> (\<exists>e. r = Throw e \<and> trap e)"
      using assms(2) [of v] run m Ret unfolding shifts_def by (simp add: js_let_Ret)
    ultimately show ?thesis by simp
  next
    case (Throw e)
    then show ?thesis using assms(1) m run unfolding shifts_def by (auto simp: js_let_Throw)
  qed
qed

lemma shifts_seq [shifts_intros]:
  "shifts sp trap d m \<Longrightarrow> shifts sp trap 0 n \<Longrightarrow> shifts sp trap d (js_seq m n)"
  unfolding js_seq_def by (rule shifts_let)

lemma shifts_same_world [shifts_intros]:
  "(\<And>s. world (snd (m s)) = world s) \<Longrightarrow> shifts sp trap 0 m"
  unfolding shifts_def by (metis add_0_right snd_conv)

lemma shifts_finally:
  assumes "shifts sp trap d m" "shifts sp trap d' fin" "\<And>s e t. fin s = (Throw e, t) \<Longrightarrow> trap e"
  shows "shifts sp trap (d + d') (js_try_finally m fin)"
  unfolding shifts_def
proof (intro allI impI)
  fix s r t assume run: "js_try_finally m fin s = (r, t)"
  obtain o1 u where m: "m s = (o1, u)" by (cases "m s")
  obtain o2 w where f: "fin u = (o2, w)" by (cases "fin u")
  show "sp (world t) = sp (world s) + (d + d') \<or> (\<exists>e. r = Throw e \<and> trap e)"
  proof (cases o2)
    case (Throw e)
    then show ?thesis using assms(3) run m f by (auto simp: js_try_finally_def)
  next
    case (Ret v)
    then have "r = o1" "t = w" "sp (world w) = sp (world u) + d'"
      using assms(2) run m f unfolding shifts_def by (fastforce simp: js_try_finally_def)+
    then show ?thesis using assms(1) m unfolding shifts_def by fastforce
  qed
qed

lemma stack_contractD:
  assumes "stack_contract E sp trap"
  shows "case add_to_stack_pointer E d s of
        (Ret v, t) \<Rightarrow> sp (world t) = sp (world s) + d | (Throw e, t) \<Rightarrow> trap e"
    and "f \<in> {''__wbindgen_malloc'', ''wasmdecoder_process'', ''__wbindgen_free''} \<Longrightarrow>
       (case wasm_call E f args s of (Ret v, t) \<Rightarrow> sp (world t) = sp (world s) | (Throw e, t) \<Rightarrow> trap e)"
proof -
  note c = assms [unfolded stack_contract_def]
  show "case add_to_stack_pointer E d s of
        (Ret v, t) \<Rightarrow> sp (world t) = sp (world s) + d | (Throw e, t) \<Rightarrow> trap e"
    using conjunct1 [OF c] by (elim allE)
  assume "f \<in> {''__wbindgen_malloc'', ''wasmdecoder_process'', ''__wbindgen_free''}"
  with conjunct2 [OF c] show "case wasm_call E f args s of
        (Ret v, t) \<Rightarrow> sp (world t) = sp (world s) | (Throw e, t) \<Rightarrow> trap e"
    by (elim allE) (erule mp)
qed

lemma shifts_export:
  assumes "stack_contract E sp trap" "f \<in> {''__wbindgen_malloc'', ''wasmdecoder_process'', ''__wbindgen_free''}"
  shows "shifts sp trap 0 (wasm_call E f args)"
  unfolding shifts_def
proof (intro allI impI)
  fix s r t assume "wasm_call E f args s = (r, t)"
  then show "sp (world t) = sp (world s) + 0 \<or> (\<exists>e. r = Throw e \<and> trap e)"
    using stack_contractD(2) [OF assms, where args = args and s = s] by (cases r) simp_all
qed

lemma stack_pointer_moves:
  assumes "stack_contract E sp trap"
  shows "shifts sp trap d (add_to_stack_pointer E d)"
    and "add_to_stack_pointer E d s = (Throw e, t) \<Longrightarrow> trap e"
proof -
  show "shifts sp trap d (add_to_stack_pointer E d)" unfolding shifts_def
  proof (intro allI impI)
    fix s r t assume "add_to_stack_pointer E d s = (r, t)"
    then show "sp (world t) = sp (world s) + d \<or> (\<exists>e. r = Throw e \<and> trap e)"
      using stack_contractD(1) [OF assms, where d = d and s = s] by (cases r) simp_all
  qed
  assume "add_to_stack_pointer E d s = (Throw e, t)"
  then show "trap e" using stack_contractD(1) [OF assms, where d = d and s = s] by simp
qed

lemma world_unchanged:
  "world (snd (getInt32Memory0 s)) = world s" "world (snd (getFloat32Memory0 s)) = world s"
  "world (snd (getUint8Memory0 s)) = world s" "world (snd (f32_set xs off s)) = world s"
  "world (snd (table_get i s)) = world s" "world (snd (this_ptr j s)) = world s"
  by (simp_all add: getInt32Memory0_def getFloat32Memory0_def getUint8Memory0_def f32_set_def table_get_def
      this_ptr_def with_object_def split: option.splits)

lemma shifts_local [shifts_intros]:
  "shifts sp trap 0 (js_return v)" "shifts sp trap 0 (js_throw e)" "shifts sp trap 0 (js_gets g)"
  "(\<And>s. world (h s) = world s) \<Longrightarrow> shifts sp trap 0 (js_modify h)"
  "shifts sp trap 0 getInt32Memory0" "shifts sp trap 0 getFloat32Memory0" "shifts sp trap 0 getUint8Memory0"
  "shifts sp trap 0 (f32_set xs off)" "shifts sp trap 0 (table_get i)" "shifts sp trap 0 (this_ptr j)"
  by (rule shifts_same_world, simp add: world_unchanged)+

lemma shifts_i32_load [shifts_intros]: "shifts sp trap 0 (i32_load a)"
  unfolding i32_load_def by (intro shifts_intros)

lemma shifts_getString [shifts_intros]: "shifts sp trap 0 (getStringFromWasm0 E p n)"
  unfolding getStringFromWasm0_def Let_def
  by (intro shifts_let shifts_local) (rule shifts_same_world, simp)

lemma shifts_getCached [shifts_intros]: "shifts sp trap 0 (getCachedStringFromWasm0 E p n)"
  unfolding getCachedStringFromWasm0_def getFromExternrefTable0_def js_str_def
  by (simp add: shifts_intros)

lemma shifts_passArray:
  assumes "stack_contract E sp trap"
  shows "shifts sp trap 0 (passArrayF32ToWasm0 samples (wasm_malloc E))"
  unfolding passArrayF32ToWasm0_def wasm_malloc_def Let_def
  by (cases samples) (auto intro!: shifts_let shifts_seq shifts_local shifts_export [OF assms])

lemma shifts_process_body:
  assumes "stack_contract E sp trap"
  shows "shifts sp trap 0 (process_body E i samples retptr)"
  unfolding process_body_def
  by (intro shifts_let shifts_seq shifts_passArray [OF assms] shifts_local shifts_i32_load shifts_getCached
      shifts_export [OF assms])
    (auto intro: shifts_local shifts_export [OF assms])

lemma process_keeps_stack:
  assumes "stack_contract E sp trap" "wasmdecoder_process E i samples s = (r, t)"
  shows "sp (world t) = sp (world s) \<or> (\<exists>e. r = Throw e \<and> trap e)"
proof -
  have "shifts sp trap (- 16 + 16) (wasmdecoder_process E i samples)"
    unfolding wasmdecoder_process_def
    using stack_pointer_moves [OF assms(1)] shifts_process_body [OF assms(1)]
    by (blast intro: shifts_finally shifts_let)
  then show ?thesis using assms(2) unfolding shifts_def by fastforce
qed

section \<open>The samples and the result\<close>

lemma length_f32_bytes [simp]: "length (f32_bytes xs) = 4 * length xs"
  by (induction xs) (simp_all add: f32_bytes_def)

lemma getFloat32Memory0_run:
  "getFloat32Memory0 s = (Ret (buffer s), s\<lparr>cachedFloat32Memory0 := Some (buffer s)\<rparr>)"
  using stale_cached [of "cachedFloat32Memory0 s" s] by (auto simp: getFloat32Memory0_def)

text \<open>The block the allocator gave holds the samples, and the length is where the caller reads it.\<close>

lemma passArrayF32_run:
  assumes "malloc (int (length xs) * 4) 4 s = (Ret p, s1)"
    and "fits s1 (to_uint32 p) (int (length xs) * 4)" "4 dvd to_uint32 p"
  shows "\<exists>t. passArrayF32ToWasm0 (Some xs) malloc s = (Ret (to_uint32 p), t) \<and>
     WASM_VECTOR_LEN t = int (length xs) \<and> fits t (to_uint32 p) (int (length xs) * 4) \<and>
     region t (to_uint32 p) (int (length xs) * 4) = f32_bytes xs"
proof -
  let ?p = "to_uint32 p" and ?n = "int (length xs)"
  let ?s1 = "s1\<lparr>cachedFloat32Memory0 := Some (buffer s1)\<rparr>"
  have q: "4 * (?p div 4) = ?p" "nat ?p + length (f32_bytes xs) \<le> length (mem s1)"
    using assms(2,3) by (auto simp: fits_def)
  have "?p + ?n * 4 \<le> int (length (mem s1))" using assms(2) by (simp add: fits_def)
  then have "?p div 4 + ?n \<le> int (length (mem s1) div 4)" using q(1) by linarith
  then have w: "f32_set xs (?p div 4) ?s1 = (Ret Undefined, ?s1\<lparr>mem := write_bytes (mem s1) (nat ?p) (f32_bytes xs)\<rparr>)"
    using q(1) by (simp add: f32_set_def)
  have "region (?s1\<lparr>mem := write_bytes (mem s1) (nat ?p) (f32_bytes xs)\<rparr>) ?p (int (length (f32_bytes xs))) = f32_bytes xs"
    using region_write_bytes [of ?p "f32_bytes xs" ?s1] q(2) to_uint32_range(1) by simp
  then show ?thesis using assms(1,2) q(2) w getFloat32Memory0_run [of s1]
    by (simp add: passArrayF32ToWasm0_def js_let_Ret js_seq_Ret region_def fits_def Let_def mult.commute)
qed

lemma i32_load_run:
  "i32_index a s \<Longrightarrow> i32_load a s = (Ret (Num (read32 (mem s) (nat a))), s\<lparr>cachedInt32Memory0 := Some (buffer s)\<rparr>)"
  using getInt32Memory0_run [of s] by (simp add: i32_load_def js_let_Ret i32_index_def)

lemma aligned_slot:
  assumes "fits s a 8" "4 dvd a"
  shows "i32_index a s" "i32_index (a + 4) s"
proof -
  have "a + 8 \<le> int (length (mem s))" "0 \<le> a" using assms(1) by (auto simp: fits_def)
  then show "i32_index a s" "i32_index (a + 4) s" using assms(2) by (auto simp: i32_index_def)
qed

text \<open>
  One run of \<^verbatim>\<open>process\<close>: the slot at \<open>a\<close> holds the address and the length of a string, which is decoded,
  freed and returned.
\<close>

lemma process_returns_string:
  assumes sp: "add_to_stack_pointer E (- 16) s = (Ret (Num a), s1)"
    and arr: "passArrayF32ToWasm0 samples (wasm_malloc E) s1 = (Ret p, s2)"
    and obj: "objects s2 i = Some x"
    and call: "wasm_call E ''wasmdecoder_process'' [Num a, Num (wbg_ptr x), Num p, Num (WASM_VECTOR_LEN s2)] s2 = (Ret u, s3)"
    and slot: "fits s3 a 8" "4 dvd a" "read32 (mem s3) (nat a) = r0" "read32 (mem s3) (nat a + 4) = r1" "r0 \<noteq> 0"
    and str: "fits s3 (to_uint32 r0) r1" "text_decode E (region s3 (to_uint32 r0) r1) = Ret t"
    and free: "wasm_call E ''__wbindgen_free'' [Num r0, Num r1, Num 1]
        (s3\<lparr>cachedInt32Memory0 := Some (buffer s3), cachedUint8Memory0 := Some (buffer s3)\<rparr>) = (Ret v, s4)"
    and rest: "add_to_stack_pointer E 16 s4 = (Ret w, s5)"
  shows "wasmdecoder_process E i samples s = (Ret (Str t), s5)"
proof -
  let ?s = "s3\<lparr>cachedInt32Memory0 := Some (buffer s3)\<rparr>"
  have "i32_load a s3 = (Ret (Num r0), ?s)" "i32_load (a + 4) ?s = (Ret (Num r1), ?s)"
    using i32_load_run [OF aligned_slot(1) [OF slot(1,2)]] i32_load_run [of "a + 4" ?s] aligned_slot(2) [OF slot(1,2)] slot
    by (auto simp: i32_index_def nat_add_distrib fits_def)
  moreover have "getStringFromWasm0 E r0 r1 ?s = (Ret t, ?s\<lparr>cachedUint8Memory0 := Some (buffer s3)\<rparr>)"
    using getStringFromWasm0_run [of ?s r0 r1 E] str by (simp add: fits_def region_def)
  moreover have "process_body E i samples (Num a) s1 = (Ret (Str t), s4)"
    using arr call free slot(5) this_ptr_run [OF obj] calculation
    by (simp add: process_body_def js_let_Ret js_seq_Ret getCachedStringFromWasm0_def js_str_def)
  ultimately show ?thesis using sp rest
    by (simp add: wasmdecoder_process_def js_try_finally_def js_let_Ret)
qed

lemma process_undefined:
  assumes "add_to_stack_pointer E (- 16) s = (Ret r, s1)" "add_to_stack_pointer E 16 s1 = (Ret w, s2)"
  shows "wasmdecoder_process E i None s = (Throw TypeError, s2)"
  using assms
  by (simp add: wasmdecoder_process_def process_body_def passArrayF32ToWasm0_def js_try_finally_def
      js_let_Ret js_let_Throw)

text \<open>\<^verbatim>\<open>message(s)\<close> hands Rust the encoded string.\<close>

lemma messagesetter_message_run:
  assumes "pass_value E v s = (Ret p, t)" "objects t i = Some x"
  shows "messagesetter_message E i v s =
    js_do (wasm_call E ''messagesetter_message'' [Num (wbg_ptr x), Num p, Num (WASM_VECTOR_LEN t)]) t"
  using assms(1) this_ptr_run [OF assms(2)] by (simp add: messagesetter_message_def js_let_Ret)

lemma wasmdecoder_new_run:
  assumes "wasm_call E ''wasmdecoder_new'' [] s = (Ret (Num p), t)"
  shows "wasmdecoder_new E s = (Ret (Obj (next_object t)), t\<lparr>objects := (objects t)(next_object t \<mapsto>
     \<lparr>wbg_ptr = to_uint32 p, wbg_registered = True\<rparr>), next_object := next_object t + 1\<rparr>)"
  using assms by (simp add: wasmdecoder_new_def js_let_Ret wasmdecoder_wrap_def Let_def)

end
