(* ===== verification/Rattlegram_Worklet.thy ===== *)
theory Rattlegram_Worklet
  imports Rattlegram_Decoder
begin

text \<open>
  The audio worklet of the rattlegram example: \<^verbatim>\<open>DecoderNode\<close> on the page
  (\<^verbatim>\<open>src/examples/rattlegram/assets/decoder-node.js\<close>), \<^verbatim>\<open>DecoderProcessor\<close> on the audio thread
  (\<^verbatim>\<open>src/examples/rattlegram/assets/decoder-processor.js\<close>) and the message port between them, as a
  transition system. The theorems show that the decoder is only made once the module is loaded,
  and that every non-empty result reaches the message setter once and in order.
\<close>

section \<open>Messages and state\<close>

text \<open>What the scripts post: objects with a \<^verbatim>\<open>type\<close>, and plain results, which have none.\<close>

datatype message =
    Send_wasm_module nat
  | Wasm_module_loaded
  | Init_decoder int
  | Data js_val

text \<open>
  A message port delivers in order: the two queues. \<open>loading\<close> counts the promises of \<^verbatim>\<open>init\<close> that have not
  settled, \<open>loaded\<close> says that one has been fulfilled (the module's \<^verbatim>\<open>wasm\<close> is set), \<open>decoder\<close> that
  \<^verbatim>\<open>this.decoder\<close> is not \<^verbatim>\<open>null\<close>. \<open>messages\<close> are the events \<^verbatim>\<open>messageSetter.message\<close> has been called with,
  \<open>results\<close> the results the processor has posted, both in order. \<open>uncaught\<close> records an exception that left the
  message handler of the processor, \<open>make_failed\<close> that it was one of \<^verbatim>\<open>WasmDecoder.new()\<close>, \<open>setter_failed\<close> that
  \<^verbatim>\<open>messageSetter.message\<close> threw out of the handler of the node.
\<close>

record worklet =
  started :: bool
  to_processor :: "message list"
  to_node :: "message list"
  loading :: nat
  loaded :: bool
  load_failed :: bool
  decoder :: bool
  messages :: "message list"
  results :: "js_val list"
  uncaught :: bool
  make_failed :: bool
  setter_failed :: bool

definition worklet0 :: worklet where
  "worklet0 = \<lparr>started = False, to_processor = [], to_node = [], loading = 0, loaded = False,
     load_failed = False, decoder = False, messages = [], results = [], uncaught = False,
     make_failed = False, setter_failed = False\<rparr>"

section \<open>DecoderNode\<close>

definition node_init :: "nat \<Rightarrow> worklet \<Rightarrow> worklet" where
  "node_init wasmBytes w =
     w\<lparr>started := True, to_processor := to_processor w @ [Send_wasm_module wasmBytes]\<rparr>"

text \<open>\<open>throws\<close> says whether \<^verbatim>\<open>this.messageSetter.message(event)\<close> throws.\<close>

definition node_onmessage :: "bool \<Rightarrow> int \<Rightarrow> message \<Rightarrow> worklet \<Rightarrow> worklet" where
  "node_onmessage throws sampleRate event w =
     (case event of
        Wasm_module_loaded \<Rightarrow> w\<lparr>to_processor := to_processor w @ [Init_decoder sampleRate]\<rparr>
      | _ \<Rightarrow> w\<lparr>messages := messages w @ [event], setter_failed := setter_failed w \<or> throws\<rparr>)"

section \<open>DecoderProcessor\<close>

text \<open>
  How \<^verbatim>\<open>this.decoder = WasmDecoder.new(); console.log(...);\<close> ends: the constructor throws, the call of the console
  throws with the decoder already stored, or both return. Nothing catches the exceptions. Before the module is
  loaded the constructor is a \<^verbatim>\<open>TypeError\<close>. An unknown type of message is ignored.
\<close>

datatype making = New_throws | Log_throws | Made

definition processor_onmessage :: "making \<Rightarrow> message \<Rightarrow> worklet \<Rightarrow> worklet" where
  "processor_onmessage making event w =
     (case event of
        Send_wasm_module bytes \<Rightarrow> w\<lparr>loading := loading w + 1\<rparr>
      | Init_decoder sampleRate \<Rightarrow>
          if \<not> loaded w \<or> making = New_throws then w\<lparr>uncaught := True, make_failed := True\<rparr>
          else w\<lparr>decoder := True, uncaught := uncaught w \<or> making = Log_throws\<rparr>
      | _ \<Rightarrow> w)"

text \<open>The \<^verbatim>\<open>then\<close> of \<^verbatim>\<open>init(WebAssembly.compile(...))\<close>.\<close>

definition init_fulfilled :: "worklet \<Rightarrow> worklet" where
  "init_fulfilled w = w\<lparr>loading := loading w - 1, loaded := True, to_node := to_node w @ [Wasm_module_loaded]\<rparr>"

definition init_rejected :: "worklet \<Rightarrow> worklet" where
  "init_rejected w = w\<lparr>loading := loading w - 1, load_failed := True\<rparr>"

text \<open>
  \<^verbatim>\<open>process(inputs, outputs)\<close> over the decoder's \<^verbatim>\<open>process\<close>: \<^verbatim>\<open>inputs[0][0]\<close> of an input without channels is
  \<^verbatim>\<open>undefined\<close>, and without inputs the access is a \<^verbatim>\<open>TypeError\<close>. The result is the value returned to the
  audio engine.
\<close>

definition processor_process ::
  "(f32 list option \<Rightarrow> js_val outcome) \<Rightarrow> f32 list list list \<Rightarrow> worklet \<Rightarrow> bool outcome \<times> worklet" where
  "processor_process dec inputs w =
     (if \<not> decoder w then (Ret True, w)
      else
        (case inputs of
           [] \<Rightarrow> (Throw TypeError, w)
         | inputChannels # _ \<Rightarrow>
             (case dec (case inputChannels of [] \<Rightarrow> None | c # _ \<Rightarrow> Some c) of
                Throw e \<Rightarrow> (Throw e, w)
              | Ret result \<Rightarrow>
                  (Ret True, if truthy result
                             then w\<lparr>to_node := to_node w @ [Data result], results := results w @ [result]\<rparr>
                             else w))))"

section \<open>The system\<close>

inductive worklet_step :: "int \<Rightarrow> worklet \<Rightarrow> worklet \<Rightarrow> bool" for rate :: int where
  start: "\<not> started w \<Longrightarrow> worklet_step rate w (node_init bytes w)"
| processor_receives: "to_processor w = m # ms \<Longrightarrow>
     worklet_step rate w (processor_onmessage k m (w\<lparr>to_processor := ms\<rparr>))"
| node_receives: "to_node w = m # ms \<Longrightarrow>
     worklet_step rate w (node_onmessage b rate m (w\<lparr>to_node := ms\<rparr>))"
| init_ok: "loading w > 0 \<Longrightarrow> worklet_step rate w (init_fulfilled w)"
| init_bad: "loading w > 0 \<Longrightarrow> worklet_step rate w (init_rejected w)"
| audio: "processor_process dec inputs w = (r, w') \<Longrightarrow> worklet_step rate w w'"

fun data_of :: "message list \<Rightarrow> js_val list" where
  "data_of [] = []"
| "data_of (Data v # ms) = v # data_of ms"
| "data_of (_ # ms) = data_of ms"

fun init_requests :: "message list \<Rightarrow> nat" where
  "init_requests [] = 0"
| "init_requests (Init_decoder r # ms) = Suc (init_requests ms)"
| "init_requests (_ # ms) = init_requests ms"

fun load_requests :: "message list \<Rightarrow> nat" where
  "load_requests [] = 0"
| "load_requests (Send_wasm_module b # ms) = Suc (load_requests ms)"
| "load_requests (_ # ms) = load_requests ms"

fun load_replies :: "message list \<Rightarrow> nat" where
  "load_replies [] = 0"
| "load_replies (Wasm_module_loaded # ms) = Suc (load_replies ms)"
| "load_replies (_ # ms) = load_replies ms"

lemma queue_append [simp]:
  "data_of (xs @ ys) = data_of xs @ data_of ys"
  "init_requests (xs @ ys) = init_requests xs + init_requests ys"
  "load_requests (xs @ ys) = load_requests xs + load_requests ys"
  "load_replies (xs @ ys) = load_replies xs + load_replies ys"
  by (induction xs rule: data_of.induct; simp)+

text \<open>
  The start-up token: the request to load, the promise, the reply, the request for a decoder or the
  decoder itself, or the failure that ended it: exactly one of them.
\<close>

definition startup_tokens :: "worklet \<Rightarrow> nat" where
  "startup_tokens w = load_requests (to_processor w) + loading w + load_replies (to_node w)
     + init_requests (to_processor w) + of_bool (decoder w) + of_bool (load_failed w)
     + of_bool (make_failed w)"

definition worklet_inv :: "worklet \<Rightarrow> bool" where
  "worklet_inv w \<longleftrightarrow>
     (uncaught w \<longrightarrow> decoder w \<or> make_failed w)
   \<and> messages w @ map Data (data_of (to_node w)) = map Data (results w)
   \<and> startup_tokens w = of_bool (started w)
   \<and> (load_replies (to_node w) + init_requests (to_processor w) > 0 \<or> decoder w \<or> make_failed w \<longrightarrow> loaded w)
   \<and> (results w \<noteq> [] \<longrightarrow> decoder w)
   \<and> (\<forall>m \<in> set (to_node w). m = Wasm_module_loaded \<or> (\<exists>v. m = Data v \<and> truthy v))
   \<and> (\<forall>m \<in> set (to_processor w). m \<noteq> Wasm_module_loaded \<and> (\<forall>v. m \<noteq> Data v))"

lemma node_receives_inv:
  assumes "worklet_inv w" "to_node w = m # ms"
  shows "worklet_inv (node_onmessage b rate m (w\<lparr>to_node := ms\<rparr>))"
  using assms by (cases m) (auto simp: worklet_inv_def node_onmessage_def startup_tokens_def)

lemma processor_receives_inv:
  assumes "worklet_inv w" "to_processor w = m # ms"
  shows "worklet_inv (processor_onmessage k m (w\<lparr>to_processor := ms\<rparr>))"
  using assms
  by (cases m; cases "started w") (auto simp: worklet_inv_def processor_onmessage_def startup_tokens_def)

lemma post_result_inv:
  assumes "worklet_inv w" "decoder w" "truthy v"
  shows "worklet_inv (w\<lparr>to_node := to_node w @ [Data v], results := results w @ [v]\<rparr>)"
  using assms by (auto simp: worklet_inv_def startup_tokens_def)

lemma process_cases:
  assumes "processor_process dec inputs w = (r, w')"
  obtains "w' = w"
  | v where "decoder w" "truthy v" "w' = w\<lparr>to_node := to_node w @ [Data v], results := results w @ [v]\<rparr>"
  using assms by (auto simp: processor_process_def split: if_splits list.splits outcome.splits)

lemma process_inv:
  assumes "worklet_inv w" "processor_process dec inputs w = (r, w')"
  shows "worklet_inv w'"
  using assms(2)
proof (cases rule: process_cases)
  case 1
  then show ?thesis using assms(1) by simp
next
  case (2 v)
  then show ?thesis using assms(1) by (simp add: post_result_inv)
qed

lemma worklet_step_inv: "worklet_step rate w w' \<Longrightarrow> worklet_inv w \<Longrightarrow> worklet_inv w'"
proof (induction rule: worklet_step.induct)
  case (start w bytes)
  then show ?case by (auto simp: worklet_inv_def node_init_def startup_tokens_def)
next
  case (processor_receives w m ms)
  then show ?case by (simp add: processor_receives_inv)
next
  case (node_receives w m ms)
  then show ?case by (simp add: node_receives_inv)
next
  case (init_ok w)
  then obtain n where "loading w = Suc n" using gr0_implies_Suc by blast
  with init_ok show ?case
    by (cases "started w") (auto simp: worklet_inv_def init_fulfilled_def startup_tokens_def)
next
  case (init_bad w)
  then obtain n where "loading w = Suc n" using gr0_implies_Suc by blast
  with init_bad show ?case
    by (cases "started w") (auto simp: worklet_inv_def init_rejected_def startup_tokens_def)
next
  case (audio dec inputs w r w')
  then show ?case using process_inv by blast
qed

lemma worklet_reach_inv: "(worklet_step rate)\<^sup>*\<^sup>* worklet0 w \<Longrightarrow> worklet_inv w"
proof (induction rule: rtranclp_induct)
  case base
  then show ?case by (simp add: worklet_inv_def worklet0_def startup_tokens_def)
next
  case (step v w)
  then show ?case using worklet_step_inv by blast
qed

section \<open>The exchange of messages ends\<close>

text \<open>The steps that only the scripts and the loader take: deliveries and settled promises.\<close>

inductive exchange_step :: "int \<Rightarrow> worklet \<Rightarrow> worklet \<Rightarrow> bool" for rate :: int where
  to_audio: "to_processor w = m # ms \<Longrightarrow> exchange_step rate w (processor_onmessage k m (w\<lparr>to_processor := ms\<rparr>))"
| to_page: "to_node w = m # ms \<Longrightarrow> exchange_step rate w (node_onmessage b rate m (w\<lparr>to_node := ms\<rparr>))"
| fulfilled: "loading w > 0 \<Longrightarrow> exchange_step rate w (init_fulfilled w)"
| rejected: "loading w > 0 \<Longrightarrow> exchange_step rate w (init_rejected w)"

inductive_cases exchange_stepE: "exchange_step rate w w'"


text \<open>What a message can still cause, counted in deliveries.\<close>

fun processor_weight :: "message \<Rightarrow> nat" where
  "processor_weight (Send_wasm_module b) = 4"
| "processor_weight _ = 1"

fun node_weight :: "message \<Rightarrow> nat" where
  "node_weight Wasm_module_loaded = 2"
| "node_weight _ = 1"

definition traffic :: "worklet \<Rightarrow> nat" where
  "traffic w = sum_list (map processor_weight (to_processor w)) + sum_list (map node_weight (to_node w)) + 3 * loading w"

lemma exchange_step_traffic: "exchange_step rate w w' \<Longrightarrow> traffic w' < traffic w"
proof (induction rule: exchange_step.induct)
  case (to_audio w m ms)
  then show ?case by (cases m) (simp_all add: traffic_def processor_onmessage_def)
next
  case (to_page w m ms)
  then show ?case by (cases m) (simp_all add: traffic_def node_onmessage_def)
qed (simp_all add: traffic_def init_fulfilled_def init_rejected_def)

lemma exchange_wf: "wfp (\<lambda>w' w. exchange_step rate w w')"
  by (rule wfp_if_convertible_to_nat [where f = traffic]) (rule exchange_step_traffic)

lemma exchange_quiet:
  "(\<nexists>w'. exchange_step rate w w') \<longleftrightarrow> to_processor w = [] \<and> to_node w = [] \<and> loading w = 0"
proof
  assume "\<nexists>w'. exchange_step rate w w'"
  then show "to_processor w = [] \<and> to_node w = [] \<and> loading w = 0"
    using to_audio [of w] to_page [of w] fulfilled [of w] by (metis gr0I list.exhaust)
qed (auto elim: exchange_stepE)




lemma exchange_steps_bound: "(exchange_step rate ^^ n) w w' \<Longrightarrow> n + traffic w' \<le> traffic w"
proof (induction n arbitrary: w')
  case (Suc n)
  then obtain v where "(exchange_step rate ^^ n) w v" "exchange_step rate v w'" by auto
  then show ?case using Suc.IH exchange_step_traffic by fastforce
qed simp

section \<open>Errors of the processor\<close>

text \<open>\<^verbatim>\<open>${v}\<close> in a template.\<close>

definition js_template :: "'w js_env \<Rightarrow> js_val \<Rightarrow> ('w, js_string) wjs" where
  "js_template E v =
     (case v of
        Str t \<Rightarrow> js_return t
      | _ \<Rightarrow> js_let (js_call E ''String'' [js_return v]) (\<lambda>r. js_return (case r of Str t \<Rightarrow> t | _ \<Rightarrow> [])))"

text \<open>\<^verbatim>\<open>DecoderNode.onprocessorerror\<close>\<close>

definition node_onprocessorerror :: "'w js_env \<Rightarrow> js_val \<Rightarrow> ('w, js_val) wjs" where
  "node_onprocessorerror E err =
     js_do (js_static E ''console'' ''log''
       [js_let (js_template E err) (\<lambda>t.
          js_return (Str (js ''An error from AudioWorkletProcessor.process() occurred: '' @ t)))])"

section \<open>Properties\<close>

text \<open>
  In every reachable state of the worklet \<^verbatim>\<open>WasmDecoder.new()\<close> has been called, with success or not, only
  after the wasm module has been loaded.
\<close>

theorem decoder_after_load:
  assumes "(worklet_step rate)\<^sup>*\<^sup>* worklet0 w"
  shows "decoder w \<or> make_failed w \<longrightarrow> loaded w"
  using worklet_reach_inv [OF assms] by (simp add: worklet_inv_def)

text \<open>A run up to the first delivered result.\<close>

definition sample_decode :: "f32 list option \<Rightarrow> js_val outcome" where
  "sample_decode samples = (case samples of Some xs \<Rightarrow> Ret (Str (js ''hi'')) | None \<Rightarrow> Throw TypeError)"

definition sample_ready :: worklet where
  "sample_ready = processor_onmessage Made (Init_decoder 48000) ((node_onmessage False 48000 Wasm_module_loaded
     ((init_fulfilled (processor_onmessage Made (Send_wasm_module 7) ((node_init 7 worklet0)\<lparr>to_processor := []\<rparr>)))
        \<lparr>to_node := []\<rparr>))\<lparr>to_processor := []\<rparr>)"

lemmas worklet_ops = node_init_def processor_onmessage_def init_fulfilled_def node_onmessage_def worklet0_def

lemma sample_ready_reached: "(worklet_step 48000)\<^sup>*\<^sup>* worklet0 sample_ready"
proof -
  let ?w1 = "node_init 7 worklet0"
  let ?w2 = "processor_onmessage Made (Send_wasm_module 7) (?w1\<lparr>to_processor := []\<rparr>)"
  let ?w3 = "init_fulfilled ?w2"
  let ?w4 = "node_onmessage False 48000 Wasm_module_loaded (?w3\<lparr>to_node := []\<rparr>)"
  have "worklet_step 48000 worklet0 ?w1" by (rule start) (simp add: worklet0_def)
  moreover have "worklet_step 48000 ?w1 ?w2" by (rule processor_receives) (simp add: worklet_ops)
  moreover have "worklet_step 48000 ?w2 ?w3" by (rule init_ok) (simp add: worklet_ops)
  moreover have "worklet_step 48000 ?w3 ?w4" by (rule node_receives) (simp add: worklet_ops)
  moreover have "worklet_step 48000 ?w4 sample_ready"
    unfolding sample_ready_def by (rule processor_receives) (simp add: worklet_ops)
  ultimately show ?thesis by (blast intro: converse_rtranclp_into_rtranclp)
qed

theorem decoder_after_load_witness: "decoder sample_ready \<and> loaded sample_ready"
proof -
  have "decoder sample_ready" by (simp add: sample_ready_def worklet_ops)
  then show ?thesis using decoder_after_load [OF sample_ready_reached] by simp
qed

text \<open>
  The message setter has been called with exactly the non-empty results of the decoder, in
  order, up to those still in the port: nothing is lost, doubled or reordered, and nothing arrives
  before there is a decoder.
\<close>

theorem results_delivered_in_order:
  assumes "(worklet_step rate)\<^sup>*\<^sup>* worklet0 w"
  shows "messages w @ map Data (data_of (to_node w)) = map Data (results w) \<and> (results w \<noteq> [] \<longrightarrow> decoder w)"
  using worklet_reach_inv [OF assms] by (simp add: worklet_inv_def)

definition sample_result :: worklet where
  "sample_result = node_onmessage False 48000 (Data (Str (js ''hi''))) (sample_ready\<lparr>results := [Str (js ''hi'')]\<rparr>)"

lemma sample_result_reached: "(worklet_step 48000)\<^sup>*\<^sup>* worklet0 sample_result"
proof -
  let ?w = "sample_ready\<lparr>to_node := [Data (Str (js ''hi''))], results := [Str (js ''hi'')]\<rparr>"
  have "processor_process sample_decode [[[0]]] sample_ready = (Ret True, ?w)"
    by (simp add: processor_process_def sample_decode_def sample_ready_def worklet_ops js_def)
  then have "worklet_step 48000 sample_ready ?w" by (rule audio)
  moreover have "?w\<lparr>to_node := []\<rparr> = sample_ready\<lparr>results := [Str (js ''hi'')]\<rparr>"
    by (simp add: sample_ready_def worklet_ops)
  then have "worklet_step 48000 ?w sample_result"
    unfolding sample_result_def using node_receives [of ?w "Data (Str (js ''hi''))" "[]" 48000 False] by simp
  ultimately show ?thesis using sample_ready_reached by (blast intro: rtranclp.rtrancl_into_rtrancl)
qed

theorem results_delivered_in_order_witness: "messages sample_result = [Data (Str (js ''hi''))]"
proof -
  have "data_of (to_node sample_result) = []" "results sample_result = [Str (js ''hi'')]"
    by (simp_all add: sample_result_def sample_ready_def worklet_ops)
  then show ?thesis using results_delivered_in_order [OF sample_result_reached] by simp
qed



text \<open>
  Property C24. The two ends of the worklet never answer each other for ever: the deliveries and settled
  promises that follow from any state are well-founded, a run of them takes at most as many steps as
  the messages still weigh, and it ends exactly when both queues are empty and no promise is open.
\<close>

theorem exchange_terminates:
  "wfp (\<lambda>w' w. exchange_step rate w w')
   \<and> ((\<nexists>w'. exchange_step rate w w') \<longleftrightarrow> to_processor w = [] \<and> to_node w = [] \<and> loading w = 0)
   \<and> ((exchange_step rate ^^ n) w w' \<longrightarrow> n \<le> traffic w)"
  using exchange_wf exchange_quiet exchange_steps_bound [of n rate w w'] by force

theorem exchange_terminates_witness:
  "\<exists>w'. (exchange_step 48000 ^^ 4) (node_init 0 worklet0) w' \<and> 4 \<le> traffic (node_init 0 worklet0) \<and> decoder w'"
proof -
  let ?w0 = "node_init 0 worklet0"
  let ?w1 = "processor_onmessage Made (Send_wasm_module 0) (?w0\<lparr>to_processor := []\<rparr>)"
  let ?w2 = "init_fulfilled ?w1"
  let ?w3 = "node_onmessage False 48000 Wasm_module_loaded (?w2\<lparr>to_node := []\<rparr>)"
  let ?w4 = "processor_onmessage Made (Init_decoder 48000) (?w3\<lparr>to_processor := []\<rparr>)"
  note run = worklet0_def node_init_def processor_onmessage_def init_fulfilled_def node_onmessage_def
  have "exchange_step 48000 ?w0 ?w1" by (rule to_audio) (simp add: run)
  moreover have "exchange_step 48000 ?w1 ?w2" by (rule fulfilled) (simp add: run)
  moreover have "exchange_step 48000 ?w2 ?w3" by (rule to_page) (simp add: run)
  moreover have "exchange_step 48000 ?w3 ?w4" by (rule to_audio) (simp add: run)
  ultimately have "(exchange_step 48000 ^^ 4) ?w0 ?w4" by (auto simp: numeral_eq_Suc)
  moreover have "decoder ?w4" by (simp add: run)
  ultimately show ?thesis using exchange_terminates [of 48000 ?w0 4 ?w4] by blast
qed

end
