(* ===== verification/Sample_Env.thy ===== *)
theory Sample_Env
  imports Rattlegram_Worklet
begin

text \<open>
  A concrete environment that meets the contracts which the theorems assume of the compiled modules and
  of the browser: an allocator that always appends, a table of references that grows by one slot, a
  stack pointer kept in the world, a decoder that answers with a fixed string, a browser whose objects
  have one string property. The witnesses of the development evaluate the model in it.
\<close>

definition sample_process :: "js_val list \<Rightarrow> (int, js_val) wjs" where
  "sample_process args = (\<lambda>s.
     let a = nat (js_number (js_param args 0)); p = length (mem s);
         m = mem s @ [79, 75, 0, 0] in
     (Ret Undefined, s\<lparr>mem := write_bytes (write_bytes m a (le32 (int p))) (a + 4) (le32 2)\<rparr>))"

definition sample_wasm_call :: "string \<Rightarrow> js_val list \<Rightarrow> (int, js_val) wjs" where
  "sample_wasm_call f args =
     (if f = ''__wbindgen_malloc'' then
        js_let (bump_malloc (js_number (js_param args 0)) (js_number (js_param args 1))) (\<lambda>p. js_return (Num p))
      else if f = ''__wbindgen_realloc'' then
        js_let (bump_realloc (js_number (js_param args 0)) (js_number (js_param args 1)) (js_number (js_param args 2))
                  (js_number (js_param args 3))) (\<lambda>p. js_return (Num p))
      else if f = ''__externref_table_alloc'' then
        (\<lambda>s. (Ret (Num (int (length (externrefs s)))), s\<lparr>externrefs := externrefs s @ [Undefined]\<rparr>))
      else if f = ''__wbindgen_add_to_stack_pointer'' then
        (\<lambda>s. (Ret (Num (world s + js_number (js_param args 0))), s\<lparr>world := world s + js_number (js_param args 0)\<rparr>))
      else if f = ''wasmdecoder_process'' then sample_process args
      else js_return Undefined)"

definition sample_env :: "int js_env" where
  "sample_env = \<lparr>text_encode = polyfill_encode, text_decode = polyfill_decode, encodeInto = None,
     has_detached = False, wasm_call = sample_wasm_call, wasm_table_call = (\<lambda>_ _. js_return Undefined),
     wasm_memory = Ref 0, host_get = (\<lambda>obj p. js_return (Str (js ''abc''))),
     host_set = (\<lambda>obj p v. js_return Undefined), host_index = (\<lambda>obj i. js_return Undefined),
     host_apply = (\<lambda>f this args. js_throw TypeError), host_construct = (\<lambda>k args. js_return (Ref 1)),
     host_global = (\<lambda>x s. Some (Ref 0)), host_instanceof = (\<lambda>v k. js_return True),
     host_typeof = (\<lambda>r s. ''object''), host_shape = (\<lambda>v s. DUndefined), host_object = (\<lambda>ps. js_return (Ref 2)),
     host_await = js_return, pass_nonstring = (\<lambda>v. js_throw TypeError)\<rparr>"

definition sample_state :: "int js_state" where
  "sample_state = \<lparr>mem = replicate 32 0, buffer = 0, cachedUint8Memory0 = None, cachedInt32Memory0 = None,
     cachedFloat32Memory0 = None, cachedUint16Memory0 = None, cachedUint32Memory0 = None,
     cachedDataViewMemory0 = None, WASM_VECTOR_LEN = 0, numBytesDecoded = 0, externrefs = [Undefined],
     closures = (\<lambda>_. None), next_closure = 0, registry = {}, objects = (\<lambda>_. None), next_object = 0,
     wasm = Undefined, wasm_module = Undefined, world = 24\<rparr>"

lemmas sample_defs = sample_env_def sample_wasm_call_def sample_process_def sample_state_def

lemma sample_alloc: "wasm_malloc sample_env = bump_malloc" "wasm_realloc sample_env = bump_realloc"
  by (simp_all add: fun_eq_iff wasm_malloc_def wasm_realloc_def sample_env_def sample_wasm_call_def js_param_def
      js_let_assoc js_let_right_id [unfolded js_return_def] js_let_def js_return_def
      split: prod.splits outcome.splits)

lemma sample_malloc_contract: "malloc_contract r ((=) (EngineErr ''RuntimeError'')) (wasm_malloc sample_env)"
  by (simp add: sample_alloc bump_malloc_contract)

lemma sample_realloc_contract: "realloc_contract r ((=) (EngineErr ''RuntimeError'')) (wasm_malloc sample_env) (wasm_realloc sample_env)"
  by (simp add: sample_alloc bump_realloc_contract)

lemma sample_exn_contract: "exn_contract sample_env"
  by (simp add: exn_contract_def sample_env_def sample_wasm_call_def)

text \<open>The same with the browser's own codec, and with a module whose start function traps.\<close>

definition native_env :: "int js_env" where
  "native_env = sample_env\<lparr>text_encode := native_encode, text_decode := native_decode,
     encodeInto := Some native_encodeInto\<rparr>"

lemma native_alloc: "wasm_malloc native_env = bump_malloc" "wasm_realloc native_env = bump_realloc"
  using sample_alloc by (simp_all add: native_env_def wasm_malloc_def wasm_realloc_def fun_eq_iff)

definition broken_env :: "int js_env" where
  "broken_env = sample_env\<lparr>wasm_call := (\<lambda>f args. if f = ''__wbindgen_start'' then js_throw (EngineErr ''RuntimeError'')
     else sample_wasm_call f args)\<rparr>"

lemma sample_call_keeps_wasm: "keeps_wasm (sample_wasm_call f args)"
  by (auto simp: keeps_wasm_def sample_wasm_call_def bump_malloc_def bump_realloc_def bump_def sample_process_def Let_def
      js_let_def split: prod.splits outcome.splits)

lemma sample_host_frame: "host_frame sample_env" "host_frame broken_env"
  using sample_call_keeps_wasm
  by (simp_all add: host_frame_def broken_env_def sample_env_def keeps_wasm_local)

text \<open>A module that does nothing but log its calls.\<close>

definition logging_env :: "(string \<times> js_val list) list js_env" where
  "logging_env = \<lparr>text_encode = polyfill_encode, text_decode = polyfill_decode, encodeInto = None,
     has_detached = False, wasm_call = (\<lambda>f args s. (Ret Undefined, s\<lparr>world := world s @ [(f, args)]\<rparr>)),
     wasm_table_call = (\<lambda>_ _. js_return Undefined),
     wasm_memory = Ref 0, host_get = (\<lambda>obj p. js_return (Str (js ''abc''))),
     host_set = (\<lambda>obj p v. js_return Undefined), host_index = (\<lambda>obj i. js_return Undefined),
     host_apply = (\<lambda>f this args. js_throw TypeError), host_construct = (\<lambda>k args. js_return (Ref 1)),
     host_global = (\<lambda>x s. Some (Ref 0)), host_instanceof = (\<lambda>v k. js_return True),
     host_typeof = (\<lambda>r s. ''object''), host_shape = (\<lambda>v s. DUndefined), host_object = (\<lambda>ps. js_return (Ref 2)),
     host_await = js_return, pass_nonstring = (\<lambda>v. js_throw TypeError)\<rparr>"

definition logging_state :: "(string \<times> js_val list) list js_state" where
  "logging_state = \<lparr>mem = [], buffer = 0, cachedUint8Memory0 = None, cachedInt32Memory0 = None,
     cachedFloat32Memory0 = None, cachedUint16Memory0 = None, cachedUint32Memory0 = None,
     cachedDataViewMemory0 = None, WASM_VECTOR_LEN = 0, numBytesDecoded = 0, externrefs = [],
     closures = (\<lambda>_. None), next_closure = 0, registry = {}, objects = (\<lambda>_. None), next_object = 0,
     wasm = Undefined, wasm_module = Undefined, world = []\<rparr>"

end
