(* ===== verification/Prophecy_Imports.thy ===== *)
theory Prophecy_Imports
  imports Import_Table
begin

text \<open>
  The import object of \<^verbatim>\<open>src/crates/prophecy/dist/prophecy-e16c97ecc1556028.js\<close>: its enumerations,
  the adapters of its closures and every import function, in the order of the source. The list is cut
  into consecutive parts.
\<close>

section \<open>Enumerations\<close>

definition prophecy_enum_ReadableStreamType :: "string list" where
  "prophecy_enum_ReadableStreamType = [''bytes'']"

section \<open>Adapters of the closures\<close>

definition prophecy_adapters :: "'w js_env \<Rightarrow> 'w import_table" where
  "prophecy_adapters E = [
     (''__wbg_adapter_28'', fn3 (\<lambda>arg0 arg1 arg2. js_do (wasm_call E ''closure208_externref_shim''
       [arg0, arg1, arg2]))),
     (''__wbg_adapter_31'', fn3 (\<lambda>arg0 arg1 arg2. js_do (wasm_call E ''closure284_externref_shim''
       [arg0, arg1, arg2]))),
     (''__wbg_adapter_156'', fn4 (\<lambda>arg0 arg1 arg2 arg3. js_do (wasm_call E
       ''closure306_externref_shim'' [arg0, arg1, arg2, arg3])))]"

section \<open>Imports\<close>

definition prophecy_imports_1 :: "'w js_env \<Rightarrow> 'w import_table" where
  "prophecy_imports_1 E = [
     (''__wbg_addEventListener_90e553fdce254421'', fn4 (\<lambda>arg0 arg1 arg2 arg3. handleError E (js_do
       (js_method E arg0 ''addEventListener'' [js_str E arg1 arg2, js_return arg3])))),
     (''__wbg_body_942ea927546a04ba'', fn1 (\<lambda>arg0. js_let (js_member E arg0 ''body'') (ret_opt_ref
       E))),
     (''__wbg_buffer_09165b52af8c5237'', fn1 (\<lambda>arg0. js_member E arg0 ''buffer'')),
     (''__wbg_buffer_609cc3eee51ed158'', fn1 (\<lambda>arg0. js_member E arg0 ''buffer'')),
     (''__wbg_byobRequest_77d9adf63337edfb'', fn1 (\<lambda>arg0. js_let (js_member E arg0 ''byobRequest'')
       (ret_opt_ref E))),
     (''__wbg_byteLength_e674b853d9c77e1d'', fn1 (\<lambda>arg0. js_member E arg0 ''byteLength'')),
     (''__wbg_byteOffset_fd862df290ef848d'', fn1 (\<lambda>arg0. js_member E arg0 ''byteOffset'')),
     (''__wbg_call_672a4d21634d4a24'', fn2 (\<lambda>arg0 arg1. handleError E (js_method E arg0 ''call''
       [js_return arg1]))),
     (''__wbg_call_7cccdd69e0791ae2'', fn3 (\<lambda>arg0 arg1 arg2. handleError E (js_method E arg0
       ''call'' [js_return arg1, js_return arg2]))),
     (''__wbg_cancelBubble_2e66f509cdea4d7e'', fn1 (\<lambda>arg0. js_member E arg0 ''cancelBubble'')),
     (''__wbg_cloneNode_e35b333b87d51340'', fn1 (\<lambda>arg0. handleError E (js_method E arg0
       ''cloneNode'' []))),
     (''__wbg_close_304cc1fef3466669'', fn1 (\<lambda>arg0. handleError E (js_do (js_method E arg0 ''close''
       [])))),
     (''__wbg_close_5ce03e29be453811'', fn1 (\<lambda>arg0. handleError E (js_do (js_method E arg0 ''close''
       [])))),
     (''__wbg_composedPath_977ce97a0ef39358'', fn1 (\<lambda>arg0. js_method E arg0 ''composedPath'' [])),
     (''__wbg_createComment_8b540d4b9d22f212'', fn3 (\<lambda>arg0 arg1 arg2. js_method E arg0
       ''createComment'' [js_str E arg1 arg2])),
     (''__wbg_createElementNS_914d752e521987da'', fn5 (\<lambda>arg0 arg1 arg2 arg3 arg4. handleError E
       (js_method E arg0 ''createElementNS'' [js_opt_str E arg1 arg2, js_str E arg3 arg4]))),
     (''__wbg_createElement_8c9931a732ee2fea'', fn3 (\<lambda>arg0 arg1 arg2. handleError E (js_method E
       arg0 ''createElement'' [js_str E arg1 arg2]))),
     (''__wbg_createTextNode_42af1a9f21bb3360'', fn3 (\<lambda>arg0 arg1 arg2. js_method E arg0
       ''createTextNode'' [js_str E arg1 arg2])),
     (''__wbg_deleteProperty_96363d4a1d977c97'', fn2 (\<lambda>arg0 arg1. handleError E (js_static E
       ''Reflect'' ''deleteProperty'' [js_return arg0, js_return arg1]))),
     (''__wbg_document_d249400bd7bd996d'', fn1 (\<lambda>arg0. js_let (js_member E arg0 ''document'')
       (ret_opt_ref E))),
     (''__wbg_enqueue_bb16ba72f537dc9e'', fn2 (\<lambda>arg0 arg1. handleError E (js_do (js_method E arg0
       ''enqueue'' [js_return arg1])))),
     (''__wbg_error_7534b8e9a36f1ab4'', fn2 (\<lambda>arg0 arg1. with_deferred E [(arg0, arg1)] (js_static E
       ''console'' ''error'' [js_str E arg0 arg1]))),
     (''__wbg_fetch_a9bc66c159c18e19'', fn1 (\<lambda>arg0. js_call E ''fetch'' [js_return arg0])),
     (''__wbg_get_67b2ba62fc30de12'', fn2 (\<lambda>arg0 arg1. handleError E (js_static E ''Reflect''
       ''get'' [js_return arg0, js_return arg1]))),
     (''__wbg_get_b9b93047fe3cf45b'', fn2 (\<lambda>arg0 arg1. js_elem E arg0 (to_uint32 (js_number arg1)))),
     (''__wbg_host_166cb082dae71d08'', fn1 (\<lambda>arg0. js_member E arg0 ''host'')),
     (''__wbg_insertBefore_c181fb91844cd959'', fn3 (\<lambda>arg0 arg1 arg2. handleError E (js_method E arg0
       ''insertBefore'' [js_return arg1, js_return arg2]))),
     (''__wbg_instanceof_Element_0af65443936d5154'', fn1 (\<lambda>arg0. js_instanceof E arg0 ''Element'')),
     (''__wbg_instanceof_Error_4d54113b22d20306'', fn1 (\<lambda>arg0. js_instanceof E arg0 ''Error'')),
     (''__wbg_instanceof_Response_f2cc20d9f7dfd644'', fn1 (\<lambda>arg0. js_instanceof E arg0
       ''Response''))]"

definition prophecy_imports_2 :: "'w js_env \<Rightarrow> 'w import_table" where
  "prophecy_imports_2 E = [
     (''__wbg_instanceof_ShadowRoot_726578bcd7fa418a'', fn1 (\<lambda>arg0. js_instanceof E arg0
       ''ShadowRoot'')),
     (''__wbg_instanceof_Window_def73ea0955fc569'', fn1 (\<lambda>arg0. js_instanceof E arg0 ''Window'')),
     (''__wbg_length_a446193dc22c12f8'', fn1 (\<lambda>arg0. js_member E arg0 ''length'')),
     (''__wbg_location_350d99456c2f3693'', fn1 (\<lambda>arg0. js_member E arg0 ''location'')),
     (''__wbg_mermaidinit_8cfe82243f62aa26'', fn0 (js_do (js_static E ''mermaid'' ''init'' []))),
     (''__wbg_message_97a2af9b89d693a3'', fn1 (\<lambda>arg0. js_member E arg0 ''message'')),
     (''__wbg_name_0b327d569f00ebee'', fn1 (\<lambda>arg0. js_member E arg0 ''name'')),
     (''__wbg_new_018dcc2d6c8c2f6a'', fn0 (handleError E (js_new E ''Headers'' []))),
     (''__wbg_new_23a2665fac83c611'', fn2 (\<lambda>arg0 arg1. new_promise E ''__wbg_adapter_156'' arg0
       arg1)),
     (''__wbg_new_405e22f390576ce2'', fn0 (js_new E ''Object'' [])),
     (''__wbg_new_80bf4ee74f41ff92'', fn0 (handleError E (js_new E ''URLSearchParams'' []))),
     (''__wbg_new_8a6f238a6ece86ea'', fn0 (js_new_error (js_return []))),
     (''__wbg_new_9ffbe0a71eff35e3'', fn2 (\<lambda>arg0 arg1. handleError E (js_new E ''URL'' [js_str E
       arg0 arg1]))),
     (''__wbg_new_c68d7209be747379'', fn2 (\<lambda>arg0 arg1. js_new_error (getStringFromWasm0 E (js_number
       arg0) (js_number arg1)))),
     (''__wbg_newnoargs_105ed471475aaf50'', fn2 (\<lambda>arg0 arg1. js_new E ''Function'' [js_str E arg0
       arg1])),
     (''__wbg_newwithbyteoffsetandlength_d97e637ebe145a9a'', fn3 (\<lambda>arg0 arg1 arg2. js_new E
       ''Uint8Array'' [js_return arg0, js_return (js_u32 arg1), js_return (js_u32 arg2)])),
     (''__wbg_newwithstr_78e86e03c4ae814e'', fn2 (\<lambda>arg0 arg1. handleError E (js_new E ''Request''
       [js_str E arg0 arg1]))),
     (''__wbg_newwithstrandinit_06c535e0a867c635'', fn3 (\<lambda>arg0 arg1 arg2. handleError E (js_new E
       ''Request'' [js_str E arg0 arg1, js_return arg2]))),
     (''__wbg_origin_7c5d649acdace3ea'', fn2 (\<lambda>arg0 arg1. handleError E (js_let (js_member E arg1
       ''origin'') (ret_string E arg0)))),
     (''__wbg_parentNode_9de97a0e7973ea4e'', fn1 (\<lambda>arg0. js_let (js_member E arg0 ''parentNode'')
       (ret_opt_ref E))),
     (''__wbg_queueMicrotask_97d92b4fcc8a61c5'', fn1 (\<lambda>arg0. js_do (js_call E ''queueMicrotask''
       [js_return arg0]))),
     (''__wbg_queueMicrotask_d3219def82552485'', fn1 (\<lambda>arg0. js_member E arg0 ''queueMicrotask'')),
     (''__wbg_removeEventListener_056dfe8c3d6c58f9'', fn4 (\<lambda>arg0 arg1 arg2 arg3. handleError E
       (js_do (js_method E arg0 ''removeEventListener'' [js_str E arg1 arg2, js_return arg3])))),
     (''__wbg_remove_e2d2659f3128c045'', fn1 (\<lambda>arg0. js_do (js_method E arg0 ''remove'' []))),
     (''__wbg_remove_efb062ab554e1fbd'', fn1 (\<lambda>arg0. js_do (js_method E arg0 ''remove'' []))),
     (''__wbg_resolve_4851785c9c5f573d'', fn1 (\<lambda>arg0. js_static E ''Promise'' ''resolve'' [js_return
       arg0])),
     (''__wbg_respond_1f279fa9f8edcb1c'', fn2 (\<lambda>arg0 arg1. handleError E (js_do (js_method E arg0
       ''respond'' [js_return (js_u32 arg1)])))),
     (''__wbg_search_e0e79cfe010c5c23'', fn2 (\<lambda>arg0 arg1. js_let (js_member E arg1 ''search'')
       (ret_string E arg0))),
     (''__wbg_setAttribute_2704501201f15687'', fn5 (\<lambda>arg0 arg1 arg2 arg3 arg4. handleError E (js_do
       (js_method E arg0 ''setAttribute'' [js_str E arg1 arg2, js_str E arg3 arg4])))),
     (''__wbg_set_65595bdd868b3009'', fn3 (\<lambda>arg0 arg1 arg2. js_do (js_method E arg0 ''set''
       [js_return arg1, js_return (js_u32 arg2)]))),
     (''__wbg_set_bb8cecf6a62b9f46'', fn3 (\<lambda>arg0 arg1 arg2. handleError E (js_static E ''Reflect''
       ''set'' [js_return arg0, js_return arg1, js_return arg2])))]"

definition prophecy_imports_3 :: "'w js_env \<Rightarrow> 'w import_table" where
  "prophecy_imports_3 E = [
     (''__wbg_setheaders_834c0bdb6a8949ad'', fn2 (\<lambda>arg0 arg1. js_assign E arg0 ''headers''
       (js_return arg1))),
     (''__wbg_setinnerHTML_31bde41f835786f7'', fn3 (\<lambda>arg0 arg1 arg2. js_assign E arg0 ''innerHTML''
       (js_str E arg1 arg2))),
     (''__wbg_setmethod_3c5280fe5d890842'', fn3 (\<lambda>arg0 arg1 arg2. js_assign E arg0 ''method''
       (js_str E arg1 arg2))),
     (''__wbg_setnodeValue_58cb1b2f6b6c33d2'', fn3 (\<lambda>arg0 arg1 arg2. js_assign E arg0 ''nodeValue''
       (js_opt_str E arg1 arg2))),
     (''__wbg_setsearch_609451e9e712f3c6'', fn3 (\<lambda>arg0 arg1 arg2. js_assign E arg0 ''search''
       (js_str E arg1 arg2))),
     (''__wbg_stack_0ed75d68575b0f3c'', fn2 (\<lambda>arg0 arg1. js_let (js_member E arg1 ''stack'')
       (ret_string E arg0))),
     (''__wbg_static_accessor_GLOBAL_88a902d13a557d07'', fn0 (js_let (js_global_or_null E ''global'')
       (ret_opt_ref E))),
     (''__wbg_static_accessor_GLOBAL_THIS_56578be7e9f832b0'', fn0 (js_let (js_global_or_null E
       ''globalThis'') (ret_opt_ref E))),
     (''__wbg_static_accessor_SELF_37c5d418e4bf5819'', fn0 (js_let (js_global_or_null E ''self'')
       (ret_opt_ref E))),
     (''__wbg_static_accessor_WINDOW_5de37043a91a9c40'', fn0 (js_let (js_global_or_null E ''window'')
       (ret_opt_ref E))),
     (''__wbg_target_0a62d9d79a2a1ede'', fn1 (\<lambda>arg0. js_let (js_member E arg0 ''target'')
       (ret_opt_ref E))),
     (''__wbg_text_7805bea50de2af49'', fn1 (\<lambda>arg0. handleError E (js_method E arg0 ''text'' []))),
     (''__wbg_then_44b73946d2fb3e7d'', fn2 (\<lambda>arg0 arg1. js_method E arg0 ''then'' [js_return arg1])),
     (''__wbg_then_48b406749878a531'', fn3 (\<lambda>arg0 arg1 arg2. js_method E arg0 ''then'' [js_return
       arg1, js_return arg2])),
     (''__wbg_toString_5285597960676b7b'', fn1 (\<lambda>arg0. js_method E arg0 ''toString'' [])),
     (''__wbg_toString_c813bbd34d063839'', fn1 (\<lambda>arg0. js_method E arg0 ''toString'' [])),
     (''__wbg_url_8f9653b899456042'', fn2 (\<lambda>arg0 arg1. js_let (js_member E arg1 ''url'') (ret_string
       E arg0))),
     (''__wbg_view_fd8a56e8983f448d'', fn1 (\<lambda>arg0. js_let (js_member E arg0 ''view'') (ret_opt_ref
       E))),
     (''__wbg_warn_4ca3906c248c47c4'', fn1 (\<lambda>arg0. js_do (js_static E ''console'' ''warn''
       [js_return arg0]))),
     (''__wbindgen_cb_drop'', fn1 (\<lambda>arg0. wbindgen_cb_drop arg0)),
     (''__wbindgen_closure_wrapper2765'', fn3 (\<lambda>arg0 arg1 arg2. makeMutClosure (js_number arg0)
       (js_number arg1) (Num 285) ''__wbg_adapter_31'')),
     (''__wbindgen_closure_wrapper580'', fn3 (\<lambda>arg0 arg1 arg2. makeMutClosure (js_number arg0)
       (js_number arg1) (Num 209) ''__wbg_adapter_28'')),
     (''__wbindgen_debug_string'', fn2 (\<lambda>arg0 arg1. js_let (js_gets (\<lambda>s. Str (debugString
       (host_shape E arg1 s)))) (ret_string E arg0))),
     (''__wbindgen_init_externref_table'', fn0 (wbindgen_init_externref_table)),
     (''__wbindgen_is_falsy'', fn1 (\<lambda>arg0. js_return (Bool (\<not> truthy arg0)))),
     (''__wbindgen_is_function'', fn1 (\<lambda>arg0. js_gets (\<lambda>s. Bool (js_typeof E arg0 s =
       ''function'')))),
     (''__wbindgen_is_null'', fn1 (\<lambda>arg0. js_return (Bool (arg0 = Null)))),
     (''__wbindgen_is_undefined'', fn1 (\<lambda>arg0. js_return (Bool (arg0 = Undefined)))),
     (''__wbindgen_memory'', fn0 (js_return (wasm_memory E))),
     (''__wbindgen_string_get'', fn2 (\<lambda>arg0 arg1. js_let (js_gets (\<lambda>s. if js_typeof E arg1 s
       = ''string'' then arg1 else Undefined)) (ret_opt_string E arg0))),
     (''__wbindgen_string_new'', fn2 (\<lambda>arg0 arg1. js_str E arg0 arg1)),
     (''__wbindgen_throw'', fn2 (\<lambda>arg0 arg1. js_let (js_new_error (getStringFromWasm0 E (js_number
       arg0) (js_number arg1))) js_throw))]"

definition prophecy_imports :: "'w js_env \<Rightarrow> 'w import_table" where
  "prophecy_imports E = prophecy_imports_1 E @ prophecy_imports_2 E @ prophecy_imports_3 E"

section \<open>Lookup\<close>

lemma prophecy_names_1: "ascending (import_names (prophecy_imports_1 E))"
  by (simp add: prophecy_imports_1_def)

lemma prophecy_names_2: "ascending (import_names (prophecy_imports_2 E))"
  by (simp add: prophecy_imports_2_def)

lemma prophecy_names_3: "ascending (import_names (prophecy_imports_3 E))"
  by (simp add: prophecy_imports_3_def)

lemma prophecy_ascending: "ascending (import_names (prophecy_imports E))"
  unfolding prophecy_imports_def import_names_append
  by (intro ascending_parts prophecy_names_1 prophecy_names_2 prophecy_names_3)
     (simp_all add: prophecy_imports_1_def prophecy_imports_2_def prophecy_imports_3_def)

section \<open>Guarded imports, type tests and string results\<close>

text \<open>The imports that the source wraps in \<^verbatim>\<open>handleError\<close>.\<close>

definition prophecy_guarded :: "string list" where
  "prophecy_guarded = [''__wbg_addEventListener_90e553fdce254421'', ''__wbg_call_672a4d21634d4a24'',
       ''__wbg_call_7cccdd69e0791ae2'', ''__wbg_cloneNode_e35b333b87d51340'',
       ''__wbg_close_304cc1fef3466669'', ''__wbg_close_5ce03e29be453811'',
       ''__wbg_createElementNS_914d752e521987da'', ''__wbg_createElement_8c9931a732ee2fea'',
       ''__wbg_deleteProperty_96363d4a1d977c97'', ''__wbg_enqueue_bb16ba72f537dc9e'',
       ''__wbg_get_67b2ba62fc30de12'', ''__wbg_insertBefore_c181fb91844cd959''] @
       [''__wbg_new_018dcc2d6c8c2f6a'', ''__wbg_new_80bf4ee74f41ff92'',
       ''__wbg_new_9ffbe0a71eff35e3'', ''__wbg_newwithstr_78e86e03c4ae814e'',
       ''__wbg_newwithstrandinit_06c535e0a867c635'', ''__wbg_origin_7c5d649acdace3ea'',
       ''__wbg_removeEventListener_056dfe8c3d6c58f9'', ''__wbg_respond_1f279fa9f8edcb1c'',
       ''__wbg_setAttribute_2704501201f15687'', ''__wbg_set_bb8cecf6a62b9f46''] @
       [''__wbg_text_7805bea50de2af49'']"

lemma prophecy_guarded_1:
  assumes "exn_contract E"
  shows "provides_all (prophecy_imports_1 E) always_returns
       [''__wbg_addEventListener_90e553fdce254421'', ''__wbg_call_672a4d21634d4a24'',
       ''__wbg_call_7cccdd69e0791ae2'', ''__wbg_cloneNode_e35b333b87d51340'',
       ''__wbg_close_304cc1fef3466669'', ''__wbg_close_5ce03e29be453811'',
       ''__wbg_createElementNS_914d752e521987da'', ''__wbg_createElement_8c9931a732ee2fea'',
       ''__wbg_deleteProperty_96363d4a1d977c97'', ''__wbg_enqueue_bb16ba72f537dc9e'',
       ''__wbg_get_67b2ba62fc30de12'', ''__wbg_insertBefore_c181fb91844cd959'']"
  by (simp add: provides_def prophecy_imports_1_def guarded_fn [OF assms])

lemma prophecy_guarded_2:
  assumes "exn_contract E"
  shows "provides_all (prophecy_imports_2 E) always_returns [''__wbg_new_018dcc2d6c8c2f6a'',
       ''__wbg_new_80bf4ee74f41ff92'', ''__wbg_new_9ffbe0a71eff35e3'',
       ''__wbg_newwithstr_78e86e03c4ae814e'', ''__wbg_newwithstrandinit_06c535e0a867c635'',
       ''__wbg_origin_7c5d649acdace3ea'', ''__wbg_removeEventListener_056dfe8c3d6c58f9'',
       ''__wbg_respond_1f279fa9f8edcb1c'', ''__wbg_setAttribute_2704501201f15687'',
       ''__wbg_set_bb8cecf6a62b9f46'']"
  by (simp add: provides_def prophecy_imports_2_def guarded_fn [OF assms])

lemma prophecy_guarded_3:
  assumes "exn_contract E"
  shows "provides_all (prophecy_imports_3 E) always_returns [''__wbg_text_7805bea50de2af49'']"
  by (simp add: provides_def prophecy_imports_3_def guarded_fn [OF assms])

lemma prophecy_guarded_provided:
  assumes "exn_contract E"
  shows "provides_all (prophecy_imports E) always_returns prophecy_guarded"
  unfolding prophecy_guarded_def map_append provides_append
  by (intro conjI provides_part [OF prophecy_guarded_1 [OF assms]] provides_part [OF prophecy_guarded_2 [OF assms]] provides_part [OF prophecy_guarded_3 [OF assms]])
     (auto simp: prophecy_imports_def)

text \<open>The imports that test a class with \<^verbatim>\<open>instanceof\<close>.\<close>

definition prophecy_type_tests :: "string list" where
  "prophecy_type_tests = [''__wbg_instanceof_Element_0af65443936d5154'',
       ''__wbg_instanceof_Error_4d54113b22d20306'', ''__wbg_instanceof_Response_f2cc20d9f7dfd644'']
       @ [''__wbg_instanceof_ShadowRoot_726578bcd7fa418a'',
       ''__wbg_instanceof_Window_def73ea0955fc569'']"

lemma prophecy_type_tests_1:
  "provides_all (prophecy_imports_1 E) answers [''__wbg_instanceof_Element_0af65443936d5154'',
       ''__wbg_instanceof_Error_4d54113b22d20306'', ''__wbg_instanceof_Response_f2cc20d9f7dfd644'']"
  by (simp add: provides_def prophecy_imports_1_def )

lemma prophecy_type_tests_2:
  "provides_all (prophecy_imports_2 E) answers [''__wbg_instanceof_ShadowRoot_726578bcd7fa418a'',
       ''__wbg_instanceof_Window_def73ea0955fc569'']"
  by (simp add: provides_def prophecy_imports_2_def )

lemma prophecy_type_tests_provided:
  "provides_all (prophecy_imports E) answers prophecy_type_tests"
  unfolding prophecy_type_tests_def map_append provides_append
  by (intro conjI provides_part [OF prophecy_type_tests_1] provides_part [OF prophecy_type_tests_2])
     (auto simp: prophecy_imports_def)

text \<open>The imports that return a string property, with that property.\<close>

definition prophecy_string_getters :: "(string \<times> string) list" where
  "prophecy_string_getters = [(''__wbg_search_e0e79cfe010c5c23'', ''search'')] @
       [(''__wbg_stack_0ed75d68575b0f3c'', ''stack''), (''__wbg_url_8f9653b899456042'', ''url'')]"

lemma prophecy_string_getters_2:
  assumes "text_codec enc dec into keeps" "text_encode E = enc" "encodeInto E = into"
  shows "provides (prophecy_imports_2 E) (string_getter E trap enc)
       [(''__wbg_search_e0e79cfe010c5c23'', ''search'')]"
  by (simp add: provides_def prophecy_imports_2_def text_codec.string_getter_fn [OF assms])

lemma prophecy_string_getters_3:
  assumes "text_codec enc dec into keeps" "text_encode E = enc" "encodeInto E = into"
  shows "provides (prophecy_imports_3 E) (string_getter E trap enc)
       [(''__wbg_stack_0ed75d68575b0f3c'', ''stack''), (''__wbg_url_8f9653b899456042'', ''url'')]"
  by (simp add: provides_def prophecy_imports_3_def text_codec.string_getter_fn [OF assms])

lemma prophecy_string_getters_provided:
  assumes "text_codec enc dec into keeps" "text_encode E = enc" "encodeInto E = into"
  shows "provides (prophecy_imports E) (string_getter E trap enc) prophecy_string_getters"
  unfolding prophecy_string_getters_def map_append provides_append
  by (intro conjI provides_part [OF prophecy_string_getters_2 [OF assms]] provides_part [OF prophecy_string_getters_3 [OF assms]])
     (auto simp: prophecy_imports_def)

text \<open>The same for the imports that \<^verbatim>\<open>handleError\<close> guards.\<close>

definition prophecy_guarded_getters :: "(string \<times> string) list" where
  "prophecy_guarded_getters = [(''__wbg_origin_7c5d649acdace3ea'', ''origin'')]"

lemma prophecy_guarded_getters_2:
  assumes "text_codec enc dec into keeps" "text_encode E = enc" "encodeInto E = into"
  shows "provides (prophecy_imports_2 E) (guarded_getter E trap enc)
       [(''__wbg_origin_7c5d649acdace3ea'', ''origin'')]"
  by (simp add: provides_def prophecy_imports_2_def text_codec.guarded_getter_fn [OF assms])

lemma prophecy_guarded_getters_provided:
  assumes "text_codec enc dec into keeps" "text_encode E = enc" "encodeInto E = into"
  shows "provides (prophecy_imports E) (guarded_getter E trap enc) prophecy_guarded_getters"
  unfolding prophecy_guarded_getters_def map_append provides_append
  by (intro conjI provides_part [OF prophecy_guarded_getters_2 [OF assms]])
     (auto simp: prophecy_imports_def)

text \<open>The imports that make a closure, with its destructor and its adapter.\<close>

definition prophecy_closures :: "(string \<times> js_val \<times> string) list" where
  "prophecy_closures = [(''__wbindgen_closure_wrapper2765'', Num 285, ''__wbg_adapter_31''),
       (''__wbindgen_closure_wrapper580'', Num 209, ''__wbg_adapter_28'')]"

lemma prophecy_closures_3:
  "provides (prophecy_imports_3 E) (closure_maker (prophecy_adapters E))
       [(''__wbindgen_closure_wrapper2765'', Num 285, ''__wbg_adapter_31''),
       (''__wbindgen_closure_wrapper580'', Num 209, ''__wbg_adapter_28'')]"
  by (simp add: provides_def prophecy_imports_3_def closure_maker_fn prophecy_adapters_def)

lemma prophecy_closures_provided:
  "provides (prophecy_imports E) (closure_maker (prophecy_adapters E)) prophecy_closures"
  unfolding prophecy_closures_def map_append provides_append
  by (intro conjI provides_part [OF prophecy_closures_3])
     (auto simp: prophecy_imports_def)

end
