(* ===== verification/Spectrum_Imports.thy ===== *)
theory Spectrum_Imports
  imports Import_Table
begin

text \<open>
  The import object of \<^verbatim>\<open>src/examples/spectrum/dist/frontend-beed6691b218adf.js\<close>: its enumerations,
  the adapters of its closures and every import function, in the order of the source. The list is cut
  into consecutive parts.
\<close>

section \<open>Enumerations\<close>

definition spectrum_enum_BinaryType :: "string list" where
  "spectrum_enum_BinaryType = [''blob'', ''arraybuffer'']"

definition spectrum_enum_ReadableStreamType :: "string list" where
  "spectrum_enum_ReadableStreamType = [''bytes'']"

section \<open>Adapters of the closures\<close>

definition spectrum_adapters :: "'w js_env \<Rightarrow> 'w import_table" where
  "spectrum_adapters E = [
     (''__wbg_adapter_30'', fn3 (\<lambda>arg0 arg1 arg2. js_do (wasm_call E ''closure312_externref_shim''
       [arg0, arg1, arg2]))),
     (''__wbg_adapter_33'', fn2 (\<lambda>arg0 arg1. js_do (wasm_call E
       ''_dyn_core__ops__function__FnMut_____Output___R_as_wasm_bindgen__closure__WasmClosure___describe__invoke__hd590aa25f8faeea3''
       [arg0, arg1]))),
     (''__wbg_adapter_36'', fn3 (\<lambda>arg0 arg1 arg2. js_do (wasm_call E ''closure418_externref_shim''
       [arg0, arg1, arg2]))),
     (''__wbg_adapter_41'', fn2 (\<lambda>arg0 arg1. js_do (wasm_call E
       ''_dyn_core__ops__function__FnMut_____Output___R_as_wasm_bindgen__closure__WasmClosure___describe__invoke__heea07e4c3b8fa3fa''
       [arg0, arg1]))),
     (''__wbg_adapter_46'', fn3 (\<lambda>arg0 arg1 arg2. js_do (wasm_call E ''closure452_externref_shim''
       [arg0, arg1, arg2]))),
     (''__wbg_adapter_289'', fn4 (\<lambda>arg0 arg1 arg2 arg3. js_do (wasm_call E
       ''closure474_externref_shim'' [arg0, arg1, arg2, arg3])))]"

section \<open>Imports\<close>

definition spectrum_imports_1 :: "'w js_env \<Rightarrow> 'w import_table" where
  "spectrum_imports_1 E = [
     (''__wbg_addEventListener_84ae3eac6e15480a'', fn5 (\<lambda>arg0 arg1 arg2 arg3 arg4. handleError E
       (js_do (js_method E arg0 ''addEventListener'' [js_str E arg1 arg2, js_return arg3, js_return
       arg4])))),
     (''__wbg_addEventListener_90e553fdce254421'', fn4 (\<lambda>arg0 arg1 arg2 arg3. handleError E (js_do
       (js_method E arg0 ''addEventListener'' [js_str E arg1 arg2, js_return arg3])))),
     (''__wbg_attachShader_3d4eb6af9e3e7bd1'', fn3 (\<lambda>arg0 arg1 arg2. js_do (js_method E arg0
       ''attachShader'' [js_return arg1, js_return arg2]))),
     (''__wbg_bindBuffer_309c9a6c21826cf5'', fn3 (\<lambda>arg0 arg1 arg2. js_do (js_method E arg0
       ''bindBuffer'' [js_return (js_u32 arg1), js_return arg2]))),
     (''__wbg_bindTexture_a6e795697f49ebd1'', fn3 (\<lambda>arg0 arg1 arg2. js_do (js_method E arg0
       ''bindTexture'' [js_return (js_u32 arg1), js_return arg2]))),
     (''__wbg_body_942ea927546a04ba'', fn1 (\<lambda>arg0. js_let (js_member E arg0 ''body'') (ret_opt_ref
       E))),
     (''__wbg_bufferData_3261d3e1dd6fc903'', fn4 (\<lambda>arg0 arg1 arg2 arg3. js_do (js_method E arg0
       ''bufferData'' [js_return (js_u32 arg1), js_return arg2, js_return (js_u32 arg3)]))),
     (''__wbg_bufferSubData_4e973eefe9236d04'', fn4 (\<lambda>arg0 arg1 arg2 arg3. js_do (js_method E arg0
       ''bufferSubData'' [js_return (js_u32 arg1), js_return arg2, js_return arg3]))),
     (''__wbg_buffer_09165b52af8c5237'', fn1 (\<lambda>arg0. js_member E arg0 ''buffer'')),
     (''__wbg_buffer_609cc3eee51ed158'', fn1 (\<lambda>arg0. js_member E arg0 ''buffer'')),
     (''__wbg_byobRequest_77d9adf63337edfb'', fn1 (\<lambda>arg0. js_let (js_member E arg0 ''byobRequest'')
       (ret_opt_ref E))),
     (''__wbg_byteLength_e674b853d9c77e1d'', fn1 (\<lambda>arg0. js_member E arg0 ''byteLength'')),
     (''__wbg_byteOffset_fd862df290ef848d'', fn1 (\<lambda>arg0. js_member E arg0 ''byteOffset'')),
     (''__wbg_call_672a4d21634d4a24'', fn2 (\<lambda>arg0 arg1. handleError E (js_method E arg0 ''call''
       [js_return arg1]))),
     (''__wbg_call_7cccdd69e0791ae2'', fn3 (\<lambda>arg0 arg1 arg2. handleError E (js_method E arg0
       ''call'' [js_return arg1, js_return arg2]))),
     (''__wbg_cancelBubble_2e66f509cdea4d7e'', fn1 (\<lambda>arg0. js_member E arg0 ''cancelBubble'')),
     (''__wbg_clientHeight_216178c194000db4'', fn1 (\<lambda>arg0. js_member E arg0 ''clientHeight'')),
     (''__wbg_clientWidth_ce67a04dc15fce39'', fn1 (\<lambda>arg0. js_member E arg0 ''clientWidth'')),
     (''__wbg_cloneNode_e35b333b87d51340'', fn1 (\<lambda>arg0. handleError E (js_method E arg0
       ''cloneNode'' []))),
     (''__wbg_close_2893b7d056a0627d'', fn1 (\<lambda>arg0. handleError E (js_do (js_method E arg0 ''close''
       [])))),
     (''__wbg_close_304cc1fef3466669'', fn1 (\<lambda>arg0. handleError E (js_do (js_method E arg0 ''close''
       [])))),
     (''__wbg_close_5ce03e29be453811'', fn1 (\<lambda>arg0. handleError E (js_do (js_method E arg0 ''close''
       [])))),
     (''__wbg_code_f4ec1e6e2e1b0417'', fn1 (\<lambda>arg0. js_member E arg0 ''code'')),
     (''__wbg_compileShader_0ad770bbdbb9de21'', fn2 (\<lambda>arg0 arg1. js_do (js_method E arg0
       ''compileShader'' [js_return arg1]))),
     (''__wbg_composedPath_977ce97a0ef39358'', fn1 (\<lambda>arg0. js_method E arg0 ''composedPath'' [])),
     (''__wbg_createBuffer_9886e84a67b68c89'', fn1 (\<lambda>arg0. js_let (js_method E arg0 ''createBuffer''
       []) (ret_opt_ref E))),
     (''__wbg_createComment_8b540d4b9d22f212'', fn3 (\<lambda>arg0 arg1 arg2. js_method E arg0
       ''createComment'' [js_str E arg1 arg2])),
     (''__wbg_createElementNS_914d752e521987da'', fn5 (\<lambda>arg0 arg1 arg2 arg3 arg4. handleError E
       (js_method E arg0 ''createElementNS'' [js_opt_str E arg1 arg2, js_str E arg3 arg4]))),
     (''__wbg_createElement_8c9931a732ee2fea'', fn3 (\<lambda>arg0 arg1 arg2. handleError E (js_method E
       arg0 ''createElement'' [js_str E arg1 arg2]))),
     (''__wbg_createProgram_da203074cafb1038'', fn1 (\<lambda>arg0. js_let (js_method E arg0
       ''createProgram'' []) (ret_opt_ref E))),
     (''__wbg_createShader_983150fb1243ee56'', fn2 (\<lambda>arg0 arg1. js_let (js_method E arg0
       ''createShader'' [js_return (js_u32 arg1)]) (ret_opt_ref E))),
     (''__wbg_createTextNode_42af1a9f21bb3360'', fn3 (\<lambda>arg0 arg1 arg2. js_method E arg0
       ''createTextNode'' [js_str E arg1 arg2])),
     (''__wbg_createTexture_bfaa54c0cd22e367'', fn1 (\<lambda>arg0. js_let (js_method E arg0
       ''createTexture'' []) (ret_opt_ref E))),
     (''__wbg_data_432d9c3df2630942'', fn1 (\<lambda>arg0. js_member E arg0 ''data'')),
     (''__wbg_deleteProperty_96363d4a1d977c97'', fn2 (\<lambda>arg0 arg1. handleError E (js_static E
       ''Reflect'' ''deleteProperty'' [js_return arg0, js_return arg1]))),
     (''__wbg_dispatchEvent_9e259d7c1d603dfb'', fn2 (\<lambda>arg0 arg1. handleError E (js_method E arg0
       ''dispatchEvent'' [js_return arg1]))),
     (''__wbg_document_d249400bd7bd996d'', fn1 (\<lambda>arg0. js_let (js_member E arg0 ''document'')
       (ret_opt_ref E))),
     (''__wbg_drawArrays_6d29ea2ebc0c72a2'', fn4 (\<lambda>arg0 arg1 arg2 arg3. js_do (js_method E arg0
       ''drawArrays'' [js_return (js_u32 arg1), js_return arg2, js_return arg3]))),
     (''__wbg_drawElements_65cb4b099bd7d4ac'', fn5 (\<lambda>arg0 arg1 arg2 arg3 arg4. js_do (js_method E
       arg0 ''drawElements'' [js_return (js_u32 arg1), js_return arg2, js_return (js_u32 arg3), js_return
       arg4]))),
     (''__wbg_enableVertexAttribArray_93c3d406a41ad6c7'', fn2 (\<lambda>arg0 arg1. js_do (js_method E arg0
       ''enableVertexAttribArray'' [js_return (js_u32 arg1)]))),
     (''__wbg_enqueue_bb16ba72f537dc9e'', fn2 (\<lambda>arg0 arg1. handleError E (js_do (js_method E arg0
       ''enqueue'' [js_return arg1]))))]"

definition spectrum_imports_2 :: "'w js_env \<Rightarrow> 'w import_table" where
  "spectrum_imports_2 E = [
     (''__wbg_error_7534b8e9a36f1ab4'', fn2 (\<lambda>arg0 arg1. with_deferred E [(arg0, arg1)] (js_static E
       ''console'' ''error'' [js_str E arg0 arg1]))),
     (''__wbg_fetch_a9bc66c159c18e19'', fn1 (\<lambda>arg0. js_call E ''fetch'' [js_return arg0])),
     (''__wbg_getAttribLocation_959c0150cdd39cac'', fn4 (\<lambda>arg0 arg1 arg2 arg3. js_method E arg0
       ''getAttribLocation'' [js_return arg1, js_str E arg2 arg3])),
     (''__wbg_getContext_e9cf379449413580'', fn3 (\<lambda>arg0 arg1 arg2. handleError E (js_let (js_method
       E arg0 ''getContext'' [js_str E arg1 arg2]) (ret_opt_ref E)))),
     (''__wbg_getRandomValues_38097e921c2494c3'', fn2 (\<lambda>arg0 arg1. handleError E (js_do (js_let
       (js_global E ''globalThis'') (\<lambda>g. js_let (js_member E g ''crypto'') (\<lambda>c. js_method E
       c ''getRandomValues'' [getArrayU8FromWasm0 (js_number arg0) (js_number arg1)])))))),
     (''__wbg_getUniformLocation_657a2b6d102bd126'', fn4 (\<lambda>arg0 arg1 arg2 arg3. js_let (js_method E
       arg0 ''getUniformLocation'' [js_return arg1, js_str E arg2 arg3]) (ret_opt_ref E))),
     (''__wbg_get_67b2ba62fc30de12'', fn2 (\<lambda>arg0 arg1. handleError E (js_static E ''Reflect''
       ''get'' [js_return arg0, js_return arg1]))),
     (''__wbg_get_b9b93047fe3cf45b'', fn2 (\<lambda>arg0 arg1. js_elem E arg0 (to_uint32 (js_number arg1)))),
     (''__wbg_height_838cee19ba8597db'', fn1 (\<lambda>arg0. js_member E arg0 ''height'')),
     (''__wbg_host_166cb082dae71d08'', fn1 (\<lambda>arg0. js_member E arg0 ''host'')),
     (''__wbg_hostname_8d7204884eb7378b'', fn2 (\<lambda>arg0 arg1. handleError E (js_let (js_member E arg1
       ''hostname'') (ret_string E arg0)))),
     (''__wbg_insertBefore_c181fb91844cd959'', fn3 (\<lambda>arg0 arg1 arg2. handleError E (js_method E arg0
       ''insertBefore'' [js_return arg1, js_return arg2]))),
     (''__wbg_instanceof_ArrayBuffer_e14585432e3737fc'', fn1 (\<lambda>arg0. js_instanceof E arg0
       ''ArrayBuffer'')),
     (''__wbg_instanceof_Element_0af65443936d5154'', fn1 (\<lambda>arg0. js_instanceof E arg0 ''Element'')),
     (''__wbg_instanceof_Error_4d54113b22d20306'', fn1 (\<lambda>arg0. js_instanceof E arg0 ''Error'')),
     (''__wbg_instanceof_HtmlInputElement_12d71bf2d15dd19e'', fn1 (\<lambda>arg0. js_instanceof E arg0
       ''HTMLInputElement'')),
     (''__wbg_instanceof_Response_f2cc20d9f7dfd644'', fn1 (\<lambda>arg0. js_instanceof E arg0
       ''Response'')),
     (''__wbg_instanceof_ShadowRoot_726578bcd7fa418a'', fn1 (\<lambda>arg0. js_instanceof E arg0
       ''ShadowRoot'')),
     (''__wbg_instanceof_WebGl2RenderingContext_2b6045efeb76568d'', fn1 (\<lambda>arg0. js_instanceof E arg0
       ''WebGL2RenderingContext'')),
     (''__wbg_instanceof_Window_def73ea0955fc569'', fn1 (\<lambda>arg0. js_instanceof E arg0 ''Window'')),
     (''__wbg_length_a446193dc22c12f8'', fn1 (\<lambda>arg0. js_member E arg0 ''length'')),
     (''__wbg_linkProgram_067ee06739bdde81'', fn2 (\<lambda>arg0 arg1. js_do (js_method E arg0
       ''linkProgram'' [js_return arg1]))),
     (''__wbg_location_350d99456c2f3693'', fn1 (\<lambda>arg0. js_member E arg0 ''location''))]"

definition spectrum_imports_3 :: "'w js_env \<Rightarrow> 'w import_table" where
  "spectrum_imports_3 E = [
     (''__wbg_log_0cc1b7768397bcfe'', fn8 (\<lambda>arg0 arg1 arg2 arg3 arg4 arg5 arg6 arg7. with_deferred E
       [(arg0, arg1)] (js_static E ''console'' ''log'' [js_str E arg0 arg1, js_str E arg2 arg3, js_str E
       arg4 arg5, js_str E arg6 arg7]))),
     (''__wbg_log_c222819a41e063d3'', fn1 (\<lambda>arg0. js_do (js_static E ''console'' ''log'' [js_return
       arg0]))),
     (''__wbg_log_cb9e190acc5753fb'', fn2 (\<lambda>arg0 arg1. with_deferred E [(arg0, arg1)] (js_static E
       ''console'' ''log'' [js_str E arg0 arg1]))),
     (''__wbg_mark_7438147ce31e9d4b'', fn2 (\<lambda>arg0 arg1. js_do (js_static E ''performance'' ''mark''
       [js_str E arg0 arg1]))),
     (''__wbg_measure_fb7825c11612c823'', fn4 (\<lambda>arg0 arg1 arg2 arg3. handleError E (with_deferred E
       [(arg0, arg1), (arg2, arg3)] (js_static E ''performance'' ''measure'' [js_str E arg0 arg1, js_str E
       arg2 arg3])))),
     (''__wbg_mermaidinit_8cfe82243f62aa26'', fn0 (js_do (js_static E ''mermaid'' ''init'' []))),
     (''__wbg_message_97a2af9b89d693a3'', fn1 (\<lambda>arg0. js_member E arg0 ''message'')),
     (''__wbg_name_0b327d569f00ebee'', fn1 (\<lambda>arg0. js_member E arg0 ''name'')),
     (''__wbg_new_018dcc2d6c8c2f6a'', fn0 (handleError E (js_new E ''Headers'' []))),
     (''__wbg_new_23a2665fac83c611'', fn2 (\<lambda>arg0 arg1. new_promise E ''__wbg_adapter_289'' arg0
       arg1)),
     (''__wbg_new_405e22f390576ce2'', fn0 (js_new E ''Object'' [])),
     (''__wbg_new_80bf4ee74f41ff92'', fn0 (handleError E (js_new E ''URLSearchParams'' []))),
     (''__wbg_new_8a6f238a6ece86ea'', fn0 (js_new_error (js_return []))),
     (''__wbg_new_92c54fc74574ef55'', fn2 (\<lambda>arg0 arg1. handleError E (js_new E ''WebSocket'' [js_str
       E arg0 arg1]))),
     (''__wbg_new_9ffbe0a71eff35e3'', fn2 (\<lambda>arg0 arg1. handleError E (js_new E ''URL'' [js_str E
       arg0 arg1]))),
     (''__wbg_new_a12002a7f91c75be'', fn1 (\<lambda>arg0. js_new E ''Uint8Array'' [js_return arg0])),
     (''__wbg_new_c68d7209be747379'', fn2 (\<lambda>arg0 arg1. js_new_error (getStringFromWasm0 E (js_number
       arg0) (js_number arg1)))),
     (''__wbg_newnoargs_105ed471475aaf50'', fn2 (\<lambda>arg0 arg1. js_new E ''Function'' [js_str E arg0
       arg1])),
     (''__wbg_newwithbyteoffsetandlength_d4a86622320ea258'', fn3 (\<lambda>arg0 arg1 arg2. js_new E
       ''Uint16Array'' [js_return arg0, js_return (js_u32 arg1), js_return (js_u32 arg2)])),
     (''__wbg_newwithbyteoffsetandlength_d97e637ebe145a9a'', fn3 (\<lambda>arg0 arg1 arg2. js_new E
       ''Uint8Array'' [js_return arg0, js_return (js_u32 arg1), js_return (js_u32 arg2)])),
     (''__wbg_newwithbyteoffsetandlength_e6b7e69acd4c7354'', fn3 (\<lambda>arg0 arg1 arg2. js_new E
       ''Float32Array'' [js_return arg0, js_return (js_u32 arg1), js_return (js_u32 arg2)])),
     (''__wbg_newwitheventinitdict_502dbfa1b3d2fcbc'', fn3 (\<lambda>arg0 arg1 arg2. handleError E (js_new E
       ''CloseEvent'' [js_str E arg0 arg1, js_return arg2]))),
     (''__wbg_newwithstr_78e86e03c4ae814e'', fn2 (\<lambda>arg0 arg1. handleError E (js_new E ''Request''
       [js_str E arg0 arg1]))),
     (''__wbg_newwithstrandinit_06c535e0a867c635'', fn3 (\<lambda>arg0 arg1 arg2. handleError E (js_new E
       ''Request'' [js_str E arg0 arg1, js_return arg2]))),
     (''__wbg_origin_7c5d649acdace3ea'', fn2 (\<lambda>arg0 arg1. handleError E (js_let (js_member E arg1
       ''origin'') (ret_string E arg0)))),
     (''__wbg_parentNode_9de97a0e7973ea4e'', fn1 (\<lambda>arg0. js_let (js_member E arg0 ''parentNode'')
       (ret_opt_ref E)))]"

definition spectrum_imports_4 :: "'w js_env \<Rightarrow> 'w import_table" where
  "spectrum_imports_4 E = [
     (''__wbg_protocol_faa0494a9b2554cb'', fn2 (\<lambda>arg0 arg1. handleError E (js_let (js_member E arg1
       ''protocol'') (ret_string E arg0)))),
     (''__wbg_queueMicrotask_97d92b4fcc8a61c5'', fn1 (\<lambda>arg0. js_do (js_call E ''queueMicrotask''
       [js_return arg0]))),
     (''__wbg_queueMicrotask_d3219def82552485'', fn1 (\<lambda>arg0. js_member E arg0 ''queueMicrotask'')),
     (''__wbg_reason_49f1cede8bcf23dd'', fn2 (\<lambda>arg0 arg1. js_let (js_member E arg1 ''reason'')
       (ret_string E arg0))),
     (''__wbg_removeEventListener_056dfe8c3d6c58f9'', fn4 (\<lambda>arg0 arg1 arg2 arg3. handleError E
       (js_do (js_method E arg0 ''removeEventListener'' [js_str E arg1 arg2, js_return arg3])))),
     (''__wbg_remove_e2d2659f3128c045'', fn1 (\<lambda>arg0. js_do (js_method E arg0 ''remove'' []))),
     (''__wbg_remove_efb062ab554e1fbd'', fn1 (\<lambda>arg0. js_do (js_method E arg0 ''remove'' []))),
     (''__wbg_requestAnimationFrame_d7fd890aaefc3246'', fn2 (\<lambda>arg0 arg1. handleError E (js_method E
       arg0 ''requestAnimationFrame'' [js_return arg1]))),
     (''__wbg_resolve_4851785c9c5f573d'', fn1 (\<lambda>arg0. js_static E ''Promise'' ''resolve'' [js_return
       arg0])),
     (''__wbg_respond_1f279fa9f8edcb1c'', fn2 (\<lambda>arg0 arg1. handleError E (js_do (js_method E arg0
       ''respond'' [js_return (js_u32 arg1)])))),
     (''__wbg_search_e0e79cfe010c5c23'', fn2 (\<lambda>arg0 arg1. js_let (js_member E arg1 ''search'')
       (ret_string E arg0))),
     (''__wbg_setAttribute_2704501201f15687'', fn5 (\<lambda>arg0 arg1 arg2 arg3 arg4. handleError E (js_do
       (js_method E arg0 ''setAttribute'' [js_str E arg1 arg2, js_str E arg3 arg4])))),
     (''__wbg_set_11cd83f45504cedf'', fn5 (\<lambda>arg0 arg1 arg2 arg3 arg4. handleError E (js_do
       (js_method E arg0 ''set'' [js_str E arg1 arg2, js_str E arg3 arg4])))),
     (''__wbg_set_65595bdd868b3009'', fn3 (\<lambda>arg0 arg1 arg2. js_do (js_method E arg0 ''set''
       [js_return arg1, js_return (js_u32 arg2)]))),
     (''__wbg_set_bb8cecf6a62b9f46'', fn3 (\<lambda>arg0 arg1 arg2. handleError E (js_static E ''Reflect''
       ''set'' [js_return arg0, js_return arg1, js_return arg2]))),
     (''__wbg_setbinaryType_92fa1ffd873b327c'', fn2 (\<lambda>arg0 arg1. js_assign E arg0 ''binaryType''
       (js_return (enum_at spectrum_enum_BinaryType arg1)))),
     (''__wbg_setbody_5923b78a95eedf29'', fn2 (\<lambda>arg0 arg1. js_assign E arg0 ''body'' (js_return
       arg1))),
     (''__wbg_setcode_156060465a2f8f79'', fn2 (\<lambda>arg0 arg1. js_assign E arg0 ''code'' (js_return
       arg1))),
     (''__wbg_setheaders_834c0bdb6a8949ad'', fn2 (\<lambda>arg0 arg1. js_assign E arg0 ''headers''
       (js_return arg1))),
     (''__wbg_setheight_da683a33fa99843c'', fn2 (\<lambda>arg0 arg1. js_assign E arg0 ''height'' (js_return
       (js_u32 arg1)))),
     (''__wbg_setinnerHTML_31bde41f835786f7'', fn3 (\<lambda>arg0 arg1 arg2. js_assign E arg0 ''innerHTML''
       (js_str E arg1 arg2))),
     (''__wbg_setinnerText_b11978b8158639c4'', fn3 (\<lambda>arg0 arg1 arg2. js_assign E arg0 ''innerText''
       (js_str E arg1 arg2))),
     (''__wbg_setmethod_3c5280fe5d890842'', fn3 (\<lambda>arg0 arg1 arg2. js_assign E arg0 ''method''
       (js_str E arg1 arg2))),
     (''__wbg_setnodeValue_58cb1b2f6b6c33d2'', fn3 (\<lambda>arg0 arg1 arg2. js_assign E arg0 ''nodeValue''
       (js_opt_str E arg1 arg2))),
     (''__wbg_setonce_0cb80aea26303a35'', fn2 (\<lambda>arg0 arg1. js_assign E arg0 ''once'' (js_return
       (js_nonzero arg1)))),
     (''__wbg_setreason_d29ac0402eeeb81a'', fn3 (\<lambda>arg0 arg1 arg2. js_assign E arg0 ''reason''
       (js_str E arg1 arg2))),
     (''__wbg_setsearch_609451e9e712f3c6'', fn3 (\<lambda>arg0 arg1 arg2. js_assign E arg0 ''search''
       (js_str E arg1 arg2))),
     (''__wbg_setwidth_c5fed9f5e7f0b406'', fn2 (\<lambda>arg0 arg1. js_assign E arg0 ''width'' (js_return
       (js_u32 arg1)))),
     (''__wbg_shaderSource_72d3e8597ef85b67'', fn4 (\<lambda>arg0 arg1 arg2 arg3. js_do (js_method E arg0
       ''shaderSource'' [js_return arg1, js_str E arg2 arg3]))),
     (''__wbg_stack_0ed75d68575b0f3c'', fn2 (\<lambda>arg0 arg1. js_let (js_member E arg1 ''stack'')
       (ret_string E arg0))),
     (''__wbg_static_accessor_GLOBAL_88a902d13a557d07'', fn0 (js_let (js_global_or_null E ''global'')
       (ret_opt_ref E))),
     (''__wbg_static_accessor_GLOBAL_THIS_56578be7e9f832b0'', fn0 (js_let (js_global_or_null E
       ''globalThis'') (ret_opt_ref E))),
     (''__wbg_static_accessor_SELF_37c5d418e4bf5819'', fn0 (js_let (js_global_or_null E ''self'')
       (ret_opt_ref E))),
     (''__wbg_static_accessor_WINDOW_5de37043a91a9c40'', fn0 (js_let (js_global_or_null E ''window'')
       (ret_opt_ref E))),
     (''__wbg_target_0a62d9d79a2a1ede'', fn1 (\<lambda>arg0. js_let (js_member E arg0 ''target'')
       (ret_opt_ref E))),
     (''__wbg_texImage2D_114e77ca61ee2068'', fn11 (\<lambda>arg0 arg1 arg2 arg3 arg4 arg5 arg6 arg7 arg8
       arg9 arg10. handleError E (js_do (js_method E arg0 ''texImage2D'' [js_return (js_u32 arg1), js_return
       arg2, js_return arg3, js_return arg4, js_return arg5, js_return arg6, js_return (js_u32 arg7),
       js_return (js_u32 arg8), js_return arg9, js_return (js_u32 arg10)])))),
     (''__wbg_texParameteri_8112b26b3c360b7e'', fn4 (\<lambda>arg0 arg1 arg2 arg3. js_do (js_method E arg0
       ''texParameteri'' [js_return (js_u32 arg1), js_return (js_u32 arg2), js_return arg3]))),
     (''__wbg_texSubImage2D_00e9fc34c22b598e'', fn11 (\<lambda>arg0 arg1 arg2 arg3 arg4 arg5 arg6 arg7 arg8
       arg9 arg10. handleError E (js_do (js_method E arg0 ''texSubImage2D'' [js_return (js_u32 arg1),
       js_return arg2, js_return arg3, js_return arg4, js_return arg5, js_return arg6, js_return (js_u32
       arg7), js_return (js_u32 arg8), js_return arg9, js_return (js_u32 arg10)])))),
     (''__wbg_text_7805bea50de2af49'', fn1 (\<lambda>arg0. handleError E (js_method E arg0 ''text'' []))),
     (''__wbg_then_44b73946d2fb3e7d'', fn2 (\<lambda>arg0 arg1. js_method E arg0 ''then'' [js_return arg1]))]"

definition spectrum_imports_5 :: "'w js_env \<Rightarrow> 'w import_table" where
  "spectrum_imports_5 E = [
     (''__wbg_then_48b406749878a531'', fn3 (\<lambda>arg0 arg1 arg2. js_method E arg0 ''then'' [js_return
       arg1, js_return arg2])),
     (''__wbg_toString_5285597960676b7b'', fn1 (\<lambda>arg0. js_method E arg0 ''toString'' [])),
     (''__wbg_toString_c813bbd34d063839'', fn1 (\<lambda>arg0. js_method E arg0 ''toString'' [])),
     (''__wbg_uniform1f_dc009a0e7f7e5977'', fn3 (\<lambda>arg0 arg1 arg2. js_do (js_method E arg0
       ''uniform1f'' [js_return arg1, js_return arg2]))),
     (''__wbg_url_8f9653b899456042'', fn2 (\<lambda>arg0 arg1. js_let (js_member E arg1 ''url'') (ret_string
       E arg0))),
     (''__wbg_useProgram_9b2660f7bb210471'', fn2 (\<lambda>arg0 arg1. js_do (js_method E arg0 ''useProgram''
       [js_return arg1]))),
     (''__wbg_value_91cbf0dd3ab84c1e'', fn2 (\<lambda>arg0 arg1. js_let (js_member E arg1 ''value'')
       (ret_string E arg0))),
     (''__wbg_vertexAttribPointer_550dc34903e3d1ea'', fn7 (\<lambda>arg0 arg1 arg2 arg3 arg4 arg5 arg6.
       js_do (js_method E arg0 ''vertexAttribPointer'' [js_return (js_u32 arg1), js_return arg2, js_return
       (js_u32 arg3), js_return (js_nonzero arg4), js_return arg5, js_return arg6]))),
     (''__wbg_view_fd8a56e8983f448d'', fn1 (\<lambda>arg0. js_let (js_member E arg0 ''view'') (ret_opt_ref
       E))),
     (''__wbg_viewport_e615e98f676f2d39'', fn5 (\<lambda>arg0 arg1 arg2 arg3 arg4. js_do (js_method E arg0
       ''viewport'' [js_return arg1, js_return arg2, js_return arg3, js_return arg4]))),
     (''__wbg_wasClean_605b4fd66d44354a'', fn1 (\<lambda>arg0. js_member E arg0 ''wasClean'')),
     (''__wbg_width_5dde457d606ba683'', fn1 (\<lambda>arg0. js_member E arg0 ''width'')),
     (''__wbindgen_cb_drop'', fn1 (\<lambda>arg0. wbindgen_cb_drop arg0)),
     (''__wbindgen_closure_wrapper1202'', fn3 (\<lambda>arg0 arg1 arg2. makeMutClosure (js_number arg0)
       (js_number arg1) (Num 415) ''__wbg_adapter_33'')),
     (''__wbindgen_closure_wrapper1226'', fn3 (\<lambda>arg0 arg1 arg2. makeMutClosure (js_number arg0)
       (js_number arg1) (Num 419) ''__wbg_adapter_36'')),
     (''__wbindgen_closure_wrapper1228'', fn3 (\<lambda>arg0 arg1 arg2. makeMutClosure (js_number arg0)
       (js_number arg1) (Num 419) ''__wbg_adapter_36'')),
     (''__wbindgen_closure_wrapper1230'', fn3 (\<lambda>arg0 arg1 arg2. makeMutClosure (js_number arg0)
       (js_number arg1) (Num 419) ''__wbg_adapter_41'')),
     (''__wbindgen_closure_wrapper1232'', fn3 (\<lambda>arg0 arg1 arg2. makeMutClosure (js_number arg0)
       (js_number arg1) (Num 419) ''__wbg_adapter_36'')),
     (''__wbindgen_closure_wrapper3232'', fn3 (\<lambda>arg0 arg1 arg2. makeMutClosure (js_number arg0)
       (js_number arg1) (Num 453) ''__wbg_adapter_46'')),
     (''__wbindgen_closure_wrapper879'', fn3 (\<lambda>arg0 arg1 arg2. makeMutClosure (js_number arg0)
       (js_number arg1) (Num 313) ''__wbg_adapter_30'')),
     (''__wbindgen_debug_string'', fn2 (\<lambda>arg0 arg1. js_let (js_gets (\<lambda>s. Str (debugString
       (host_shape E arg1 s)))) (ret_string E arg0))),
     (''__wbindgen_init_externref_table'', fn0 (wbindgen_init_externref_table)),
     (''__wbindgen_is_falsy'', fn1 (\<lambda>arg0. js_return (Bool (\<not> truthy arg0)))),
     (''__wbindgen_is_function'', fn1 (\<lambda>arg0. js_gets (\<lambda>s. Bool (js_typeof E arg0 s =
       ''function'')))),
     (''__wbindgen_is_null'', fn1 (\<lambda>arg0. js_return (Bool (arg0 = Null)))),
     (''__wbindgen_is_string'', fn1 (\<lambda>arg0. js_gets (\<lambda>s. Bool (js_typeof E arg0 s =
       ''string'')))),
     (''__wbindgen_is_undefined'', fn1 (\<lambda>arg0. js_return (Bool (arg0 = Undefined)))),
     (''__wbindgen_memory'', fn0 (js_return (wasm_memory E))),
     (''__wbindgen_string_get'', fn2 (\<lambda>arg0 arg1. js_let (js_gets (\<lambda>s. if js_typeof E arg1 s
       = ''string'' then arg1 else Undefined)) (ret_opt_string E arg0))),
     (''__wbindgen_string_new'', fn2 (\<lambda>arg0 arg1. js_str E arg0 arg1)),
     (''__wbindgen_throw'', fn2 (\<lambda>arg0 arg1. js_let (js_new_error (getStringFromWasm0 E (js_number
       arg0) (js_number arg1))) js_throw))]"

definition spectrum_imports :: "'w js_env \<Rightarrow> 'w import_table" where
  "spectrum_imports E = spectrum_imports_1 E @ spectrum_imports_2 E @ spectrum_imports_3 E @
       spectrum_imports_4 E @ spectrum_imports_5 E"

section \<open>Lookup\<close>

lemma spectrum_names_1: "ascending (import_names (spectrum_imports_1 E))"
  by (simp add: spectrum_imports_1_def)

lemma spectrum_names_2: "ascending (import_names (spectrum_imports_2 E))"
  by (simp add: spectrum_imports_2_def)

lemma spectrum_names_3: "ascending (import_names (spectrum_imports_3 E))"
  by (simp add: spectrum_imports_3_def)

lemma spectrum_names_4: "ascending (import_names (spectrum_imports_4 E))"
  by (simp add: spectrum_imports_4_def)

lemma spectrum_names_5: "ascending (import_names (spectrum_imports_5 E))"
  by (simp add: spectrum_imports_5_def)

lemma spectrum_ascending: "ascending (import_names (spectrum_imports E))"
  unfolding spectrum_imports_def import_names_append
  by (intro ascending_parts spectrum_names_1 spectrum_names_2 spectrum_names_3 spectrum_names_4 spectrum_names_5)
     (simp_all add: spectrum_imports_1_def spectrum_imports_2_def spectrum_imports_3_def spectrum_imports_4_def spectrum_imports_5_def)

section \<open>Guarded imports, type tests and string results\<close>

text \<open>The imports that the source wraps in \<^verbatim>\<open>handleError\<close>.\<close>

definition spectrum_guarded :: "string list" where
  "spectrum_guarded = [''__wbg_addEventListener_84ae3eac6e15480a'',
       ''__wbg_addEventListener_90e553fdce254421'', ''__wbg_call_672a4d21634d4a24'',
       ''__wbg_call_7cccdd69e0791ae2'', ''__wbg_cloneNode_e35b333b87d51340'',
       ''__wbg_close_2893b7d056a0627d'', ''__wbg_close_304cc1fef3466669'',
       ''__wbg_close_5ce03e29be453811'', ''__wbg_createElementNS_914d752e521987da'',
       ''__wbg_createElement_8c9931a732ee2fea'', ''__wbg_deleteProperty_96363d4a1d977c97'',
       ''__wbg_dispatchEvent_9e259d7c1d603dfb'', ''__wbg_enqueue_bb16ba72f537dc9e''] @
       [''__wbg_getContext_e9cf379449413580'', ''__wbg_getRandomValues_38097e921c2494c3'',
       ''__wbg_get_67b2ba62fc30de12'', ''__wbg_hostname_8d7204884eb7378b'',
       ''__wbg_insertBefore_c181fb91844cd959''] @ [''__wbg_measure_fb7825c11612c823'',
       ''__wbg_new_018dcc2d6c8c2f6a'', ''__wbg_new_80bf4ee74f41ff92'',
       ''__wbg_new_92c54fc74574ef55'', ''__wbg_new_9ffbe0a71eff35e3'',
       ''__wbg_newwitheventinitdict_502dbfa1b3d2fcbc'', ''__wbg_newwithstr_78e86e03c4ae814e'',
       ''__wbg_newwithstrandinit_06c535e0a867c635'', ''__wbg_origin_7c5d649acdace3ea''] @
       [''__wbg_protocol_faa0494a9b2554cb'', ''__wbg_removeEventListener_056dfe8c3d6c58f9'',
       ''__wbg_requestAnimationFrame_d7fd890aaefc3246'', ''__wbg_respond_1f279fa9f8edcb1c'',
       ''__wbg_setAttribute_2704501201f15687'', ''__wbg_set_11cd83f45504cedf'',
       ''__wbg_set_bb8cecf6a62b9f46'', ''__wbg_texImage2D_114e77ca61ee2068'',
       ''__wbg_texSubImage2D_00e9fc34c22b598e'', ''__wbg_text_7805bea50de2af49'']"

lemma spectrum_guarded_1:
  assumes "exn_contract E"
  shows "provides_all (spectrum_imports_1 E) always_returns
       [''__wbg_addEventListener_84ae3eac6e15480a'', ''__wbg_addEventListener_90e553fdce254421'',
       ''__wbg_call_672a4d21634d4a24'', ''__wbg_call_7cccdd69e0791ae2'',
       ''__wbg_cloneNode_e35b333b87d51340'', ''__wbg_close_2893b7d056a0627d'',
       ''__wbg_close_304cc1fef3466669'', ''__wbg_close_5ce03e29be453811'',
       ''__wbg_createElementNS_914d752e521987da'', ''__wbg_createElement_8c9931a732ee2fea'',
       ''__wbg_deleteProperty_96363d4a1d977c97'', ''__wbg_dispatchEvent_9e259d7c1d603dfb'',
       ''__wbg_enqueue_bb16ba72f537dc9e'']"
  by (simp add: provides_def spectrum_imports_1_def guarded_fn [OF assms])

lemma spectrum_guarded_2:
  assumes "exn_contract E"
  shows "provides_all (spectrum_imports_2 E) always_returns [''__wbg_getContext_e9cf379449413580'',
       ''__wbg_getRandomValues_38097e921c2494c3'', ''__wbg_get_67b2ba62fc30de12'',
       ''__wbg_hostname_8d7204884eb7378b'', ''__wbg_insertBefore_c181fb91844cd959'']"
  by (simp add: provides_def spectrum_imports_2_def guarded_fn [OF assms])

lemma spectrum_guarded_3:
  assumes "exn_contract E"
  shows "provides_all (spectrum_imports_3 E) always_returns [''__wbg_measure_fb7825c11612c823'',
       ''__wbg_new_018dcc2d6c8c2f6a'', ''__wbg_new_80bf4ee74f41ff92'',
       ''__wbg_new_92c54fc74574ef55'', ''__wbg_new_9ffbe0a71eff35e3'',
       ''__wbg_newwitheventinitdict_502dbfa1b3d2fcbc'', ''__wbg_newwithstr_78e86e03c4ae814e'',
       ''__wbg_newwithstrandinit_06c535e0a867c635'', ''__wbg_origin_7c5d649acdace3ea'']"
  by (simp add: provides_def spectrum_imports_3_def guarded_fn [OF assms])

lemma spectrum_guarded_4:
  assumes "exn_contract E"
  shows "provides_all (spectrum_imports_4 E) always_returns [''__wbg_protocol_faa0494a9b2554cb'',
       ''__wbg_removeEventListener_056dfe8c3d6c58f9'',
       ''__wbg_requestAnimationFrame_d7fd890aaefc3246'', ''__wbg_respond_1f279fa9f8edcb1c'',
       ''__wbg_setAttribute_2704501201f15687'', ''__wbg_set_11cd83f45504cedf'',
       ''__wbg_set_bb8cecf6a62b9f46'', ''__wbg_texImage2D_114e77ca61ee2068'',
       ''__wbg_texSubImage2D_00e9fc34c22b598e'', ''__wbg_text_7805bea50de2af49'']"
  by (simp add: provides_def spectrum_imports_4_def guarded_fn [OF assms])

lemma spectrum_guarded_provided:
  assumes "exn_contract E"
  shows "provides_all (spectrum_imports E) always_returns spectrum_guarded"
  unfolding spectrum_guarded_def map_append provides_append
  by (intro conjI provides_part [OF spectrum_guarded_1 [OF assms]] provides_part [OF spectrum_guarded_2 [OF assms]] provides_part [OF spectrum_guarded_3 [OF assms]] provides_part [OF spectrum_guarded_4 [OF assms]])
     (auto simp: spectrum_imports_def)

text \<open>The imports that test a class with \<^verbatim>\<open>instanceof\<close>.\<close>

definition spectrum_type_tests :: "string list" where
  "spectrum_type_tests = [''__wbg_instanceof_ArrayBuffer_e14585432e3737fc'',
       ''__wbg_instanceof_Element_0af65443936d5154'', ''__wbg_instanceof_Error_4d54113b22d20306'',
       ''__wbg_instanceof_HtmlInputElement_12d71bf2d15dd19e'',
       ''__wbg_instanceof_Response_f2cc20d9f7dfd644'',
       ''__wbg_instanceof_ShadowRoot_726578bcd7fa418a'',
       ''__wbg_instanceof_WebGl2RenderingContext_2b6045efeb76568d'',
       ''__wbg_instanceof_Window_def73ea0955fc569'']"

lemma spectrum_type_tests_2:
  "provides_all (spectrum_imports_2 E) answers [''__wbg_instanceof_ArrayBuffer_e14585432e3737fc'',
       ''__wbg_instanceof_Element_0af65443936d5154'', ''__wbg_instanceof_Error_4d54113b22d20306'',
       ''__wbg_instanceof_HtmlInputElement_12d71bf2d15dd19e'',
       ''__wbg_instanceof_Response_f2cc20d9f7dfd644'',
       ''__wbg_instanceof_ShadowRoot_726578bcd7fa418a'',
       ''__wbg_instanceof_WebGl2RenderingContext_2b6045efeb76568d'',
       ''__wbg_instanceof_Window_def73ea0955fc569'']"
  by (simp add: provides_def spectrum_imports_2_def )

lemma spectrum_type_tests_provided:
  "provides_all (spectrum_imports E) answers spectrum_type_tests"
  unfolding spectrum_type_tests_def map_append provides_append
  by (intro conjI provides_part [OF spectrum_type_tests_2])
     (auto simp: spectrum_imports_def)

text \<open>The imports that return a string property, with that property.\<close>

definition spectrum_string_getters :: "(string \<times> string) list" where
  "spectrum_string_getters = [(''__wbg_reason_49f1cede8bcf23dd'', ''reason''),
       (''__wbg_search_e0e79cfe010c5c23'', ''search''), (''__wbg_stack_0ed75d68575b0f3c'',
       ''stack'')] @ [(''__wbg_url_8f9653b899456042'', ''url''), (''__wbg_value_91cbf0dd3ab84c1e'',
       ''value'')]"

lemma spectrum_string_getters_4:
  assumes "text_codec enc dec into keeps" "text_encode E = enc" "encodeInto E = into"
  shows "provides (spectrum_imports_4 E) (string_getter E trap enc)
       [(''__wbg_reason_49f1cede8bcf23dd'', ''reason''), (''__wbg_search_e0e79cfe010c5c23'',
       ''search''), (''__wbg_stack_0ed75d68575b0f3c'', ''stack'')]"
  by (simp add: provides_def spectrum_imports_4_def text_codec.string_getter_fn [OF assms])

lemma spectrum_string_getters_5:
  assumes "text_codec enc dec into keeps" "text_encode E = enc" "encodeInto E = into"
  shows "provides (spectrum_imports_5 E) (string_getter E trap enc)
       [(''__wbg_url_8f9653b899456042'', ''url''), (''__wbg_value_91cbf0dd3ab84c1e'', ''value'')]"
  by (simp add: provides_def spectrum_imports_5_def text_codec.string_getter_fn [OF assms])

lemma spectrum_string_getters_provided:
  assumes "text_codec enc dec into keeps" "text_encode E = enc" "encodeInto E = into"
  shows "provides (spectrum_imports E) (string_getter E trap enc) spectrum_string_getters"
  unfolding spectrum_string_getters_def map_append provides_append
  by (intro conjI provides_part [OF spectrum_string_getters_4 [OF assms]] provides_part [OF spectrum_string_getters_5 [OF assms]])
     (auto simp: spectrum_imports_def)

text \<open>The same for the imports that \<^verbatim>\<open>handleError\<close> guards.\<close>

definition spectrum_guarded_getters :: "(string \<times> string) list" where
  "spectrum_guarded_getters = [(''__wbg_hostname_8d7204884eb7378b'', ''hostname'')] @
       [(''__wbg_origin_7c5d649acdace3ea'', ''origin'')] @
       [(''__wbg_protocol_faa0494a9b2554cb'', ''protocol'')]"

lemma spectrum_guarded_getters_2:
  assumes "text_codec enc dec into keeps" "text_encode E = enc" "encodeInto E = into"
  shows "provides (spectrum_imports_2 E) (guarded_getter E trap enc)
       [(''__wbg_hostname_8d7204884eb7378b'', ''hostname'')]"
  by (simp add: provides_def spectrum_imports_2_def text_codec.guarded_getter_fn [OF assms])

lemma spectrum_guarded_getters_3:
  assumes "text_codec enc dec into keeps" "text_encode E = enc" "encodeInto E = into"
  shows "provides (spectrum_imports_3 E) (guarded_getter E trap enc)
       [(''__wbg_origin_7c5d649acdace3ea'', ''origin'')]"
  by (simp add: provides_def spectrum_imports_3_def text_codec.guarded_getter_fn [OF assms])

lemma spectrum_guarded_getters_4:
  assumes "text_codec enc dec into keeps" "text_encode E = enc" "encodeInto E = into"
  shows "provides (spectrum_imports_4 E) (guarded_getter E trap enc)
       [(''__wbg_protocol_faa0494a9b2554cb'', ''protocol'')]"
  by (simp add: provides_def spectrum_imports_4_def text_codec.guarded_getter_fn [OF assms])

lemma spectrum_guarded_getters_provided:
  assumes "text_codec enc dec into keeps" "text_encode E = enc" "encodeInto E = into"
  shows "provides (spectrum_imports E) (guarded_getter E trap enc) spectrum_guarded_getters"
  unfolding spectrum_guarded_getters_def map_append provides_append
  by (intro conjI provides_part [OF spectrum_guarded_getters_2 [OF assms]] provides_part [OF spectrum_guarded_getters_3 [OF assms]] provides_part [OF spectrum_guarded_getters_4 [OF assms]])
     (auto simp: spectrum_imports_def)

text \<open>The imports that make a closure, with its destructor and its adapter.\<close>

definition spectrum_closures :: "(string \<times> js_val \<times> string) list" where
  "spectrum_closures = [(''__wbindgen_closure_wrapper1202'', Num 415, ''__wbg_adapter_33''),
       (''__wbindgen_closure_wrapper1226'', Num 419, ''__wbg_adapter_36''),
       (''__wbindgen_closure_wrapper1228'', Num 419, ''__wbg_adapter_36''),
       (''__wbindgen_closure_wrapper1230'', Num 419, ''__wbg_adapter_41''),
       (''__wbindgen_closure_wrapper1232'', Num 419, ''__wbg_adapter_36''),
       (''__wbindgen_closure_wrapper3232'', Num 453, ''__wbg_adapter_46''),
       (''__wbindgen_closure_wrapper879'', Num 313, ''__wbg_adapter_30'')]"

lemma spectrum_closures_5:
  "provides (spectrum_imports_5 E) (closure_maker (spectrum_adapters E))
       [(''__wbindgen_closure_wrapper1202'', Num 415, ''__wbg_adapter_33''),
       (''__wbindgen_closure_wrapper1226'', Num 419, ''__wbg_adapter_36''),
       (''__wbindgen_closure_wrapper1228'', Num 419, ''__wbg_adapter_36''),
       (''__wbindgen_closure_wrapper1230'', Num 419, ''__wbg_adapter_41''),
       (''__wbindgen_closure_wrapper1232'', Num 419, ''__wbg_adapter_36''),
       (''__wbindgen_closure_wrapper3232'', Num 453, ''__wbg_adapter_46''),
       (''__wbindgen_closure_wrapper879'', Num 313, ''__wbg_adapter_30'')]"
  by (simp add: provides_def spectrum_imports_5_def closure_maker_fn spectrum_adapters_def)

lemma spectrum_closures_provided:
  "provides (spectrum_imports E) (closure_maker (spectrum_adapters E)) spectrum_closures"
  unfolding spectrum_closures_def map_append provides_append
  by (intro conjI provides_part [OF spectrum_closures_5])
     (auto simp: spectrum_imports_def)

end
