(* ===== verification/Wlan_Swap_Imports.thy ===== *)
theory Wlan_Swap_Imports
  imports Import_Table
begin

text \<open>
  The import object of \<^verbatim>\<open>src/examples/wlan-swap/dist/frontend-26c19e7ec5c5840c.js\<close>: its enumerations,
  the adapters of its closures and every import function, in the order of the source. The list is cut
  into consecutive parts.
\<close>

section \<open>Enumerations\<close>

definition wlan_swap_enum_BinaryType :: "string list" where
  "wlan_swap_enum_BinaryType = [''blob'', ''arraybuffer'']"

definition wlan_swap_enum_ReadableStreamType :: "string list" where
  "wlan_swap_enum_ReadableStreamType = [''bytes'']"

section \<open>Adapters of the closures\<close>

definition wlan_swap_adapters :: "'w js_env \<Rightarrow> 'w import_table" where
  "wlan_swap_adapters E = [
     (''__wbg_adapter_6'', fn3 (\<lambda>arg0 arg1 arg2. js_do (wasm_call E ''closure491_externref_shim''
       [arg0, arg1, arg2]))),
     (''__wbg_adapter_11'', fn2 (\<lambda>arg0 arg1. js_do (wasm_call E
       ''wasm_bindgen__convert__closures_____invoke__hc331aff52715f424'' [arg0, arg1]))),
     (''__wbg_adapter_16'', fn2 (\<lambda>arg0 arg1. js_do (wasm_call E
       ''wasm_bindgen__convert__closures_____invoke__h3a0ce2e28d0e7b37'' [arg0, arg1]))),
     (''__wbg_adapter_19'', fn3 (\<lambda>arg0 arg1 arg2. js_do (wasm_call E ''closure398_externref_shim''
       [arg0, arg1, arg2]))),
     (''__wbg_adapter_22'', fn3 (\<lambda>arg0 arg1 arg2. js_do (wasm_call E ''closure465_externref_shim''
       [arg0, arg1, arg2]))),
     (''__wbg_adapter_247'', fn4 (\<lambda>arg0 arg1 arg2 arg3. js_do (wasm_call E
       ''closure504_externref_shim'' [arg0, arg1, arg2, arg3])))]"

section \<open>Imports\<close>

definition wlan_swap_imports_1 :: "'w js_env \<Rightarrow> 'w import_table" where
  "wlan_swap_imports_1 E = [
     (''__wbg_addEventListener_775911544ac9d643'', fn4 (\<lambda>arg0 arg1 arg2 arg3. handleError E (js_do
       (js_method E arg0 ''addEventListener'' [js_text E arg1 arg2, js_return arg3])))),
     (''__wbg_addEventListener_d1c39a5c2329c624'', fn5 (\<lambda>arg0 arg1 arg2 arg3 arg4. handleError E
       (js_do (js_method E arg0 ''addEventListener'' [js_text E arg1 arg2, js_return arg3, js_return
       arg4])))),
     (''__wbg_attachShader_8bc6f118fa003360'', fn3 (\<lambda>arg0 arg1 arg2. js_do (js_method E arg0
       ''attachShader'' [js_return arg1, js_return arg2]))),
     (''__wbg_bindBuffer_ca632d407a6cd394'', fn3 (\<lambda>arg0 arg1 arg2. js_do (js_method E arg0
       ''bindBuffer'' [js_return (js_u32 arg1), js_return arg2]))),
     (''__wbg_bindTexture_9d1255b2de6a3a20'', fn3 (\<lambda>arg0 arg1 arg2. js_do (js_method E arg0
       ''bindTexture'' [js_return (js_u32 arg1), js_return arg2]))),
     (''__wbg_body_8822ca55cb3730d2'', fn1 (\<lambda>arg0. js_let (js_member E arg0 ''body'') (ret_opt_ref
       E))),
     (''__wbg_bufferData_a964c14d0eebdeb8'', fn4 (\<lambda>arg0 arg1 arg2 arg3. js_do (js_method E arg0
       ''bufferData'' [js_return (js_u32 arg1), js_return arg2, js_return (js_u32 arg3)]))),
     (''__wbg_buffer_8d40b1d762fb3c66'', fn1 (\<lambda>arg0. js_member E arg0 ''buffer'')),
     (''__wbg_byobRequest_2c036bceca1e6037'', fn1 (\<lambda>arg0. js_let (js_member E arg0 ''byobRequest'')
       (ret_opt_ref E))),
     (''__wbg_byteLength_331a6b5545834024'', fn1 (\<lambda>arg0. js_member E arg0 ''byteLength'')),
     (''__wbg_byteOffset_49a5b5608000358b'', fn1 (\<lambda>arg0. js_member E arg0 ''byteOffset'')),
     (''__wbg_call_13410aac570ffff7'', fn2 (\<lambda>arg0 arg1. handleError E (js_method E arg0 ''call''
       [js_return arg1]))),
     (''__wbg_call_a5400b25a865cfd8'', fn3 (\<lambda>arg0 arg1 arg2. handleError E (js_method E arg0
       ''call'' [js_return arg1, js_return arg2]))),
     (''__wbg_cancelBubble_a4c48803e199b5e8'', fn1 (\<lambda>arg0. js_member E arg0 ''cancelBubble'')),
     (''__wbg_clientHeight_59d075cde7dbe3c7'', fn1 (\<lambda>arg0. js_member E arg0 ''clientHeight'')),
     (''__wbg_clientWidth_8a498b7a82cae772'', fn1 (\<lambda>arg0. js_member E arg0 ''clientWidth'')),
     (''__wbg_cloneNode_79d46b18d5619863'', fn1 (\<lambda>arg0. handleError E (js_method E arg0
       ''cloneNode'' []))),
     (''__wbg_cloneNode_82bea7899ad17d25'', fn2 (\<lambda>arg0 arg1. handleError E (js_method E arg0
       ''cloneNode'' [js_return (js_nonzero arg1)]))),
     (''__wbg_close_6437264570d2d37f'', fn1 (\<lambda>arg0. handleError E (js_do (js_method E arg0 ''close''
       [])))),
     (''__wbg_close_cccada6053ee3a65'', fn1 (\<lambda>arg0. handleError E (js_do (js_method E arg0 ''close''
       [])))),
     (''__wbg_close_d71a78219dc23e91'', fn1 (\<lambda>arg0. handleError E (js_do (js_method E arg0 ''close''
       [])))),
     (''__wbg_code_177e3bed72688e58'', fn1 (\<lambda>arg0. js_member E arg0 ''code'')),
     (''__wbg_compileShader_3ed42f9f82c060ea'', fn2 (\<lambda>arg0 arg1. js_do (js_method E arg0
       ''compileShader'' [js_return arg1]))),
     (''__wbg_composedPath_e5b3f0b3e8415bb5'', fn1 (\<lambda>arg0. js_method E arg0 ''composedPath'' [])),
     (''__wbg_content_a26016a510c10d06'', fn1 (\<lambda>arg0. js_member E arg0 ''content'')),
     (''__wbg_createBuffer_6a92125855922b2e'', fn1 (\<lambda>arg0. js_let (js_method E arg0 ''createBuffer''
       []) (ret_opt_ref E))),
     (''__wbg_createComment_08abf524559fd4d7'', fn3 (\<lambda>arg0 arg1 arg2. js_method E arg0
       ''createComment'' [js_text E arg1 arg2])),
     (''__wbg_createElementNS_ffbb8bb20b2a7e4c'', fn5 (\<lambda>arg0 arg1 arg2 arg3 arg4. handleError E
       (js_method E arg0 ''createElementNS'' [js_opt_text E arg1 arg2, js_text E arg3 arg4]))),
     (''__wbg_createElement_4909dfa2011f2abe'', fn3 (\<lambda>arg0 arg1 arg2. handleError E (js_method E
       arg0 ''createElement'' [js_text E arg1 arg2]))),
     (''__wbg_createProgram_905f3efd8354e76c'', fn1 (\<lambda>arg0. js_let (js_method E arg0
       ''createProgram'' []) (ret_opt_ref E))),
     (''__wbg_createShader_8548d722c1327303'', fn2 (\<lambda>arg0 arg1. js_let (js_method E arg0
       ''createShader'' [js_return (js_u32 arg1)]) (ret_opt_ref E))),
     (''__wbg_createTextNode_c71a51271fadf515'', fn3 (\<lambda>arg0 arg1 arg2. js_method E arg0
       ''createTextNode'' [js_text E arg1 arg2])),
     (''__wbg_createTexture_62494769edc22521'', fn1 (\<lambda>arg0. js_let (js_method E arg0
       ''createTexture'' []) (ret_opt_ref E))),
     (''__wbg_data_9ab529722bcc4e6c'', fn1 (\<lambda>arg0. js_member E arg0 ''data'')),
     (''__wbg_deleteProperty_5fe99f4fd0f66ebe'', fn2 (\<lambda>arg0 arg1. handleError E (js_static E
       ''Reflect'' ''deleteProperty'' [js_return arg0, js_return arg1]))),
     (''__wbg_dispatchEvent_cb7e5ff30130cf80'', fn2 (\<lambda>arg0 arg1. handleError E (js_method E arg0
       ''dispatchEvent'' [js_return arg1]))),
     (''__wbg_document_7d29d139bd619045'', fn1 (\<lambda>arg0. js_let (js_member E arg0 ''document'')
       (ret_opt_ref E))),
     (''__wbg_drawElements_3acf8f6523f00d29'', fn5 (\<lambda>arg0 arg1 arg2 arg3 arg4. js_do (js_method E
       arg0 ''drawElements'' [js_return (js_u32 arg1), js_return arg2, js_return (js_u32 arg3), js_return
       arg4]))),
     (''__wbg_enableVertexAttribArray_17e09202dc56b410'', fn2 (\<lambda>arg0 arg1. js_do (js_method E arg0
       ''enableVertexAttribArray'' [js_return (js_u32 arg1)]))),
     (''__wbg_enqueue_452bc2343d1c2ff9'', fn2 (\<lambda>arg0 arg1. handleError E (js_do (js_method E arg0
       ''enqueue'' [js_return arg1]))))]"

definition wlan_swap_imports_2 :: "'w js_env \<Rightarrow> 'w import_table" where
  "wlan_swap_imports_2 E = [
     (''__wbg_error_7534b8e9a36f1ab4'', fn2 (\<lambda>arg0 arg1. with_deferred E [(arg0, arg1)] (js_static E
       ''console'' ''error'' [js_text E arg0 arg1]))),
     (''__wbg_error_99981e16d476aa5c'', fn1 (\<lambda>arg0. js_do (js_static E ''console'' ''error''
       [js_return arg0]))),
     (''__wbg_fetch_a9bc66c159c18e19'', fn1 (\<lambda>arg0. js_call E ''fetch'' [js_return arg0])),
     (''__wbg_firstElementChild_27076cbfeed86254'', fn1 (\<lambda>arg0. js_let (js_member E arg0
       ''firstElementChild'') (ret_opt_ref E))),
     (''__wbg_getAttribLocation_0de296dd6831e7e2'', fn4 (\<lambda>arg0 arg1 arg2 arg3. js_method E arg0
       ''getAttribLocation'' [js_return arg1, js_text E arg2 arg3])),
     (''__wbg_getContext_4bfd08c32570ece4'', fn4 (\<lambda>arg0 arg1 arg2 arg3. handleError E (js_let
       (js_method E arg0 ''getContext'' [js_text E arg1 arg2, js_return arg3]) (ret_opt_ref E)))),
     (''__wbg_getRandomValues_38a1ff1ea09f6cc7'', fn2 (\<lambda>arg0 arg1. handleError E (js_do (js_let
       (js_global E ''globalThis'') (\<lambda>g. js_let (js_member E g ''crypto'') (\<lambda>c. js_method E
       c ''getRandomValues'' [getArrayU8FromWasm0 (js_number arg0) (js_number arg1)])))))),
     (''__wbg_get_0da715ceaecea5c8'', fn2 (\<lambda>arg0 arg1. js_elem E arg0 (to_uint32 (js_number arg1)))),
     (''__wbg_get_458e874b43b18b25'', fn2 (\<lambda>arg0 arg1. handleError E (js_static E ''Reflect''
       ''get'' [js_return arg0, js_return arg1]))),
     (''__wbg_height_228fe8a75d4d09d6'', fn1 (\<lambda>arg0. js_member E arg0 ''height'')),
     (''__wbg_host_484d55073e076054'', fn1 (\<lambda>arg0. js_member E arg0 ''host'')),
     (''__wbg_hostname_e085cea10ffacfc6'', fn2 (\<lambda>arg0 arg1. handleError E (js_let (js_member E arg1
       ''hostname'') (ret_string E arg0)))),
     (''__wbg_insertBefore_30228206e8f1d3fb'', fn3 (\<lambda>arg0 arg1 arg2. handleError E (js_method E arg0
       ''insertBefore'' [js_return arg1, js_return arg2]))),
     (''__wbg_instanceof_ArrayBuffer_67f3012529f6a2dd'', fn1 (\<lambda>arg0. js_instanceof E arg0
       ''ArrayBuffer'')),
     (''__wbg_instanceof_Element_162e4334c7d6f450'', fn1 (\<lambda>arg0. js_instanceof E arg0 ''Element'')),
     (''__wbg_instanceof_Error_76149ae9b431750e'', fn1 (\<lambda>arg0. js_instanceof E arg0 ''Error'')),
     (''__wbg_instanceof_HtmlInputElement_486d1ca974d99353'', fn1 (\<lambda>arg0. js_instanceof E arg0
       ''HTMLInputElement'')),
     (''__wbg_instanceof_Response_50fde2cd696850bf'', fn1 (\<lambda>arg0. js_instanceof E arg0
       ''Response'')),
     (''__wbg_instanceof_ShadowRoot_f3723967133597a3'', fn1 (\<lambda>arg0. js_instanceof E arg0
       ''ShadowRoot'')),
     (''__wbg_instanceof_WebGl2RenderingContext_0437ff340aef5ac7'', fn1 (\<lambda>arg0. js_instanceof E arg0
       ''WebGL2RenderingContext'')),
     (''__wbg_instanceof_Window_12d20d558ef92592'', fn1 (\<lambda>arg0. js_instanceof E arg0 ''Window'')),
     (''__wbg_length_6bb7e81f9d7713e4'', fn1 (\<lambda>arg0. js_member E arg0 ''length'')),
     (''__wbg_linkProgram_4bf446d2d081aa07'', fn2 (\<lambda>arg0 arg1. js_do (js_method E arg0
       ''linkProgram'' [js_return arg1])))]"

definition wlan_swap_imports_3 :: "'w js_env \<Rightarrow> 'w import_table" where
  "wlan_swap_imports_3 E = [
     (''__wbg_location_92d89c32ae076cab'', fn1 (\<lambda>arg0. js_member E arg0 ''location'')),
     (''__wbg_log_6c7b5f4f00b8ce3f'', fn1 (\<lambda>arg0. js_do (js_static E ''console'' ''log'' [js_return
       arg0]))),
     (''__wbg_mermaidinit_6a2099ed5b36d951'', fn0 (js_do (js_static E ''mermaid'' ''init'' []))),
     (''__wbg_message_125a1b2998b3552a'', fn1 (\<lambda>arg0. js_member E arg0 ''message'')),
     (''__wbg_name_f733db82b3c2804d'', fn1 (\<lambda>arg0. js_member E arg0 ''name'')),
     (''__wbg_new_19c25a3f2fa63a02'', fn0 (js_new E ''Object'' [])),
     (''__wbg_new_2e3c58a15f39f5f9'', fn2 (\<lambda>arg0 arg1. new_promise E ''__wbg_adapter_247'' arg0
       arg1)),
     (''__wbg_new_638ebfaedbf32a5e'', fn1 (\<lambda>arg0. js_new E ''Uint8Array'' [js_return arg0])),
     (''__wbg_new_8a6f238a6ece86ea'', fn0 (js_new_error (js_return []))),
     (''__wbg_new_95e31b8bc5de31d6'', fn2 (\<lambda>arg0 arg1. handleError E (js_new E ''URL'' [js_text E
       arg0 arg1]))),
     (''__wbg_new_da9dc54c5db29dfa'', fn2 (\<lambda>arg0 arg1. js_new_error (getStringFromWasm0_counted E
       (js_number arg0) (js_number arg1)))),
     (''__wbg_new_e213f63d18b0de01'', fn2 (\<lambda>arg0 arg1. handleError E (js_new E ''WebSocket''
       [js_text E arg0 arg1]))),
     (''__wbg_new_e8b27dfd3785875f'', fn0 (handleError E (js_new E ''URLSearchParams'' []))),
     (''__wbg_new_f6e53210afea8e45'', fn0 (handleError E (js_new E ''Headers'' []))),
     (''__wbg_newnoargs_254190557c45b4ec'', fn2 (\<lambda>arg0 arg1. js_new E ''Function'' [js_text E arg0
       arg1])),
     (''__wbg_newwithbyteoffsetandlength_e8f53910b4d42b45'', fn3 (\<lambda>arg0 arg1 arg2. js_new E
       ''Uint8Array'' [js_return arg0, js_return (js_u32 arg1), js_return (js_u32 arg2)])),
     (''__wbg_newwitheventinitdict_fe21d8ccd6054401'', fn3 (\<lambda>arg0 arg1 arg2. handleError E (js_new E
       ''CloseEvent'' [js_text E arg0 arg1, js_return arg2]))),
     (''__wbg_newwithstr_1bc70be98f2e7425'', fn2 (\<lambda>arg0 arg1. handleError E (js_new E ''Request''
       [js_text E arg0 arg1]))),
     (''__wbg_newwithstrandinit_b5d168a29a3fd85f'', fn3 (\<lambda>arg0 arg1 arg2. handleError E (js_new E
       ''Request'' [js_text E arg0 arg1, js_return arg2]))),
     (''__wbg_parentNode_cc820baee7401ca3'', fn1 (\<lambda>arg0. js_let (js_member E arg0 ''parentNode'')
       (ret_opt_ref E))),
     (''__wbg_prototypesetcall_3d4a26c1ed734349'', fn3 (\<lambda>arg0 arg1 arg2. js_do (js_let (js_global E
       ''Uint8Array'') (\<lambda>u. js_let (js_member E u ''prototype'') (\<lambda>p. js_let (js_member E p
       ''set'') (\<lambda>f. js_method E f ''call'' [getArrayU8FromWasm0 (js_number arg0) (js_number arg1),
       js_return arg2])))))),
     (''__wbg_queueMicrotask_25d0739ac89e8c88'', fn1 (\<lambda>arg0. js_do (js_call E ''queueMicrotask''
       [js_return arg0]))),
     (''__wbg_queueMicrotask_4488407636f5bf24'', fn1 (\<lambda>arg0. js_member E arg0 ''queueMicrotask'')),
     (''__wbg_reason_97efd955be6394bd'', fn2 (\<lambda>arg0 arg1. js_let (js_member E arg1 ''reason'')
       (ret_string E arg0))),
     (''__wbg_reload_9fde301bc335e70d'', fn1 (\<lambda>arg0. handleError E (js_do (js_method E arg0
       ''reload'' [])))),
     (''__wbg_removeAttribute_cf35412842be6ae4'', fn3 (\<lambda>arg0 arg1 arg2. handleError E (js_do
       (js_method E arg0 ''removeAttribute'' [js_text E arg1 arg2])))),
     (''__wbg_removeEventListener_6d5be9c2821a511e'', fn4 (\<lambda>arg0 arg1 arg2 arg3. handleError E
       (js_do (js_method E arg0 ''removeEventListener'' [js_text E arg1 arg2, js_return arg3])))),
     (''__wbg_remove_0cd5aff2ca3eb753'', fn1 (\<lambda>arg0. js_do (js_method E arg0 ''remove'' []))),
     (''__wbg_remove_fec7bce376b31b32'', fn1 (\<lambda>arg0. js_do (js_method E arg0 ''remove'' []))),
     (''__wbg_requestAnimationFrame_ddc84a7def436784'', fn2 (\<lambda>arg0 arg1. handleError E (js_method E
       arg0 ''requestAnimationFrame'' [js_return arg1]))),
     (''__wbg_resolve_4055c623acdd6a1b'', fn1 (\<lambda>arg0. js_static E ''Promise'' ''resolve'' [js_return
       arg0])),
     (''__wbg_respond_6c2c4e20ef85138e'', fn2 (\<lambda>arg0 arg1. handleError E (js_do (js_method E arg0
       ''respond'' [js_return (js_u32 arg1)])))),
     (''__wbg_search_3a02a8f2a1a2e604'', fn2 (\<lambda>arg0 arg1. js_let (js_member E arg1 ''search'')
       (ret_string E arg0))),
     (''__wbg_setAttribute_d1baf9023ad5696f'', fn5 (\<lambda>arg0 arg1 arg2 arg3 arg4. handleError E (js_do
       (js_method E arg0 ''setAttribute'' [js_text E arg1 arg2, js_text E arg3 arg4])))),
     (''__wbg_setInterval_3ca6a76801aa276c'', fn3 (\<lambda>arg0 arg1 arg2. handleError E (js_method E arg0
       ''setInterval'' [js_return arg1, js_return arg2])))]"

definition wlan_swap_imports_4 :: "'w js_env \<Rightarrow> 'w import_table" where
  "wlan_swap_imports_4 E = [
     (''__wbg_setTimeout_2966518f28aef92e'', fn3 (\<lambda>arg0 arg1 arg2. handleError E (js_method E arg0
       ''setTimeout'' [js_return arg1, js_return arg2]))),
     (''__wbg_set_1353b2a5e96bc48c'', fn3 (\<lambda>arg0 arg1 arg2. js_do (js_method E arg0 ''set''
       [getArrayU8FromWasm0 (js_number arg1) (js_number arg2)]))),
     (''__wbg_set_1c17f9738fac2718'', fn5 (\<lambda>arg0 arg1 arg2 arg3 arg4. handleError E (js_do
       (js_method E arg0 ''set'' [js_text E arg1 arg2, js_text E arg3 arg4])))),
     (''__wbg_set_453345bcda80b89a'', fn3 (\<lambda>arg0 arg1 arg2. handleError E (js_static E ''Reflect''
       ''set'' [js_return arg0, js_return arg1, js_return arg2]))),
     (''__wbg_setbinaryType_37f3cd35d7775a47'', fn2 (\<lambda>arg0 arg1. js_assign E arg0 ''binaryType''
       (js_return (enum_at wlan_swap_enum_BinaryType arg1)))),
     (''__wbg_setbody_c8460bdf44147df8'', fn2 (\<lambda>arg0 arg1. js_assign E arg0 ''body'' (js_return
       arg1))),
     (''__wbg_setcode_3d8eb30649405e81'', fn2 (\<lambda>arg0 arg1. js_assign E arg0 ''code'' (js_return
       arg1))),
     (''__wbg_setheaders_0052283e2f3503d1'', fn2 (\<lambda>arg0 arg1. js_assign E arg0 ''headers''
       (js_return arg1))),
     (''__wbg_setheight_4fce583024b2d088'', fn2 (\<lambda>arg0 arg1. js_assign E arg0 ''height'' (js_return
       (js_u32 arg1)))),
     (''__wbg_setinnerHTML_34e240d6b8e8260c'', fn3 (\<lambda>arg0 arg1 arg2. js_assign E arg0 ''innerHTML''
       (js_text E arg1 arg2))),
     (''__wbg_setinnerText_54e5a150fca6ee00'', fn3 (\<lambda>arg0 arg1 arg2. js_assign E arg0 ''innerText''
       (js_text E arg1 arg2))),
     (''__wbg_setmethod_9b504d5b855b329c'', fn3 (\<lambda>arg0 arg1 arg2. js_assign E arg0 ''method''
       (js_text E arg1 arg2))),
     (''__wbg_setnodeValue_629799145cb84fd8'', fn3 (\<lambda>arg0 arg1 arg2. js_assign E arg0 ''nodeValue''
       (js_opt_text E arg1 arg2))),
     (''__wbg_setonce_5b860c1f79d40d3b'', fn2 (\<lambda>arg0 arg1. js_assign E arg0 ''once'' (js_return
       (js_nonzero arg1)))),
     (''__wbg_setonmessage_5e486f326638a9da'', fn2 (\<lambda>arg0 arg1. js_assign E arg0 ''onmessage''
       (js_return arg1))),
     (''__wbg_setreason_d56f0662fe6c410f'', fn3 (\<lambda>arg0 arg1 arg2. js_assign E arg0 ''reason''
       (js_text E arg1 arg2))),
     (''__wbg_setsearch_fbee2174e0389ccd'', fn3 (\<lambda>arg0 arg1 arg2. js_assign E arg0 ''search''
       (js_text E arg1 arg2))),
     (''__wbg_setwidth_40a6ed203b92839d'', fn2 (\<lambda>arg0 arg1. js_assign E arg0 ''width'' (js_return
       (js_u32 arg1)))),
     (''__wbg_shaderSource_2ed8147ed144f6d6'', fn4 (\<lambda>arg0 arg1 arg2 arg3. js_do (js_method E arg0
       ''shaderSource'' [js_return arg1, js_text E arg2 arg3]))),
     (''__wbg_stack_0ed75d68575b0f3c'', fn2 (\<lambda>arg0 arg1. js_let (js_member E arg1 ''stack'')
       (ret_string E arg0))),
     (''__wbg_static_accessor_GLOBAL_8921f820c2ce3f12'', fn0 (js_let (js_global_or_null E ''global'')
       (ret_opt_ref E))),
     (''__wbg_static_accessor_GLOBAL_THIS_f0a4409105898184'', fn0 (js_let (js_global_or_null E
       ''globalThis'') (ret_opt_ref E))),
     (''__wbg_static_accessor_SELF_995b214ae681ff99'', fn0 (js_let (js_global_or_null E ''self'')
       (ret_opt_ref E))),
     (''__wbg_static_accessor_WINDOW_cde3890479c675ea'', fn0 (js_let (js_global_or_null E ''window'')
       (ret_opt_ref E))),
     (''__wbg_target_f2c963b447be6283'', fn1 (\<lambda>arg0. js_let (js_member E arg0 ''target'')
       (ret_opt_ref E))),
     (''__wbg_texImage2D_11e007f284f49d98'', fn11 (\<lambda>arg0 arg1 arg2 arg3 arg4 arg5 arg6 arg7 arg8
       arg9 arg10. handleError E (js_do (js_method E arg0 ''texImage2D'' [js_return (js_u32 arg1), js_return
       arg2, js_return arg3, js_return arg4, js_return arg5, js_return arg6, js_return (js_u32 arg7),
       js_return (js_u32 arg8), js_return arg9, js_return (js_u32 arg10)])))),
     (''__wbg_texParameteri_ebae520a31bfd243'', fn4 (\<lambda>arg0 arg1 arg2 arg3. js_do (js_method E arg0
       ''texParameteri'' [js_return (js_u32 arg1), js_return (js_u32 arg2), js_return arg3]))),
     (''__wbg_texSubImage2D_dd8a29936a691137'', fn11 (\<lambda>arg0 arg1 arg2 arg3 arg4 arg5 arg6 arg7 arg8
       arg9 arg10. handleError E (js_do (js_method E arg0 ''texSubImage2D'' [js_return (js_u32 arg1),
       js_return arg2, js_return arg3, js_return arg4, js_return arg5, js_return arg6, js_return (js_u32
       arg7), js_return (js_u32 arg8), js_return arg9, js_return (js_u32 arg10)])))),
     (''__wbg_text_0f69a215637b9b34'', fn1 (\<lambda>arg0. handleError E (js_method E arg0 ''text'' []))),
     (''__wbg_then_b33a773d723afa3e'', fn3 (\<lambda>arg0 arg1 arg2. js_method E arg0 ''then'' [js_return
       arg1, js_return arg2])),
     (''__wbg_then_e22500defe16819f'', fn2 (\<lambda>arg0 arg1. js_method E arg0 ''then'' [js_return arg1])),
     (''__wbg_toString_78df35411a4fd40c'', fn1 (\<lambda>arg0. js_method E arg0 ''toString'' [])),
     (''__wbg_toString_d8f537919ef401d6'', fn1 (\<lambda>arg0. js_method E arg0 ''toString'' [])),
     (''__wbg_url_79bd91c4e84e8270'', fn2 (\<lambda>arg0 arg1. js_let (js_member E arg1 ''url'') (ret_string
       E arg0))),
     (''__wbg_useProgram_3e5c220728446c29'', fn2 (\<lambda>arg0 arg1. js_do (js_method E arg0 ''useProgram''
       [js_return arg1]))),
     (''__wbg_value_89377c01d73b6102'', fn2 (\<lambda>arg0 arg1. js_let (js_member E arg1 ''value'')
       (ret_string E arg0))),
     (''__wbg_value_fdf54c7557edc2e8'', fn2 (\<lambda>arg0 arg1. js_let (js_member E arg1 ''value'')
       (ret_string E arg0))),
     (''__wbg_vertexAttribPointer_3549d2703f29bf38'', fn7 (\<lambda>arg0 arg1 arg2 arg3 arg4 arg5 arg6.
       js_do (js_method E arg0 ''vertexAttribPointer'' [js_return (js_u32 arg1), js_return arg2, js_return
       (js_u32 arg3), js_return (js_nonzero arg4), js_return arg5, js_return arg6]))),
     (''__wbg_view_91cc97d57ab30530'', fn1 (\<lambda>arg0. js_let (js_member E arg0 ''view'') (ret_opt_ref
       E))),
     (''__wbg_viewport_08854654c5c2bba6'', fn5 (\<lambda>arg0 arg1 arg2 arg3 arg4. js_do (js_method E arg0
       ''viewport'' [js_return arg1, js_return arg2, js_return arg3, js_return arg4])))]"

definition wlan_swap_imports_5 :: "'w js_env \<Rightarrow> 'w import_table" where
  "wlan_swap_imports_5 E = [
     (''__wbg_warn_e2ada06313f92f09'', fn1 (\<lambda>arg0. js_do (js_static E ''console'' ''warn''
       [js_return arg0]))),
     (''__wbg_wasClean_ffb515fbcbcbdd3d'', fn1 (\<lambda>arg0. js_member E arg0 ''wasClean'')),
     (''__wbg_wbindgencbdrop_eb10308566512b88'', fn1 (\<lambda>arg0. wbindgen_cb_drop arg0)),
     (''__wbg_wbindgendebugstring_99ef257a3ddda34d'', fn2 (\<lambda>arg0 arg1. js_let (js_gets (\<lambda>s.
       Str (debugString (host_shape E arg1 s)))) (ret_string E arg0))),
     (''__wbg_wbindgenisfalsy_03f4059e2ea4ee87'', fn1 (\<lambda>arg0. js_return (Bool (\<not> truthy
       arg0)))),
     (''__wbg_wbindgenisfunction_8cee7dce3725ae74'', fn1 (\<lambda>arg0. js_gets (\<lambda>s. Bool
       (js_typeof E arg0 s = ''function'')))),
     (''__wbg_wbindgenisnull_f3037694abe4d97a'', fn1 (\<lambda>arg0. js_return (Bool (arg0 = Null)))),
     (''__wbg_wbindgenisstring_d4fa939789f003b0'', fn1 (\<lambda>arg0. js_gets (\<lambda>s. Bool (js_typeof
       E arg0 s = ''string'')))),
     (''__wbg_wbindgenisundefined_c4b71d073b92f3c5'', fn1 (\<lambda>arg0. js_return (Bool (arg0 =
       Undefined)))),
     (''__wbg_wbindgenstringget_0f16a6ddddef376f'', fn2 (\<lambda>arg0 arg1. js_let (js_gets (\<lambda>s. if
       js_typeof E arg1 s = ''string'' then arg1 else Undefined)) (ret_opt_string E arg0))),
     (''__wbg_wbindgenthrow_451ec1a8469d7eb6'', fn2 (\<lambda>arg0 arg1. js_let (js_new_error
       (getStringFromWasm0_counted E (js_number arg0) (js_number arg1))) js_throw)),
     (''__wbg_width_c7a070ac56976582'', fn1 (\<lambda>arg0. js_member E arg0 ''width'')),
     (''__wbindgen_cast_0e01051ec6ae5085'', fn2 (\<lambda>arg0 arg1. makeMutClosure (js_number arg0)
       (js_number arg1) (Num 397) ''__wbg_adapter_16'')),
     (''__wbindgen_cast_2241b6af4c4b2941'', fn2 (\<lambda>arg0 arg1. js_text E arg0 arg1)),
     (''__wbindgen_cast_46a2f914673d6489'', fn2 (\<lambda>arg0 arg1. makeMutClosure (js_number arg0)
       (js_number arg1) (Num 397) ''__wbg_adapter_19'')),
     (''__wbindgen_cast_4b1c6ecbf5b749c2'', fn2 (\<lambda>arg0 arg1. makeMutClosure (js_number arg0)
       (js_number arg1) (Num 490) ''__wbg_adapter_6'')),
     (''__wbindgen_cast_55a1e910854fa93a'', fn2 (\<lambda>arg0 arg1. makeMutClosure (js_number arg0)
       (js_number arg1) (Num 464) ''__wbg_adapter_22'')),
     (''__wbindgen_cast_8cf60041ca45c6d3'', fn2 (\<lambda>arg0 arg1. makeMutClosure (js_number arg0)
       (js_number arg1) (Num 464) ''__wbg_adapter_11'')),
     (''__wbindgen_cast_b3b92d7b125797b8'', fn2 (\<lambda>arg0 arg1. makeMutClosure (js_number arg0)
       (js_number arg1) (Num 464) ''__wbg_adapter_22'')),
     (''__wbindgen_cast_bbb4883c6389f1de'', fn2 (\<lambda>arg0 arg1. getArrayU16FromWasm0 (js_number arg0)
       (js_number arg1))),
     (''__wbindgen_cast_bc731d2e03b107e4'', fn2 (\<lambda>arg0 arg1. makeMutClosure (js_number arg0)
       (js_number arg1) (Num 464) ''__wbg_adapter_22'')),
     (''__wbindgen_cast_cd07b1914aa3d62c'', fn2 (\<lambda>arg0 arg1. getArrayF32FromWasm0 (js_number arg0)
       (js_number arg1))),
     (''__wbindgen_init_externref_table'', fn0 (wbindgen_init_externref_table))]"

definition wlan_swap_imports :: "'w js_env \<Rightarrow> 'w import_table" where
  "wlan_swap_imports E = wlan_swap_imports_1 E @ wlan_swap_imports_2 E @ wlan_swap_imports_3 E @
       wlan_swap_imports_4 E @ wlan_swap_imports_5 E"

section \<open>Lookup\<close>

lemma wlan_swap_names_1: "ascending (import_names (wlan_swap_imports_1 E))"
  by (simp add: wlan_swap_imports_1_def)

lemma wlan_swap_names_2: "ascending (import_names (wlan_swap_imports_2 E))"
  by (simp add: wlan_swap_imports_2_def)

lemma wlan_swap_names_3: "ascending (import_names (wlan_swap_imports_3 E))"
  by (simp add: wlan_swap_imports_3_def)

lemma wlan_swap_names_4: "ascending (import_names (wlan_swap_imports_4 E))"
  by (simp add: wlan_swap_imports_4_def)

lemma wlan_swap_names_5: "ascending (import_names (wlan_swap_imports_5 E))"
  by (simp add: wlan_swap_imports_5_def)

lemma wlan_swap_ascending: "ascending (import_names (wlan_swap_imports E))"
  unfolding wlan_swap_imports_def import_names_append
  by (intro ascending_parts wlan_swap_names_1 wlan_swap_names_2 wlan_swap_names_3 wlan_swap_names_4 wlan_swap_names_5)
     (simp_all add: wlan_swap_imports_1_def wlan_swap_imports_2_def wlan_swap_imports_3_def wlan_swap_imports_4_def wlan_swap_imports_5_def)

section \<open>Guarded imports, type tests and string results\<close>

text \<open>The imports that the source wraps in \<^verbatim>\<open>handleError\<close>.\<close>

definition wlan_swap_guarded :: "string list" where
  "wlan_swap_guarded = [''__wbg_addEventListener_775911544ac9d643'',
       ''__wbg_addEventListener_d1c39a5c2329c624'', ''__wbg_call_13410aac570ffff7'',
       ''__wbg_call_a5400b25a865cfd8'', ''__wbg_cloneNode_79d46b18d5619863'',
       ''__wbg_cloneNode_82bea7899ad17d25'', ''__wbg_close_6437264570d2d37f'',
       ''__wbg_close_cccada6053ee3a65'', ''__wbg_close_d71a78219dc23e91'',
       ''__wbg_createElementNS_ffbb8bb20b2a7e4c'', ''__wbg_createElement_4909dfa2011f2abe'',
       ''__wbg_deleteProperty_5fe99f4fd0f66ebe'', ''__wbg_dispatchEvent_cb7e5ff30130cf80'',
       ''__wbg_enqueue_452bc2343d1c2ff9''] @ [''__wbg_getContext_4bfd08c32570ece4'',
       ''__wbg_getRandomValues_38a1ff1ea09f6cc7'', ''__wbg_get_458e874b43b18b25'',
       ''__wbg_hostname_e085cea10ffacfc6'', ''__wbg_insertBefore_30228206e8f1d3fb''] @
       [''__wbg_new_95e31b8bc5de31d6'', ''__wbg_new_e213f63d18b0de01'',
       ''__wbg_new_e8b27dfd3785875f'', ''__wbg_new_f6e53210afea8e45'',
       ''__wbg_newwitheventinitdict_fe21d8ccd6054401'', ''__wbg_newwithstr_1bc70be98f2e7425'',
       ''__wbg_newwithstrandinit_b5d168a29a3fd85f'', ''__wbg_reload_9fde301bc335e70d'',
       ''__wbg_removeAttribute_cf35412842be6ae4'', ''__wbg_removeEventListener_6d5be9c2821a511e'',
       ''__wbg_requestAnimationFrame_ddc84a7def436784'', ''__wbg_respond_6c2c4e20ef85138e'',
       ''__wbg_setAttribute_d1baf9023ad5696f'', ''__wbg_setInterval_3ca6a76801aa276c''] @
       [''__wbg_setTimeout_2966518f28aef92e'', ''__wbg_set_1c17f9738fac2718'',
       ''__wbg_set_453345bcda80b89a'', ''__wbg_texImage2D_11e007f284f49d98'',
       ''__wbg_texSubImage2D_dd8a29936a691137'', ''__wbg_text_0f69a215637b9b34'']"

lemma wlan_swap_guarded_1:
  assumes "exn_contract E"
  shows "provides_all (wlan_swap_imports_1 E) always_returns
       [''__wbg_addEventListener_775911544ac9d643'', ''__wbg_addEventListener_d1c39a5c2329c624'',
       ''__wbg_call_13410aac570ffff7'', ''__wbg_call_a5400b25a865cfd8'',
       ''__wbg_cloneNode_79d46b18d5619863'', ''__wbg_cloneNode_82bea7899ad17d25'',
       ''__wbg_close_6437264570d2d37f'', ''__wbg_close_cccada6053ee3a65'',
       ''__wbg_close_d71a78219dc23e91'', ''__wbg_createElementNS_ffbb8bb20b2a7e4c'',
       ''__wbg_createElement_4909dfa2011f2abe'', ''__wbg_deleteProperty_5fe99f4fd0f66ebe'',
       ''__wbg_dispatchEvent_cb7e5ff30130cf80'', ''__wbg_enqueue_452bc2343d1c2ff9'']"
  by (simp add: provides_def wlan_swap_imports_1_def guarded_fn [OF assms])

lemma wlan_swap_guarded_2:
  assumes "exn_contract E"
  shows "provides_all (wlan_swap_imports_2 E) always_returns [''__wbg_getContext_4bfd08c32570ece4'',
       ''__wbg_getRandomValues_38a1ff1ea09f6cc7'', ''__wbg_get_458e874b43b18b25'',
       ''__wbg_hostname_e085cea10ffacfc6'', ''__wbg_insertBefore_30228206e8f1d3fb'']"
  by (simp add: provides_def wlan_swap_imports_2_def guarded_fn [OF assms])

lemma wlan_swap_guarded_3:
  assumes "exn_contract E"
  shows "provides_all (wlan_swap_imports_3 E) always_returns [''__wbg_new_95e31b8bc5de31d6'',
       ''__wbg_new_e213f63d18b0de01'', ''__wbg_new_e8b27dfd3785875f'',
       ''__wbg_new_f6e53210afea8e45'', ''__wbg_newwitheventinitdict_fe21d8ccd6054401'',
       ''__wbg_newwithstr_1bc70be98f2e7425'', ''__wbg_newwithstrandinit_b5d168a29a3fd85f'',
       ''__wbg_reload_9fde301bc335e70d'', ''__wbg_removeAttribute_cf35412842be6ae4'',
       ''__wbg_removeEventListener_6d5be9c2821a511e'',
       ''__wbg_requestAnimationFrame_ddc84a7def436784'', ''__wbg_respond_6c2c4e20ef85138e'',
       ''__wbg_setAttribute_d1baf9023ad5696f'', ''__wbg_setInterval_3ca6a76801aa276c'']"
  by (simp add: provides_def wlan_swap_imports_3_def guarded_fn [OF assms])

lemma wlan_swap_guarded_4:
  assumes "exn_contract E"
  shows "provides_all (wlan_swap_imports_4 E) always_returns [''__wbg_setTimeout_2966518f28aef92e'',
       ''__wbg_set_1c17f9738fac2718'', ''__wbg_set_453345bcda80b89a'',
       ''__wbg_texImage2D_11e007f284f49d98'', ''__wbg_texSubImage2D_dd8a29936a691137'',
       ''__wbg_text_0f69a215637b9b34'']"
  by (simp add: provides_def wlan_swap_imports_4_def guarded_fn [OF assms])

lemma wlan_swap_guarded_provided:
  assumes "exn_contract E"
  shows "provides_all (wlan_swap_imports E) always_returns wlan_swap_guarded"
  unfolding wlan_swap_guarded_def map_append provides_append
  by (intro conjI provides_part [OF wlan_swap_guarded_1 [OF assms]] provides_part [OF wlan_swap_guarded_2 [OF assms]] provides_part [OF wlan_swap_guarded_3 [OF assms]] provides_part [OF wlan_swap_guarded_4 [OF assms]])
     (auto simp: wlan_swap_imports_def)

text \<open>The imports that test a class with \<^verbatim>\<open>instanceof\<close>.\<close>

definition wlan_swap_type_tests :: "string list" where
  "wlan_swap_type_tests = [''__wbg_instanceof_ArrayBuffer_67f3012529f6a2dd'',
       ''__wbg_instanceof_Element_162e4334c7d6f450'', ''__wbg_instanceof_Error_76149ae9b431750e'',
       ''__wbg_instanceof_HtmlInputElement_486d1ca974d99353'',
       ''__wbg_instanceof_Response_50fde2cd696850bf'',
       ''__wbg_instanceof_ShadowRoot_f3723967133597a3'',
       ''__wbg_instanceof_WebGl2RenderingContext_0437ff340aef5ac7'',
       ''__wbg_instanceof_Window_12d20d558ef92592'']"

lemma wlan_swap_type_tests_2:
  "provides_all (wlan_swap_imports_2 E) answers [''__wbg_instanceof_ArrayBuffer_67f3012529f6a2dd'',
       ''__wbg_instanceof_Element_162e4334c7d6f450'', ''__wbg_instanceof_Error_76149ae9b431750e'',
       ''__wbg_instanceof_HtmlInputElement_486d1ca974d99353'',
       ''__wbg_instanceof_Response_50fde2cd696850bf'',
       ''__wbg_instanceof_ShadowRoot_f3723967133597a3'',
       ''__wbg_instanceof_WebGl2RenderingContext_0437ff340aef5ac7'',
       ''__wbg_instanceof_Window_12d20d558ef92592'']"
  by (simp add: provides_def wlan_swap_imports_2_def )

lemma wlan_swap_type_tests_provided:
  "provides_all (wlan_swap_imports E) answers wlan_swap_type_tests"
  unfolding wlan_swap_type_tests_def map_append provides_append
  by (intro conjI provides_part [OF wlan_swap_type_tests_2])
     (auto simp: wlan_swap_imports_def)

text \<open>The imports that return a string property, with that property.\<close>

definition wlan_swap_string_getters :: "(string \<times> string) list" where
  "wlan_swap_string_getters = [(''__wbg_reason_97efd955be6394bd'', ''reason''),
       (''__wbg_search_3a02a8f2a1a2e604'', ''search'')] @ [(''__wbg_stack_0ed75d68575b0f3c'',
       ''stack''), (''__wbg_url_79bd91c4e84e8270'', ''url''), (''__wbg_value_89377c01d73b6102'',
       ''value''), (''__wbg_value_fdf54c7557edc2e8'', ''value'')]"

lemma wlan_swap_string_getters_3:
  assumes "text_codec enc dec into keeps" "text_encode E = enc" "encodeInto E = into"
  shows "provides (wlan_swap_imports_3 E) (string_getter E trap enc)
       [(''__wbg_reason_97efd955be6394bd'', ''reason''), (''__wbg_search_3a02a8f2a1a2e604'',
       ''search'')]"
  by (simp add: provides_def wlan_swap_imports_3_def text_codec.string_getter_fn [OF assms])

lemma wlan_swap_string_getters_4:
  assumes "text_codec enc dec into keeps" "text_encode E = enc" "encodeInto E = into"
  shows "provides (wlan_swap_imports_4 E) (string_getter E trap enc)
       [(''__wbg_stack_0ed75d68575b0f3c'', ''stack''), (''__wbg_url_79bd91c4e84e8270'', ''url''),
       (''__wbg_value_89377c01d73b6102'', ''value''), (''__wbg_value_fdf54c7557edc2e8'',
       ''value'')]"
  by (simp add: provides_def wlan_swap_imports_4_def text_codec.string_getter_fn [OF assms])

lemma wlan_swap_string_getters_provided:
  assumes "text_codec enc dec into keeps" "text_encode E = enc" "encodeInto E = into"
  shows "provides (wlan_swap_imports E) (string_getter E trap enc) wlan_swap_string_getters"
  unfolding wlan_swap_string_getters_def map_append provides_append
  by (intro conjI provides_part [OF wlan_swap_string_getters_3 [OF assms]] provides_part [OF wlan_swap_string_getters_4 [OF assms]])
     (auto simp: wlan_swap_imports_def)

text \<open>The same for the imports that \<^verbatim>\<open>handleError\<close> guards.\<close>

definition wlan_swap_guarded_getters :: "(string \<times> string) list" where
  "wlan_swap_guarded_getters = [(''__wbg_hostname_e085cea10ffacfc6'', ''hostname'')]"

lemma wlan_swap_guarded_getters_2:
  assumes "text_codec enc dec into keeps" "text_encode E = enc" "encodeInto E = into"
  shows "provides (wlan_swap_imports_2 E) (guarded_getter E trap enc)
       [(''__wbg_hostname_e085cea10ffacfc6'', ''hostname'')]"
  by (simp add: provides_def wlan_swap_imports_2_def text_codec.guarded_getter_fn [OF assms])

lemma wlan_swap_guarded_getters_provided:
  assumes "text_codec enc dec into keeps" "text_encode E = enc" "encodeInto E = into"
  shows "provides (wlan_swap_imports E) (guarded_getter E trap enc) wlan_swap_guarded_getters"
  unfolding wlan_swap_guarded_getters_def map_append provides_append
  by (intro conjI provides_part [OF wlan_swap_guarded_getters_2 [OF assms]])
     (auto simp: wlan_swap_imports_def)

text \<open>The imports that make a closure, with its destructor and its adapter.\<close>

definition wlan_swap_closures :: "(string \<times> js_val \<times> string) list" where
  "wlan_swap_closures = [(''__wbindgen_cast_0e01051ec6ae5085'', Num 397, ''__wbg_adapter_16''),
       (''__wbindgen_cast_46a2f914673d6489'', Num 397, ''__wbg_adapter_19''),
       (''__wbindgen_cast_4b1c6ecbf5b749c2'', Num 490, ''__wbg_adapter_6''),
       (''__wbindgen_cast_55a1e910854fa93a'', Num 464, ''__wbg_adapter_22''),
       (''__wbindgen_cast_8cf60041ca45c6d3'', Num 464, ''__wbg_adapter_11''),
       (''__wbindgen_cast_b3b92d7b125797b8'', Num 464, ''__wbg_adapter_22''),
       (''__wbindgen_cast_bc731d2e03b107e4'', Num 464, ''__wbg_adapter_22'')]"

lemma wlan_swap_closures_5:
  "provides (wlan_swap_imports_5 E) (closure_maker (wlan_swap_adapters E))
       [(''__wbindgen_cast_0e01051ec6ae5085'', Num 397, ''__wbg_adapter_16''),
       (''__wbindgen_cast_46a2f914673d6489'', Num 397, ''__wbg_adapter_19''),
       (''__wbindgen_cast_4b1c6ecbf5b749c2'', Num 490, ''__wbg_adapter_6''),
       (''__wbindgen_cast_55a1e910854fa93a'', Num 464, ''__wbg_adapter_22''),
       (''__wbindgen_cast_8cf60041ca45c6d3'', Num 464, ''__wbg_adapter_11''),
       (''__wbindgen_cast_b3b92d7b125797b8'', Num 464, ''__wbg_adapter_22''),
       (''__wbindgen_cast_bc731d2e03b107e4'', Num 464, ''__wbg_adapter_22'')]"
  by (simp add: provides_def wlan_swap_imports_5_def closure_maker_fn wlan_swap_adapters_def)

lemma wlan_swap_closures_provided:
  "provides (wlan_swap_imports E) (closure_maker (wlan_swap_adapters E)) wlan_swap_closures"
  unfolding wlan_swap_closures_def map_append provides_append
  by (intro conjI provides_part [OF wlan_swap_closures_5])
     (auto simp: wlan_swap_imports_def)

end
