(* ===== verification/Wlan_Debug_Imports.thy ===== *)
theory Wlan_Debug_Imports
  imports Import_Table
begin

text \<open>
  The import object of \<^verbatim>\<open>src/examples/wlan_debug/dist/frontend-8a18c05eb146efa7.js\<close>: its enumerations,
  the adapters of its closures and every import function, in the order of the source. The list is cut
  into consecutive parts.
\<close>

section \<open>Enumerations\<close>

definition wlan_debug_enum_BinaryType :: "string list" where
  "wlan_debug_enum_BinaryType = [''blob'', ''arraybuffer'']"

definition wlan_debug_enum_ReadableStreamType :: "string list" where
  "wlan_debug_enum_ReadableStreamType = [''bytes'']"

section \<open>Adapters of the closures\<close>

definition wlan_debug_adapters :: "'w js_env \<Rightarrow> 'w import_table" where
  "wlan_debug_adapters E = [
     (''wasm_bindgen__convert__closures_____invoke__h65ce2db5fdf0eedf'', fn2 (\<lambda>arg0 arg1. js_do
       (wasm_call E ''wasm_bindgen__convert__closures_____invoke__h65ce2db5fdf0eedf'' [arg0, arg1]))),
     (''wasm_bindgen__convert__closures_____invoke__h71c1618cd439baed'', fn2 (\<lambda>arg0 arg1. js_let
       (wasm_call E ''wasm_bindgen__convert__closures_____invoke__h71c1618cd439baed'' [arg0, arg1])
       (\<lambda>ret. js_return (js_nonzero ret)))),
     (''wasm_bindgen__convert__closures_____invoke__h705442ba5fd6af6f'', fn3 (\<lambda>arg0 arg1 arg2. js_do
       (wasm_call E ''wasm_bindgen__convert__closures_____invoke__h705442ba5fd6af6f'' [arg0, arg1, arg2]))),
     (''wasm_bindgen__convert__closures_____invoke__h6d25d05bc9ceff60'', fn3 (\<lambda>arg0 arg1 arg2. js_do
       (wasm_call E ''wasm_bindgen__convert__closures_____invoke__h6d25d05bc9ceff60'' [arg0, arg1, arg2]))),
     (''wasm_bindgen__convert__closures_____invoke__hca206b6078dfbc56'', fn3 (\<lambda>arg0 arg1 arg2. js_do
       (wasm_call E ''wasm_bindgen__convert__closures_____invoke__hca206b6078dfbc56'' [arg0, arg1, arg2]))),
     (''wasm_bindgen__convert__closures_____invoke__h4b2ba69449b74e62'', fn3 (\<lambda>arg0 arg1 arg2. js_do
       (wasm_call E ''wasm_bindgen__convert__closures_____invoke__h4b2ba69449b74e62'' [arg0, arg1, arg2]))),
     (''wasm_bindgen__convert__closures_____invoke__h1a6d232d156b5320'', fn3 (\<lambda>arg0 arg1 arg2. js_do
       (wasm_call E ''wasm_bindgen__convert__closures_____invoke__h1a6d232d156b5320'' [arg0, arg1, arg2]))),
     (''wasm_bindgen__convert__closures_____invoke__h290b7a63b753574e'', fn4 (\<lambda>arg0 arg1 arg2 arg3.
       js_do (wasm_call E ''wasm_bindgen__convert__closures_____invoke__h290b7a63b753574e'' [arg0, arg1,
       arg2, arg3])))]"

section \<open>Imports\<close>

definition wlan_debug_imports_1 :: "'w js_env \<Rightarrow> 'w import_table" where
  "wlan_debug_imports_1 E = [
     (''__wbg___wbindgen_debug_string_0bc8482c6e3508ae'', fn2 (\<lambda>arg0 arg1. js_let (js_gets
       (\<lambda>s. Str (debugString (host_shape E arg1 s)))) (ret_string E arg0))),
     (''__wbg___wbindgen_is_falsy_e623e5b815413d00'', fn1 (\<lambda>arg0. js_return (Bool (\<not> truthy
       arg0)))),
     (''__wbg___wbindgen_is_function_0095a73b8b156f76'', fn1 (\<lambda>arg0. js_gets (\<lambda>s. Bool
       (js_typeof E arg0 s = ''function'')))),
     (''__wbg___wbindgen_is_null_ac34f5003991759a'', fn1 (\<lambda>arg0. js_return (Bool (arg0 = Null)))),
     (''__wbg___wbindgen_is_string_cd444516edc5b180'', fn1 (\<lambda>arg0. js_gets (\<lambda>s. Bool
       (js_typeof E arg0 s = ''string'')))),
     (''__wbg___wbindgen_is_undefined_9e4d92534c42d778'', fn1 (\<lambda>arg0. js_return (Bool (arg0 =
       Undefined)))),
     (''__wbg___wbindgen_string_get_72fb696202c56729'', fn2 (\<lambda>arg0 arg1. js_let (js_gets
       (\<lambda>s. if js_typeof E arg1 s = ''string'' then arg1 else Undefined)) (ret_opt_string E arg0))),
     (''__wbg___wbindgen_throw_be289d5034ed271b'', fn2 (\<lambda>arg0 arg1. js_let (js_new_error
       (getStringFromWasm0_counted E (js_number arg0) (js_number arg1))) js_throw)),
     (''__wbg__wbg_cb_unref_d9b87ff7982e3b21'', fn1 (\<lambda>arg0. wbg_cb_unref E arg0)),
     (''__wbg_addEventListener_3acb0aad4483804c'', fn4 (\<lambda>arg0 arg1 arg2 arg3. handleError E (js_do
       (js_method E arg0 ''addEventListener'' [js_text E arg1 arg2, js_return arg3])))),
     (''__wbg_addEventListener_c917b5aafbcf493f'', fn5 (\<lambda>arg0 arg1 arg2 arg3 arg4. handleError E
       (js_do (js_method E arg0 ''addEventListener'' [js_text E arg1 arg2, js_return arg3, js_return
       arg4])))),
     (''__wbg_attachShader_b36058e5c9eeaf54'', fn3 (\<lambda>arg0 arg1 arg2. js_do (js_method E arg0
       ''attachShader'' [js_return arg1, js_return arg2]))),
     (''__wbg_bindBuffer_c9068e8712a034f5'', fn3 (\<lambda>arg0 arg1 arg2. js_do (js_method E arg0
       ''bindBuffer'' [js_return (js_u32 arg1), js_return arg2]))),
     (''__wbg_bindTexture_b2b7b1726a83f93e'', fn3 (\<lambda>arg0 arg1 arg2. js_do (js_method E arg0
       ''bindTexture'' [js_return (js_u32 arg1), js_return arg2]))),
     (''__wbg_body_f67922363a220026'', fn1 (\<lambda>arg0. js_let (js_member E arg0 ''body'') (ret_opt_ref
       E))),
     (''__wbg_bufferData_98f6c413a8f0f139'', fn4 (\<lambda>arg0 arg1 arg2 arg3. js_do (js_method E arg0
       ''bufferData'' [js_return (js_u32 arg1), js_return arg2, js_return (js_u32 arg3)]))),
     (''__wbg_buffer_26d0910f3a5bc899'', fn1 (\<lambda>arg0. js_member E arg0 ''buffer'')),
     (''__wbg_byobRequest_80e594e6da4e1af7'', fn1 (\<lambda>arg0. js_let (js_member E arg0 ''byobRequest'')
       (ret_opt_ref E))),
     (''__wbg_byteLength_3417f266f4bf562a'', fn1 (\<lambda>arg0. js_member E arg0 ''byteLength'')),
     (''__wbg_byteOffset_f88547ca47c86358'', fn1 (\<lambda>arg0. js_member E arg0 ''byteOffset'')),
     (''__wbg_call_389efe28435a9388'', fn2 (\<lambda>arg0 arg1. handleError E (js_method E arg0 ''call''
       [js_return arg1]))),
     (''__wbg_call_4708e0c13bdc8e95'', fn3 (\<lambda>arg0 arg1 arg2. handleError E (js_method E arg0
       ''call'' [js_return arg1, js_return arg2]))),
     (''__wbg_cancelBubble_d93ec09e9c46cd6f'', fn1 (\<lambda>arg0. js_member E arg0 ''cancelBubble'')),
     (''__wbg_clientHeight_6432ff0d61ccfe7d'', fn1 (\<lambda>arg0. js_member E arg0 ''clientHeight'')),
     (''__wbg_clientWidth_dcf89c40d88df4a3'', fn1 (\<lambda>arg0. js_member E arg0 ''clientWidth'')),
     (''__wbg_cloneNode_b85e9102a9a31b29'', fn2 (\<lambda>arg0 arg1. handleError E (js_method E arg0
       ''cloneNode'' [js_return (js_nonzero arg1)]))),
     (''__wbg_cloneNode_eaf4ea08ebf633a5'', fn1 (\<lambda>arg0. handleError E (js_method E arg0
       ''cloneNode'' []))),
     (''__wbg_close_06dfa0a815b9d71f'', fn1 (\<lambda>arg0. handleError E (js_do (js_method E arg0 ''close''
       [])))),
     (''__wbg_close_1d08eaf57ed325c0'', fn1 (\<lambda>arg0. handleError E (js_do (js_method E arg0 ''close''
       [])))),
     (''__wbg_close_a79afee31de55b36'', fn1 (\<lambda>arg0. handleError E (js_do (js_method E arg0 ''close''
       [])))),
     (''__wbg_code_a552f1e91eda69b7'', fn1 (\<lambda>arg0. js_member E arg0 ''code'')),
     (''__wbg_compileShader_94718a93495d565d'', fn2 (\<lambda>arg0 arg1. js_do (js_method E arg0
       ''compileShader'' [js_return arg1]))),
     (''__wbg_composedPath_9154ab2547c668d5'', fn1 (\<lambda>arg0. js_method E arg0 ''composedPath'' [])),
     (''__wbg_content_681ebf067b179491'', fn1 (\<lambda>arg0. js_member E arg0 ''content'')),
     (''__wbg_createBuffer_26534c05e01b8559'', fn1 (\<lambda>arg0. js_let (js_method E arg0 ''createBuffer''
       []) (ret_opt_ref E))),
     (''__wbg_createComment_b783f49934771bb3'', fn3 (\<lambda>arg0 arg1 arg2. js_method E arg0
       ''createComment'' [js_text E arg1 arg2])),
     (''__wbg_createElementNS_ee00621496b30ec2'', fn5 (\<lambda>arg0 arg1 arg2 arg3 arg4. handleError E
       (js_method E arg0 ''createElementNS'' [js_opt_text E arg1 arg2, js_text E arg3 arg4]))),
     (''__wbg_createElement_49f60fdcaae809c8'', fn3 (\<lambda>arg0 arg1 arg2. handleError E (js_method E
       arg0 ''createElement'' [js_text E arg1 arg2])))]"

definition wlan_debug_imports_2 :: "'w js_env \<Rightarrow> 'w import_table" where
  "wlan_debug_imports_2 E = [
     (''__wbg_createProgram_9b7710a1f2701c2c'', fn1 (\<lambda>arg0. js_let (js_method E arg0
       ''createProgram'' []) (ret_opt_ref E))),
     (''__wbg_createShader_e3ac08ed8c5b14b2'', fn2 (\<lambda>arg0 arg1. js_let (js_method E arg0
       ''createShader'' [js_return (js_u32 arg1)]) (ret_opt_ref E))),
     (''__wbg_createTask_deeb88a68fc97c9d'', fn2 (\<lambda>arg0 arg1. handleError E (js_static E ''console''
       ''createTask'' [js_text E arg0 arg1]))),
     (''__wbg_createTextNode_55029686c9591bf3'', fn3 (\<lambda>arg0 arg1 arg2. js_method E arg0
       ''createTextNode'' [js_text E arg1 arg2])),
     (''__wbg_createTexture_16d2c8a3d7d4a75a'', fn1 (\<lambda>arg0. js_let (js_method E arg0
       ''createTexture'' []) (ret_opt_ref E))),
     (''__wbg_data_5330da50312d0bc1'', fn1 (\<lambda>arg0. js_member E arg0 ''data'')),
     (''__wbg_deleteProperty_8c8a05da881fea59'', fn2 (\<lambda>arg0 arg1. handleError E (js_static E
       ''Reflect'' ''deleteProperty'' [js_return arg0, js_return arg1]))),
     (''__wbg_dispatchEvent_dc8dcc7ddca11378'', fn2 (\<lambda>arg0 arg1. handleError E (js_method E arg0
       ''dispatchEvent'' [js_return arg1]))),
     (''__wbg_document_ee35a3d3ae34ef6c'', fn1 (\<lambda>arg0. js_let (js_member E arg0 ''document'')
       (ret_opt_ref E))),
     (''__wbg_drawElements_ea2abffa9d1dc736'', fn5 (\<lambda>arg0 arg1 arg2 arg3 arg4. js_do (js_method E
       arg0 ''drawElements'' [js_return (js_u32 arg1), js_return arg2, js_return (js_u32 arg3), js_return
       arg4]))),
     (''__wbg_enableVertexAttribArray_475e06c31777296d'', fn2 (\<lambda>arg0 arg1. js_do (js_method E arg0
       ''enableVertexAttribArray'' [js_return (js_u32 arg1)]))),
     (''__wbg_enqueue_2c63f2044f257c3e'', fn2 (\<lambda>arg0 arg1. handleError E (js_do (js_method E arg0
       ''enqueue'' [js_return arg1])))),
     (''__wbg_error_7534b8e9a36f1ab4'', fn2 (\<lambda>arg0 arg1. with_deferred E [(arg0, arg1)] (js_static E
       ''console'' ''error'' [js_text E arg0 arg1]))),
     (''__wbg_fetch_a9bc66c159c18e19'', fn1 (\<lambda>arg0. js_call E ''fetch'' [js_return arg0])),
     (''__wbg_firstElementChild_f1c371cb2a4d5101'', fn1 (\<lambda>arg0. js_let (js_member E arg0
       ''firstElementChild'') (ret_opt_ref E))),
     (''__wbg_getAttribLocation_7321cf2d67e036f6'', fn4 (\<lambda>arg0 arg1 arg2 arg3. js_method E arg0
       ''getAttribLocation'' [js_return arg1, js_text E arg2 arg3])),
     (''__wbg_getContext_b28d2db7bd648242'', fn4 (\<lambda>arg0 arg1 arg2 arg3. handleError E (js_let
       (js_method E arg0 ''getContext'' [js_text E arg1 arg2, js_return arg3]) (ret_opt_ref E)))),
     (''__wbg_get_9b94d73e6221f75c'', fn2 (\<lambda>arg0 arg1. js_elem E arg0 (to_uint32 (js_number arg1)))),
     (''__wbg_get_b3ed3ad4be2bc8ac'', fn2 (\<lambda>arg0 arg1. handleError E (js_static E ''Reflect''
       ''get'' [js_return arg0, js_return arg1]))),
     (''__wbg_height_38750dc6de41ee75'', fn1 (\<lambda>arg0. js_member E arg0 ''height'')),
     (''__wbg_host_fb29f8be35c2517d'', fn1 (\<lambda>arg0. js_member E arg0 ''host'')),
     (''__wbg_insertBefore_1468142836e61a51'', fn3 (\<lambda>arg0 arg1 arg2. handleError E (js_method E arg0
       ''insertBefore'' [js_return arg1, js_return arg2]))),
     (''__wbg_instanceof_ArrayBuffer_c367199e2fa2aa04'', fn1 (\<lambda>arg0. js_instanceof E arg0
       ''ArrayBuffer'')),
     (''__wbg_instanceof_Element_9e662f49ab6c6beb'', fn1 (\<lambda>arg0. js_instanceof E arg0 ''Element'')),
     (''__wbg_instanceof_Error_8573fe0b0b480f46'', fn1 (\<lambda>arg0. js_instanceof E arg0 ''Error'')),
     (''__wbg_instanceof_HtmlInputElement_c10b7260b4e0710a'', fn1 (\<lambda>arg0. js_instanceof E arg0
       ''HTMLInputElement'')),
     (''__wbg_instanceof_Response_ee1d54d79ae41977'', fn1 (\<lambda>arg0. js_instanceof E arg0
       ''Response''))]"

definition wlan_debug_imports_3 :: "'w js_env \<Rightarrow> 'w import_table" where
  "wlan_debug_imports_3 E = [
     (''__wbg_instanceof_ShadowRoot_5285adde3587c73e'', fn1 (\<lambda>arg0. js_instanceof E arg0
       ''ShadowRoot'')),
     (''__wbg_instanceof_WebGl2RenderingContext_4a08a94517ed5240'', fn1 (\<lambda>arg0. js_instanceof E arg0
       ''WebGL2RenderingContext'')),
     (''__wbg_instanceof_Window_ed49b2db8df90359'', fn1 (\<lambda>arg0. js_instanceof E arg0 ''Window'')),
     (''__wbg_length_32ed9a279acd054c'', fn1 (\<lambda>arg0. js_member E arg0 ''length'')),
     (''__wbg_linkProgram_6600dd2c0863bbfd'', fn2 (\<lambda>arg0 arg1. js_do (js_method E arg0
       ''linkProgram'' [js_return arg1]))),
     (''__wbg_log_6b5ca2e6124b2808'', fn1 (\<lambda>arg0. js_do (js_static E ''console'' ''log'' [js_return
       arg0]))),
     (''__wbg_mermaidinit_6a2099ed5b36d951'', fn0 (js_do (js_static E ''mermaid'' ''init'' []))),
     (''__wbg_message_9ddc4b9a62a7c379'', fn1 (\<lambda>arg0. js_member E arg0 ''message'')),
     (''__wbg_name_446e25ef2cfdab5a'', fn1 (\<lambda>arg0. js_member E arg0 ''name'')),
     (''__wbg_new_057993d5b5e07835'', fn2 (\<lambda>arg0 arg1. handleError E (js_new E ''WebSocket''
       [js_text E arg0 arg1]))),
     (''__wbg_new_074b505417ada2d9'', fn0 (handleError E (js_new E ''URLSearchParams'' []))),
     (''__wbg_new_361308b2356cecd0'', fn0 (js_new E ''Object'' [])),
     (''__wbg_new_64284bd487f9d239'', fn0 (handleError E (js_new E ''Headers'' []))),
     (''__wbg_new_72b49615380db768'', fn2 (\<lambda>arg0 arg1. js_new_error (getStringFromWasm0_counted E
       (js_number arg0) (js_number arg1)))),
     (''__wbg_new_8a6f238a6ece86ea'', fn0 (js_new_error (js_return []))),
     (''__wbg_new_b5d9e2fb389fef91'', fn2 (\<lambda>arg0 arg1. new_promise E
       ''wasm_bindgen__convert__closures_____invoke__h290b7a63b753574e'' arg0 arg1)),
     (''__wbg_new_c2f21774701ddac7'', fn2 (\<lambda>arg0 arg1. handleError E (js_new E ''URL'' [js_text E
       arg0 arg1]))),
     (''__wbg_new_dd2b680c8bf6ae29'', fn1 (\<lambda>arg0. js_new E ''Uint8Array'' [js_return arg0])),
     (''__wbg_new_no_args_1c7c842f08d00ebb'', fn2 (\<lambda>arg0 arg1. js_new E ''Function'' [js_text E arg0
       arg1])),
     (''__wbg_new_with_byte_offset_and_length_aa261d9c9da49eb1'', fn3 (\<lambda>arg0 arg1 arg2. js_new E
       ''Uint8Array'' [js_return arg0, js_return (js_u32 arg1), js_return (js_u32 arg2)])),
     (''__wbg_new_with_event_init_dict_7721feeda3e1e6fa'', fn3 (\<lambda>arg0 arg1 arg2. handleError E
       (js_new E ''CloseEvent'' [js_text E arg0 arg1, js_return arg2]))),
     (''__wbg_new_with_str_a7c7f835549b152a'', fn2 (\<lambda>arg0 arg1. handleError E (js_new E ''Request''
       [js_text E arg0 arg1]))),
     (''__wbg_new_with_str_and_init_a61cbc6bdef21614'', fn3 (\<lambda>arg0 arg1 arg2. handleError E (js_new
       E ''Request'' [js_text E arg0 arg1, js_return arg2]))),
     (''__wbg_parentNode_d44bd5ec58601e45'', fn1 (\<lambda>arg0. js_let (js_member E arg0 ''parentNode'')
       (ret_opt_ref E))),
     (''__wbg_prototypesetcall_bdcdcc5842e4d77d'', fn3 (\<lambda>arg0 arg1 arg2. js_do (js_let (js_global E
       ''Uint8Array'') (\<lambda>u. js_let (js_member E u ''prototype'') (\<lambda>p. js_let (js_member E p
       ''set'') (\<lambda>f. js_method E f ''call'' [getArrayU8FromWasm0 (js_number arg0) (js_number arg1),
       js_return arg2])))))),
     (''__wbg_queueMicrotask_0aa0a927f78f5d98'', fn1 (\<lambda>arg0. js_member E arg0 ''queueMicrotask'')),
     (''__wbg_queueMicrotask_5bb536982f78a56f'', fn1 (\<lambda>arg0. js_do (js_call E ''queueMicrotask''
       [js_return arg0]))),
     (''__wbg_reason_35fce8e55dd90f31'', fn2 (\<lambda>arg0 arg1. js_let (js_member E arg1 ''reason'')
       (ret_string E arg0))),
     (''__wbg_removeEventListener_e63328781a5b9af9'', fn4 (\<lambda>arg0 arg1 arg2 arg3. handleError E
       (js_do (js_method E arg0 ''removeEventListener'' [js_text E arg1 arg2, js_return arg3])))),
     (''__wbg_remove_31c39325eee968fc'', fn1 (\<lambda>arg0. js_do (js_method E arg0 ''remove'' [])))]"

definition wlan_debug_imports_4 :: "'w js_env \<Rightarrow> 'w import_table" where
  "wlan_debug_imports_4 E = [
     (''__wbg_remove_85daa9b3dddf4e6d'', fn1 (\<lambda>arg0. js_do (js_method E arg0 ''remove'' []))),
     (''__wbg_requestAnimationFrame_43682f8e1c5e5348'', fn2 (\<lambda>arg0 arg1. handleError E (js_method E
       arg0 ''requestAnimationFrame'' [js_return arg1]))),
     (''__wbg_resolve_002c4b7d9d8f6b64'', fn1 (\<lambda>arg0. js_static E ''Promise'' ''resolve'' [js_return
       arg0])),
     (''__wbg_respond_bf6ab10399ca8722'', fn2 (\<lambda>arg0 arg1. handleError E (js_do (js_method E arg0
       ''respond'' [js_return (js_u32 arg1)])))),
     (''__wbg_run_bcde7ea43ea6ed7c'', fn3 (\<lambda>arg0 arg1 arg2. with_callback
       ''wasm_bindgen__convert__closures_____invoke__h71c1618cd439baed'' (js_number arg1) (js_number arg2)
       (\<lambda>cb0. js_method E arg0 ''run'' [js_return cb0]))),
     (''__wbg_search_143f09a35047e800'', fn2 (\<lambda>arg0 arg1. js_let (js_member E arg1 ''search'')
       (ret_string E arg0))),
     (''__wbg_setAttribute_cc8e4c8a2a008508'', fn5 (\<lambda>arg0 arg1 arg2 arg3 arg4. handleError E (js_do
       (js_method E arg0 ''setAttribute'' [js_text E arg1 arg2, js_text E arg3 arg4])))),
     (''__wbg_set_6cb8631f80447a67'', fn3 (\<lambda>arg0 arg1 arg2. handleError E (js_static E ''Reflect''
       ''set'' [js_return arg0, js_return arg1, js_return arg2]))),
     (''__wbg_set_binaryType_5bbf62e9f705dc1a'', fn2 (\<lambda>arg0 arg1. js_assign E arg0 ''binaryType''
       (js_return (enum_at wlan_debug_enum_BinaryType arg1)))),
     (''__wbg_set_body_9a7e00afe3cfe244'', fn2 (\<lambda>arg0 arg1. js_assign E arg0 ''body'' (js_return
       arg1))),
     (''__wbg_set_cc56eefd2dd91957'', fn3 (\<lambda>arg0 arg1 arg2. js_do (js_method E arg0 ''set''
       [getArrayU8FromWasm0 (js_number arg1) (js_number arg2)]))),
     (''__wbg_set_code_86d60a9542684e59'', fn2 (\<lambda>arg0 arg1. js_assign E arg0 ''code'' (js_return
       arg1))),
     (''__wbg_set_db769d02949a271d'', fn5 (\<lambda>arg0 arg1 arg2 arg3 arg4. handleError E (js_do
       (js_method E arg0 ''set'' [js_text E arg1 arg2, js_text E arg3 arg4])))),
     (''__wbg_set_headers_cfc5f4b2c1f20549'', fn2 (\<lambda>arg0 arg1. js_assign E arg0 ''headers''
       (js_return arg1))),
     (''__wbg_set_height_f21f985387070100'', fn2 (\<lambda>arg0 arg1. js_assign E arg0 ''height'' (js_return
       (js_u32 arg1)))),
     (''__wbg_set_innerHTML_edd39677e3460291'', fn3 (\<lambda>arg0 arg1 arg2. js_assign E arg0 ''innerHTML''
       (js_text E arg1 arg2))),
     (''__wbg_set_innerText_2f1502f2d0780499'', fn3 (\<lambda>arg0 arg1 arg2. js_assign E arg0 ''innerText''
       (js_text E arg1 arg2))),
     (''__wbg_set_method_c3e20375f5ae7fac'', fn3 (\<lambda>arg0 arg1 arg2. js_assign E arg0 ''method''
       (js_text E arg1 arg2))),
     (''__wbg_set_nodeValue_d947eb0a476b80d7'', fn3 (\<lambda>arg0 arg1 arg2. js_assign E arg0 ''nodeValue''
       (js_opt_text E arg1 arg2))),
     (''__wbg_set_once_56ba1b87a9884c15'', fn2 (\<lambda>arg0 arg1. js_assign E arg0 ''once'' (js_return
       (js_nonzero arg1)))),
     (''__wbg_set_reason_4e11e27980c30a7f'', fn3 (\<lambda>arg0 arg1 arg2. js_assign E arg0 ''reason''
       (js_text E arg1 arg2))),
     (''__wbg_set_search_1d369b0f3868e132'', fn3 (\<lambda>arg0 arg1 arg2. js_assign E arg0 ''search''
       (js_text E arg1 arg2))),
     (''__wbg_set_width_d60bc4f2f20c56a4'', fn2 (\<lambda>arg0 arg1. js_assign E arg0 ''width'' (js_return
       (js_u32 arg1)))),
     (''__wbg_shaderSource_32425cfe6e5a1e52'', fn4 (\<lambda>arg0 arg1 arg2 arg3. js_do (js_method E arg0
       ''shaderSource'' [js_return arg1, js_text E arg2 arg3]))),
     (''__wbg_stack_0ed75d68575b0f3c'', fn2 (\<lambda>arg0 arg1. js_let (js_member E arg1 ''stack'')
       (ret_string E arg0))),
     (''__wbg_static_accessor_GLOBAL_12837167ad935116'', fn0 (js_let (js_global_or_null E ''global'')
       (ret_opt_ref E))),
     (''__wbg_static_accessor_GLOBAL_THIS_e628e89ab3b1c95f'', fn0 (js_let (js_global_or_null E
       ''globalThis'') (ret_opt_ref E))),
     (''__wbg_static_accessor_SELF_a621d3dfbb60d0ce'', fn0 (js_let (js_global_or_null E ''self'')
       (ret_opt_ref E))),
     (''__wbg_static_accessor_WINDOW_f8727f0cf888e0bd'', fn0 (js_let (js_global_or_null E ''window'')
       (ret_opt_ref E))),
     (''__wbg_tagName_0cf6d7b647352f04'', fn2 (\<lambda>arg0 arg1. js_let (js_member E arg1 ''tagName'')
       (ret_string E arg0))),
     (''__wbg_target_521be630ab05b11e'', fn1 (\<lambda>arg0. js_let (js_member E arg0 ''target'')
       (ret_opt_ref E))),
     (''__wbg_texImage2D_9113488cf68be946'', fn11 (\<lambda>arg0 arg1 arg2 arg3 arg4 arg5 arg6 arg7 arg8
       arg9 arg10. handleError E (js_do (js_method E arg0 ''texImage2D'' [js_return (js_u32 arg1), js_return
       arg2, js_return arg3, js_return arg4, js_return arg5, js_return arg6, js_return (js_u32 arg7),
       js_return (js_u32 arg8), js_return arg9, js_return (js_u32 arg10)])))),
     (''__wbg_texParameteri_0d45be2c88d6bad8'', fn4 (\<lambda>arg0 arg1 arg2 arg3. js_do (js_method E arg0
       ''texParameteri'' [js_return (js_u32 arg1), js_return (js_u32 arg2), js_return arg3]))),
     (''__wbg_texSubImage2D_810be76d09a4203c'', fn11 (\<lambda>arg0 arg1 arg2 arg3 arg4 arg5 arg6 arg7 arg8
       arg9 arg10. handleError E (js_do (js_method E arg0 ''texSubImage2D'' [js_return (js_u32 arg1),
       js_return arg2, js_return arg3, js_return arg4, js_return arg5, js_return arg6, js_return (js_u32
       arg7), js_return (js_u32 arg8), js_return arg9, js_return (js_u32 arg10)])))),
     (''__wbg_text_083b8727c990c8c0'', fn1 (\<lambda>arg0. handleError E (js_method E arg0 ''text'' []))),
     (''__wbg_then_0d9fe2c7b1857d32'', fn3 (\<lambda>arg0 arg1 arg2. js_method E arg0 ''then'' [js_return
       arg1, js_return arg2])),
     (''__wbg_then_b9e7b3b5f1a9e1b5'', fn2 (\<lambda>arg0 arg1. js_method E arg0 ''then'' [js_return arg1]))]"

definition wlan_debug_imports_5 :: "'w js_env \<Rightarrow> 'w import_table" where
  "wlan_debug_imports_5 E = [
     (''__wbg_toString_029ac24421fd7a24'', fn1 (\<lambda>arg0. js_method E arg0 ''toString'' [])),
     (''__wbg_toString_964ff7fe6eca8362'', fn1 (\<lambda>arg0. js_method E arg0 ''toString'' [])),
     (''__wbg_url_36c39f6580d05409'', fn2 (\<lambda>arg0 arg1. js_let (js_member E arg1 ''url'') (ret_string
       E arg0))),
     (''__wbg_useProgram_fe720ade4d3b6edb'', fn2 (\<lambda>arg0 arg1. js_do (js_method E arg0 ''useProgram''
       [js_return arg1]))),
     (''__wbg_value_d402dce7dcb16251'', fn2 (\<lambda>arg0 arg1. js_let (js_member E arg1 ''value'')
       (ret_string E arg0))),
     (''__wbg_value_e506a07878790ca0'', fn2 (\<lambda>arg0 arg1. js_let (js_member E arg1 ''value'')
       (ret_string E arg0))),
     (''__wbg_vertexAttribPointer_75f6ff47f6c9f8cb'', fn7 (\<lambda>arg0 arg1 arg2 arg3 arg4 arg5 arg6.
       js_do (js_method E arg0 ''vertexAttribPointer'' [js_return (js_u32 arg1), js_return arg2, js_return
       (js_u32 arg3), js_return (js_nonzero arg4), js_return arg5, js_return arg6]))),
     (''__wbg_view_6c32e7184b8606ad'', fn1 (\<lambda>arg0. js_let (js_member E arg0 ''view'') (ret_opt_ref
       E))),
     (''__wbg_viewport_df236eac68bc7467'', fn5 (\<lambda>arg0 arg1 arg2 arg3 arg4. js_do (js_method E arg0
       ''viewport'' [js_return arg1, js_return arg2, js_return arg3, js_return arg4]))),
     (''__wbg_warn_81ab00e6e16e886d'', fn3 (\<lambda>arg0 arg1 arg2. js_do (js_static E ''console'' ''warn''
       [js_return arg0, js_return arg1, js_return arg2]))),
     (''__wbg_warn_f7ae1b2e66ccb930'', fn1 (\<lambda>arg0. js_do (js_static E ''console'' ''warn''
       [js_return arg0]))),
     (''__wbg_wasClean_a9c77a7100d8534f'', fn1 (\<lambda>arg0. js_member E arg0 ''wasClean'')),
     (''__wbg_width_5f66bde2e810fbde'', fn1 (\<lambda>arg0. js_member E arg0 ''width'')),
     (''__wbindgen_cast_0000000000000001'', fn2 (\<lambda>arg0 arg1. makeMutClosure (js_number arg0)
       (js_number arg1) (Export ''wasm_bindgen__closure__destroy__h9f355aeb9ddcb8e7'')
       ''wasm_bindgen__convert__closures_____invoke__h705442ba5fd6af6f'')),
     (''__wbindgen_cast_0000000000000002'', fn2 (\<lambda>arg0 arg1. makeMutClosure (js_number arg0)
       (js_number arg1) (Export ''wasm_bindgen__closure__destroy__h134d0c2aa920e56d'')
       ''wasm_bindgen__convert__closures_____invoke__h6d25d05bc9ceff60'')),
     (''__wbindgen_cast_0000000000000003'', fn2 (\<lambda>arg0 arg1. makeMutClosure (js_number arg0)
       (js_number arg1) (Export ''wasm_bindgen__closure__destroy__h95f19d01a36739ae'')
       ''wasm_bindgen__convert__closures_____invoke__hca206b6078dfbc56'')),
     (''__wbindgen_cast_0000000000000004'', fn2 (\<lambda>arg0 arg1. makeMutClosure (js_number arg0)
       (js_number arg1) (Export ''wasm_bindgen__closure__destroy__h48f27f14ffdc59fa'')
       ''wasm_bindgen__convert__closures_____invoke__h65ce2db5fdf0eedf'')),
     (''__wbindgen_cast_0000000000000005'', fn2 (\<lambda>arg0 arg1. makeMutClosure (js_number arg0)
       (js_number arg1) (Export ''wasm_bindgen__closure__destroy__h8f547915c018ff00'')
       ''wasm_bindgen__convert__closures_____invoke__h4b2ba69449b74e62'')),
     (''__wbindgen_cast_0000000000000006'', fn2 (\<lambda>arg0 arg1. makeMutClosure (js_number arg0)
       (js_number arg1) (Export ''wasm_bindgen__closure__destroy__h702817896ba26f41'')
       ''wasm_bindgen__convert__closures_____invoke__h1a6d232d156b5320'')),
     (''__wbindgen_cast_0000000000000007'', fn2 (\<lambda>arg0 arg1. getArrayF32FromWasm0 (js_number arg0)
       (js_number arg1))),
     (''__wbindgen_cast_0000000000000008'', fn2 (\<lambda>arg0 arg1. getArrayU16FromWasm0 (js_number arg0)
       (js_number arg1))),
     (''__wbindgen_cast_0000000000000009'', fn2 (\<lambda>arg0 arg1. js_text E arg0 arg1)),
     (''__wbindgen_init_externref_table'', fn0 (wbindgen_init_externref_table))]"

definition wlan_debug_imports :: "'w js_env \<Rightarrow> 'w import_table" where
  "wlan_debug_imports E = wlan_debug_imports_1 E @ wlan_debug_imports_2 E @ wlan_debug_imports_3 E @
       wlan_debug_imports_4 E @ wlan_debug_imports_5 E"

section \<open>Lookup\<close>

lemma wlan_debug_names_1: "ascending (import_names (wlan_debug_imports_1 E))"
  by (simp add: wlan_debug_imports_1_def)

lemma wlan_debug_names_2: "ascending (import_names (wlan_debug_imports_2 E))"
  by (simp add: wlan_debug_imports_2_def)

lemma wlan_debug_names_3: "ascending (import_names (wlan_debug_imports_3 E))"
  by (simp add: wlan_debug_imports_3_def)

lemma wlan_debug_names_4: "ascending (import_names (wlan_debug_imports_4 E))"
  by (simp add: wlan_debug_imports_4_def)

lemma wlan_debug_names_5: "ascending (import_names (wlan_debug_imports_5 E))"
  by (simp add: wlan_debug_imports_5_def)

lemma wlan_debug_ascending: "ascending (import_names (wlan_debug_imports E))"
  unfolding wlan_debug_imports_def import_names_append
  by (intro ascending_parts wlan_debug_names_1 wlan_debug_names_2 wlan_debug_names_3 wlan_debug_names_4 wlan_debug_names_5)
     (simp_all add: wlan_debug_imports_1_def wlan_debug_imports_2_def wlan_debug_imports_3_def wlan_debug_imports_4_def wlan_debug_imports_5_def)

section \<open>Guarded imports, type tests and string results\<close>

text \<open>The imports that the source wraps in \<^verbatim>\<open>handleError\<close>.\<close>

definition wlan_debug_guarded :: "string list" where
  "wlan_debug_guarded = [''__wbg_addEventListener_3acb0aad4483804c'',
       ''__wbg_addEventListener_c917b5aafbcf493f'', ''__wbg_call_389efe28435a9388'',
       ''__wbg_call_4708e0c13bdc8e95'', ''__wbg_cloneNode_b85e9102a9a31b29'',
       ''__wbg_cloneNode_eaf4ea08ebf633a5'', ''__wbg_close_06dfa0a815b9d71f'',
       ''__wbg_close_1d08eaf57ed325c0'', ''__wbg_close_a79afee31de55b36'',
       ''__wbg_createElementNS_ee00621496b30ec2'', ''__wbg_createElement_49f60fdcaae809c8''] @
       [''__wbg_createTask_deeb88a68fc97c9d'', ''__wbg_deleteProperty_8c8a05da881fea59'',
       ''__wbg_dispatchEvent_dc8dcc7ddca11378'', ''__wbg_enqueue_2c63f2044f257c3e'',
       ''__wbg_getContext_b28d2db7bd648242'', ''__wbg_get_b3ed3ad4be2bc8ac'',
       ''__wbg_insertBefore_1468142836e61a51''] @ [''__wbg_new_057993d5b5e07835'',
       ''__wbg_new_074b505417ada2d9'', ''__wbg_new_64284bd487f9d239'',
       ''__wbg_new_c2f21774701ddac7'', ''__wbg_new_with_event_init_dict_7721feeda3e1e6fa'',
       ''__wbg_new_with_str_a7c7f835549b152a'', ''__wbg_new_with_str_and_init_a61cbc6bdef21614'',
       ''__wbg_removeEventListener_e63328781a5b9af9''] @
       [''__wbg_requestAnimationFrame_43682f8e1c5e5348'', ''__wbg_respond_bf6ab10399ca8722'',
       ''__wbg_setAttribute_cc8e4c8a2a008508'', ''__wbg_set_6cb8631f80447a67'',
       ''__wbg_set_db769d02949a271d'', ''__wbg_texImage2D_9113488cf68be946'',
       ''__wbg_texSubImage2D_810be76d09a4203c'', ''__wbg_text_083b8727c990c8c0'']"

lemma wlan_debug_guarded_1:
  assumes "exn_contract E"
  shows "provides_all (wlan_debug_imports_1 E) always_returns
       [''__wbg_addEventListener_3acb0aad4483804c'', ''__wbg_addEventListener_c917b5aafbcf493f'',
       ''__wbg_call_389efe28435a9388'', ''__wbg_call_4708e0c13bdc8e95'',
       ''__wbg_cloneNode_b85e9102a9a31b29'', ''__wbg_cloneNode_eaf4ea08ebf633a5'',
       ''__wbg_close_06dfa0a815b9d71f'', ''__wbg_close_1d08eaf57ed325c0'',
       ''__wbg_close_a79afee31de55b36'', ''__wbg_createElementNS_ee00621496b30ec2'',
       ''__wbg_createElement_49f60fdcaae809c8'']"
  by (simp add: provides_def wlan_debug_imports_1_def guarded_fn [OF assms])

lemma wlan_debug_guarded_2:
  assumes "exn_contract E"
  shows "provides_all (wlan_debug_imports_2 E) always_returns
       [''__wbg_createTask_deeb88a68fc97c9d'', ''__wbg_deleteProperty_8c8a05da881fea59'',
       ''__wbg_dispatchEvent_dc8dcc7ddca11378'', ''__wbg_enqueue_2c63f2044f257c3e'',
       ''__wbg_getContext_b28d2db7bd648242'', ''__wbg_get_b3ed3ad4be2bc8ac'',
       ''__wbg_insertBefore_1468142836e61a51'']"
  by (simp add: provides_def wlan_debug_imports_2_def guarded_fn [OF assms])

lemma wlan_debug_guarded_3:
  assumes "exn_contract E"
  shows "provides_all (wlan_debug_imports_3 E) always_returns [''__wbg_new_057993d5b5e07835'',
       ''__wbg_new_074b505417ada2d9'', ''__wbg_new_64284bd487f9d239'',
       ''__wbg_new_c2f21774701ddac7'', ''__wbg_new_with_event_init_dict_7721feeda3e1e6fa'',
       ''__wbg_new_with_str_a7c7f835549b152a'', ''__wbg_new_with_str_and_init_a61cbc6bdef21614'',
       ''__wbg_removeEventListener_e63328781a5b9af9'']"
  by (simp add: provides_def wlan_debug_imports_3_def guarded_fn [OF assms])

lemma wlan_debug_guarded_4:
  assumes "exn_contract E"
  shows "provides_all (wlan_debug_imports_4 E) always_returns
       [''__wbg_requestAnimationFrame_43682f8e1c5e5348'', ''__wbg_respond_bf6ab10399ca8722'',
       ''__wbg_setAttribute_cc8e4c8a2a008508'', ''__wbg_set_6cb8631f80447a67'',
       ''__wbg_set_db769d02949a271d'', ''__wbg_texImage2D_9113488cf68be946'',
       ''__wbg_texSubImage2D_810be76d09a4203c'', ''__wbg_text_083b8727c990c8c0'']"
  by (simp add: provides_def wlan_debug_imports_4_def guarded_fn [OF assms])

lemma wlan_debug_guarded_provided:
  assumes "exn_contract E"
  shows "provides_all (wlan_debug_imports E) always_returns wlan_debug_guarded"
  unfolding wlan_debug_guarded_def map_append provides_append
  by (intro conjI provides_part [OF wlan_debug_guarded_1 [OF assms]] provides_part [OF wlan_debug_guarded_2 [OF assms]] provides_part [OF wlan_debug_guarded_3 [OF assms]] provides_part [OF wlan_debug_guarded_4 [OF assms]])
     (auto simp: wlan_debug_imports_def)

text \<open>The imports that test a class with \<^verbatim>\<open>instanceof\<close>.\<close>

definition wlan_debug_type_tests :: "string list" where
  "wlan_debug_type_tests = [''__wbg_instanceof_ArrayBuffer_c367199e2fa2aa04'',
       ''__wbg_instanceof_Element_9e662f49ab6c6beb'', ''__wbg_instanceof_Error_8573fe0b0b480f46'',
       ''__wbg_instanceof_HtmlInputElement_c10b7260b4e0710a'',
       ''__wbg_instanceof_Response_ee1d54d79ae41977''] @
       [''__wbg_instanceof_ShadowRoot_5285adde3587c73e'',
       ''__wbg_instanceof_WebGl2RenderingContext_4a08a94517ed5240'',
       ''__wbg_instanceof_Window_ed49b2db8df90359'']"

lemma wlan_debug_type_tests_2:
  "provides_all (wlan_debug_imports_2 E) answers [''__wbg_instanceof_ArrayBuffer_c367199e2fa2aa04'',
       ''__wbg_instanceof_Element_9e662f49ab6c6beb'', ''__wbg_instanceof_Error_8573fe0b0b480f46'',
       ''__wbg_instanceof_HtmlInputElement_c10b7260b4e0710a'',
       ''__wbg_instanceof_Response_ee1d54d79ae41977'']"
  by (simp add: provides_def wlan_debug_imports_2_def )

lemma wlan_debug_type_tests_3:
  "provides_all (wlan_debug_imports_3 E) answers [''__wbg_instanceof_ShadowRoot_5285adde3587c73e'',
       ''__wbg_instanceof_WebGl2RenderingContext_4a08a94517ed5240'',
       ''__wbg_instanceof_Window_ed49b2db8df90359'']"
  by (simp add: provides_def wlan_debug_imports_3_def )

lemma wlan_debug_type_tests_provided:
  "provides_all (wlan_debug_imports E) answers wlan_debug_type_tests"
  unfolding wlan_debug_type_tests_def map_append provides_append
  by (intro conjI provides_part [OF wlan_debug_type_tests_2] provides_part [OF wlan_debug_type_tests_3])
     (auto simp: wlan_debug_imports_def)

text \<open>The imports that return a string property, with that property.\<close>

definition wlan_debug_string_getters :: "(string \<times> string) list" where
  "wlan_debug_string_getters = [(''__wbg_reason_35fce8e55dd90f31'', ''reason'')] @
       [(''__wbg_search_143f09a35047e800'', ''search''), (''__wbg_stack_0ed75d68575b0f3c'',
       ''stack''), (''__wbg_tagName_0cf6d7b647352f04'', ''tagName'')] @
       [(''__wbg_url_36c39f6580d05409'', ''url''), (''__wbg_value_d402dce7dcb16251'', ''value''),
       (''__wbg_value_e506a07878790ca0'', ''value'')]"

lemma wlan_debug_string_getters_3:
  assumes "text_codec enc dec into keeps" "text_encode E = enc" "encodeInto E = into"
  shows "provides (wlan_debug_imports_3 E) (string_getter E trap enc)
       [(''__wbg_reason_35fce8e55dd90f31'', ''reason'')]"
  by (simp add: provides_def wlan_debug_imports_3_def text_codec.string_getter_fn [OF assms])

lemma wlan_debug_string_getters_4:
  assumes "text_codec enc dec into keeps" "text_encode E = enc" "encodeInto E = into"
  shows "provides (wlan_debug_imports_4 E) (string_getter E trap enc)
       [(''__wbg_search_143f09a35047e800'', ''search''), (''__wbg_stack_0ed75d68575b0f3c'',
       ''stack''), (''__wbg_tagName_0cf6d7b647352f04'', ''tagName'')]"
  by (simp add: provides_def wlan_debug_imports_4_def text_codec.string_getter_fn [OF assms])

lemma wlan_debug_string_getters_5:
  assumes "text_codec enc dec into keeps" "text_encode E = enc" "encodeInto E = into"
  shows "provides (wlan_debug_imports_5 E) (string_getter E trap enc)
       [(''__wbg_url_36c39f6580d05409'', ''url''), (''__wbg_value_d402dce7dcb16251'', ''value''),
       (''__wbg_value_e506a07878790ca0'', ''value'')]"
  by (simp add: provides_def wlan_debug_imports_5_def text_codec.string_getter_fn [OF assms])

lemma wlan_debug_string_getters_provided:
  assumes "text_codec enc dec into keeps" "text_encode E = enc" "encodeInto E = into"
  shows "provides (wlan_debug_imports E) (string_getter E trap enc) wlan_debug_string_getters"
  unfolding wlan_debug_string_getters_def map_append provides_append
  by (intro conjI provides_part [OF wlan_debug_string_getters_3 [OF assms]] provides_part [OF wlan_debug_string_getters_4 [OF assms]] provides_part [OF wlan_debug_string_getters_5 [OF assms]])
     (auto simp: wlan_debug_imports_def)

text \<open>The imports that make a closure, with its destructor and its adapter.\<close>

definition wlan_debug_closures :: "(string \<times> js_val \<times> string) list" where
  "wlan_debug_closures = [(''__wbindgen_cast_0000000000000001'', Export ''wasm_bindgen__closure__destroy__h9f355aeb9ddcb8e7'', ''wasm_bindgen__convert__closures_____invoke__h705442ba5fd6af6f''),
       (''__wbindgen_cast_0000000000000002'', Export ''wasm_bindgen__closure__destroy__h134d0c2aa920e56d'', ''wasm_bindgen__convert__closures_____invoke__h6d25d05bc9ceff60''),
       (''__wbindgen_cast_0000000000000003'', Export ''wasm_bindgen__closure__destroy__h95f19d01a36739ae'', ''wasm_bindgen__convert__closures_____invoke__hca206b6078dfbc56''),
       (''__wbindgen_cast_0000000000000004'', Export ''wasm_bindgen__closure__destroy__h48f27f14ffdc59fa'', ''wasm_bindgen__convert__closures_____invoke__h65ce2db5fdf0eedf''),
       (''__wbindgen_cast_0000000000000005'', Export ''wasm_bindgen__closure__destroy__h8f547915c018ff00'', ''wasm_bindgen__convert__closures_____invoke__h4b2ba69449b74e62''),
       (''__wbindgen_cast_0000000000000006'', Export ''wasm_bindgen__closure__destroy__h702817896ba26f41'', ''wasm_bindgen__convert__closures_____invoke__h1a6d232d156b5320'')]"

lemma wlan_debug_closures_5:
  "provides (wlan_debug_imports_5 E) (closure_maker (wlan_debug_adapters E))
       [(''__wbindgen_cast_0000000000000001'', Export ''wasm_bindgen__closure__destroy__h9f355aeb9ddcb8e7'', ''wasm_bindgen__convert__closures_____invoke__h705442ba5fd6af6f''),
       (''__wbindgen_cast_0000000000000002'', Export ''wasm_bindgen__closure__destroy__h134d0c2aa920e56d'', ''wasm_bindgen__convert__closures_____invoke__h6d25d05bc9ceff60''),
       (''__wbindgen_cast_0000000000000003'', Export ''wasm_bindgen__closure__destroy__h95f19d01a36739ae'', ''wasm_bindgen__convert__closures_____invoke__hca206b6078dfbc56''),
       (''__wbindgen_cast_0000000000000004'', Export ''wasm_bindgen__closure__destroy__h48f27f14ffdc59fa'', ''wasm_bindgen__convert__closures_____invoke__h65ce2db5fdf0eedf''),
       (''__wbindgen_cast_0000000000000005'', Export ''wasm_bindgen__closure__destroy__h8f547915c018ff00'', ''wasm_bindgen__convert__closures_____invoke__h4b2ba69449b74e62''),
       (''__wbindgen_cast_0000000000000006'', Export ''wasm_bindgen__closure__destroy__h702817896ba26f41'', ''wasm_bindgen__convert__closures_____invoke__h1a6d232d156b5320'')]"
  by (simp add: provides_def wlan_debug_imports_5_def closure_maker_fn wlan_debug_adapters_def)

lemma wlan_debug_closures_provided:
  "provides (wlan_debug_imports E) (closure_maker (wlan_debug_adapters E)) wlan_debug_closures"
  unfolding wlan_debug_closures_def map_append provides_append
  by (intro conjI provides_part [OF wlan_debug_closures_5])
     (auto simp: wlan_debug_imports_def)

end
