(* ===== verification/Wgpu_Imports.thy ===== *)
theory Wgpu_Imports
  imports Import_Table
begin

text \<open>
  The import object of \<^verbatim>\<open>src/examples/wgpu/dist/loopback-65daf9cf8bd0f5a7.js\<close>: its enumerations,
  the adapters of its closures and every import function, in the order of the source. The list is cut
  into consecutive parts.
\<close>

section \<open>Enumerations\<close>

definition wgpu_enum_GpuAddressMode :: "string list" where
  "wgpu_enum_GpuAddressMode = [''clamp-to-edge'', ''repeat'', ''mirror-repeat'']"

definition wgpu_enum_GpuBlendFactor :: "string list" where
  "wgpu_enum_GpuBlendFactor = [''zero'', ''one'', ''src'', ''one-minus-src'', ''src-alpha'',
       ''one-minus-src-alpha'', ''dst'', ''one-minus-dst'', ''dst-alpha'', ''one-minus-dst-alpha'',
       ''src-alpha-saturated'', ''constant'', ''one-minus-constant'', ''src1'', ''one-minus-src1'',
       ''src1-alpha'', ''one-minus-src1-alpha'']"

definition wgpu_enum_GpuBlendOperation :: "string list" where
  "wgpu_enum_GpuBlendOperation = [''add'', ''subtract'', ''reverse-subtract'', ''min'', ''max'']"

definition wgpu_enum_GpuBufferBindingType :: "string list" where
  "wgpu_enum_GpuBufferBindingType = [''uniform'', ''storage'', ''read-only-storage'']"

definition wgpu_enum_GpuCompareFunction :: "string list" where
  "wgpu_enum_GpuCompareFunction = [''never'', ''less'', ''equal'', ''less-equal'', ''greater'',
       ''not-equal'', ''greater-equal'', ''always'']"

definition wgpu_enum_GpuCullMode :: "string list" where
  "wgpu_enum_GpuCullMode = [''none'', ''front'', ''back'']"

definition wgpu_enum_GpuDeviceLostReason :: "string list" where
  "wgpu_enum_GpuDeviceLostReason = [''unknown'', ''destroyed'']"

definition wgpu_enum_GpuErrorFilter :: "string list" where
  "wgpu_enum_GpuErrorFilter = [''validation'', ''out-of-memory'', ''internal'']"

definition wgpu_enum_GpuFilterMode :: "string list" where
  "wgpu_enum_GpuFilterMode = [''nearest'', ''linear'']"

definition wgpu_enum_GpuFrontFace :: "string list" where
  "wgpu_enum_GpuFrontFace = [''ccw'', ''cw'']"

definition wgpu_enum_GpuIndexFormat :: "string list" where
  "wgpu_enum_GpuIndexFormat = [''uint16'', ''uint32'']"

definition wgpu_enum_GpuLoadOp :: "string list" where
  "wgpu_enum_GpuLoadOp = [''load'', ''clear'']"

definition wgpu_enum_GpuMipmapFilterMode :: "string list" where
  "wgpu_enum_GpuMipmapFilterMode = [''nearest'', ''linear'']"

definition wgpu_enum_GpuPowerPreference :: "string list" where
  "wgpu_enum_GpuPowerPreference = [''low-power'', ''high-performance'']"

definition wgpu_enum_GpuPrimitiveTopology :: "string list" where
  "wgpu_enum_GpuPrimitiveTopology = [''point-list'', ''line-list'', ''line-strip'', ''triangle-list'',
       ''triangle-strip'']"

definition wgpu_enum_GpuQueryType :: "string list" where
  "wgpu_enum_GpuQueryType = [''occlusion'', ''timestamp'']"

definition wgpu_enum_GpuSamplerBindingType :: "string list" where
  "wgpu_enum_GpuSamplerBindingType = [''filtering'', ''non-filtering'', ''comparison'']"

definition wgpu_enum_GpuStencilOperation :: "string list" where
  "wgpu_enum_GpuStencilOperation = [''keep'', ''zero'', ''replace'', ''invert'', ''increment-clamp'',
       ''decrement-clamp'', ''increment-wrap'', ''decrement-wrap'']"

definition wgpu_enum_GpuStorageTextureAccess :: "string list" where
  "wgpu_enum_GpuStorageTextureAccess = [''write-only'', ''read-only'', ''read-write'']"

definition wgpu_enum_GpuStoreOp :: "string list" where
  "wgpu_enum_GpuStoreOp = [''store'', ''discard'']"

definition wgpu_enum_GpuTextureAspect :: "string list" where
  "wgpu_enum_GpuTextureAspect = [''all'', ''stencil-only'', ''depth-only'']"

definition wgpu_enum_GpuTextureDimension :: "string list" where
  "wgpu_enum_GpuTextureDimension = [''1d'', ''2d'', ''3d'']"

definition wgpu_enum_GpuTextureFormat :: "string list" where
  "wgpu_enum_GpuTextureFormat = [''r8unorm'', ''r8snorm'', ''r8uint'', ''r8sint'', ''r16uint'', ''r16sint'',
       ''r16float'', ''rg8unorm'', ''rg8snorm'', ''rg8uint'', ''rg8sint'', ''r32uint'', ''r32sint'',
       ''r32float'', ''rg16uint'', ''rg16sint'', ''rg16float'', ''rgba8unorm'', ''rgba8unorm-srgb'',
       ''rgba8snorm'', ''rgba8uint'', ''rgba8sint'', ''bgra8unorm'', ''bgra8unorm-srgb'', ''rgb9e5ufloat'',
       ''rgb10a2uint'', ''rgb10a2unorm'', ''rg11b10ufloat'', ''rg32uint'', ''rg32sint'', ''rg32float'',
       ''rgba16uint'', ''rgba16sint'', ''rgba16float'', ''rgba32uint'', ''rgba32sint'', ''rgba32float'',
       ''stencil8'', ''depth16unorm'', ''depth24plus'', ''depth24plus-stencil8'', ''depth32float'',
       ''depth32float-stencil8'', ''bc1-rgba-unorm'', ''bc1-rgba-unorm-srgb'', ''bc2-rgba-unorm'',
       ''bc2-rgba-unorm-srgb'', ''bc3-rgba-unorm'', ''bc3-rgba-unorm-srgb'', ''bc4-r-unorm'',
       ''bc4-r-snorm'', ''bc5-rg-unorm'', ''bc5-rg-snorm'', ''bc6h-rgb-ufloat'', ''bc6h-rgb-float'',
       ''bc7-rgba-unorm'', ''bc7-rgba-unorm-srgb'', ''etc2-rgb8unorm'', ''etc2-rgb8unorm-srgb'',
       ''etc2-rgb8a1unorm'', ''etc2-rgb8a1unorm-srgb'', ''etc2-rgba8unorm'', ''etc2-rgba8unorm-srgb'',
       ''eac-r11unorm'', ''eac-r11snorm'', ''eac-rg11unorm'', ''eac-rg11snorm'', ''astc-4x4-unorm'',
       ''astc-4x4-unorm-srgb'', ''astc-5x4-unorm'', ''astc-5x4-unorm-srgb'', ''astc-5x5-unorm'',
       ''astc-5x5-unorm-srgb'', ''astc-6x5-unorm'', ''astc-6x5-unorm-srgb'', ''astc-6x6-unorm'',
       ''astc-6x6-unorm-srgb'', ''astc-8x5-unorm'', ''astc-8x5-unorm-srgb'', ''astc-8x6-unorm'',
       ''astc-8x6-unorm-srgb'', ''astc-8x8-unorm'', ''astc-8x8-unorm-srgb'', ''astc-10x5-unorm'',
       ''astc-10x5-unorm-srgb'', ''astc-10x6-unorm'', ''astc-10x6-unorm-srgb'', ''astc-10x8-unorm'',
       ''astc-10x8-unorm-srgb'', ''astc-10x10-unorm'', ''astc-10x10-unorm-srgb'', ''astc-12x10-unorm'',
       ''astc-12x10-unorm-srgb'', ''astc-12x12-unorm'', ''astc-12x12-unorm-srgb'']"

definition wgpu_enum_GpuTextureSampleType :: "string list" where
  "wgpu_enum_GpuTextureSampleType = [''float'', ''unfilterable-float'', ''depth'', ''sint'', ''uint'']"

definition wgpu_enum_GpuTextureViewDimension :: "string list" where
  "wgpu_enum_GpuTextureViewDimension = [''1d'', ''2d'', ''2d-array'', ''cube'', ''cube-array'', ''3d'']"

definition wgpu_enum_GpuVertexFormat :: "string list" where
  "wgpu_enum_GpuVertexFormat = [''uint8'', ''uint8x2'', ''uint8x4'', ''sint8'', ''sint8x2'', ''sint8x4'',
       ''unorm8'', ''unorm8x2'', ''unorm8x4'', ''snorm8'', ''snorm8x2'', ''snorm8x4'', ''uint16'',
       ''uint16x2'', ''uint16x4'', ''sint16'', ''sint16x2'', ''sint16x4'', ''unorm16'', ''unorm16x2'',
       ''unorm16x4'', ''snorm16'', ''snorm16x2'', ''snorm16x4'', ''float16'', ''float16x2'', ''float16x4'',
       ''float32'', ''float32x2'', ''float32x3'', ''float32x4'', ''uint32'', ''uint32x2'', ''uint32x3'',
       ''uint32x4'', ''sint32'', ''sint32x2'', ''sint32x3'', ''sint32x4'', ''unorm10-10-10-2'',
       ''unorm8x4-bgra'']"

definition wgpu_enum_GpuVertexStepMode :: "string list" where
  "wgpu_enum_GpuVertexStepMode = [''vertex'', ''instance'']"

section \<open>Adapters of the closures\<close>

definition wgpu_adapters :: "'w js_env \<Rightarrow> 'w import_table" where
  "wgpu_adapters E = [
     (''__wbg_adapter_30'', fn3 (\<lambda>arg0 arg1 arg2. js_do (wasm_call E ''closure566_externref_shim''
       [arg0, arg1, arg2]))),
     (''__wbg_adapter_33'', fn3 (\<lambda>arg0 arg1 arg2. js_do (wasm_call E ''closure583_externref_shim''
       [arg0, arg1, arg2])))]"

section \<open>Imports\<close>

definition wgpu_imports_1 :: "'w js_env \<Rightarrow> 'w import_table" where
  "wgpu_imports_1 E = [
     (''__wbg_Window_012086356a161dce'', fn1 (\<lambda>arg0. js_member E arg0 ''Window'')),
     (''__wbg_WorkerGlobalScope_dbe19b83176b742b'', fn1 (\<lambda>arg0. js_member E arg0
       ''WorkerGlobalScope'')),
     (''__wbg_beginComputePass_eb489d88a5327674'', fn2 (\<lambda>arg0 arg1. js_method E arg0
       ''beginComputePass'' [js_return arg1])),
     (''__wbg_beginRenderPass_350345dc19419939'', fn2 (\<lambda>arg0 arg1. handleError E (js_method E arg0
       ''beginRenderPass'' [js_return arg1]))),
     (''__wbg_buffer_09165b52af8c5237'', fn1 (\<lambda>arg0. js_member E arg0 ''buffer'')),
     (''__wbg_buffer_609cc3eee51ed158'', fn1 (\<lambda>arg0. js_member E arg0 ''buffer'')),
     (''__wbg_call_672a4d21634d4a24'', fn2 (\<lambda>arg0 arg1. handleError E (js_method E arg0 ''call''
       [js_return arg1]))),
     (''__wbg_clearBuffer_227e90371e1229a9'', fn3 (\<lambda>arg0 arg1 arg2. js_do (js_method E arg0
       ''clearBuffer'' [js_return arg1, js_return arg2]))),
     (''__wbg_clearBuffer_f624f44ffac88a65'', fn4 (\<lambda>arg0 arg1 arg2 arg3. js_do (js_method E arg0
       ''clearBuffer'' [js_return arg1, js_return arg2, js_return arg3]))),
     (''__wbg_copyBufferToBuffer_6fe483ce4a07f7c8'', fn6 (\<lambda>arg0 arg1 arg2 arg3 arg4 arg5.
       handleError E (js_do (js_method E arg0 ''copyBufferToBuffer'' [js_return arg1, js_return arg2,
       js_return arg3, js_return arg4, js_return arg5])))),
     (''__wbg_copyBufferToTexture_d594d5485ac49f52'', fn4 (\<lambda>arg0 arg1 arg2 arg3. handleError E
       (js_do (js_method E arg0 ''copyBufferToTexture'' [js_return arg1, js_return arg2, js_return arg3])))),
     (''__wbg_copyExternalImageToTexture_7c860a6f9d3d8b4e'', fn4 (\<lambda>arg0 arg1 arg2 arg3. handleError
       E (js_do (js_method E arg0 ''copyExternalImageToTexture'' [js_return arg1, js_return arg2, js_return
       arg3])))),
     (''__wbg_copyTextureToBuffer_569bd20852d0378a'', fn4 (\<lambda>arg0 arg1 arg2 arg3. handleError E
       (js_do (js_method E arg0 ''copyTextureToBuffer'' [js_return arg1, js_return arg2, js_return arg3])))),
     (''__wbg_copyTextureToTexture_f6b42e055f9f6a97'', fn4 (\<lambda>arg0 arg1 arg2 arg3. handleError E
       (js_do (js_method E arg0 ''copyTextureToTexture'' [js_return arg1, js_return arg2, js_return
       arg3])))),
     (''__wbg_createBindGroupLayout_ccaa5d2aa2a2ae17'', fn2 (\<lambda>arg0 arg1. handleError E (js_method E
       arg0 ''createBindGroupLayout'' [js_return arg1]))),
     (''__wbg_createBindGroup_799a4c63deccf40c'', fn2 (\<lambda>arg0 arg1. js_method E arg0
       ''createBindGroup'' [js_return arg1])),
     (''__wbg_createBuffer_a19c4c09aa7e61c6'', fn2 (\<lambda>arg0 arg1. handleError E (js_method E arg0
       ''createBuffer'' [js_return arg1]))),
     (''__wbg_createCommandEncoder_3c9ad92fb9f1235d'', fn2 (\<lambda>arg0 arg1. js_method E arg0
       ''createCommandEncoder'' [js_return arg1])),
     (''__wbg_createComputePipeline_5bc685ade9b4da65'', fn2 (\<lambda>arg0 arg1. js_method E arg0
       ''createComputePipeline'' [js_return arg1])),
     (''__wbg_createPipelineLayout_0718a3eb9884dcfb'', fn2 (\<lambda>arg0 arg1. js_method E arg0
       ''createPipelineLayout'' [js_return arg1])),
     (''__wbg_createQuerySet_d6541ea3488cdff3'', fn2 (\<lambda>arg0 arg1. handleError E (js_method E arg0
       ''createQuerySet'' [js_return arg1]))),
     (''__wbg_createRenderBundleEncoder_9791a47b62d9307c'', fn2 (\<lambda>arg0 arg1. handleError E
       (js_method E arg0 ''createRenderBundleEncoder'' [js_return arg1]))),
     (''__wbg_createRenderPipeline_4429522c4a8eaaf8'', fn2 (\<lambda>arg0 arg1. handleError E (js_method E
       arg0 ''createRenderPipeline'' [js_return arg1]))),
     (''__wbg_createSampler_8f8704d5382370c3'', fn2 (\<lambda>arg0 arg1. js_method E arg0 ''createSampler''
       [js_return arg1])),
     (''__wbg_createShaderModule_9e08b1b6ae277929'', fn2 (\<lambda>arg0 arg1. js_method E arg0
       ''createShaderModule'' [js_return arg1])),
     (''__wbg_createTexture_96a508752fa02d41'', fn2 (\<lambda>arg0 arg1. handleError E (js_method E arg0
       ''createTexture'' [js_return arg1]))),
     (''__wbg_destroy_828657127ee78c34'', fn1 (\<lambda>arg0. js_do (js_method E arg0 ''destroy'' []))),
     (''__wbg_destroy_c85f57bff04f76c0'', fn1 (\<lambda>arg0. js_do (js_method E arg0 ''destroy'' []))),
     (''__wbg_dispatchWorkgroupsIndirect_a08a26c640f286e2'', fn3 (\<lambda>arg0 arg1 arg2. js_do (js_method
       E arg0 ''dispatchWorkgroupsIndirect'' [js_return arg1, js_return arg2]))),
     (''__wbg_dispatchWorkgroups_fad6ffff4d7bf751'', fn4 (\<lambda>arg0 arg1 arg2 arg3. js_do (js_method E
       arg0 ''dispatchWorkgroups'' [js_return (js_u32 arg1), js_return (js_u32 arg2), js_return (js_u32
       arg3)]))),
     (''__wbg_document_d249400bd7bd996d'', fn1 (\<lambda>arg0. js_let (js_member E arg0 ''document'')
       (ret_opt_ref E))),
     (''__wbg_done_769e5ede4b31c67b'', fn1 (\<lambda>arg0. js_member E arg0 ''done'')),
     (''__wbg_end_4afeb869c57e2895'', fn1 (\<lambda>arg0. js_do (js_method E arg0 ''end'' []))),
     (''__wbg_error_7534b8e9a36f1ab4'', fn2 (\<lambda>arg0 arg1. with_deferred E [(arg0, arg1)] (js_static E
       ''console'' ''error'' [js_str E arg0 arg1]))),
     (''__wbg_error_91a90ac8fc4305b8'', fn1 (\<lambda>arg0. js_member E arg0 ''error'')),
     (''__wbg_features_06c1298a671dd8a3'', fn1 (\<lambda>arg0. js_member E arg0 ''features'')),
     (''__wbg_features_ea2949142684633e'', fn1 (\<lambda>arg0. js_member E arg0 ''features'')),
     (''__wbg_finish_0169ed1c762f9db3'', fn1 (\<lambda>arg0. js_method E arg0 ''finish'' []))]"

definition wgpu_imports_2 :: "'w js_env \<Rightarrow> 'w import_table" where
  "wgpu_imports_2 E = [
     (''__wbg_finish_10ad953096805038'', fn2 (\<lambda>arg0 arg1. js_method E arg0 ''finish'' [js_return
       arg1])),
     (''__wbg_getBindGroupLayout_40cd8989f50be5e8'', fn2 (\<lambda>arg0 arg1. js_method E arg0
       ''getBindGroupLayout'' [js_return (js_u32 arg1)])),
     (''__wbg_getContext_e9cf379449413580'', fn3 (\<lambda>arg0 arg1 arg2. handleError E (js_let (js_method
       E arg0 ''getContext'' [js_str E arg1 arg2]) (ret_opt_ref E)))),
     (''__wbg_getContext_f65a0debd1e8f8e8'', fn3 (\<lambda>arg0 arg1 arg2. handleError E (js_let (js_method
       E arg0 ''getContext'' [js_str E arg1 arg2]) (ret_opt_ref E)))),
     (''__wbg_getMappedRange_6d2048e506f70687'', fn3 (\<lambda>arg0 arg1 arg2. handleError E (js_method E
       arg0 ''getMappedRange'' [js_return arg1, js_return arg2]))),
     (''__wbg_getRandomValues_3c9c0d586e575a16'', fn2 (\<lambda>arg0 arg1. handleError E (js_do (js_let
       (js_global E ''globalThis'') (\<lambda>g. js_let (js_member E g ''crypto'') (\<lambda>c. js_method E
       c ''getRandomValues'' [getArrayU8FromWasm0 (js_number arg0) (js_number arg1)])))))),
     (''__wbg_get_e27dfaeb6f46bd45'', fn2 (\<lambda>arg0 arg1. js_let (js_elem E arg0 (to_uint32 (js_number
       arg1))) (ret_opt_ref E))),
     (''__wbg_gpu_9190c45d483af352'', fn1 (\<lambda>arg0. js_member E arg0 ''gpu'')),
     (''__wbg_has_bd26e8330abc96fb'', fn3 (\<lambda>arg0 arg1 arg2. js_method E arg0 ''has'' [js_str E arg1
       arg2])),
     (''__wbg_instanceof_GpuAdapter_0e209d47dbec389c'', fn1 (\<lambda>arg0. js_instanceof E arg0
       ''GPUAdapter'')),
     (''__wbg_instanceof_GpuCanvasContext_e63ee96c5bd33b0b'', fn1 (\<lambda>arg0. js_instanceof E arg0
       ''GPUCanvasContext'')),
     (''__wbg_instanceof_GpuDeviceLostInfo_f8cb5633c29eedc6'', fn1 (\<lambda>arg0. js_instanceof E arg0
       ''GPUDeviceLostInfo'')),
     (''__wbg_instanceof_GpuOutOfMemoryError_6f18f6008848583c'', fn1 (\<lambda>arg0. js_instanceof E arg0
       ''GPUOutOfMemoryError'')),
     (''__wbg_instanceof_GpuValidationError_957f7b58d3996e29'', fn1 (\<lambda>arg0. js_instanceof E arg0
       ''GPUValidationError'')),
     (''__wbg_instanceof_Object_7f2dcef8f78644a4'', fn1 (\<lambda>arg0. js_instanceof E arg0 ''Object'')),
     (''__wbg_instanceof_Window_def73ea0955fc569'', fn1 (\<lambda>arg0. js_instanceof E arg0 ''Window'')),
     (''__wbg_keys_18bd91b10ade706b'', fn1 (\<lambda>arg0. js_method E arg0 ''keys'' [])),
     (''__wbg_label_1f84f92f09ba5b0a'', fn2 (\<lambda>arg0 arg1. js_let (js_member E arg1 ''label'')
       (ret_string E arg0))),
     (''__wbg_length_a446193dc22c12f8'', fn1 (\<lambda>arg0. js_member E arg0 ''length'')),
     (''__wbg_limits_b183be320685ed8f'', fn1 (\<lambda>arg0. js_member E arg0 ''limits'')),
     (''__wbg_limits_e57569af160aeddc'', fn1 (\<lambda>arg0. js_member E arg0 ''limits'')),
     (''__wbg_log_0cc1b7768397bcfe'', fn8 (\<lambda>arg0 arg1 arg2 arg3 arg4 arg5 arg6 arg7. with_deferred E
       [(arg0, arg1)] (js_static E ''console'' ''log'' [js_str E arg0 arg1, js_str E arg2 arg3, js_str E
       arg4 arg5, js_str E arg6 arg7]))),
     (''__wbg_log_cb9e190acc5753fb'', fn2 (\<lambda>arg0 arg1. with_deferred E [(arg0, arg1)] (js_static E
       ''console'' ''log'' [js_str E arg0 arg1])))]"

definition wgpu_imports_3 :: "'w js_env \<Rightarrow> 'w import_table" where
  "wgpu_imports_3 E = [
     (''__wbg_lost_42849e3dfd856dcf'', fn1 (\<lambda>arg0. js_member E arg0 ''lost'')),
     (''__wbg_mapAsync_6c6e4e801161924c'', fn4 (\<lambda>arg0 arg1 arg2 arg3. js_method E arg0 ''mapAsync''
       [js_return (js_u32 arg1), js_return arg2, js_return arg3])),
     (''__wbg_mark_7438147ce31e9d4b'', fn2 (\<lambda>arg0 arg1. js_do (js_static E ''performance'' ''mark''
       [js_str E arg0 arg1]))),
     (''__wbg_maxBindGroups_38117bf16c093492'', fn1 (\<lambda>arg0. js_member E arg0 ''maxBindGroups'')),
     (''__wbg_maxBindingsPerBindGroup_4c83aa7d3b0f0bf9'', fn1 (\<lambda>arg0. js_member E arg0
       ''maxBindingsPerBindGroup'')),
     (''__wbg_maxBufferSize_0476342fcdb63944'', fn1 (\<lambda>arg0. js_member E arg0 ''maxBufferSize'')),
     (''__wbg_maxColorAttachmentBytesPerSample_dd065943c2c074c9'', fn1 (\<lambda>arg0. js_member E arg0
       ''maxColorAttachmentBytesPerSample'')),
     (''__wbg_maxColorAttachments_cdd33ae159d907c3'', fn1 (\<lambda>arg0. js_member E arg0
       ''maxColorAttachments'')),
     (''__wbg_maxComputeInvocationsPerWorkgroup_f18a0e7cc360a4f2'', fn1 (\<lambda>arg0. js_member E arg0
       ''maxComputeInvocationsPerWorkgroup'')),
     (''__wbg_maxComputeWorkgroupSizeX_c8a05f62d09395f4'', fn1 (\<lambda>arg0. js_member E arg0
       ''maxComputeWorkgroupSizeX'')),
     (''__wbg_maxComputeWorkgroupSizeY_749851b448366c6b'', fn1 (\<lambda>arg0. js_member E arg0
       ''maxComputeWorkgroupSizeY'')),
     (''__wbg_maxComputeWorkgroupSizeZ_c53cc29df955ae5a'', fn1 (\<lambda>arg0. js_member E arg0
       ''maxComputeWorkgroupSizeZ'')),
     (''__wbg_maxComputeWorkgroupStorageSize_1b473a4049c8b908'', fn1 (\<lambda>arg0. js_member E arg0
       ''maxComputeWorkgroupStorageSize'')),
     (''__wbg_maxComputeWorkgroupsPerDimension_9ff46dd341f1489f'', fn1 (\<lambda>arg0. js_member E arg0
       ''maxComputeWorkgroupsPerDimension'')),
     (''__wbg_maxDynamicStorageBuffersPerPipelineLayout_6f2531c8b3946fe7'', fn1 (\<lambda>arg0. js_member E
       arg0 ''maxDynamicStorageBuffersPerPipelineLayout'')),
     (''__wbg_maxDynamicUniformBuffersPerPipelineLayout_6532ba0f61691f92'', fn1 (\<lambda>arg0. js_member E
       arg0 ''maxDynamicUniformBuffersPerPipelineLayout'')),
     (''__wbg_maxSampledTexturesPerShaderStage_1e300c1893a44019'', fn1 (\<lambda>arg0. js_member E arg0
       ''maxSampledTexturesPerShaderStage'')),
     (''__wbg_maxSamplersPerShaderStage_b2f4886a8bf432e9'', fn1 (\<lambda>arg0. js_member E arg0
       ''maxSamplersPerShaderStage'')),
     (''__wbg_maxStorageBufferBindingSize_1664cce2578d8011'', fn1 (\<lambda>arg0. js_member E arg0
       ''maxStorageBufferBindingSize'')),
     (''__wbg_maxStorageBuffersPerShaderStage_41c3a49271bb26d0'', fn1 (\<lambda>arg0. js_member E arg0
       ''maxStorageBuffersPerShaderStage'')),
     (''__wbg_maxStorageTexturesPerShaderStage_090ef077886867b7'', fn1 (\<lambda>arg0. js_member E arg0
       ''maxStorageTexturesPerShaderStage'')),
     (''__wbg_maxTextureArrayLayers_6ad2737805de682c'', fn1 (\<lambda>arg0. js_member E arg0
       ''maxTextureArrayLayers'')),
     (''__wbg_maxTextureDimension1D_f034b80a9155ce7a'', fn1 (\<lambda>arg0. js_member E arg0
       ''maxTextureDimension1D'')),
     (''__wbg_maxTextureDimension2D_97d03cbc330a1de6'', fn1 (\<lambda>arg0. js_member E arg0
       ''maxTextureDimension2D'')),
     (''__wbg_maxTextureDimension3D_9cb354a662c690a7'', fn1 (\<lambda>arg0. js_member E arg0
       ''maxTextureDimension3D'')),
     (''__wbg_maxUniformBufferBindingSize_376fb4aa02284b9b'', fn1 (\<lambda>arg0. js_member E arg0
       ''maxUniformBufferBindingSize'')),
     (''__wbg_maxUniformBuffersPerShaderStage_77c6612a2878a56b'', fn1 (\<lambda>arg0. js_member E arg0
       ''maxUniformBuffersPerShaderStage'')),
     (''__wbg_maxVertexAttributes_0a768d9af99844e2'', fn1 (\<lambda>arg0. js_member E arg0
       ''maxVertexAttributes'')),
     (''__wbg_maxVertexBufferArrayStride_3c84c7f70e4ce587'', fn1 (\<lambda>arg0. js_member E arg0
       ''maxVertexBufferArrayStride'')),
     (''__wbg_maxVertexBuffers_ddcf4555a965d888'', fn1 (\<lambda>arg0. js_member E arg0
       ''maxVertexBuffers'')),
     (''__wbg_measure_fb7825c11612c823'', fn4 (\<lambda>arg0 arg1 arg2 arg3. handleError E (with_deferred E
       [(arg0, arg1), (arg2, arg3)] (js_static E ''performance'' ''measure'' [js_str E arg0 arg1, js_str E
       arg2 arg3])))),
     (''__wbg_message_4002df87504c18de'', fn2 (\<lambda>arg0 arg1. js_let (js_member E arg1 ''message'')
       (ret_string E arg0))),
     (''__wbg_message_a3614fb4a9a8bcbe'', fn2 (\<lambda>arg0 arg1. js_let (js_member E arg1 ''message'')
       (ret_string E arg0)))]"

definition wgpu_imports_4 :: "'w js_env \<Rightarrow> 'w import_table" where
  "wgpu_imports_4 E = [
     (''__wbg_minStorageBufferOffsetAlignment_630d33ba02e6ace7'', fn1 (\<lambda>arg0. js_member E arg0
       ''minStorageBufferOffsetAlignment'')),
     (''__wbg_minUniformBufferOffsetAlignment_ed951280a2dc56cd'', fn1 (\<lambda>arg0. js_member E arg0
       ''minUniformBufferOffsetAlignment'')),
     (''__wbg_navigator_0a9bf1120e24fec2'', fn1 (\<lambda>arg0. js_member E arg0 ''navigator'')),
     (''__wbg_navigator_1577371c070c8947'', fn1 (\<lambda>arg0. js_member E arg0 ''navigator'')),
     (''__wbg_new_405e22f390576ce2'', fn0 (js_new E ''Object'' [])),
     (''__wbg_new_78feb108b6472713'', fn0 (js_new E ''Array'' [])),
     (''__wbg_new_8a6f238a6ece86ea'', fn0 (js_new_error (js_return []))),
     (''__wbg_new_a12002a7f91c75be'', fn1 (\<lambda>arg0. js_new E ''Uint8Array'' [js_return arg0])),
     (''__wbg_newnoargs_105ed471475aaf50'', fn2 (\<lambda>arg0 arg1. js_new E ''Function'' [js_str E arg0
       arg1])),
     (''__wbg_newwithbyteoffsetandlength_d97e637ebe145a9a'', fn3 (\<lambda>arg0 arg1 arg2. js_new E
       ''Uint8Array'' [js_return arg0, js_return (js_u32 arg1), js_return (js_u32 arg2)])),
     (''__wbg_next_6574e1a8a62d1055'', fn1 (\<lambda>arg0. handleError E (js_method E arg0 ''next'' []))),
     (''__wbg_popErrorScope_cbcf53d8c60ed58a'', fn1 (\<lambda>arg0. js_method E arg0 ''popErrorScope'' [])),
     (''__wbg_pushErrorScope_ebaa0c6ee35e17d1'', fn2 (\<lambda>arg0 arg1. js_do (js_method E arg0
       ''pushErrorScope'' [js_return (enum_at wgpu_enum_GpuErrorFilter arg1)]))),
     (''__wbg_push_737cfc8c1432c2c6'', fn2 (\<lambda>arg0 arg1. js_method E arg0 ''push'' [js_return arg1])),
     (''__wbg_querySelectorAll_40998fd748f057ef'', fn3 (\<lambda>arg0 arg1 arg2. handleError E (js_method E
       arg0 ''querySelectorAll'' [js_str E arg1 arg2]))),
     (''__wbg_queueMicrotask_97d92b4fcc8a61c5'', fn1 (\<lambda>arg0. js_do (js_call E ''queueMicrotask''
       [js_return arg0]))),
     (''__wbg_queueMicrotask_d3219def82552485'', fn1 (\<lambda>arg0. js_member E arg0 ''queueMicrotask'')),
     (''__wbg_queue_d89a02421bda2b42'', fn1 (\<lambda>arg0. js_member E arg0 ''queue'')),
     (''__wbg_reason_5ca511c634452792'', fn1 (\<lambda>arg0. js_let (js_member E arg0 ''reason'')
       (\<lambda>ret. js_return (enum_index wgpu_enum_GpuDeviceLostReason 3 ret)))),
     (''__wbg_requestAdapter_aa6a84b375129705'', fn2 (\<lambda>arg0 arg1. js_method E arg0
       ''requestAdapter'' [js_return arg1])),
     (''__wbg_requestDevice_c5987173ae76ad9e'', fn2 (\<lambda>arg0 arg1. js_method E arg0 ''requestDevice''
       [js_return arg1])),
     (''__wbg_resolveQuerySet_73c30ae026708ae3'', fn6 (\<lambda>arg0 arg1 arg2 arg3 arg4 arg5. js_do
       (js_method E arg0 ''resolveQuerySet'' [js_return arg1, js_return (js_u32 arg2), js_return (js_u32
       arg3), js_return arg4, js_return (js_u32 arg5)]))),
     (''__wbg_resolve_4851785c9c5f573d'', fn1 (\<lambda>arg0. js_static E ''Promise'' ''resolve'' [js_return
       arg0])),
     (''__wbg_setBindGroup_ab1792567210b45e'', fn3 (\<lambda>arg0 arg1 arg2. js_do (js_method E arg0
       ''setBindGroup'' [js_return (js_u32 arg1), js_return arg2]))),
     (''__wbg_setBindGroup_fc1389bb99633d8c'', fn7 (\<lambda>arg0 arg1 arg2 arg3 arg4 arg5 arg6. handleError
       E (js_do (js_method E arg0 ''setBindGroup'' [js_return (js_u32 arg1), js_return arg2,
       getArrayU32FromWasm0 (js_number arg3) (js_number arg4), js_return arg5, js_return (js_u32 arg6)])))),
     (''__wbg_setPipeline_87ad5324dddd196b'', fn2 (\<lambda>arg0 arg1. js_do (js_method E arg0
       ''setPipeline'' [js_return arg1]))),
     (''__wbg_set_65595bdd868b3009'', fn3 (\<lambda>arg0 arg1 arg2. js_do (js_method E arg0 ''set''
       [js_return arg1, js_return (js_u32 arg2)]))),
     (''__wbg_set_bb8cecf6a62b9f46'', fn3 (\<lambda>arg0 arg1 arg2. handleError E (js_static E ''Reflect''
       ''set'' [js_return arg0, js_return arg1, js_return arg2]))),
     (''__wbg_seta_e614a7cab362a0f6'', fn2 (\<lambda>arg0 arg1. js_assign E arg0 ''a'' (js_return arg1))),
     (''__wbg_setaccess_7a29a6624061bd22'', fn2 (\<lambda>arg0 arg1. js_assign E arg0 ''access'' (js_return
       (enum_at wgpu_enum_GpuStorageTextureAccess arg1)))),
     (''__wbg_setaddressmodeu_f9c59da53d82b182'', fn2 (\<lambda>arg0 arg1. js_assign E arg0 ''addressModeU''
       (js_return (enum_at wgpu_enum_GpuAddressMode arg1)))),
     (''__wbg_setaddressmodev_79f77a1d3b044c97'', fn2 (\<lambda>arg0 arg1. js_assign E arg0 ''addressModeV''
       (js_return (enum_at wgpu_enum_GpuAddressMode arg1)))),
     (''__wbg_setaddressmodew_18409dbb4043703c'', fn2 (\<lambda>arg0 arg1. js_assign E arg0 ''addressModeW''
       (js_return (enum_at wgpu_enum_GpuAddressMode arg1)))),
     (''__wbg_setalpha_f5ce555a0b46c02f'', fn2 (\<lambda>arg0 arg1. js_assign E arg0 ''alpha'' (js_return
       arg1))),
     (''__wbg_setalphatocoverageenabled_6831ffd3db78874a'', fn2 (\<lambda>arg0 arg1. js_assign E arg0
       ''alphaToCoverageEnabled'' (js_return (js_nonzero arg1)))),
     (''__wbg_setarraystride_a81326f8d942e90a'', fn2 (\<lambda>arg0 arg1. js_assign E arg0 ''arrayStride''
       (js_return arg1))),
     (''__wbg_setaspect_8da0cc41e9c723ce'', fn2 (\<lambda>arg0 arg1. js_assign E arg0 ''aspect'' (js_return
       (enum_at wgpu_enum_GpuTextureAspect arg1)))),
     (''__wbg_setattributes_a8815b2a94cbbd5d'', fn2 (\<lambda>arg0 arg1. js_assign E arg0 ''attributes''
       (js_return arg1))),
     (''__wbg_setb_6a3df80fce7389c4'', fn2 (\<lambda>arg0 arg1. js_assign E arg0 ''b'' (js_return arg1))),
     (''__wbg_setbeginningofpasswriteindex_bbb0050c1b81621d'', fn2 (\<lambda>arg0 arg1. js_assign E arg0
       ''beginningOfPassWriteIndex'' (js_return (js_u32 arg1)))),
     (''__wbg_setbeginningofpasswriteindex_db074583a3fde2ff'', fn2 (\<lambda>arg0 arg1. js_assign E arg0
       ''beginningOfPassWriteIndex'' (js_return (js_u32 arg1)))),
     (''__wbg_setbindgrouplayouts_a2670a6cfcb7c490'', fn2 (\<lambda>arg0 arg1. js_assign E arg0
       ''bindGroupLayouts'' (js_return arg1))),
     (''__wbg_setbinding_d47488349a99da1f'', fn2 (\<lambda>arg0 arg1. js_assign E arg0 ''binding''
       (js_return (js_u32 arg1))))]"

definition wgpu_imports_5 :: "'w js_env \<Rightarrow> 'w import_table" where
  "wgpu_imports_5 E = [
     (''__wbg_setbinding_f935678f007077c3'', fn2 (\<lambda>arg0 arg1. js_assign E arg0 ''binding''
       (js_return (js_u32 arg1)))),
     (''__wbg_setblend_5fff4fc1a8804e7b'', fn2 (\<lambda>arg0 arg1. js_assign E arg0 ''blend'' (js_return
       arg1))),
     (''__wbg_setbuffer_6b2d0975dd5b4804'', fn2 (\<lambda>arg0 arg1. js_assign E arg0 ''buffer'' (js_return
       arg1))),
     (''__wbg_setbuffer_8953e54ed1e614bf'', fn2 (\<lambda>arg0 arg1. js_assign E arg0 ''buffer'' (js_return
       arg1))),
     (''__wbg_setbuffer_b8d4b873f193738d'', fn2 (\<lambda>arg0 arg1. js_assign E arg0 ''buffer'' (js_return
       arg1))),
     (''__wbg_setbuffers_67cf19c4a2c975fe'', fn2 (\<lambda>arg0 arg1. js_assign E arg0 ''buffers''
       (js_return arg1))),
     (''__wbg_setbytesperrow_38a272f24fa45c75'', fn2 (\<lambda>arg0 arg1. js_assign E arg0 ''bytesPerRow''
       (js_return (js_u32 arg1)))),
     (''__wbg_setbytesperrow_f40ece00f6ad8093'', fn2 (\<lambda>arg0 arg1. js_assign E arg0 ''bytesPerRow''
       (js_return (js_u32 arg1)))),
     (''__wbg_setclearvalue_2f2afd13b6ecba90'', fn2 (\<lambda>arg0 arg1. js_assign E arg0 ''clearValue''
       (js_return arg1))),
     (''__wbg_setcode_0f3b7e02272be293'', fn3 (\<lambda>arg0 arg1 arg2. js_assign E arg0 ''code'' (js_str E
       arg1 arg2))),
     (''__wbg_setcolor_256b6f0175930e17'', fn2 (\<lambda>arg0 arg1. js_assign E arg0 ''color'' (js_return
       arg1))),
     (''__wbg_setcolorattachments_9c00dda5b4a96cf3'', fn2 (\<lambda>arg0 arg1. js_assign E arg0
       ''colorAttachments'' (js_return arg1))),
     (''__wbg_setcolorformats_edbfa0263edc4b45'', fn2 (\<lambda>arg0 arg1. js_assign E arg0 ''colorFormats''
       (js_return arg1))),
     (''__wbg_setcompare_11640e1237f574d1'', fn2 (\<lambda>arg0 arg1. js_assign E arg0 ''compare''
       (js_return (enum_at wgpu_enum_GpuCompareFunction arg1)))),
     (''__wbg_setcompare_63ca4199bc88569b'', fn2 (\<lambda>arg0 arg1. js_assign E arg0 ''compare''
       (js_return (enum_at wgpu_enum_GpuCompareFunction arg1)))),
     (''__wbg_setcompute_f3044d1d00931db2'', fn2 (\<lambda>arg0 arg1. js_assign E arg0 ''compute''
       (js_return arg1))),
     (''__wbg_setcount_3e7fbced19a28758'', fn2 (\<lambda>arg0 arg1. js_assign E arg0 ''count'' (js_return
       (js_u32 arg1)))),
     (''__wbg_setcount_83ad4bd80b61ff13'', fn2 (\<lambda>arg0 arg1. js_assign E arg0 ''count'' (js_return
       (js_u32 arg1)))),
     (''__wbg_setcullmode_17d54fcc4a1d899e'', fn2 (\<lambda>arg0 arg1. js_assign E arg0 ''cullMode''
       (js_return (enum_at wgpu_enum_GpuCullMode arg1)))),
     (''__wbg_setdepthbias_0b1e19c4eeb8bf9b'', fn2 (\<lambda>arg0 arg1. js_assign E arg0 ''depthBias''
       (js_return arg1))),
     (''__wbg_setdepthbiasclamp_a00c0504aa10e802'', fn2 (\<lambda>arg0 arg1. js_assign E arg0
       ''depthBiasClamp'' (js_return arg1))),
     (''__wbg_setdepthbiasslopescale_0c335ba5dd4159a6'', fn2 (\<lambda>arg0 arg1. js_assign E arg0
       ''depthBiasSlopeScale'' (js_return arg1))),
     (''__wbg_setdepthclearvalue_24a007bba21e50e4'', fn2 (\<lambda>arg0 arg1. js_assign E arg0
       ''depthClearValue'' (js_return arg1))),
     (''__wbg_setdepthcompare_379f582e7e2d6f8a'', fn2 (\<lambda>arg0 arg1. js_assign E arg0 ''depthCompare''
       (js_return (enum_at wgpu_enum_GpuCompareFunction arg1)))),
     (''__wbg_setdepthfailop_875b03aacfe7f3d7'', fn2 (\<lambda>arg0 arg1. js_assign E arg0 ''depthFailOp''
       (js_return (enum_at wgpu_enum_GpuStencilOperation arg1)))),
     (''__wbg_setdepthloadop_694e998dee78f58e'', fn2 (\<lambda>arg0 arg1. js_assign E arg0 ''depthLoadOp''
       (js_return (enum_at wgpu_enum_GpuLoadOp arg1)))),
     (''__wbg_setdepthorarraylayers_0d411b81883f9e4a'', fn2 (\<lambda>arg0 arg1. js_assign E arg0
       ''depthOrArrayLayers'' (js_return (js_u32 arg1)))),
     (''__wbg_setdepthreadonly_bad56bbbff6f7708'', fn2 (\<lambda>arg0 arg1. js_assign E arg0
       ''depthReadOnly'' (js_return (js_nonzero arg1)))),
     (''__wbg_setdepthreadonly_df26e44e0338852d'', fn2 (\<lambda>arg0 arg1. js_assign E arg0
       ''depthReadOnly'' (js_return (js_nonzero arg1)))),
     (''__wbg_setdepthstencil_a6ca739cea762217'', fn2 (\<lambda>arg0 arg1. js_assign E arg0 ''depthStencil''
       (js_return arg1))),
     (''__wbg_setdepthstencilattachment_6a1d2ba719cd889a'', fn2 (\<lambda>arg0 arg1. js_assign E arg0
       ''depthStencilAttachment'' (js_return arg1))),
     (''__wbg_setdepthstencilformat_798f0233342b8470'', fn2 (\<lambda>arg0 arg1. js_assign E arg0
       ''depthStencilFormat'' (js_return (enum_at wgpu_enum_GpuTextureFormat arg1)))),
     (''__wbg_setdepthstoreop_04c091c28c8cb198'', fn2 (\<lambda>arg0 arg1. js_assign E arg0 ''depthStoreOp''
       (js_return (enum_at wgpu_enum_GpuStoreOp arg1)))),
     (''__wbg_setdepthwriteenabled_72e1e785a5a5a262'', fn2 (\<lambda>arg0 arg1. js_assign E arg0
       ''depthWriteEnabled'' (js_return (js_nonzero arg1)))),
     (''__wbg_setdimension_0c4c84631949b62b'', fn2 (\<lambda>arg0 arg1. js_assign E arg0 ''dimension''
       (js_return (enum_at wgpu_enum_GpuTextureDimension arg1)))),
     (''__wbg_setdstfactor_f5aa0d40a8a46209'', fn2 (\<lambda>arg0 arg1. js_assign E arg0 ''dstFactor''
       (js_return (enum_at wgpu_enum_GpuBlendFactor arg1)))),
     (''__wbg_setendofpasswriteindex_82d6d163d760be28'', fn2 (\<lambda>arg0 arg1. js_assign E arg0
       ''endOfPassWriteIndex'' (js_return (js_u32 arg1)))),
     (''__wbg_setendofpasswriteindex_9df3c78cc7108787'', fn2 (\<lambda>arg0 arg1. js_assign E arg0
       ''endOfPassWriteIndex'' (js_return (js_u32 arg1)))),
     (''__wbg_setentries_31f9d7a61735820c'', fn2 (\<lambda>arg0 arg1. js_assign E arg0 ''entries''
       (js_return arg1))),
     (''__wbg_setentries_c4c1438ed3550798'', fn2 (\<lambda>arg0 arg1. js_assign E arg0 ''entries''
       (js_return arg1))),
     (''__wbg_setentrypoint_5fc49eccf7a2a917'', fn3 (\<lambda>arg0 arg1 arg2. js_assign E arg0
       ''entryPoint'' (js_str E arg1 arg2))),
     (''__wbg_setentrypoint_7a48e2fd45ce5242'', fn3 (\<lambda>arg0 arg1 arg2. js_assign E arg0
       ''entryPoint'' (js_str E arg1 arg2))),
     (''__wbg_setentrypoint_cc0ef6995eb4ec8a'', fn3 (\<lambda>arg0 arg1 arg2. js_assign E arg0
       ''entryPoint'' (js_str E arg1 arg2))),
     (''__wbg_setfailop_b3aa7b676802d507'', fn2 (\<lambda>arg0 arg1. js_assign E arg0 ''failOp'' (js_return
       (enum_at wgpu_enum_GpuStencilOperation arg1)))),
     (''__wbg_setflipy_07e27e9b8f79ebac'', fn2 (\<lambda>arg0 arg1. js_assign E arg0 ''flipY'' (js_return
       (js_nonzero arg1)))),
     (''__wbg_setformat_4d274f92eb43af7e'', fn2 (\<lambda>arg0 arg1. js_assign E arg0 ''format'' (js_return
       (enum_at wgpu_enum_GpuVertexFormat arg1)))),
     (''__wbg_setformat_4f4d8e1c3af29385'', fn2 (\<lambda>arg0 arg1. js_assign E arg0 ''format'' (js_return
       (enum_at wgpu_enum_GpuTextureFormat arg1)))),
     (''__wbg_setformat_6c986b1fbf5a8135'', fn2 (\<lambda>arg0 arg1. js_assign E arg0 ''format'' (js_return
       (enum_at wgpu_enum_GpuTextureFormat arg1)))),
     (''__wbg_setformat_999b10709ff9fbb3'', fn2 (\<lambda>arg0 arg1. js_assign E arg0 ''format'' (js_return
       (enum_at wgpu_enum_GpuTextureFormat arg1)))),
     (''__wbg_setformat_a248be0e94937fd6'', fn2 (\<lambda>arg0 arg1. js_assign E arg0 ''format'' (js_return
       (enum_at wgpu_enum_GpuTextureFormat arg1))))]"

definition wgpu_imports_6 :: "'w js_env \<Rightarrow> 'w import_table" where
  "wgpu_imports_6 E = [
     (''__wbg_setfragment_a7b4d1d6e4173869'', fn2 (\<lambda>arg0 arg1. js_assign E arg0 ''fragment''
       (js_return arg1))),
     (''__wbg_setfrontface_2af45fe851357ed5'', fn2 (\<lambda>arg0 arg1. js_assign E arg0 ''frontFace''
       (js_return (enum_at wgpu_enum_GpuFrontFace arg1)))),
     (''__wbg_setg_e2da37d4015a5cba'', fn2 (\<lambda>arg0 arg1. js_assign E arg0 ''g'' (js_return arg1))),
     (''__wbg_sethasdynamicoffset_cb46ff65a09728e7'', fn2 (\<lambda>arg0 arg1. js_assign E arg0
       ''hasDynamicOffset'' (js_return (js_nonzero arg1)))),
     (''__wbg_setheight_07e23125a705916b'', fn2 (\<lambda>arg0 arg1. js_assign E arg0 ''height'' (js_return
       (js_u32 arg1)))),
     (''__wbg_setlabel_0cc377044614a183'', fn3 (\<lambda>arg0 arg1 arg2. js_assign E arg0 ''label'' (js_str
       E arg1 arg2))),
     (''__wbg_setlabel_288008e3764fd03d'', fn3 (\<lambda>arg0 arg1 arg2. js_assign E arg0 ''label'' (js_str
       E arg1 arg2))),
     (''__wbg_setlabel_2b771b9d670d425d'', fn3 (\<lambda>arg0 arg1 arg2. js_assign E arg0 ''label'' (js_str
       E arg1 arg2))),
     (''__wbg_setlabel_2da44266df5c13ed'', fn3 (\<lambda>arg0 arg1 arg2. js_assign E arg0 ''label'' (js_str
       E arg1 arg2))),
     (''__wbg_setlabel_4ad48f653ec65eb3'', fn3 (\<lambda>arg0 arg1 arg2. js_assign E arg0 ''label'' (js_str
       E arg1 arg2))),
     (''__wbg_setlabel_500d4bf5cd901261'', fn3 (\<lambda>arg0 arg1 arg2. js_assign E arg0 ''label'' (js_str
       E arg1 arg2))),
     (''__wbg_setlabel_71035c60ff875bcb'', fn3 (\<lambda>arg0 arg1 arg2. js_assign E arg0 ''label'' (js_str
       E arg1 arg2))),
     (''__wbg_setlabel_8ebf2908004a93a8'', fn3 (\<lambda>arg0 arg1 arg2. js_assign E arg0 ''label'' (js_str
       E arg1 arg2))),
     (''__wbg_setlabel_a500f3f38501fd17'', fn3 (\<lambda>arg0 arg1 arg2. js_assign E arg0 ''label'' (js_str
       E arg1 arg2))),
     (''__wbg_setlabel_a715a723e54be347'', fn3 (\<lambda>arg0 arg1 arg2. js_assign E arg0 ''label'' (js_str
       E arg1 arg2))),
     (''__wbg_setlabel_b1dea0fd6b833499'', fn3 (\<lambda>arg0 arg1 arg2. js_assign E arg0 ''label'' (js_str
       E arg1 arg2))),
     (''__wbg_setlabel_d9721be24ba962d0'', fn3 (\<lambda>arg0 arg1 arg2. js_assign E arg0 ''label'' (js_str
       E arg1 arg2))),
     (''__wbg_setlabel_e628a8506e7dbad1'', fn3 (\<lambda>arg0 arg1 arg2. js_assign E arg0 ''label'' (js_str
       E arg1 arg2))),
     (''__wbg_setlabel_ee195a522e4e446e'', fn3 (\<lambda>arg0 arg1 arg2. js_assign E arg0 ''label'' (js_str
       E arg1 arg2))),
     (''__wbg_setlabel_f63950a596f3822e'', fn3 (\<lambda>arg0 arg1 arg2. js_assign E arg0 ''label'' (js_str
       E arg1 arg2))),
     (''__wbg_setlabel_f83545b14d4230ba'', fn3 (\<lambda>arg0 arg1 arg2. js_assign E arg0 ''label'' (js_str
       E arg1 arg2))),
     (''__wbg_setlayout_07cd9903ecafe648'', fn2 (\<lambda>arg0 arg1. js_assign E arg0 ''layout'' (js_return
       arg1))),
     (''__wbg_setlayout_65212cfcdc8328fc'', fn2 (\<lambda>arg0 arg1. js_assign E arg0 ''layout'' (js_return
       arg1))),
     (''__wbg_setlayout_9de5ead36a343003'', fn2 (\<lambda>arg0 arg1. js_assign E arg0 ''layout'' (js_return
       arg1))),
     (''__wbg_setloadop_7717864ef29efe5a'', fn2 (\<lambda>arg0 arg1. js_assign E arg0 ''loadOp'' (js_return
       (enum_at wgpu_enum_GpuLoadOp arg1)))),
     (''__wbg_setlodmaxclamp_1887e84a3d06f898'', fn2 (\<lambda>arg0 arg1. js_assign E arg0 ''lodMaxClamp''
       (js_return arg1))),
     (''__wbg_setlodminclamp_cd3dd55fe2bb52d8'', fn2 (\<lambda>arg0 arg1. js_assign E arg0 ''lodMinClamp''
       (js_return arg1))),
     (''__wbg_setmagfilter_52da4c654280e213'', fn2 (\<lambda>arg0 arg1. js_assign E arg0 ''magFilter''
       (js_return (enum_at wgpu_enum_GpuFilterMode arg1)))),
     (''__wbg_setmappedatcreation_a8895d0463a7c2b4'', fn2 (\<lambda>arg0 arg1. js_assign E arg0
       ''mappedAtCreation'' (js_return (js_nonzero arg1)))),
     (''__wbg_setmask_55b58b7d5ccae3c9'', fn2 (\<lambda>arg0 arg1. js_assign E arg0 ''mask'' (js_return
       (js_u32 arg1)))),
     (''__wbg_setmaxanisotropy_1ca629f4e25e12fd'', fn2 (\<lambda>arg0 arg1. js_assign E arg0
       ''maxAnisotropy'' (js_return arg1))),
     (''__wbg_setminbindingsize_e6ebb4f885a7e096'', fn2 (\<lambda>arg0 arg1. js_assign E arg0
       ''minBindingSize'' (js_return arg1))),
     (''__wbg_setminfilter_58e87776cadcd1b3'', fn2 (\<lambda>arg0 arg1. js_assign E arg0 ''minFilter''
       (js_return (enum_at wgpu_enum_GpuFilterMode arg1)))),
     (''__wbg_setmiplevel_6b898ddd34646f69'', fn2 (\<lambda>arg0 arg1. js_assign E arg0 ''mipLevel''
       (js_return (js_u32 arg1)))),
     (''__wbg_setmiplevel_6fed1be31117eadb'', fn2 (\<lambda>arg0 arg1. js_assign E arg0 ''mipLevel''
       (js_return (js_u32 arg1)))),
     (''__wbg_setmiplevelcount_5cdccf5992bb17da'', fn2 (\<lambda>arg0 arg1. js_assign E arg0
       ''mipLevelCount'' (js_return (js_u32 arg1)))),
     (''__wbg_setmipmapfilter_182e70118e958b7f'', fn2 (\<lambda>arg0 arg1. js_assign E arg0 ''mipmapFilter''
       (js_return (enum_at wgpu_enum_GpuMipmapFilterMode arg1)))),
     (''__wbg_setmodule_6575b8b8b6395d5e'', fn2 (\<lambda>arg0 arg1. js_assign E arg0 ''module'' (js_return
       arg1))),
     (''__wbg_setmodule_9c6fb60dbbaf9ff6'', fn2 (\<lambda>arg0 arg1. js_assign E arg0 ''module'' (js_return
       arg1))),
     (''__wbg_setmodule_b2a1ad7c5aa169a6'', fn2 (\<lambda>arg0 arg1. js_assign E arg0 ''module'' (js_return
       arg1))),
     (''__wbg_setmultisample_0ab87d309246882a'', fn2 (\<lambda>arg0 arg1. js_assign E arg0 ''multisample''
       (js_return arg1))),
     (''__wbg_setmultisampled_5bbeb86cec3c3b77'', fn2 (\<lambda>arg0 arg1. js_assign E arg0 ''multisampled''
       (js_return (js_nonzero arg1)))),
     (''__wbg_setoffset_03942acfc179b9e4'', fn2 (\<lambda>arg0 arg1. js_assign E arg0 ''offset'' (js_return
       arg1))),
     (''__wbg_setoffset_2a1ed8c605246680'', fn2 (\<lambda>arg0 arg1. js_assign E arg0 ''offset'' (js_return
       arg1))),
     (''__wbg_setoffset_b2b5cabe142e1121'', fn2 (\<lambda>arg0 arg1. js_assign E arg0 ''offset'' (js_return
       arg1))),
     (''__wbg_setoffset_faa7816201305e71'', fn2 (\<lambda>arg0 arg1. js_assign E arg0 ''offset'' (js_return
       arg1))),
     (''__wbg_setonuncapturederror_d483babbffc909ea'', fn2 (\<lambda>arg0 arg1. js_assign E arg0
       ''onuncapturederror'' (js_return arg1))),
     (''__wbg_setoperation_b1320c8f97dc317a'', fn2 (\<lambda>arg0 arg1. js_assign E arg0 ''operation''
       (js_return (enum_at wgpu_enum_GpuBlendOperation arg1)))),
     (''__wbg_setorigin_0ef9b6c92d971672'', fn2 (\<lambda>arg0 arg1. js_assign E arg0 ''origin'' (js_return
       arg1))),
     (''__wbg_setorigin_bce4abc33252aae4'', fn2 (\<lambda>arg0 arg1. js_assign E arg0 ''origin'' (js_return
       arg1)))]"

definition wgpu_imports_7 :: "'w js_env \<Rightarrow> 'w import_table" where
  "wgpu_imports_7 E = [
     (''__wbg_setorigin_c9a426d82a4cbb67'', fn2 (\<lambda>arg0 arg1. js_assign E arg0 ''origin'' (js_return
       arg1))),
     (''__wbg_setpassop_3864d7967d0b755f'', fn2 (\<lambda>arg0 arg1. js_assign E arg0 ''passOp'' (js_return
       (enum_at wgpu_enum_GpuStencilOperation arg1)))),
     (''__wbg_setpowerpreference_f55bb01532e63a16'', fn2 (\<lambda>arg0 arg1. js_assign E arg0
       ''powerPreference'' (js_return (enum_at wgpu_enum_GpuPowerPreference arg1)))),
     (''__wbg_setpremultipliedalpha_36161b868cbca098'', fn2 (\<lambda>arg0 arg1. js_assign E arg0
       ''premultipliedAlpha'' (js_return (js_nonzero arg1)))),
     (''__wbg_setprimitive_8e59242385aeefbd'', fn2 (\<lambda>arg0 arg1. js_assign E arg0 ''primitive''
       (js_return arg1))),
     (''__wbg_setqueryset_1d4d053148acad3d'', fn2 (\<lambda>arg0 arg1. js_assign E arg0 ''querySet''
       (js_return arg1))),
     (''__wbg_setqueryset_840dc8940d3be049'', fn2 (\<lambda>arg0 arg1. js_assign E arg0 ''querySet''
       (js_return arg1))),
     (''__wbg_setr_323d10232d162bc5'', fn2 (\<lambda>arg0 arg1. js_assign E arg0 ''r'' (js_return arg1))),
     (''__wbg_setrequiredfeatures_4aaba5b9bed02f6c'', fn2 (\<lambda>arg0 arg1. js_assign E arg0
       ''requiredFeatures'' (js_return arg1))),
     (''__wbg_setresolvetarget_93c553085f84be1d'', fn2 (\<lambda>arg0 arg1. js_assign E arg0
       ''resolveTarget'' (js_return arg1))),
     (''__wbg_setresource_da805678f095daba'', fn2 (\<lambda>arg0 arg1. js_assign E arg0 ''resource''
       (js_return arg1))),
     (''__wbg_setrowsperimage_a20532b7306f8f04'', fn2 (\<lambda>arg0 arg1. js_assign E arg0 ''rowsPerImage''
       (js_return (js_u32 arg1)))),
     (''__wbg_setrowsperimage_a5c86bbe579e7ff5'', fn2 (\<lambda>arg0 arg1. js_assign E arg0 ''rowsPerImage''
       (js_return (js_u32 arg1)))),
     (''__wbg_setsamplecount_4f091bac7244d29d'', fn2 (\<lambda>arg0 arg1. js_assign E arg0 ''sampleCount''
       (js_return (js_u32 arg1)))),
     (''__wbg_setsamplecount_ba2d094c32b25f63'', fn2 (\<lambda>arg0 arg1. js_assign E arg0 ''sampleCount''
       (js_return (js_u32 arg1)))),
     (''__wbg_setsampler_907171f78b25e6a0'', fn2 (\<lambda>arg0 arg1. js_assign E arg0 ''sampler''
       (js_return arg1))),
     (''__wbg_setsampletype_128e447eb57f81e0'', fn2 (\<lambda>arg0 arg1. js_assign E arg0 ''sampleType''
       (js_return (enum_at wgpu_enum_GpuTextureSampleType arg1)))),
     (''__wbg_setshaderlocation_d912fa16e1bafbf5'', fn2 (\<lambda>arg0 arg1. js_assign E arg0
       ''shaderLocation'' (js_return (js_u32 arg1)))),
     (''__wbg_setsize_26f6f424f8c7ad78'', fn2 (\<lambda>arg0 arg1. js_assign E arg0 ''size'' (js_return
       arg1))),
     (''__wbg_setsize_77e119b004938be3'', fn2 (\<lambda>arg0 arg1. js_assign E arg0 ''size'' (js_return
       arg1))),
     (''__wbg_setsize_f475ae0c88ae5c1a'', fn2 (\<lambda>arg0 arg1. js_assign E arg0 ''size'' (js_return
       arg1))),
     (''__wbg_setsource_02e8b4daaf0b821a'', fn2 (\<lambda>arg0 arg1. js_assign E arg0 ''source'' (js_return
       arg1))),
     (''__wbg_setsrcfactor_c06f8886e8f9db36'', fn2 (\<lambda>arg0 arg1. js_assign E arg0 ''srcFactor''
       (js_return (enum_at wgpu_enum_GpuBlendFactor arg1)))),
     (''__wbg_setstencilback_7430953411a74f5b'', fn2 (\<lambda>arg0 arg1. js_assign E arg0 ''stencilBack''
       (js_return arg1))),
     (''__wbg_setstencilclearvalue_82445ec7d3bf6337'', fn2 (\<lambda>arg0 arg1. js_assign E arg0
       ''stencilClearValue'' (js_return (js_u32 arg1)))),
     (''__wbg_setstencilfront_643b00ca15f63df0'', fn2 (\<lambda>arg0 arg1. js_assign E arg0 ''stencilFront''
       (js_return arg1))),
     (''__wbg_setstencilloadop_fd4992092c35e435'', fn2 (\<lambda>arg0 arg1. js_assign E arg0
       ''stencilLoadOp'' (js_return (enum_at wgpu_enum_GpuLoadOp arg1)))),
     (''__wbg_setstencilreadmask_417cc42a4ebcc6fd'', fn2 (\<lambda>arg0 arg1. js_assign E arg0
       ''stencilReadMask'' (js_return (js_u32 arg1)))),
     (''__wbg_setstencilreadonly_b63e58c25fd519fa'', fn2 (\<lambda>arg0 arg1. js_assign E arg0
       ''stencilReadOnly'' (js_return (js_nonzero arg1)))),
     (''__wbg_setstencilreadonly_b9752d3b585a9e24'', fn2 (\<lambda>arg0 arg1. js_assign E arg0
       ''stencilReadOnly'' (js_return (js_nonzero arg1)))),
     (''__wbg_setstencilstoreop_85e35c733e931690'', fn2 (\<lambda>arg0 arg1. js_assign E arg0
       ''stencilStoreOp'' (js_return (enum_at wgpu_enum_GpuStoreOp arg1)))),
     (''__wbg_setstencilwritemask_99630e6d9578db18'', fn2 (\<lambda>arg0 arg1. js_assign E arg0
       ''stencilWriteMask'' (js_return (js_u32 arg1)))),
     (''__wbg_setstepmode_48ca51aca6c457d0'', fn2 (\<lambda>arg0 arg1. js_assign E arg0 ''stepMode''
       (js_return (enum_at wgpu_enum_GpuVertexStepMode arg1)))),
     (''__wbg_setstoragetexture_073162508208dde1'', fn2 (\<lambda>arg0 arg1. js_assign E arg0
       ''storageTexture'' (js_return arg1))),
     (''__wbg_setstoreop_33000b14c26a958c'', fn2 (\<lambda>arg0 arg1. js_assign E arg0 ''storeOp''
       (js_return (enum_at wgpu_enum_GpuStoreOp arg1)))),
     (''__wbg_setstripindexformat_6e6466458d40548f'', fn2 (\<lambda>arg0 arg1. js_assign E arg0
       ''stripIndexFormat'' (js_return (enum_at wgpu_enum_GpuIndexFormat arg1)))),
     (''__wbg_settargets_9b07a81a153bd198'', fn2 (\<lambda>arg0 arg1. js_assign E arg0 ''targets''
       (js_return arg1))),
     (''__wbg_settexture_372c227c16e4476c'', fn2 (\<lambda>arg0 arg1. js_assign E arg0 ''texture''
       (js_return arg1))),
     (''__wbg_settexture_6fb992cdbb52b8a5'', fn2 (\<lambda>arg0 arg1. js_assign E arg0 ''texture''
       (js_return arg1))),
     (''__wbg_settexture_c85cb80ac44bcbae'', fn2 (\<lambda>arg0 arg1. js_assign E arg0 ''texture''
       (js_return arg1))),
     (''__wbg_settimestampwrites_753fd289d25da0f6'', fn2 (\<lambda>arg0 arg1. js_assign E arg0
       ''timestampWrites'' (js_return arg1))),
     (''__wbg_settimestampwrites_f901bc9c89140525'', fn2 (\<lambda>arg0 arg1. js_assign E arg0
       ''timestampWrites'' (js_return arg1))),
     (''__wbg_settopology_b8997cc1c9b712d6'', fn2 (\<lambda>arg0 arg1. js_assign E arg0 ''topology''
       (js_return (enum_at wgpu_enum_GpuPrimitiveTopology arg1)))),
     (''__wbg_settype_2eb0a1e4095d484d'', fn2 (\<lambda>arg0 arg1. js_assign E arg0 ''type'' (js_return
       (enum_at wgpu_enum_GpuSamplerBindingType arg1)))),
     (''__wbg_settype_586408d828cb05f9'', fn2 (\<lambda>arg0 arg1. js_assign E arg0 ''type'' (js_return
       (enum_at wgpu_enum_GpuBufferBindingType arg1)))),
     (''__wbg_settype_fb280f77c5aea269'', fn2 (\<lambda>arg0 arg1. js_assign E arg0 ''type'' (js_return
       (enum_at wgpu_enum_GpuQueryType arg1)))),
     (''__wbg_setusage_a9a9e2b9822110e6'', fn2 (\<lambda>arg0 arg1. js_assign E arg0 ''usage'' (js_return
       (js_u32 arg1)))),
     (''__wbg_setusage_b974ee6a11b1c075'', fn2 (\<lambda>arg0 arg1. js_assign E arg0 ''usage'' (js_return
       (js_u32 arg1)))),
     (''__wbg_setvertex_a2070ea015bc740c'', fn2 (\<lambda>arg0 arg1. js_assign E arg0 ''vertex'' (js_return
       arg1))),
     (''__wbg_setview_0a3c9eb003dca615'', fn2 (\<lambda>arg0 arg1. js_assign E arg0 ''view'' (js_return
       arg1)))]"

definition wgpu_imports_8 :: "'w js_env \<Rightarrow> 'w import_table" where
  "wgpu_imports_8 E = [
     (''__wbg_setview_a25d3a35a9550c37'', fn2 (\<lambda>arg0 arg1. js_assign E arg0 ''view'' (js_return
       arg1))),
     (''__wbg_setviewdimension_62541381052220ba'', fn2 (\<lambda>arg0 arg1. js_assign E arg0
       ''viewDimension'' (js_return (enum_at wgpu_enum_GpuTextureViewDimension arg1)))),
     (''__wbg_setviewdimension_cba6f4f08621ab93'', fn2 (\<lambda>arg0 arg1. js_assign E arg0
       ''viewDimension'' (js_return (enum_at wgpu_enum_GpuTextureViewDimension arg1)))),
     (''__wbg_setviewformats_0e7d17b7af990229'', fn2 (\<lambda>arg0 arg1. js_assign E arg0 ''viewFormats''
       (js_return arg1))),
     (''__wbg_setvisibility_3f5ec62f823cc88e'', fn2 (\<lambda>arg0 arg1. js_assign E arg0 ''visibility''
       (js_return (js_u32 arg1)))),
     (''__wbg_setwidth_374c62c8c467dd55'', fn2 (\<lambda>arg0 arg1. js_assign E arg0 ''width'' (js_return
       (js_u32 arg1)))),
     (''__wbg_setwritemask_a015d982c216f05a'', fn2 (\<lambda>arg0 arg1. js_assign E arg0 ''writeMask''
       (js_return (js_u32 arg1)))),
     (''__wbg_setx_744e248c289894b0'', fn2 (\<lambda>arg0 arg1. js_assign E arg0 ''x'' (js_return (js_u32
       arg1)))),
     (''__wbg_setx_bed4341c6692c1fa'', fn2 (\<lambda>arg0 arg1. js_assign E arg0 ''x'' (js_return (js_u32
       arg1)))),
     (''__wbg_sety_3739f1c9f8e4fe38'', fn2 (\<lambda>arg0 arg1. js_assign E arg0 ''y'' (js_return (js_u32
       arg1)))),
     (''__wbg_sety_d1def1c7baef049a'', fn2 (\<lambda>arg0 arg1. js_assign E arg0 ''y'' (js_return (js_u32
       arg1)))),
     (''__wbg_setz_a1e821c7a1a291c5'', fn2 (\<lambda>arg0 arg1. js_assign E arg0 ''z'' (js_return (js_u32
       arg1)))),
     (''__wbg_size_f5fdd7af88b0b724'', fn1 (\<lambda>arg0. js_member E arg0 ''size'')),
     (''__wbg_stack_0ed75d68575b0f3c'', fn2 (\<lambda>arg0 arg1. js_let (js_member E arg1 ''stack'')
       (ret_string E arg0))),
     (''__wbg_static_accessor_GLOBAL_88a902d13a557d07'', fn0 (js_let (js_global_or_null E ''global'')
       (ret_opt_ref E))),
     (''__wbg_static_accessor_GLOBAL_THIS_56578be7e9f832b0'', fn0 (js_let (js_global_or_null E
       ''globalThis'') (ret_opt_ref E))),
     (''__wbg_static_accessor_SELF_37c5d418e4bf5819'', fn0 (js_let (js_global_or_null E ''self'')
       (ret_opt_ref E))),
     (''__wbg_static_accessor_WINDOW_5de37043a91a9c40'', fn0 (js_let (js_global_or_null E ''window'')
       (ret_opt_ref E))),
     (''__wbg_submit_683667e8c0f18d76'', fn2 (\<lambda>arg0 arg1. js_do (js_method E arg0 ''submit''
       [js_return arg1]))),
     (''__wbg_then_44b73946d2fb3e7d'', fn2 (\<lambda>arg0 arg1. js_method E arg0 ''then'' [js_return arg1])),
     (''__wbg_then_48b406749878a531'', fn3 (\<lambda>arg0 arg1 arg2. js_method E arg0 ''then'' [js_return
       arg1, js_return arg2])),
     (''__wbg_unmap_3996f949ebf6b9a4'', fn1 (\<lambda>arg0. js_do (js_method E arg0 ''unmap'' []))),
     (''__wbg_usage_ef79cc1301f4d456'', fn1 (\<lambda>arg0. js_member E arg0 ''usage'')),
     (''__wbg_valueOf_39a18758c25e8b95'', fn1 (\<lambda>arg0. js_method E arg0 ''valueOf'' [])),
     (''__wbg_value_cd1ffa7b1ab794f1'', fn1 (\<lambda>arg0. js_member E arg0 ''value'')),
     (''__wbg_wgslLanguageFeatures_993ab5b71fd5cbab'', fn1 (\<lambda>arg0. js_member E arg0
       ''wgslLanguageFeatures'')),
     (''__wbg_writeBuffer_54f5faed442e5ab3'', fn6 (\<lambda>arg0 arg1 arg2 arg3 arg4 arg5. handleError E
       (js_do (js_method E arg0 ''writeBuffer'' [js_return arg1, js_return arg2, js_return arg3, js_return
       arg4, js_return arg5])))),
     (''__wbg_writeTexture_c90c50e5c2a97ff0'', fn5 (\<lambda>arg0 arg1 arg2 arg3 arg4. handleError E (js_do
       (js_method E arg0 ''writeTexture'' [js_return arg1, js_return arg2, js_return arg3, js_return
       arg4])))),
     (''__wbindgen_cb_drop'', fn1 (\<lambda>arg0. wbindgen_cb_drop arg0)),
     (''__wbindgen_closure_wrapper6684'', fn3 (\<lambda>arg0 arg1 arg2. makeMutClosure (js_number arg0)
       (js_number arg1) (Num 567) ''__wbg_adapter_30'')),
     (''__wbindgen_closure_wrapper9471'', fn3 (\<lambda>arg0 arg1 arg2. makeMutClosure (js_number arg0)
       (js_number arg1) (Num 584) ''__wbg_adapter_33'')),
     (''__wbindgen_debug_string'', fn2 (\<lambda>arg0 arg1. js_let (js_gets (\<lambda>s. Str (debugString
       (host_shape E arg1 s)))) (ret_string E arg0))),
     (''__wbindgen_init_externref_table'', fn0 (wbindgen_init_externref_table)),
     (''__wbindgen_is_function'', fn1 (\<lambda>arg0. js_gets (\<lambda>s. Bool (js_typeof E arg0 s =
       ''function'')))),
     (''__wbindgen_is_null'', fn1 (\<lambda>arg0. js_return (Bool (arg0 = Null)))),
     (''__wbindgen_is_object'', fn1 (\<lambda>arg0. js_gets (\<lambda>s. Bool (js_typeof E arg0 s =
       ''object'' \<and> arg0 \<noteq> Null)))),
     (''__wbindgen_is_undefined'', fn1 (\<lambda>arg0. js_return (Bool (arg0 = Undefined))))]"

definition wgpu_imports_9 :: "'w js_env \<Rightarrow> 'w import_table" where
  "wgpu_imports_9 E = [
     (''__wbindgen_memory'', fn0 (js_return (wasm_memory E))),
     (''__wbindgen_number_new'', fn1 (\<lambda>arg0. js_return arg0)),
     (''__wbindgen_string_get'', fn2 (\<lambda>arg0 arg1. js_let (js_gets (\<lambda>s. if js_typeof E arg1 s
       = ''string'' then arg1 else Undefined)) (ret_opt_string E arg0))),
     (''__wbindgen_string_new'', fn2 (\<lambda>arg0 arg1. js_str E arg0 arg1)),
     (''__wbindgen_throw'', fn2 (\<lambda>arg0 arg1. js_let (js_new_error (getStringFromWasm0 E (js_number
       arg0) (js_number arg1))) js_throw))]"

definition wgpu_imports :: "'w js_env \<Rightarrow> 'w import_table" where
  "wgpu_imports E = wgpu_imports_1 E @ wgpu_imports_2 E @ wgpu_imports_3 E @ wgpu_imports_4 E @
       wgpu_imports_5 E @ wgpu_imports_6 E @ wgpu_imports_7 E @ wgpu_imports_8 E @ wgpu_imports_9 E"

section \<open>Lookup\<close>

lemma wgpu_names_1: "ascending (import_names (wgpu_imports_1 E))"
  by (simp add: wgpu_imports_1_def)

lemma wgpu_names_2: "ascending (import_names (wgpu_imports_2 E))"
  by (simp add: wgpu_imports_2_def)

lemma wgpu_names_3: "ascending (import_names (wgpu_imports_3 E))"
  by (simp add: wgpu_imports_3_def)

lemma wgpu_names_4: "ascending (import_names (wgpu_imports_4 E))"
  by (simp add: wgpu_imports_4_def)

lemma wgpu_names_5: "ascending (import_names (wgpu_imports_5 E))"
  by (simp add: wgpu_imports_5_def)

lemma wgpu_names_6: "ascending (import_names (wgpu_imports_6 E))"
  by (simp add: wgpu_imports_6_def)

lemma wgpu_names_7: "ascending (import_names (wgpu_imports_7 E))"
  by (simp add: wgpu_imports_7_def)

lemma wgpu_names_8: "ascending (import_names (wgpu_imports_8 E))"
  by (simp add: wgpu_imports_8_def)

lemma wgpu_names_9: "ascending (import_names (wgpu_imports_9 E))"
  by (simp add: wgpu_imports_9_def)

lemma wgpu_ascending: "ascending (import_names (wgpu_imports E))"
  unfolding wgpu_imports_def import_names_append
  by (intro ascending_parts wgpu_names_1 wgpu_names_2 wgpu_names_3 wgpu_names_4 wgpu_names_5 wgpu_names_6 wgpu_names_7 wgpu_names_8 wgpu_names_9)
     (simp_all add: wgpu_imports_1_def wgpu_imports_2_def wgpu_imports_3_def wgpu_imports_4_def wgpu_imports_5_def wgpu_imports_6_def wgpu_imports_7_def wgpu_imports_8_def wgpu_imports_9_def)

section \<open>Guarded imports, type tests and string results\<close>

text \<open>The imports that the source wraps in \<^verbatim>\<open>handleError\<close>.\<close>

definition wgpu_guarded :: "string list" where
  "wgpu_guarded = [''__wbg_beginRenderPass_350345dc19419939'', ''__wbg_call_672a4d21634d4a24'',
       ''__wbg_copyBufferToBuffer_6fe483ce4a07f7c8'',
       ''__wbg_copyBufferToTexture_d594d5485ac49f52'',
       ''__wbg_copyExternalImageToTexture_7c860a6f9d3d8b4e'',
       ''__wbg_copyTextureToBuffer_569bd20852d0378a'',
       ''__wbg_copyTextureToTexture_f6b42e055f9f6a97'',
       ''__wbg_createBindGroupLayout_ccaa5d2aa2a2ae17'', ''__wbg_createBuffer_a19c4c09aa7e61c6'',
       ''__wbg_createQuerySet_d6541ea3488cdff3'',
       ''__wbg_createRenderBundleEncoder_9791a47b62d9307c'',
       ''__wbg_createRenderPipeline_4429522c4a8eaaf8'', ''__wbg_createTexture_96a508752fa02d41''] @
       [''__wbg_getContext_e9cf379449413580'', ''__wbg_getContext_f65a0debd1e8f8e8'',
       ''__wbg_getMappedRange_6d2048e506f70687'', ''__wbg_getRandomValues_3c9c0d586e575a16''] @
       [''__wbg_measure_fb7825c11612c823''] @ [''__wbg_next_6574e1a8a62d1055'',
       ''__wbg_querySelectorAll_40998fd748f057ef'', ''__wbg_setBindGroup_fc1389bb99633d8c'',
       ''__wbg_set_bb8cecf6a62b9f46''] @ [''__wbg_writeBuffer_54f5faed442e5ab3'',
       ''__wbg_writeTexture_c90c50e5c2a97ff0'']"

lemma wgpu_guarded_1:
  assumes "exn_contract E"
  shows "provides_all (wgpu_imports_1 E) always_returns [''__wbg_beginRenderPass_350345dc19419939'',
       ''__wbg_call_672a4d21634d4a24'', ''__wbg_copyBufferToBuffer_6fe483ce4a07f7c8'',
       ''__wbg_copyBufferToTexture_d594d5485ac49f52'',
       ''__wbg_copyExternalImageToTexture_7c860a6f9d3d8b4e'',
       ''__wbg_copyTextureToBuffer_569bd20852d0378a'',
       ''__wbg_copyTextureToTexture_f6b42e055f9f6a97'',
       ''__wbg_createBindGroupLayout_ccaa5d2aa2a2ae17'', ''__wbg_createBuffer_a19c4c09aa7e61c6'',
       ''__wbg_createQuerySet_d6541ea3488cdff3'',
       ''__wbg_createRenderBundleEncoder_9791a47b62d9307c'',
       ''__wbg_createRenderPipeline_4429522c4a8eaaf8'', ''__wbg_createTexture_96a508752fa02d41'']"
  by (simp add: provides_def wgpu_imports_1_def guarded_fn [OF assms])

lemma wgpu_guarded_2:
  assumes "exn_contract E"
  shows "provides_all (wgpu_imports_2 E) always_returns [''__wbg_getContext_e9cf379449413580'',
       ''__wbg_getContext_f65a0debd1e8f8e8'', ''__wbg_getMappedRange_6d2048e506f70687'',
       ''__wbg_getRandomValues_3c9c0d586e575a16'']"
  by (simp add: provides_def wgpu_imports_2_def guarded_fn [OF assms])

lemma wgpu_guarded_3:
  assumes "exn_contract E"
  shows "provides_all (wgpu_imports_3 E) always_returns [''__wbg_measure_fb7825c11612c823'']"
  by (simp add: provides_def wgpu_imports_3_def guarded_fn [OF assms])

lemma wgpu_guarded_4:
  assumes "exn_contract E"
  shows "provides_all (wgpu_imports_4 E) always_returns [''__wbg_next_6574e1a8a62d1055'',
       ''__wbg_querySelectorAll_40998fd748f057ef'', ''__wbg_setBindGroup_fc1389bb99633d8c'',
       ''__wbg_set_bb8cecf6a62b9f46'']"
  by (simp add: provides_def wgpu_imports_4_def guarded_fn [OF assms])

lemma wgpu_guarded_8:
  assumes "exn_contract E"
  shows "provides_all (wgpu_imports_8 E) always_returns [''__wbg_writeBuffer_54f5faed442e5ab3'',
       ''__wbg_writeTexture_c90c50e5c2a97ff0'']"
  by (simp add: provides_def wgpu_imports_8_def guarded_fn [OF assms])

lemma wgpu_guarded_provided:
  assumes "exn_contract E"
  shows "provides_all (wgpu_imports E) always_returns wgpu_guarded"
  unfolding wgpu_guarded_def map_append provides_append
  by (intro conjI provides_part [OF wgpu_guarded_1 [OF assms]] provides_part [OF wgpu_guarded_2 [OF assms]] provides_part [OF wgpu_guarded_3 [OF assms]] provides_part [OF wgpu_guarded_4 [OF assms]] provides_part [OF wgpu_guarded_8 [OF assms]])
     (auto simp: wgpu_imports_def)

text \<open>The imports that test a class with \<^verbatim>\<open>instanceof\<close>.\<close>

definition wgpu_type_tests :: "string list" where
  "wgpu_type_tests = [''__wbg_instanceof_GpuAdapter_0e209d47dbec389c'',
       ''__wbg_instanceof_GpuCanvasContext_e63ee96c5bd33b0b'',
       ''__wbg_instanceof_GpuDeviceLostInfo_f8cb5633c29eedc6'',
       ''__wbg_instanceof_GpuOutOfMemoryError_6f18f6008848583c'',
       ''__wbg_instanceof_GpuValidationError_957f7b58d3996e29'',
       ''__wbg_instanceof_Object_7f2dcef8f78644a4'', ''__wbg_instanceof_Window_def73ea0955fc569'']"

lemma wgpu_type_tests_2:
  "provides_all (wgpu_imports_2 E) answers [''__wbg_instanceof_GpuAdapter_0e209d47dbec389c'',
       ''__wbg_instanceof_GpuCanvasContext_e63ee96c5bd33b0b'',
       ''__wbg_instanceof_GpuDeviceLostInfo_f8cb5633c29eedc6'',
       ''__wbg_instanceof_GpuOutOfMemoryError_6f18f6008848583c'',
       ''__wbg_instanceof_GpuValidationError_957f7b58d3996e29'',
       ''__wbg_instanceof_Object_7f2dcef8f78644a4'', ''__wbg_instanceof_Window_def73ea0955fc569'']"
  by (simp add: provides_def wgpu_imports_2_def )

lemma wgpu_type_tests_provided:
  "provides_all (wgpu_imports E) answers wgpu_type_tests"
  unfolding wgpu_type_tests_def map_append provides_append
  by (intro conjI provides_part [OF wgpu_type_tests_2])
     (auto simp: wgpu_imports_def)

text \<open>The imports that return a string property, with that property.\<close>

definition wgpu_string_getters :: "(string \<times> string) list" where
  "wgpu_string_getters = [(''__wbg_label_1f84f92f09ba5b0a'', ''label'')] @
       [(''__wbg_message_4002df87504c18de'', ''message''), (''__wbg_message_a3614fb4a9a8bcbe'',
       ''message'')] @ [(''__wbg_stack_0ed75d68575b0f3c'', ''stack'')]"

lemma wgpu_string_getters_2:
  assumes "text_codec enc dec into keeps" "text_encode E = enc" "encodeInto E = into"
  shows "provides (wgpu_imports_2 E) (string_getter E trap enc) [(''__wbg_label_1f84f92f09ba5b0a'',
       ''label'')]"
  by (simp add: provides_def wgpu_imports_2_def text_codec.string_getter_fn [OF assms])

lemma wgpu_string_getters_3:
  assumes "text_codec enc dec into keeps" "text_encode E = enc" "encodeInto E = into"
  shows "provides (wgpu_imports_3 E) (string_getter E trap enc)
       [(''__wbg_message_4002df87504c18de'', ''message''), (''__wbg_message_a3614fb4a9a8bcbe'',
       ''message'')]"
  by (simp add: provides_def wgpu_imports_3_def text_codec.string_getter_fn [OF assms])

lemma wgpu_string_getters_8:
  assumes "text_codec enc dec into keeps" "text_encode E = enc" "encodeInto E = into"
  shows "provides (wgpu_imports_8 E) (string_getter E trap enc) [(''__wbg_stack_0ed75d68575b0f3c'',
       ''stack'')]"
  by (simp add: provides_def wgpu_imports_8_def text_codec.string_getter_fn [OF assms])

lemma wgpu_string_getters_provided:
  assumes "text_codec enc dec into keeps" "text_encode E = enc" "encodeInto E = into"
  shows "provides (wgpu_imports E) (string_getter E trap enc) wgpu_string_getters"
  unfolding wgpu_string_getters_def map_append provides_append
  by (intro conjI provides_part [OF wgpu_string_getters_2 [OF assms]] provides_part [OF wgpu_string_getters_3 [OF assms]] provides_part [OF wgpu_string_getters_8 [OF assms]])
     (auto simp: wgpu_imports_def)

text \<open>The imports that make a closure, with its destructor and its adapter.\<close>

definition wgpu_closures :: "(string \<times> js_val \<times> string) list" where
  "wgpu_closures = [(''__wbindgen_closure_wrapper6684'', Num 567, ''__wbg_adapter_30''),
       (''__wbindgen_closure_wrapper9471'', Num 584, ''__wbg_adapter_33'')]"

lemma wgpu_closures_8:
  "provides (wgpu_imports_8 E) (closure_maker (wgpu_adapters E))
       [(''__wbindgen_closure_wrapper6684'', Num 567, ''__wbg_adapter_30''),
       (''__wbindgen_closure_wrapper9471'', Num 584, ''__wbg_adapter_33'')]"
  by (simp add: provides_def wgpu_imports_8_def closure_maker_fn wgpu_adapters_def)

lemma wgpu_closures_provided:
  "provides (wgpu_imports E) (closure_maker (wgpu_adapters E)) wgpu_closures"
  unfolding wgpu_closures_def map_append provides_append
  by (intro conjI provides_part [OF wgpu_closures_8])
     (auto simp: wgpu_imports_def)

end
