(* ===== verification/Module_Laws.thy ===== *)
theory Module_Laws
  imports Glue_Modules Sample_Env Prophecy_Imports Spectrum_Imports Wlan_Swap_Imports Wlan_Imports
    Wlan_Debug_Imports Wgpu_Imports
begin

text \<open>
  What holds of every generated module of the repository: strings survive the boundary with the reader and
  the writer that the module has, an initialisation takes place once, a failing one leaves the module
  uninitialised unless its start function failed, no view of an older memory survives an initialisation,
  the stream classes hand out and give up their pointer, a closure reaches the Rust function behind it,
  and a debug text reaches the caller.
\<close>

section \<open>Strings\<close>

text \<open>The reader and the writer of each module.\<close>

definition string_functions ::
  "'w js_env \<Rightarrow> ((int \<Rightarrow> int \<Rightarrow> ('w, js_string) wjs) \<times> (js_string \<Rightarrow> 'w mallocT \<Rightarrow> 'w reallocT option \<Rightarrow> ('w, int) wjs)) list" where
  "string_functions E = [
     (getStringFromWasm0 E, passStringToWasm0 E),
     (read_string (prophecy_memory E), pass_string (prophecy_memory E)),
     (read_string (spectrum_memory E), pass_string (spectrum_memory E)),
     (read_string (wlan_swap_memory E), pass_string (wlan_swap_memory E)),
     (read_string (wlan_memory E), pass_string (wlan_memory E)),
     (read_string (wlan_debug_memory E), pass_string (wlan_debug_memory E)),
     (read_string (wgpu_memory E), pass_string (wgpu_memory E))]"

lemmas memory_defs = prophecy_memory_def spectrum_memory_def wlan_swap_memory_def wlan_memory_def
  wlan_debug_memory_def wgpu_memory_def

lemmas pass_defs = prophecy_passStringToWasm0_def spectrum_passStringToWasm0_def wlan_swap_passStringToWasm0_def
  wlan_passStringToWasm0_def wlan_debug_passStringToWasm0_def wgpu_passStringToWasm0_def

lemma string_functions_forms:
  "(read, pass) \<in> set (string_functions E) \<Longrightarrow>
   pass = passStringToWasm0 E \<and> (read = getStringFromWasm0 E \<or> read = getStringFromWasm0_counted E)"
  by (auto simp: string_functions_def memory_defs pass_defs)

lemma reader_decodes:
  assumes "(read, pass) \<in> set (string_functions E)" "fits s (to_uint32 p) n"
  shows "fst (read p n s) = text_decode E (region s (to_uint32 p) n)"
  using string_functions_forms [OF assms(1)] getStringFromWasm0_run [OF assms(2)] decodeText_run [OF assms(2)] by auto

lemma module_roundtrip:
  assumes "text_codec enc dec into keeps" "text_encode E = enc" "text_decode E = dec" "encodeInto E = into" "keeps t"
    and "malloc_contract (0, 0) trap malloc" "realloc_contract (0, 0) trap malloc realloc"
    and "(read, pass) \<in> set (string_functions E)"
  shows "case pass t malloc (Some realloc) s of
      (Ret p, s') \<Rightarrow> fst (read p (WASM_VECTOR_LEN s') s') = Ret t
    | (Throw e, s') \<Rightarrow> trap e"
proof -
  have "covers (0, 0) s" by (simp add: covers_def)
  then have "passed (0, 0) trap (enc t) (pass t malloc (Some realloc) s)"
    using text_codec.pass_with_realloc [OF assms(1,2,4,6,7)] string_functions_forms [OF assms(8)] by blast
  then show ?thesis using assms(3) text_codec.dec_enc [OF assms(1,5)] reader_decodes [OF assms(8)]
    by (auto simp: passed_def split: prod.splits outcome.splits)
qed

section \<open>Typed arrays\<close>

fun view_width :: "cache \<Rightarrow> nat" where
  "view_width Uint16_view = 2"
| "view_width Int32_view = 4"
| "view_width Float32_view = 4"
| "view_width Uint32_view = 4"
| "view_width _ = 1"

fun view_kind :: "cache \<Rightarrow> string" where
  "view_kind Uint16_view = ''Uint16Array''"
| "view_kind Int32_view = ''Int32Array''"
| "view_kind Float32_view = ''Float32Array''"
| "view_kind Uint32_view = ''Uint32Array''"
| "view_kind Uint8_view = ''Uint8Array''"
| "view_kind _ = ''DataView''"

definition module_memories :: "'w js_env \<Rightarrow> 'w memory_glue list" where
  "module_memories E = [prophecy_memory E, spectrum_memory E, wlan_swap_memory E, wlan_memory E, wlan_debug_memory E,
     wgpu_memory E]"

lemma rel_index_le: "rel_index n i \<le> n"
  by (auto simp: rel_index_def)

lemma subarray_le: "subarray n a b = (i, k) \<Longrightarrow> i + k \<le> n"
  using rel_index_le [of n a] rel_index_le [of n b] by (auto simp: subarray_def Let_def)

text \<open>
  A reader of a typed array through the view \<open>c\<close>: afterwards the module keeps a view of the current buffer, and
  the array is a range of that view. Nothing but caches changes.
\<close>

definition keeps_view :: "cache \<Rightarrow> 'w js_state \<Rightarrow> 'w js_state \<Rightarrow> bool" where
  "keeps_view c s t \<longleftrightarrow> cached c t = Some (buffer s) \<and> mem t = mem s \<and> buffer t = buffer s"

definition reads_array :: "cache \<Rightarrow> (int \<Rightarrow> int \<Rightarrow> ('w, js_val) wjs) \<Rightarrow> bool" where
  "reads_array c f \<longleftrightarrow> (\<forall>ptr len s. \<exists>t. keeps_view c s t \<and>
     f ptr len s = (Ret (typed_subarray (view_kind c) (view_width c) (buffer t) (to_uint32 ptr) len t), t))"

lemma view_run:
  "\<exists>t. getUint8Memory0 s = (Ret (buffer t), t) \<and> keeps_view Uint8_view s t"
  "\<exists>t. getFloat32Memory0 s = (Ret (buffer t), t) \<and> keeps_view Float32_view s t"
  "\<exists>t. getUint16ArrayMemory0 s = (Ret (buffer t), t) \<and> keeps_view Uint16_view s t"
  "\<exists>t. getUint32ArrayMemory0 s = (Ret (buffer t), t) \<and> keeps_view Uint32_view s t"
  using stale_cached [of "cachedUint8Memory0 s" s] stale_cached [of "cachedFloat32Memory0 s" s]
    stale_cached [of "cachedUint16Memory0 s" s] stale_cached [of "cachedUint32Memory0 s" s]
  by (auto simp: keeps_view_def getUint8Memory0_def getFloat32Memory0_def getUint16ArrayMemory0_def
      getUint32ArrayMemory0_def)

lemma reads_arrayI:
  assumes "\<And>s. \<exists>t. view s = (Ret (buffer t), t) \<and> keeps_view c s t"
    and "\<And>ptr len. f ptr len = js_let view (\<lambda>v. js_gets (typed_subarray (view_kind c) (view_width c) v (to_uint32 ptr) len))"
  shows "reads_array c f"
  unfolding reads_array_def
proof (intro allI)
  fix ptr len s
  obtain t where t: "view s = (Ret (buffer t), t)" "keeps_view c s t" using assms(1) by blast
  then have "f ptr len s = (Ret (typed_subarray (view_kind c) (view_width c) (buffer t) (to_uint32 ptr) len t), t)"
    by (simp add: assms(2) js_let_Ret)
  then show "\<exists>t. keeps_view c s t \<and> f ptr len s = (Ret (typed_subarray (view_kind c) (view_width c) (buffer t) (to_uint32 ptr) len t), t)"
    using t(2) by blast
qed

lemma array_readers:
  "reads_array Uint8_view getArrayU8FromWasm0" "reads_array Uint16_view getArrayU16FromWasm0"
  "reads_array Uint32_view getArrayU32FromWasm0" "reads_array Float32_view getArrayF32FromWasm0"
  by (rule reads_arrayI [OF view_run(1)] reads_arrayI [OF view_run(3)] reads_arrayI [OF view_run(4)]
        reads_arrayI [OF view_run(2)],
      simp add: getArrayU8FromWasm0_def getArrayU16FromWasm0_def getArrayU32FromWasm0_def getArrayF32FromWasm0_def Let_def)+

lemma module_arrays:
  "g \<in> set (module_memories E) \<Longrightarrow> (c, f) \<in> set (arrays g) \<Longrightarrow> c \<in> set (views g) \<and> reads_array c f"
  by (auto simp: module_memories_def memory_defs array_readers spectrum_arrays_def wlan_swap_arrays_def wlan_arrays_def
      wlan_debug_arrays_def wgpu_arrays_def)

lemma view_width_pos: "0 < view_width c"
  by (cases c) simp_all

lemma typed_subarray_inside:
  assumes "0 < w"
  shows "\<exists>i n. typed_subarray kind w (buffer s) p len s = Buf kind (buffer s) (int (i * w)) (int n)
    \<and> i * w + n * w \<le> length (mem s)"
proof -
  obtain i k where ik: "subarray (length (mem s) div w) (js_trunc p w) (js_trunc (p + len * int w) w) = (i, k)"
    by fastforce
  then have "i * w + k * w \<le> length (mem s) div w * w"
    using subarray_le [OF ik] by (metis add_mult_distrib mult_le_mono1)
  then have "i * w + k * w \<le> length (mem s)" by (meson div_times_less_eq_dividend le_trans)
  moreover have "typed_subarray kind w (buffer s) p len s = Buf kind (buffer s) (int (i * w)) (int k)"
    using ik by (simp add: typed_subarray_def byteLength_def)
  ultimately show ?thesis by blast
qed

lemma typed_subarray_exact:
  assumes "0 < w" "0 \<le> p" "0 \<le> len" "(p div int w + len) * int w \<le> int (length (mem s))"
  shows "typed_subarray kind w (buffer s) p len s = Buf kind (buffer s) (p div int w * int w) len"
proof -
  let ?n = "length (mem s) div w" and ?q = "p div int w"
  have q: "?q + len \<le> int ?n" "0 \<le> ?q"
    using assms zdiv_mono1 [OF assms(4), of "int w"] by (simp_all add: zdiv_int pos_imp_zdiv_nonneg_iff)
  have "js_trunc p w = ?q" "js_trunc (p + len * int w) w = ?q + len"
    using assms(1-3) by (simp_all add: js_trunc_def)
  then have "subarray ?n (js_trunc p w) (js_trunc (p + len * int w) w) = (nat ?q, nat len)"
    using q assms(3) by (simp add: subarray_def rel_index_def Let_def nat_add_distrib min_def nat_le_iff)
  then show ?thesis using q(2) assms(3) by (simp add: typed_subarray_def byteLength_def)
qed

section \<open>Views\<close>

text \<open>The views each module caches, with its \<^verbatim>\<open>__wbg_finalize_init\<close>.\<close>

definition module_views :: "'w js_env \<Rightarrow> (cache list \<times> 'w two_values) list" where
  "module_views E = [
     ([Uint8_view, Float32_view, Int32_view], rattlegram_finalize_init E),
     (views (prophecy_memory E), prophecy_finalize_init E),
     (views (spectrum_memory E), spectrum_finalize_init E),
     (views (wlan_swap_memory E), wlan_swap_finalize_init E),
     (views (wlan_memory E), wlan_finalize_init E),
     (views (wlan_debug_memory E), wlan_debug_finalize_init E),
     (views (wgpu_memory E), wgpu_finalize_init E)]"

lemma module_views_cleared:
  "(vs, fin) \<in> set (module_views E) \<Longrightarrow> \<exists>cs. fin = wbg_finalize_init E cs \<and> set vs \<subseteq> set cs"
  by (auto simp: module_views_def memory_defs rattlegram_finalize_init_def prophecy_finalize_init_def
      spectrum_finalize_init_def wlan_swap_finalize_init_def wlan_finalize_init_def wlan_debug_finalize_init_def
      wgpu_finalize_init_def)

lemma finalize_without_views:
  assumes "(vs, fin) \<in> set (module_views E)" "\<not> isLikeNone inst" "host_get E inst ''exports'' s = (Ret ex, t)"
  shows "\<exists>u. fin inst m s = js_seq (wasm_call E ''__wbindgen_start'' []) (js_gets wasm) u
    \<and> wasm u = ex \<and> (\<forall>c \<in> set vs. cached c u = None)"
proof -
  obtain cs where cs: "fin = wbg_finalize_init E cs" "set vs \<subseteq> set cs" using module_views_cleared [OF assms(1)] by blast
  let ?u = "clear_caches cs (t\<lparr>wasm := ex, wasm_module := m\<rparr>)"
  have "wasm ?u = ex" "\<forall>c \<in> set vs. cached c ?u = None" using cs(2) by (auto simp: cached_clear_caches)
  then show ?thesis using finalize_run [OF assms(2,3), of cs m] cs(1) by blast
qed

section \<open>Entry points\<close>

text \<open>
  \<^verbatim>\<open>initSync\<close> and \<^verbatim>\<open>__wbg_init\<close> of each module. \<open>ob\<close> is the import object, \<open>fs\<close> the import functions as values,
  \<open>base\<close> the address of the script.
\<close>

definition module_entries ::
  "'w js_env \<Rightarrow> js_val \<Rightarrow> (string \<times> js_val) list \<Rightarrow> js_val \<Rightarrow> ('w two_values \<times> 'w two_values) list" where
  "module_entries E ob fs base = [
     (rattlegram_initSync E ob, rattlegram_init E ob base),
     (prophecy_initSync E ob, prophecy_init E ob base),
     (spectrum_initSync E ob, spectrum_init E ob base),
     (wlan_swap_initSync E ob, wlan_swap_init E ob base),
     (wlan_initSync E fs, wlan_init E fs base),
     (wlan_debug_initSync E fs, wlan_debug_init E fs base),
     (wgpu_initSync E ob, wgpu_init E ob base)]"

lemma module_entries_ok: "(sync, async) \<in> set (module_entries E ob fs base) \<Longrightarrow> glue_entry sync async"
  using rattlegram.glue_entry_axioms prophecy.glue_entry_axioms spectrum.glue_entry_axioms wlan_swap.glue_entry_axioms
    wlan.glue_entry_axioms wlan_debug.glue_entry_axioms wgpu.glue_entry_axioms
  by (auto simp: module_entries_def)

lemmas loads = wbg_load_def wbg_load_old_def wbg_load_checked_def

lemmas entry_defs = rattlegram_entry_defs prophecy_entry_defs spectrum_entry_defs wlan_swap_entry_defs wlan_entry_defs
  wlan_debug_entry_defs wgpu_entry_defs

lemma import_object_keeps: "host_frame E \<Longrightarrow> keeps_wasm (js_let (host_object E xs) (\<lambda>o'. host_object E (f o')))"
  by (intro keeps_wasm_let host_frameD)

lemma module_entries_fail_clean:
  assumes "host_frame E" "(sync, async) \<in> set (module_entries E ob fs base)"
  shows "fails_clean E (sync m memory)" "fails_clean E (async m memory)"
proof -
  note f = entries_fail_clean [OF assms(1) finalize_fails_clean [OF assms(1)]]
  note l = keeps_wasm_load [OF assms(1)]
  note b = keeps_wasm_setup(5) [OF assms(1)] import_object_keeps [OF assms(1)]
  show "fails_clean E (sync m memory)" using assms(2)
    by (auto simp: module_entries_def entry_defs intro!: f l b)
  show "fails_clean E (async m memory)" using assms(2)
    by (auto simp: module_entries_def entry_defs loads intro!: f l b)
qed

section \<open>Stream classes\<close>

text \<open>
  What a method of a wrapper class is for: the export it calls, what it passes after the pointer of the object,
  what it makes of the result, and whether it gives the value back, so that the object must be empty before
  the export runs.
\<close>

record method_spec =
  callee :: string
  passes :: "js_val list \<Rightarrow> js_val list"
  gives :: "js_val \<Rightarrow> js_val"
  consumes :: bool

definition implements :: "'w js_env \<Rightarrow> method_spec \<Rightarrow> 'w method_fn \<Rightarrow> bool" where
  "implements E m f \<longleftrightarrow> (\<forall>i args s p r. objects s i = Some \<lparr>wbg_ptr = p, wbg_registered = r\<rparr> \<longrightarrow>
     f i args s = js_let (wasm_call E (callee m) (Num p # passes m args)) (\<lambda>v. js_return (gives m v))
       (if consumes m then s\<lparr>objects := (objects s)(i \<mapsto> \<lparr>wbg_ptr = 0, wbg_registered = False\<rparr>)\<rparr> else s))"

lemma implementsD:
  "implements E m f \<Longrightarrow> objects s i = Some \<lparr>wbg_ptr = p, wbg_registered = r\<rparr> \<Longrightarrow>
   f i args s = js_let (wasm_call E (callee m) (Num p # passes m args)) (\<lambda>v. js_return (gives m v))
     (if consumes m then s\<lparr>objects := (objects s)(i \<mapsto> \<lparr>wbg_ptr = 0, wbg_registered = False\<rparr>)\<rparr> else s)"
  unfolding implements_def by blast

definition free_spec :: "string \<Rightarrow> method_spec" where
  "free_spec export = \<lparr>callee = export, passes = (\<lambda>args. [Num 0]), gives = (\<lambda>v. Undefined), consumes = True\<rparr>"

definition dispose_spec :: "string \<Rightarrow> bool \<Rightarrow> (string \<times> method_spec) list" where
  "dispose_spec export d = (if d then [(''[Symbol.dispose]'', free_spec export)] else [])"

text \<open>The stream of bytes, the sink and the source; \<open>d\<close> says whether the class has \<^verbatim>\<open>[Symbol.dispose]\<close>.\<close>

definition byte_source_spec :: "bool \<Rightarrow> (string \<times> method_spec) list" where
  "byte_source_spec d = [
     (''free'', free_spec ''__wbg_intounderlyingbytesource_free''),
     (''type'', \<lparr>callee = ''intounderlyingbytesource_type'', passes = (\<lambda>args. []),
        gives = enum_at enum_ReadableStreamType, consumes = False\<rparr>),
     (''autoAllocateChunkSize'', \<lparr>callee = ''intounderlyingbytesource_autoAllocateChunkSize'', passes = (\<lambda>args. []),
        gives = js_u32, consumes = False\<rparr>),
     (''start'', \<lparr>callee = ''intounderlyingbytesource_start'', passes = (\<lambda>args. [js_param args 0]), gives = (\<lambda>v. Undefined), consumes = False\<rparr>),
     (''pull'', \<lparr>callee = ''intounderlyingbytesource_pull'', passes = (\<lambda>args. [js_param args 0]), gives = (\<lambda>v. v), consumes = False\<rparr>),
     (''cancel'', \<lparr>callee = ''intounderlyingbytesource_cancel'', passes = (\<lambda>args. []), gives = (\<lambda>v. Undefined), consumes = True\<rparr>)]
     @ dispose_spec ''__wbg_intounderlyingbytesource_free'' d"

definition sink_spec :: "bool \<Rightarrow> (string \<times> method_spec) list" where
  "sink_spec d = [
     (''free'', free_spec ''__wbg_intounderlyingsink_free''),
     (''write'', \<lparr>callee = ''intounderlyingsink_write'', passes = (\<lambda>args. [js_param args 0]), gives = (\<lambda>v. v), consumes = False\<rparr>),
     (''close'', \<lparr>callee = ''intounderlyingsink_close'', passes = (\<lambda>args. []), gives = (\<lambda>v. v), consumes = True\<rparr>),
     (''abort'', \<lparr>callee = ''intounderlyingsink_abort'', passes = (\<lambda>args. [js_param args 0]), gives = (\<lambda>v. v), consumes = True\<rparr>)]
     @ dispose_spec ''__wbg_intounderlyingsink_free'' d"

definition source_spec :: "bool \<Rightarrow> (string \<times> method_spec) list" where
  "source_spec d = [
     (''free'', free_spec ''__wbg_intounderlyingsource_free''),
     (''pull'', \<lparr>callee = ''intounderlyingsource_pull'', passes = (\<lambda>args. [js_param args 0]), gives = (\<lambda>v. v), consumes = False\<rparr>),
     (''cancel'', \<lparr>callee = ''intounderlyingsource_cancel'', passes = (\<lambda>args. []), gives = (\<lambda>v. Undefined), consumes = True\<rparr>)]
     @ dispose_spec ''__wbg_intounderlyingsource_free'' d"

text \<open>
  The classes of the five modules that have them, each with its methods and the export of its finalizer;
  \<open>d\<close> says whether the host has \<^verbatim>\<open>Symbol.dispose\<close>.
\<close>

definition stream_classes :: "'w js_env \<Rightarrow> bool \<Rightarrow> ((string \<times> method_spec) list \<times> string \<times> 'w wrapper_class) list" where
  "stream_classes E d = [
     (byte_source_spec False, ''__wbg_intounderlyingbytesource_free'', prophecy_IntoUnderlyingByteSource E),
     (sink_spec False, ''__wbg_intounderlyingsink_free'', prophecy_IntoUnderlyingSink E),
     (source_spec False, ''__wbg_intounderlyingsource_free'', prophecy_IntoUnderlyingSource E),
     (byte_source_spec False, ''__wbg_intounderlyingbytesource_free'', spectrum_IntoUnderlyingByteSource E),
     (sink_spec False, ''__wbg_intounderlyingsink_free'', spectrum_IntoUnderlyingSink E),
     (source_spec False, ''__wbg_intounderlyingsource_free'', spectrum_IntoUnderlyingSource E),
     (byte_source_spec d, ''__wbg_intounderlyingbytesource_free'', wlan_swap_IntoUnderlyingByteSource E d),
     (sink_spec d, ''__wbg_intounderlyingsink_free'', wlan_swap_IntoUnderlyingSink E d),
     (source_spec d, ''__wbg_intounderlyingsource_free'', wlan_swap_IntoUnderlyingSource E d),
     (byte_source_spec d, ''__wbg_intounderlyingbytesource_free'', wlan_IntoUnderlyingByteSource E d),
     (sink_spec d, ''__wbg_intounderlyingsink_free'', wlan_IntoUnderlyingSink E d),
     (source_spec d, ''__wbg_intounderlyingsource_free'', wlan_IntoUnderlyingSource E d),
     (byte_source_spec d, ''__wbg_intounderlyingbytesource_free'', wlan_debug_IntoUnderlyingByteSource E d),
     (sink_spec d, ''__wbg_intounderlyingsink_free'', wlan_debug_IntoUnderlyingSink E d),
     (source_spec d, ''__wbg_intounderlyingsource_free'', wlan_debug_IntoUnderlyingSource E d)]"

lemma js_do_let: "js_do m = js_let m (\<lambda>r. js_return Undefined)"
  by (simp add: js_do_def js_seq_def)

lemmas users_defs = bytesource_type_def bytesource_autoAllocateChunkSize_def bytesource_start_def bytesource_pull_def
  sink_write_def source_pull_def

lemma methods_implement:
  "implements E (free_spec ''__wbg_intounderlyingbytesource_free'') (\<lambda>i args. bytesource_free E i)"
  "implements E (free_spec ''__wbg_intounderlyingsink_free'') (\<lambda>i args. sink_free E i)"
  "implements E (free_spec ''__wbg_intounderlyingsource_free'') (\<lambda>i args. source_free E i)"
  "implements E \<lparr>callee = ''intounderlyingbytesource_type'', passes = (\<lambda>args. []), gives = enum_at enum_ReadableStreamType,
     consumes = False\<rparr> (\<lambda>i args. bytesource_type E i)"
  "implements E \<lparr>callee = ''intounderlyingbytesource_autoAllocateChunkSize'', passes = (\<lambda>args. []), gives = js_u32,
     consumes = False\<rparr> (\<lambda>i args. bytesource_autoAllocateChunkSize E i)"
  "implements E \<lparr>callee = ''intounderlyingbytesource_start'', passes = (\<lambda>args. [js_param args 0]), gives = (\<lambda>v. Undefined), consumes = False\<rparr>
     (\<lambda>i args. bytesource_start E i (js_param args 0))"
  "implements E \<lparr>callee = ''intounderlyingbytesource_pull'', passes = (\<lambda>args. [js_param args 0]), gives = (\<lambda>v. v), consumes = False\<rparr>
     (\<lambda>i args. bytesource_pull E i (js_param args 0))"
  "implements E \<lparr>callee = ''intounderlyingbytesource_cancel'', passes = (\<lambda>args. []), gives = (\<lambda>v. Undefined), consumes = True\<rparr>
     (\<lambda>i args. bytesource_cancel E i)"
  "implements E \<lparr>callee = ''intounderlyingsink_write'', passes = (\<lambda>args. [js_param args 0]), gives = (\<lambda>v. v), consumes = False\<rparr>
     (\<lambda>i args. sink_write E i (js_param args 0))"
  "implements E \<lparr>callee = ''intounderlyingsink_close'', passes = (\<lambda>args. []), gives = (\<lambda>v. v), consumes = True\<rparr>
     (\<lambda>i args. sink_close E i)"
  "implements E \<lparr>callee = ''intounderlyingsink_abort'', passes = (\<lambda>args. [js_param args 0]), gives = (\<lambda>v. v), consumes = True\<rparr>
     (\<lambda>i args. sink_abort E i (js_param args 0))"
  "implements E \<lparr>callee = ''intounderlyingsource_pull'', passes = (\<lambda>args. [js_param args 0]), gives = (\<lambda>v. v), consumes = False\<rparr>
     (\<lambda>i args. source_pull E i (js_param args 0))"
  "implements E \<lparr>callee = ''intounderlyingsource_cancel'', passes = (\<lambda>args. []), gives = (\<lambda>v. Undefined), consumes = True\<rparr>
     (\<lambda>i args. source_cancel E i)"
  by (simp_all add: implements_def free_spec_def consumers_run emptied_def users_defs js_let_Ret [OF this_ptr_run]
      js_do_let js_let_right_id)

lemmas class_defs = prophecy_IntoUnderlyingByteSource_def prophecy_IntoUnderlyingSink_def prophecy_IntoUnderlyingSource_def
  spectrum_IntoUnderlyingByteSource_def spectrum_IntoUnderlyingSink_def spectrum_IntoUnderlyingSource_def
  wlan_swap_IntoUnderlyingByteSource_def wlan_swap_IntoUnderlyingSink_def wlan_swap_IntoUnderlyingSource_def
  wlan_IntoUnderlyingByteSource_def wlan_IntoUnderlyingSink_def wlan_IntoUnderlyingSource_def
  wlan_debug_IntoUnderlyingByteSource_def wlan_debug_IntoUnderlyingSink_def wlan_debug_IntoUnderlyingSource_def

text \<open>Two method tables fit together name by name, in whatever order they list the methods.\<close>

definition fitting :: "'w js_env \<Rightarrow> (string \<times> method_spec) list \<Rightarrow> 'w method_table \<Rightarrow> bool" where
  "fitting E spec ms \<longleftrightarrow> (\<forall>n. rel_option (implements E) (map_of spec n) (map_of ms n))"

lemmas spec_defs = byte_source_spec_def sink_spec_def source_spec_def dispose_spec_def

lemma stream_classes_fit:
  "(spec, export, c) \<in> set (stream_classes E d) \<Longrightarrow> fitting E spec (methods c)"
  unfolding stream_classes_def list.set insert_iff empty_iff prod.inject
  by (elim disjE conjE FalseE; hypsubst; cases d; simp add: fitting_def class_defs spec_defs on_dispose_def methods_implement)

lemma stream_classes_finalize:
  "(spec, export, c) \<in> set (stream_classes E d) \<Longrightarrow> finalizer c p = wasm_call E export [js_u32 p, Num 1]"
  unfolding stream_classes_def list.set insert_iff empty_iff prod.inject
  by (elim disjE conjE FalseE; hypsubst; simp add: class_defs bytesource_finalize_def sink_finalize_def source_finalize_def)

text \<open>
  A whole life of an object: any calls of its methods, one after the other, whatever they return or throw. The
  trace is what reaches the module; the pointer is the one of the object until a method gives the value back.
\<close>

definition call_method :: "'w wrapper_class \<Rightarrow> nat \<Rightarrow> string \<times> js_val list \<Rightarrow> 'w js_state \<Rightarrow> 'w js_state" where
  "call_method c i = (\<lambda>(n, args) s. case map_of (methods c) n of None \<Rightarrow> s | Some f \<Rightarrow> snd (f i args s))"

fun export_trace :: "(string \<times> method_spec) list \<Rightarrow> int \<Rightarrow> (string \<times> js_val list) list \<Rightarrow> (string \<times> js_val list) list" where
  "export_trace spec p [] = []"
| "export_trace spec p ((n, args) # cs) = (case map_of spec n of
     None \<Rightarrow> export_trace spec p cs
   | Some m \<Rightarrow> (callee m, Num p # passes m args) # export_trace spec (if consumes m then 0 else p) cs)"

text \<open>A call that gives a value back, and a module whose calls are logged and which leaves the objects alone.\<close>

definition gives_back :: "(string \<times> method_spec) list \<Rightarrow> string \<times> js_val list \<Rightarrow> bool" where
  "gives_back spec = (\<lambda>(e, args). hd args \<noteq> Num 0 \<and> list_ex (\<lambda>(n, m). consumes m \<and> callee m = e) spec)"

definition recorded :: "'w js_env \<Rightarrow> ('w \<Rightarrow> (string \<times> js_val list) list) \<Rightarrow> bool" where
  "recorded E log \<longleftrightarrow> (\<forall>e args s. log (world (snd (wasm_call E e args s))) = log (world s) @ [(e, args)]
     \<and> objects (snd (wasm_call E e args s)) = objects s)"

lemma snd_js_let_return: "snd (js_let m (\<lambda>v. js_return (g v)) s) = snd (m s)"
  by (simp add: js_let_def split: prod.splits outcome.splits)

lemma fitting_trace:
  assumes "fitting E spec (methods c)" "recorded E log" "objects s i = Some \<lparr>wbg_ptr = p, wbg_registered = r\<rparr>"
  shows "log (world (fold (call_method c i) cs s)) = log (world s) @ export_trace spec p cs"
  using assms(3)
proof (induction cs arbitrary: s p r)
  case (Cons x cs)
  obtain n args where x: "x = (n, args)" by fastforce
  have fit: "rel_option (implements E) (map_of spec n) (map_of (methods c) n)" using assms(1) by (simp add: fitting_def)
  show ?case
  proof (cases "map_of spec n")
    case None
    then show ?thesis using Cons fit x by (simp add: call_method_def option_rel_Some1)
  next
    case (Some m)
    then obtain f where f: "map_of (methods c) n = Some f" "implements E m f" using fit by (auto simp: option_rel_Some1)
    let ?s = "if consumes m then s\<lparr>objects := (objects s)(i \<mapsto> \<lparr>wbg_ptr = 0, wbg_registered = False\<rparr>)\<rparr> else s"
    let ?t = "snd (wasm_call E (callee m) (Num p # passes m args) ?s)"
    have "call_method c i x s = ?t"
      using f(1) implementsD [OF f(2) Cons.prems, of args] x by (simp add: call_method_def snd_js_let_return)
    moreover have "log (world ?t) = log (world s) @ [(callee m, Num p # passes m args)]" "objects ?t = objects ?s"
      using assms(2) unfolding recorded_def by auto
    moreover have "objects ?s i = Some \<lparr>wbg_ptr = if consumes m then 0 else p, wbg_registered = \<not> consumes m \<and> r\<rparr>"
      using Cons.prems by simp
    ultimately show ?thesis using Cons.IH [of ?t "if consumes m then 0 else p" "\<not> consumes m \<and> r"] Some x by simp
  qed
qed simp

lemma trace_null: "filter (gives_back spec) (export_trace spec 0 cs) = []"
  by (induction cs) (auto simp: gives_back_def split: option.splits)

text \<open>Methods that share an export agree on whether it takes the value.\<close>

definition exports_agree :: "(string \<times> method_spec) list \<Rightarrow> bool" where
  "exports_agree spec \<longleftrightarrow> list_all (\<lambda>(n, m). list_all (\<lambda>(n', m'). callee m = callee m' \<longrightarrow> consumes m = consumes m') spec) spec"

lemma trace_gives_back_once:
  assumes "exports_agree spec"
  shows "length (filter (gives_back spec) (export_trace spec p cs)) \<le> 1"
proof (induction cs)
  case (Cons x cs)
  obtain n args where x: "x = (n, args)" by fastforce
  have "\<not> gives_back spec (callee m, xs)" if "map_of spec n = Some m" "\<not> consumes m" for m xs
    using assms map_of_SomeD [OF that(1)] that(2) by (fastforce simp: gives_back_def exports_agree_def list_ex_iff list_all_iff)
  then show ?case using Cons by (auto simp: x trace_null split: option.splits)
qed simp

lemma stream_exports_agree: "(spec, export, c) \<in> set (stream_classes E d) \<Longrightarrow> exports_agree spec"
proof -
  have "exports_agree (byte_source_spec b)" "exports_agree (sink_spec b)" "exports_agree (source_spec b)" for b
    by (cases b; simp add: exports_agree_def spec_defs free_spec_def)+
  then show "(spec, export, c) \<in> set (stream_classes E d) \<Longrightarrow> exports_agree spec"
    by (auto simp: stream_classes_def)
qed

section \<open>Closures\<close>

text \<open>An adapter calls one export with its own parameters and returns what it makes of the result.\<close>

definition forwards :: "'w js_env \<Rightarrow> string \<Rightarrow> nat \<Rightarrow> (js_val \<Rightarrow> js_val) \<Rightarrow> 'w import_fn \<Rightarrow> bool" where
  "forwards E export k post f \<longleftrightarrow>
     (\<forall>args. f args = js_let (wasm_call E export (map (js_param args) [0..<k])) (\<lambda>r. js_return (post r)))"

lemma js_param_tl: "js_param (tl args) i = js_param args (Suc i)"
  by (cases args) (simp_all add: js_param_def)

lemma forwards_fn:
  "forwards E e (Suc (Suc 0)) (\<lambda>_. Undefined) (fn2 (\<lambda>a b. js_do (wasm_call E e [a, b])))"
  "forwards E e (Suc (Suc (Suc 0))) (\<lambda>_. Undefined) (fn3 (\<lambda>a b c. js_do (wasm_call E e [a, b, c])))"
  by (simp_all add: forwards_def fn_defs js_param_tl js_do_let)

text \<open>
  What each import that makes a closure promises: the destructor of the closure, the export that stands for the
  Rust function, and how many arguments of a call are handed to it, the others being dropped.
\<close>

record closure_spec =
  destructor :: js_val
  shim :: string
  handed :: nat

definition prophecy_shims :: "(string \<times> closure_spec) list" where
  "prophecy_shims = [
     (''__wbindgen_closure_wrapper2765'', \<lparr>destructor = Num 285,
        shim = ''closure284_externref_shim'', handed = 1\<rparr>),
     (''__wbindgen_closure_wrapper580'', \<lparr>destructor = Num 209,
        shim = ''closure208_externref_shim'', handed = 1\<rparr>)]"

definition spectrum_shims :: "(string \<times> closure_spec) list" where
  "spectrum_shims = [
     (''__wbindgen_closure_wrapper1202'', \<lparr>destructor = Num 415,
        shim = ''_dyn_core__ops__function__FnMut_____Output___R_as_wasm_bindgen__closure__WasmClosure___describe__invoke__hd590aa25f8faeea3'', handed = 0\<rparr>),
     (''__wbindgen_closure_wrapper1226'', \<lparr>destructor = Num 419,
        shim = ''closure418_externref_shim'', handed = 1\<rparr>),
     (''__wbindgen_closure_wrapper1228'', \<lparr>destructor = Num 419,
        shim = ''closure418_externref_shim'', handed = 1\<rparr>),
     (''__wbindgen_closure_wrapper1230'', \<lparr>destructor = Num 419,
        shim = ''_dyn_core__ops__function__FnMut_____Output___R_as_wasm_bindgen__closure__WasmClosure___describe__invoke__heea07e4c3b8fa3fa'', handed = 0\<rparr>),
     (''__wbindgen_closure_wrapper1232'', \<lparr>destructor = Num 419,
        shim = ''closure418_externref_shim'', handed = 1\<rparr>),
     (''__wbindgen_closure_wrapper3232'', \<lparr>destructor = Num 453,
        shim = ''closure452_externref_shim'', handed = 1\<rparr>),
     (''__wbindgen_closure_wrapper879'', \<lparr>destructor = Num 313,
        shim = ''closure312_externref_shim'', handed = 1\<rparr>)]"

definition wlan_swap_shims :: "(string \<times> closure_spec) list" where
  "wlan_swap_shims = [
     (''__wbindgen_cast_0e01051ec6ae5085'', \<lparr>destructor = Num 397,
        shim = ''wasm_bindgen__convert__closures_____invoke__h3a0ce2e28d0e7b37'', handed = 0\<rparr>),
     (''__wbindgen_cast_46a2f914673d6489'', \<lparr>destructor = Num 397,
        shim = ''closure398_externref_shim'', handed = 1\<rparr>),
     (''__wbindgen_cast_4b1c6ecbf5b749c2'', \<lparr>destructor = Num 490,
        shim = ''closure491_externref_shim'', handed = 1\<rparr>),
     (''__wbindgen_cast_55a1e910854fa93a'', \<lparr>destructor = Num 464,
        shim = ''closure465_externref_shim'', handed = 1\<rparr>),
     (''__wbindgen_cast_8cf60041ca45c6d3'', \<lparr>destructor = Num 464,
        shim = ''wasm_bindgen__convert__closures_____invoke__hc331aff52715f424'', handed = 0\<rparr>),
     (''__wbindgen_cast_b3b92d7b125797b8'', \<lparr>destructor = Num 464,
        shim = ''closure465_externref_shim'', handed = 1\<rparr>),
     (''__wbindgen_cast_bc731d2e03b107e4'', \<lparr>destructor = Num 464,
        shim = ''closure465_externref_shim'', handed = 1\<rparr>)]"

definition wlan_shims :: "(string \<times> closure_spec) list" where
  "wlan_shims = [
     (''__wbindgen_cast_0000000000000001'', \<lparr>destructor = Export ''wasm_bindgen__closure__destroy__h9f355aeb9ddcb8e7'',
        shim = ''wasm_bindgen__convert__closures_____invoke__h705442ba5fd6af6f'', handed = 1\<rparr>),
     (''__wbindgen_cast_0000000000000002'', \<lparr>destructor = Export ''wasm_bindgen__closure__destroy__h134d0c2aa920e56d'',
        shim = ''wasm_bindgen__convert__closures_____invoke__h6d25d05bc9ceff60'', handed = 1\<rparr>),
     (''__wbindgen_cast_0000000000000003'', \<lparr>destructor = Export ''wasm_bindgen__closure__destroy__h95f19d01a36739ae'',
        shim = ''wasm_bindgen__convert__closures_____invoke__hca206b6078dfbc56'', handed = 1\<rparr>),
     (''__wbindgen_cast_0000000000000004'', \<lparr>destructor = Export ''wasm_bindgen__closure__destroy__h48f27f14ffdc59fa'',
        shim = ''wasm_bindgen__convert__closures_____invoke__h65ce2db5fdf0eedf'', handed = 0\<rparr>),
     (''__wbindgen_cast_0000000000000005'', \<lparr>destructor = Export ''wasm_bindgen__closure__destroy__h8f547915c018ff00'',
        shim = ''wasm_bindgen__convert__closures_____invoke__h4b2ba69449b74e62'', handed = 1\<rparr>),
     (''__wbindgen_cast_0000000000000006'', \<lparr>destructor = Export ''wasm_bindgen__closure__destroy__h702817896ba26f41'',
        shim = ''wasm_bindgen__convert__closures_____invoke__h1a6d232d156b5320'', handed = 1\<rparr>)]"

definition wlan_debug_shims :: "(string \<times> closure_spec) list" where
  "wlan_debug_shims = [
     (''__wbindgen_cast_0000000000000001'', \<lparr>destructor = Export ''wasm_bindgen__closure__destroy__h9f355aeb9ddcb8e7'',
        shim = ''wasm_bindgen__convert__closures_____invoke__h705442ba5fd6af6f'', handed = 1\<rparr>),
     (''__wbindgen_cast_0000000000000002'', \<lparr>destructor = Export ''wasm_bindgen__closure__destroy__h134d0c2aa920e56d'',
        shim = ''wasm_bindgen__convert__closures_____invoke__h6d25d05bc9ceff60'', handed = 1\<rparr>),
     (''__wbindgen_cast_0000000000000003'', \<lparr>destructor = Export ''wasm_bindgen__closure__destroy__h95f19d01a36739ae'',
        shim = ''wasm_bindgen__convert__closures_____invoke__hca206b6078dfbc56'', handed = 1\<rparr>),
     (''__wbindgen_cast_0000000000000004'', \<lparr>destructor = Export ''wasm_bindgen__closure__destroy__h48f27f14ffdc59fa'',
        shim = ''wasm_bindgen__convert__closures_____invoke__h65ce2db5fdf0eedf'', handed = 0\<rparr>),
     (''__wbindgen_cast_0000000000000005'', \<lparr>destructor = Export ''wasm_bindgen__closure__destroy__h8f547915c018ff00'',
        shim = ''wasm_bindgen__convert__closures_____invoke__h4b2ba69449b74e62'', handed = 1\<rparr>),
     (''__wbindgen_cast_0000000000000006'', \<lparr>destructor = Export ''wasm_bindgen__closure__destroy__h702817896ba26f41'',
        shim = ''wasm_bindgen__convert__closures_____invoke__h1a6d232d156b5320'', handed = 1\<rparr>)]"

definition wgpu_shims :: "(string \<times> closure_spec) list" where
  "wgpu_shims = [
     (''__wbindgen_closure_wrapper6684'', \<lparr>destructor = Num 567,
        shim = ''closure566_externref_shim'', handed = 1\<rparr>),
     (''__wbindgen_closure_wrapper9471'', \<lparr>destructor = Num 584,
        shim = ''closure583_externref_shim'', handed = 1\<rparr>)]"

definition module_closures ::
  "'w js_env \<Rightarrow> ('w import_table \<times> (string \<times> closure_spec) list \<times> 'w import_table \<times> 'w closure_glue) list" where
  "module_closures E = [
     (prophecy_imports E, prophecy_shims, prophecy_adapters E, prophecy_closure_glue E),
     (spectrum_imports E, spectrum_shims, spectrum_adapters E, spectrum_closure_glue E),
     (wlan_swap_imports E, wlan_swap_shims, wlan_swap_adapters E, wlan_swap_closure_glue E),
     (wlan_imports E, wlan_shims, wlan_adapters E, wlan_closure_glue E),
     (wlan_debug_imports E, wlan_debug_shims, wlan_debug_adapters E, wlan_debug_closure_glue E),
     (wgpu_imports E, wgpu_shims, wgpu_adapters E, wgpu_closure_glue E)]"

text \<open>The import makes its closure for an adapter that forwards to the shim.\<close>

definition shim_entry ::
  "'w js_env \<Rightarrow> (string \<times> js_val \<times> string) list \<Rightarrow> 'w import_table \<Rightarrow> string \<times> closure_spec \<Rightarrow> bool" where
  "shim_entry E ns ad = (\<lambda>(n, k). \<exists>x f. (n, destructor k, x) \<in> set ns \<and> map_of ad x = Some f
     \<and> forwards E (shim k) (2 + handed k) (\<lambda>_. Undefined) f)"

lemma shim_entryI:
  "(n, destructor k, x) \<in> set ns \<Longrightarrow> map_of ad x = Some f \<Longrightarrow> forwards E (shim k) (2 + handed k) (\<lambda>_. Undefined) f \<Longrightarrow>
   shim_entry E ns ad (n, k)"
  by (auto simp: shim_entry_def)

lemma shims_adapted:
  "list_all (shim_entry E prophecy_closures (prophecy_adapters E)) prophecy_shims"
  "list_all (shim_entry E spectrum_closures (spectrum_adapters E)) spectrum_shims"
  "list_all (shim_entry E wlan_swap_closures (wlan_swap_adapters E)) wlan_swap_shims"
  "list_all (shim_entry E wlan_closures (wlan_adapters E)) wlan_shims"
  "list_all (shim_entry E wlan_debug_closures (wlan_debug_adapters E)) wlan_debug_shims"
  "list_all (shim_entry E wgpu_closures (wgpu_adapters E)) wgpu_shims"
  by (simp_all add: shim_entry_def prophecy_shims_def spectrum_shims_def wlan_swap_shims_def wlan_shims_def
      wlan_debug_shims_def wgpu_shims_def prophecy_closures_def spectrum_closures_def wlan_swap_closures_def
      wlan_closures_def wlan_debug_closures_def wgpu_closures_def prophecy_adapters_def spectrum_adapters_def
      wlan_swap_adapters_def wlan_adapters_def wlan_debug_adapters_def wgpu_adapters_def forwards_fn)

definition closures_ok ::
  "'w js_env \<Rightarrow> 'w import_table \<times> (string \<times> closure_spec) list \<times> 'w import_table \<times> 'w closure_glue \<Rightarrow> bool" where
  "closures_ok E = (\<lambda>(tbl, ks, ad, g). ascending (import_names tbl)
     \<and> (\<exists>ns. provides tbl (closure_maker ad) ns \<and> list_all (shim_entry E ns ad) ks)
     \<and> (call_real g = call_closure E \<or> call_real g = call_closure_unref E))"

lemma closures_okI:
  "ascending (import_names tbl) \<Longrightarrow> provides tbl (closure_maker ad) ns \<Longrightarrow> list_all (shim_entry E ns ad) ks \<Longrightarrow>
   call_real g = call_closure E \<or> call_real g = call_closure_unref E \<Longrightarrow> closures_ok E (tbl, ks, ad, g)"
  by (auto simp: closures_ok_def)

lemma module_closures_ok: "list_all (closures_ok E) (module_closures E)"
  unfolding module_closures_def list.pred_inject
  by (intro conjI TrueI closures_okI [OF prophecy_ascending prophecy_closures_provided shims_adapted(1)]
      closures_okI [OF spectrum_ascending spectrum_closures_provided shims_adapted(2)]
      closures_okI [OF wlan_swap_ascending wlan_swap_closures_provided shims_adapted(3)]
      closures_okI [OF wlan_ascending wlan_closures_provided shims_adapted(4)]
      closures_okI [OF wlan_debug_ascending wlan_debug_closures_provided shims_adapted(5)]
      closures_okI [OF wgpu_ascending wgpu_closures_provided shims_adapted(6)])
    (simp_all add: prophecy_closure_glue_def spectrum_closure_glue_def wlan_swap_closure_glue_def wlan_closure_glue_def
      wlan_debug_closure_glue_def wgpu_closure_glue_def)

text \<open>
  An import \<open>f\<close> that makes a closure with the words \<open>a\<close> and \<open>b\<close> of Rust, and the state object while the closure
  runs: the first word is out of reach and the call is counted.
\<close>

definition made_by :: "'w import_fn \<Rightarrow> js_val \<Rightarrow> string \<Rightarrow> int \<Rightarrow> int \<Rightarrow> bool" where
  "made_by f d x a b \<longleftrightarrow> (\<forall>rest s. f (Num a # Num b # rest) s =
     (Ret (Clo (next_closure s)), s\<lparr>closures := (closures s)(next_closure s \<mapsto>
        \<lparr>clo_a = a, clo_b = b, clo_cnt = 1, clo_dtor = d, clo_f = x, clo_counted = True\<rparr>),
        next_closure := next_closure s + 1, registry := insert (next_closure s) (registry s)\<rparr>))"

lemma closure_maker_made_by: "closure_maker ad (d, x) f \<Longrightarrow> made_by f d x a b"
  unfolding closure_maker_def made_by_def by (auto simp: makeMutClosure_def Let_def)

definition while_running :: "closure \<Rightarrow> closure" where
  "while_running c = c\<lparr>clo_a := 0, clo_cnt := clo_cnt c + 1\<rparr>"

lemma while_running_entered: "snd (closure_enter c) = while_running c"
  by (simp add: closure_enter_def while_running_def)

lemma forwards_run:
  assumes "forwards E export (2 + k) (\<lambda>_. Undefined) f"
    and "wasm_call E export (Num a # Num b # map (js_param args) [0..<k]) s = (r, t)"
  shows "f (Num a # Num b # args) s = (case r of Ret v \<Rightarrow> Ret Undefined | Throw e \<Rightarrow> Throw e, t)"
proof -
  have "[0..<2 + k] = 0 # Suc 0 # map (\<lambda>i. Suc (Suc i)) [0..<k]"
    by (induction k) (simp_all add: numeral_2_eq_2)
  then have "map (js_param (Num a # Num b # args)) [0..<2 + k] = Num a # Num b # map (js_param args) [0..<k]"
    by (simp add: js_param_def)
  then show ?thesis using assms by (cases r) (simp_all add: forwards_def js_let_Ret js_let_Throw)
qed

lemma closure_reaches_export:
  assumes "(tbl, ks, ad, g) \<in> set (module_closures E)" "(n, k) \<in> set ks"
  shows "\<exists>f x. map_of tbl n = Some f \<and> made_by f (destructor k) x a b \<and>
    (\<forall>i u c args r t. closures u i = Some c \<longrightarrow> clo_f c = x \<longrightarrow> clo_cnt c \<noteq> 0 \<longrightarrow>
       wasm_call E (shim k) (Num (clo_a c) # Num (clo_b c) # map (js_param args) [0..<handed k])
         (u\<lparr>closures := (closures u)(i \<mapsto> while_running c)\<rparr>) = (r, t) \<longrightarrow>
       closures t i = Some (while_running c) \<longrightarrow>
       call_real g (find_adapter ad) i args u =
         (case r of Ret v \<Rightarrow> Ret Undefined | Throw e \<Rightarrow> Throw e, t\<lparr>closures := (closures t)(i \<mapsto> c)\<rparr>))"
proof -
  obtain ns where m: "ascending (import_names tbl)" "provides tbl (closure_maker ad) ns" "list_all (shim_entry E ns ad) ks"
    "call_real g = call_closure E \<or> call_real g = call_closure_unref E"
    using module_closures_ok [of E] assms(1) unfolding list_all_iff closures_ok_def by fastforce
  have "shim_entry E ns ad (n, k)" using m(3) assms(2) by (auto simp: list_all_iff)
  then obtain x h where x: "(n, destructor k, x) \<in> set ns" "map_of ad x = Some h"
    "forwards E (shim k) (2 + handed k) (\<lambda>_. Undefined) h" by (auto simp: shim_entry_def)
  obtain f where f: "map_of tbl n = Some f" "closure_maker ad (destructor k, x) f"
    using provides_found [OF m(1,2) x(1)] by blast
  have h: "find_adapter ad x = h" using x(2) by (simp add: find_adapter_def fun_eq_iff)
  have run: "call_real g (find_adapter ad) i args u =
      (case r of Ret v \<Rightarrow> Ret Undefined | Throw e \<Rightarrow> Throw e, t\<lparr>closures := (closures t)(i \<mapsto> c)\<rparr>)"
    if c: "closures u i = Some c" "clo_f c = x" "clo_cnt c \<noteq> 0"
      and e: "wasm_call E (shim k) (Num (clo_a c) # Num (clo_b c) # map (js_param args) [0..<handed k])
         (u\<lparr>closures := (closures u)(i \<mapsto> while_running c)\<rparr>) = (r, t)"
      and t: "closures t i = Some (while_running c)" for i u c args r t
  proof -
    let ?r = "case r of Ret v \<Rightarrow> Ret Undefined | Throw e \<Rightarrow> Throw e"
    have run: "find_adapter ad (clo_f c) (Num (clo_a c) # Num (clo_b c) # args) (entered i c u) = (?r, t)"
      using forwards_run [OF x(3)] e c(2) h by (simp add: entered_def while_running_entered)
    have t': "closures t i = Some (snd (closure_enter c))" using t by (simp add: while_running_entered)
    show ?thesis
      using m(4) call_closure_keeps [of u i c "find_adapter ad" args ?r t E, OF c(1,3) run t']
        call_closure_unref_keeps [of u i c "find_adapter ad" args ?r t E, OF c(1,3) run t'] by metis
  qed
  show ?thesis using f(1) closure_maker_made_by [OF f(2)] run by blast
qed

section \<open>Debug texts\<close>

text \<open>The import under which Rust asks for the debug text of a value, and the function that makes it.\<close>

definition module_debug :: "'w js_env \<Rightarrow> ('w import_table \<times> string \<times> (js_val \<Rightarrow> ('w, js_string) wjs)) list" where
  "module_debug E = [
     (prophecy_imports E, ''__wbindgen_debug_string'', prophecy_debugString E),
     (spectrum_imports E, ''__wbindgen_debug_string'', spectrum_debugString E),
     (wlan_swap_imports E, ''__wbg_wbindgendebugstring_99ef257a3ddda34d'', wlan_swap_debugString E),
     (wlan_imports E, ''__wbg___wbindgen_debug_string_0bc8482c6e3508ae'', wlan_debugString E),
     (wlan_debug_imports E, ''__wbg___wbindgen_debug_string_0bc8482c6e3508ae'', wlan_debug_debugString E),
     (wgpu_imports E, ''__wbindgen_debug_string'', wgpu_debugString E)]"

definition debug_import :: "'w js_env \<Rightarrow> 'w import_fn" where
  "debug_import E = fn2 (\<lambda>arg0 arg1. js_let (js_gets (\<lambda>s. Str (debugString (host_shape E arg1 s)))) (ret_string E arg0))"

lemma debug_import_listed:
  "(''__wbindgen_debug_string'', debug_import E) \<in> set (prophecy_imports_3 E)"
  "(''__wbindgen_debug_string'', debug_import E) \<in> set (spectrum_imports_5 E)"
  "(''__wbg_wbindgendebugstring_99ef257a3ddda34d'', debug_import E) \<in> set (wlan_swap_imports_5 E)"
  "(''__wbg___wbindgen_debug_string_0bc8482c6e3508ae'', debug_import E) \<in> set (wlan_imports_1 E)"
  "(''__wbg___wbindgen_debug_string_0bc8482c6e3508ae'', debug_import E) \<in> set (wlan_debug_imports_1 E)"
  "(''__wbindgen_debug_string'', debug_import E) \<in> set (wgpu_imports_8 E)"
  by (simp_all add: debug_import_def prophecy_imports_3_def spectrum_imports_5_def wlan_swap_imports_5_def wlan_imports_1_def wlan_debug_imports_1_def wgpu_imports_8_def)

lemma debug_import_found:
  "map_of (prophecy_imports E) ''__wbindgen_debug_string'' = Some (debug_import E)"
  "map_of (spectrum_imports E) ''__wbindgen_debug_string'' = Some (debug_import E)"
  "map_of (wlan_swap_imports E) ''__wbg_wbindgendebugstring_99ef257a3ddda34d'' = Some (debug_import E)"
  "map_of (wlan_imports E) ''__wbg___wbindgen_debug_string_0bc8482c6e3508ae'' = Some (debug_import E)"
  "map_of (wlan_debug_imports E) ''__wbg___wbindgen_debug_string_0bc8482c6e3508ae'' = Some (debug_import E)"
  "map_of (wgpu_imports E) ''__wbindgen_debug_string'' = Some (debug_import E)"
  subgoal by (rule import_found [OF prophecy_ascending]) (simp add: prophecy_imports_def debug_import_listed)
  subgoal by (rule import_found [OF spectrum_ascending]) (simp add: spectrum_imports_def debug_import_listed)
  subgoal by (rule import_found [OF wlan_swap_ascending]) (simp add: wlan_swap_imports_def debug_import_listed)
  subgoal by (rule import_found [OF wlan_ascending]) (simp add: wlan_imports_def debug_import_listed)
  subgoal by (rule import_found [OF wlan_debug_ascending]) (simp add: wlan_debug_imports_def debug_import_listed)
  subgoal by (rule import_found [OF wgpu_ascending]) (simp add: wgpu_imports_def debug_import_listed)
  done

lemma module_debug_found:
  assumes "(tbl, n, dbg) \<in> set (module_debug E)"
  shows "map_of tbl n = Some (debug_import E)" "dbg v s = (Ret (debugString (host_shape E v s)), s)"
proof -
  note d = prophecy_debugString_def spectrum_debugString_def wlan_swap_debugString_def wlan_debugString_def
    wlan_debug_debugString_def wgpu_debugString_def
  show "map_of tbl n = Some (debug_import E)"
    using assms unfolding module_debug_def list.set insert_iff empty_iff prod.inject
    by (elim disjE conjE FalseE; hypsubst; simp only: debug_import_found)
  show "dbg v s = (Ret (debugString (host_shape E v s)), s)"
    using assms unfolding module_debug_def list.set insert_iff empty_iff prod.inject
    by (elim disjE conjE FalseE; hypsubst; simp add: d)
qed

lemma debug_import_run:
  "debug_import E [Num a, v] s = ret_string E (Num a) (Str (debugString (host_shape E v s))) s"
  by (simp add: debug_import_def fn_defs js_param_def js_let_Ret [OF js_gets_run])

section \<open>Properties\<close>

text \<open>
  Property C14. In every generated module, with the reader and the writer that the module has, a well-formed
  string that is passed into the memory and read back is the same string, also through \<^verbatim>\<open>encodeInto\<close>
  and with the byte count of the newer readers.
\<close>

theorem module_string_roundtrip:
  assumes "text_encode E = native_encode" "text_decode E = native_decode" "encodeInto E = Some native_encodeInto"
    and "well_formed t" "malloc_contract (0, 0) trap malloc" "realloc_contract (0, 0) trap malloc realloc"
    and "(read, pass) \<in> set (string_functions E)"
  shows "case pass t malloc (Some realloc) s of
      (Ret p, s') \<Rightarrow> fst (read p (WASM_VECTOR_LEN s') s') = Ret t
    | (Throw e, s') \<Rightarrow> trap e"
  using module_roundtrip [OF native.text_codec_axioms assms] .

theorem module_string_roundtrip_witness:
  "case pass_string (wlan_memory native_env) [0x68, 0x20AC] bump_malloc (Some bump_realloc) sample_state of
      (Ret p, s') \<Rightarrow> fst (read_string (wlan_memory native_env) p (WASM_VECTOR_LEN s') s') = Ret [0x68, 0x20AC]
    | (Throw e, s') \<Rightarrow> EngineErr ''RuntimeError'' = e"
proof -
  have "(read_string (wlan_memory native_env), pass_string (wlan_memory native_env)) \<in> set (string_functions native_env)"
    by (simp add: string_functions_def)
  moreover have "well_formed [0x68, 0x20AC]"
    by (simp add: well_formed_def is_high_surrogate_def is_low_surrogate_def)
  ultimately show ?thesis
    using module_string_roundtrip [of native_env, OF _ _ _ _ bump_malloc_contract bump_realloc_contract]
    by (simp add: native_env_def)
qed

text \<open>
  Property C35. The typed arrays that the modules make for the browser: whatever views were cached and however
  often the memory has grown, the module afterwards keeps a view of the current buffer, of the element type of
  the reader, and the array is a range of whole elements of that view which does not reach outside the memory,
  for every address and length. A block of \<open>len\<close> elements that lies inside the memory is given exactly, from
  the address rounded down to the size of an element.
\<close>

theorem arrays_inside_memory:
  assumes "g \<in> set (module_memories E)" "(c, f) \<in> set (arrays g)"
  shows "c \<in> set (views g) \<and> (\<exists>i n t. keeps_view c s t
    \<and> f ptr len s = (Ret (Buf (view_kind c) (buffer s) (int (i * view_width c)) (int n)), t)
    \<and> i * view_width c + n * view_width c \<le> length (mem s)
    \<and> (0 \<le> len \<and> (to_uint32 ptr div int (view_width c) + len) * int (view_width c) \<le> int (length (mem s)) \<longrightarrow>
         int i = to_uint32 ptr div int (view_width c) \<and> int n = len))"
proof -
  let ?w = "view_width c" and ?p = "to_uint32 ptr"
  have c: "c \<in> set (views g)" and r: "reads_array c f" using module_arrays [OF assms] by blast+
  from r obtain t where t: "keeps_view c s t"
    "f ptr len s = (Ret (typed_subarray (view_kind c) ?w (buffer t) ?p len t), t)"
    unfolding reads_array_def by blast
  have st: "mem t = mem s" "buffer t = buffer s" using t(1) by (simp_all add: keeps_view_def)
  obtain i n where o: "typed_subarray (view_kind c) ?w (buffer t) ?p len t = Buf (view_kind c) (buffer t) (int (i * ?w)) (int n)"
    "i * ?w + n * ?w \<le> length (mem t)" using typed_subarray_inside [OF view_width_pos] by blast
  have "int i = ?p div int ?w \<and> int n = len"
    if "0 \<le> len \<and> (?p div int ?w + len) * int ?w \<le> int (length (mem s))"
    using typed_subarray_exact [OF view_width_pos, of ?p len c t "view_kind c"] that o(1) st view_width_pos [of c]
    by (simp add: to_uint32_range(1))
  then show ?thesis using c t o unfolding st by metis
qed

theorem arrays_inside_memory_witness:
  "\<exists>t. getArrayU32FromWasm0 10 3 sample_state = (Ret (Buf ''Uint32Array'' 0 8 3), t) \<and> cachedUint32Memory0 t = Some 0"
proof -
  have g: "wgpu_memory sample_env \<in> set (module_memories sample_env)" by (simp add: module_memories_def)
  have f: "(Uint32_view, getArrayU32FromWasm0) \<in> set (arrays (wgpu_memory sample_env))"
    by (simp add: wgpu_memory_def wgpu_arrays_def)
  obtain i n t where "keeps_view Uint32_view sample_state t"
    "getArrayU32FromWasm0 10 3 sample_state = (Ret (Buf ''Uint32Array'' 0 (int (i * 4)) (int n)), t)"
    "int i = 2" "int n = 3"
    using arrays_inside_memory [OF g f, of sample_state 10 3] by (auto simp: to_uint32_id sample_state_def)
  then show ?thesis by (auto simp: keeps_view_def sample_state_def)
qed

text \<open>
  A module is initialised once: when either entry point has returned its exports, every later
  call of either returns the same exports at once, whatever its arguments, without fetching, compiling or
  starting anything again; in all seven modules.
\<close>

theorem initialised_once:
  assumes "(sync, async) \<in> set (module_entries E ob fs base)"
    and "sync m memory s = (Ret v, t) \<or> async m memory s = (Ret v, t)" "v \<noteq> Undefined"
  shows "sync m' memory' t = (Ret v, t) \<and> async m' memory' t = (Ret v, t)"
  using glue_entry.once [OF module_entries_ok [OF assms(1)] assms(2,3)] by blast

lemmas sample_init_run = spectrum_entry_defs initSync_def init_args_def wbg_init_memory_def memory_or_new_def webassembly_def
  instantiate_sync_def instance_of_def wbg_finalize_init_def js_member_def js_assign_def js_global_def isLikeNone_def
  js_let_def js_seq_def sample_env_def broken_env_def sample_wasm_call_def sample_state_def clear_caches_def js_def

theorem initialised_once_witness:
  "\<exists>t. spectrum_initSync sample_env (Ref 5) Undefined Undefined sample_state = (Ret (Str (js ''abc'')), t)
    \<and> spectrum_init sample_env (Ref 5) (Ref 6) (Ref 7) Null t = (Ret (Str (js ''abc'')), t)"
proof -
  obtain t where t: "spectrum_initSync sample_env (Ref 5) Undefined Undefined sample_state = (Ret (Str (js ''abc'')), t)"
    by (simp add: sample_init_run)
  have "(spectrum_initSync sample_env (Ref 5), spectrum_init sample_env (Ref 5) (Ref 6))
      \<in> set (module_entries sample_env (Ref 5) [] (Ref 6))" by (simp add: module_entries_def)
  from initialised_once [OF this disjI1 [OF t]] t show ?thesis by blast
qed

text \<open>
  Property C15. An initialisation that throws leaves the module uninitialised, so that it can be tried again,
  with one exception: when the start function of the module throws, the exports stay set and a second
  attempt reports success with the module that failed to start. This holds in all seven modules, for every
  browser that leaves the module's variable alone.
\<close>

theorem failed_initialisation:
  assumes "host_frame E" "(sync, async) \<in> set (module_entries E ob fs base)" "wasm s = Undefined"
    and "sync m memory s = (Throw e, t) \<or> async m memory s = (Throw e, t)"
  shows "wasm t = Undefined \<or> start_failed E e t \<and> sync m' memory' t = (Ret (wasm t), t)
    \<and> async m' memory' t = (Ret (wasm t), t)"
  using glue_entry.retry_after_failed_start [OF module_entries_ok [OF assms(2)]
      module_entries_fail_clean(1) [OF assms(1,2)] module_entries_fail_clean(2) [OF assms(1,2)] assms(4,3)] .

theorem failed_initialisation_witness:
  "\<exists>t. spectrum_initSync broken_env (Ref 5) Undefined Undefined sample_state = (Throw (EngineErr ''RuntimeError''), t)
    \<and> wasm t = Str (js ''abc'') \<and> spectrum_initSync broken_env (Ref 5) Undefined Undefined t = (Ret (Str (js ''abc'')), t)"
proof -
  obtain t where t: "spectrum_initSync broken_env (Ref 5) Undefined Undefined sample_state = (Throw (EngineErr ''RuntimeError''), t)"
    "wasm t = Str (js ''abc'')"
    by (simp add: sample_init_run)
  have m: "(spectrum_initSync broken_env (Ref 5), spectrum_init broken_env (Ref 5) (Ref 6))
      \<in> set (module_entries broken_env (Ref 5) [] (Ref 6))" by (simp add: module_entries_def)
  have "wasm sample_state = Undefined" by (simp add: sample_state_def)
  from failed_initialisation [OF sample_host_frame(2) m this disjI1 [OF t(1)]] t show ?thesis by auto
qed

text \<open>
  The start function of a module runs on the new exports and without any view of an older
  memory: each \<^verbatim>\<open>__wbg_finalize_init\<close> clears every view that the functions of its module cache.
\<close>

theorem initialisation_drops_views:
  assumes "(vs, fin) \<in> set (module_views E)" "\<not> isLikeNone inst" "host_get E inst ''exports'' s = (Ret ex, t)"
  shows "\<exists>u. fin inst m s = js_seq (wasm_call E ''__wbindgen_start'' []) (js_gets wasm) u
    \<and> wasm u = ex \<and> (\<forall>c \<in> set vs. cached c u = None)"
  using finalize_without_views [OF assms] .

theorem initialisation_drops_views_witness:
  "\<exists>u. wgpu_finalize_init sample_env (Ref 1) Null (sample_state\<lparr>cachedUint32Memory0 := Some 3\<rparr>) =
      js_seq (wasm_call sample_env ''__wbindgen_start'' []) (js_gets wasm) u \<and> cachedUint32Memory0 u = None"
proof -
  have "(views (wgpu_memory sample_env), wgpu_finalize_init sample_env) \<in> set (module_views sample_env)"
    by (simp add: module_views_def)
  moreover have "host_get sample_env (Ref 1) ''exports'' (sample_state\<lparr>cachedUint32Memory0 := Some 3\<rparr>) =
      (Ret (Str (js ''abc'')), sample_state\<lparr>cachedUint32Memory0 := Some 3\<rparr>)" by (simp add: sample_env_def)
  ultimately obtain u where "wgpu_finalize_init sample_env (Ref 1) Null (sample_state\<lparr>cachedUint32Memory0 := Some 3\<rparr>) =
      js_seq (wasm_call sample_env ''__wbindgen_start'' []) (js_gets wasm) u"
    "\<forall>c \<in> set (views (wgpu_memory sample_env)). cached c u = None"
    using initialisation_drops_views [of _ _ sample_env "Ref 1"] by (metis isLikeNone_def js_val.distinct)
  then show ?thesis by (auto simp: wgpu_memory_def)
qed

text \<open>
  Property C18. The methods of the stream classes, in each of the five modules that have them: a class has exactly
  the methods of its kind; each calls its own export with the pointer of the object, then the arguments of the
  call, and makes its own value of the result; a method that gives the value back has emptied the object and
  taken it off the registry before the export runs, the others leave it alone. The finalizer calls the export of
  \<^verbatim>\<open>free\<close> with the flag of the collector.
\<close>

theorem stream_methods_guard_pointer:
  assumes "(spec, export, c) \<in> set (stream_classes E d)"
  shows "fitting E spec (methods c) \<and> (\<forall>p. finalizer c p = wasm_call E export [js_u32 p, Num 1])"
  using stream_classes_fit [OF assms] stream_classes_finalize [OF assms] by blast

theorem stream_methods_guard_pointer_witness:
  "\<exists>f. map_of (methods (wlan_IntoUnderlyingSink sample_env True)) ''abort'' = Some f
   \<and> f 3 [Ref 9] (sample_state\<lparr>objects := [3 \<mapsto> \<lparr>wbg_ptr = 40, wbg_registered = True\<rparr>]\<rparr>) =
       wasm_call sample_env ''intounderlyingsink_abort'' [Num 40, Ref 9]
         (sample_state\<lparr>objects := [3 \<mapsto> \<lparr>wbg_ptr = 0, wbg_registered = False\<rparr>]\<rparr>)
   \<and> finalizer (wlan_IntoUnderlyingSink sample_env True) (Num 40) =
       wasm_call sample_env ''__wbg_intounderlyingsink_free'' [js_u32 (Num 40), Num 1]"
proof -
  have c: "(sink_spec True, ''__wbg_intounderlyingsink_free'', wlan_IntoUnderlyingSink sample_env True)
      \<in> set (stream_classes sample_env True)"
    unfolding stream_classes_def list.set by (simp only: insert_iff simp_thms)
  let ?m = "\<lparr>callee = ''intounderlyingsink_abort'', passes = (\<lambda>args. [js_param args 0]), gives = (\<lambda>v. v), consumes = True\<rparr>"
  have "rel_option (implements sample_env) (Some ?m) (map_of (methods (wlan_IntoUnderlyingSink sample_env True)) ''abort'')"
    using stream_methods_guard_pointer [OF c] unfolding fitting_def
    by (elim conjE allE [of _ "''abort''"]) (simp add: sink_spec_def)
  then obtain f where f: "map_of (methods (wlan_IntoUnderlyingSink sample_env True)) ''abort'' = Some f"
    "implements sample_env ?m f" by (auto simp: option_rel_Some1)
  from f(2) have "f 3 [Ref 9] s = wasm_call sample_env ''intounderlyingsink_abort'' [Num 40, Ref 9]
      (s\<lparr>objects := (objects s)(3 \<mapsto> \<lparr>wbg_ptr = 0, wbg_registered = False\<rparr>)\<rparr>)"
    if "objects s 3 = Some \<lparr>wbg_ptr = 40, wbg_registered = True\<rparr>" for s
    using implementsD [OF f(2) that] by (simp add: js_param_def js_let_right_id)
  from this [of "sample_state\<lparr>objects := [3 \<mapsto> \<lparr>wbg_ptr = 40, wbg_registered = True\<rparr>]\<rparr>"] f(1)
  show ?thesis using stream_methods_guard_pointer [OF c] by simp
qed

text \<open>
  Property C19. Whatever methods of a stream object are called, in whatever order and with whatever arguments, what
  reaches the module is exactly the trace of the class: each method calls its export with the address of the
  value until one of them has given it back, and with a null pointer from then on; so the value is given back at
  most once over the whole life of the object. This holds for all the classes of the five modules, for a module
  that logs its calls and leaves the wrapper objects alone.
\<close>

theorem stream_calls_traced:
  assumes "(spec, export, c) \<in> set (stream_classes E d)" "recorded E log"
    and "objects s i = Some \<lparr>wbg_ptr = p, wbg_registered = r\<rparr>"
  shows "log (world (fold (call_method c i) cs s)) = log (world s) @ export_trace spec p cs
    \<and> length (filter (gives_back spec) (export_trace spec p cs)) \<le> 1"
  using fitting_trace [OF stream_classes_fit [OF assms(1)] assms(2,3)]
    trace_gives_back_once [OF stream_exports_agree [OF assms(1)]] by blast

theorem stream_calls_traced_witness:
  "world (fold (call_method (prophecy_IntoUnderlyingSink logging_env) 3)
      [(''write'', [Ref 1]), (''abort'', [Ref 2]), (''close'', []), (''free'', [])]
      (logging_state\<lparr>objects := [3 \<mapsto> \<lparr>wbg_ptr = 40, wbg_registered = True\<rparr>]\<rparr>)) =
    [(''intounderlyingsink_write'', [Num 40, Ref 1]), (''intounderlyingsink_abort'', [Num 40, Ref 2]),
     (''intounderlyingsink_close'', [Num 0]), (''__wbg_intounderlyingsink_free'', [Num 0, Num 0])]"
proof -
  have c: "(sink_spec False, ''__wbg_intounderlyingsink_free'', prophecy_IntoUnderlyingSink logging_env)
      \<in> set (stream_classes logging_env True)"
    unfolding stream_classes_def list.set by (simp only: insert_iff simp_thms)
  have r: "recorded logging_env (\<lambda>w. w)" by (simp add: recorded_def logging_env_def)
  show ?thesis
    using stream_calls_traced [OF c r, of "logging_state\<lparr>objects := [3 \<mapsto> \<lparr>wbg_ptr = 40, wbg_registered = True\<rparr>]\<rparr>" 3 40 True
        "[(''write'', [Ref 1]), (''abort'', [Ref 2]), (''close'', []), (''free'', [])]"]
    by (simp add: sink_spec_def dispose_spec_def free_spec_def logging_state_def js_param_def)
qed

text \<open>
  Property C11. From import to export: every import that makes a closure is found under its name and makes it
  with the two words of Rust and the destructor of its row. A call of that closure, as long as nobody has
  dropped it, calls the shim of the row with the two words and the first arguments of the call, as many as the
  row says, while the state object holds no first word; it returns \<^verbatim>\<open>undefined\<close>, or throws what the shim threw,
  and leaves the closure as it was. This holds for every closure of all six modules.
\<close>

theorem closure_reaches_rust:
  assumes "(tbl, ks, ad, g) \<in> set (module_closures E)" "(n, k) \<in> set ks"
  shows "\<exists>f x. map_of tbl n = Some f \<and> made_by f (destructor k) x a b \<and>
    (\<forall>i u c args r t. closures u i = Some c \<longrightarrow> clo_f c = x \<longrightarrow> clo_cnt c \<noteq> 0 \<longrightarrow>
       wasm_call E (shim k) (Num (clo_a c) # Num (clo_b c) # map (js_param args) [0..<handed k])
         (u\<lparr>closures := (closures u)(i \<mapsto> while_running c)\<rparr>) = (r, t) \<longrightarrow>
       closures t i = Some (while_running c) \<longrightarrow>
       call_real g (find_adapter ad) i args u =
         (case r of Ret v \<Rightarrow> Ret Undefined | Throw e \<Rightarrow> Throw e, t\<lparr>closures := (closures t)(i \<mapsto> c)\<rparr>))"
  using closure_reaches_export [OF assms] .

theorem closure_reaches_rust_witness:
  "\<exists>f u. map_of (wgpu_imports sample_env) ''__wbindgen_closure_wrapper6684'' = Some f
    \<and> f [Num 5, Num 7] sample_state = (Ret (Clo 0), u) \<and> clo_dtor (the (closures u 0)) = Num 567
    \<and> call_closure sample_env (find_adapter (wgpu_adapters sample_env)) 0 [Ref 3, Ref 4] u = (Ret Undefined, u)"
proof -
  let ?k = "\<lparr>destructor = Num 567, shim = ''closure566_externref_shim'', handed = 1\<rparr>"
  have w: "(wgpu_imports sample_env, wgpu_shims, wgpu_adapters sample_env, wgpu_closure_glue sample_env)
      \<in> set (module_closures sample_env)" by (simp add: module_closures_def)
  have k: "(''__wbindgen_closure_wrapper6684'', ?k) \<in> set wgpu_shims" by (simp add: wgpu_shims_def)
  obtain f x where f: "map_of (wgpu_imports sample_env) ''__wbindgen_closure_wrapper6684'' = Some f"
    "made_by f (Num 567) x 5 7" and call: "\<And>i u c args r t. closures u i = Some c \<Longrightarrow> clo_f c = x \<Longrightarrow> clo_cnt c \<noteq> 0 \<Longrightarrow>
       wasm_call sample_env ''closure566_externref_shim'' [Num (clo_a c), Num (clo_b c), js_param args 0]
         (u\<lparr>closures := (closures u)(i \<mapsto> while_running c)\<rparr>) = (r, t) \<Longrightarrow>
       closures t i = Some (while_running c) \<Longrightarrow>
       call_closure sample_env (find_adapter (wgpu_adapters sample_env)) i args u =
         (case r of Ret v \<Rightarrow> Ret Undefined | Throw e \<Rightarrow> Throw e, t\<lparr>closures := (closures t)(i \<mapsto> c)\<rparr>)"
    using closure_reaches_rust [OF w k, of 5 7] by (auto simp: wgpu_closure_glue_def)
  let ?c = "\<lparr>clo_a = 5, clo_b = 7, clo_cnt = 1, clo_dtor = Num 567, clo_f = x, clo_counted = True\<rparr>"
  let ?u = "sample_state\<lparr>closures := [0 \<mapsto> ?c], next_closure := 1, registry := {0}\<rparr>"
  have u: "f [Num 5, Num 7] sample_state = (Ret (Clo 0), ?u)"
    using f(2) by (simp add: made_by_def sample_state_def)
  have "call_closure sample_env (find_adapter (wgpu_adapters sample_env)) 0 [Ref 3, Ref 4] ?u = (Ret Undefined, ?u)"
    using call [of ?u 0 ?c "[Ref 3, Ref 4]" "Ret Undefined" "?u\<lparr>closures := (closures ?u)(0 \<mapsto> while_running ?c)\<rparr>"]
    by (simp add: sample_env_def sample_wasm_call_def)
  then show ?thesis using f(1) u by (intro exI [of _ f] exI [of _ ?u]) simp
qed

text \<open>
  Property C31. The import for debug texts leaves the text that \<^verbatim>\<open>debugString\<close> makes of the value where Rust
  looks for it: the return slot holds the address and the length of a block with its encoding; in all six
  modules.
\<close>

theorem debug_text_reaches_rust:
  assumes "(tbl, n, dbg) \<in> set (module_debug E)" "text_encode E = native_encode" "encodeInto E = Some native_encodeInto"
    and "malloc_contract (a, a + 8) trap (wasm_malloc E)" "realloc_contract (a, a + 8) trap (wasm_malloc E) (wasm_realloc E)"
    and "fits s a 8" "dbg v s = (Ret t, u)"
  shows "\<exists>f. map_of tbl n = Some f \<and> string_returned trap (native_encode t) a (f [Num a, v] s)"
proof -
  have "t = debugString (host_shape E v s)" using module_debug_found(2) [OF assms(1), of v s] assms(7) by auto
  then have "string_returned trap (native_encode t) a (debug_import E [Num a, v] s)"
    using native.ret_string_returned [OF assms(2-6)] by (simp add: debug_import_run)
  then show ?thesis using module_debug_found(1) [OF assms(1)] by blast
qed

theorem debug_text_reaches_rust_witness:
  "\<exists>f. map_of (wlan_swap_imports native_env) ''__wbg_wbindgendebugstring_99ef257a3ddda34d'' = Some f
    \<and> string_returned ((=) (EngineErr ''RuntimeError'')) (native_encode (js ''undefined'')) 8 (f [Num 8, Undefined] sample_state)"
proof (rule debug_text_reaches_rust)
  show "(wlan_swap_imports native_env, ''__wbg_wbindgendebugstring_99ef257a3ddda34d'', wlan_swap_debugString native_env)
      \<in> set (module_debug native_env)" by (simp add: module_debug_def)
  show "wlan_swap_debugString native_env Undefined sample_state = (Ret (js ''undefined''), sample_state)"
    by (simp add: wlan_swap_debugString_def native_env_def sample_env_def)
  show "malloc_contract (8, 8 + 8) ((=) (EngineErr ''RuntimeError'')) (wasm_malloc native_env)"
    "realloc_contract (8, 8 + 8) ((=) (EngineErr ''RuntimeError'')) (wasm_malloc native_env) (wasm_realloc native_env)"
    by (simp_all only: native_alloc bump_malloc_contract bump_realloc_contract)
qed (simp_all add: native_env_def sample_state_def fits_def)

end
