(* ===== verification/Init_Overlap.thy ===== *)
theory Init_Overlap
  imports Module_Laws
begin

text \<open>
  Calls of \<^verbatim>\<open>__wbg_init\<close> that overlap. The function is asynchronous: at every \<^verbatim>\<open>await\<close> it gives control back to
  the page, which may call it again, call \<^verbatim>\<open>initSync\<close> or run any other code before the call is resumed. Here
  a call is a coroutine, and a page with any number of calls under way is a transition system that resumes
  them in any order. Run alone, a coroutine is the function of \<^verbatim>\<open>Glue_Modules\<close>.
\<close>

section \<open>Coroutines\<close>

text \<open>
  A call has settled, or it waits for a promise (\<open>Some\<close> its value; \<open>None\<close> is the promise of an asynchronous
  function of the script itself, which has settled already) and goes on with its outcome.
\<close>

datatype ('w, 'a) co =
    Settled "'a outcome"
  | Waiting "js_val option" "js_val outcome \<Rightarrow> 'w js_state \<Rightarrow> ('w, 'a) co \<times> 'w js_state"

type_synonym ('w, 'a) async = "'w js_state \<Rightarrow> ('w, 'a) co \<times> 'w js_state"

primrec co_then :: "('w, 'a) co \<Rightarrow> ('a outcome \<Rightarrow> ('w, 'b) async) \<Rightarrow> ('w, 'b) async" where
  "co_then (Settled r) f = f r"
| "co_then (Waiting p k) f =
     (\<lambda>s. (Waiting p (\<lambda>r t. case map_prod (\<lambda>c. co_then c f) id (k r t) of (g, u) \<Rightarrow> g u), s))"

definition async_bind :: "('w, 'a) async \<Rightarrow> ('a outcome \<Rightarrow> ('w, 'b) async) \<Rightarrow> ('w, 'b) async" where
  "async_bind m f = (\<lambda>s. case m s of (c, t) \<Rightarrow> co_then c f t)"

definition async_do :: "('w, 'a) wjs \<Rightarrow> ('w, 'a) async" where
  "async_do m = (\<lambda>s. case m s of (r, t) \<Rightarrow> (Settled r, t))"

definition async_let :: "('w, 'a) async \<Rightarrow> ('a \<Rightarrow> ('w, 'b) async) \<Rightarrow> ('w, 'b) async" where
  "async_let m f = async_bind m (\<lambda>r. case r of Ret v \<Rightarrow> f v | Throw e \<Rightarrow> async_do (js_throw e))"

definition async_catch :: "('w, 'a) async \<Rightarrow> (js_val \<Rightarrow> ('w, 'a) async) \<Rightarrow> ('w, 'a) async" where
  "async_catch m h = async_bind m (\<lambda>r. case r of Ret v \<Rightarrow> async_do (js_return v) | Throw e \<Rightarrow> h e)"

text \<open>\<^verbatim>\<open>await v\<close>, and \<^verbatim>\<open>await f(...)\<close> for an asynchronous function \<^verbatim>\<open>f\<close> of the script.\<close>

definition async_await :: "js_val \<Rightarrow> ('w, js_val) async" where
  "async_await v = (\<lambda>s. (Waiting (Some v) (\<lambda>r t. (Settled r, t)), s))"

definition await_call :: "('w, 'a) async \<Rightarrow> ('w, 'a) async" where
  "await_call m = async_bind m (\<lambda>r s. (Waiting None (\<lambda>_ t. (Settled r, t)), s))"

text \<open>What the host answers to a waiting call, and a call that nothing else interrupts.\<close>

fun settle :: "'w js_env \<Rightarrow> js_val option \<Rightarrow> ('w, js_val) wjs" where
  "settle E (Some v) = host_await E v"
| "settle E None = js_return Undefined"

primrec co_run :: "'w js_env \<Rightarrow> ('w, 'a) co \<Rightarrow> ('w, 'a) wjs" where
  "co_run E (Settled r) = (\<lambda>s. (r, s))"
| "co_run E (Waiting p k) =
     (\<lambda>s. case settle E p s of (r, t) \<Rightarrow> case map_prod (co_run E) id (k r t) of (g, u) \<Rightarrow> g u)"

definition alone :: "'w js_env \<Rightarrow> ('w, 'a) async \<Rightarrow> ('w, 'a) wjs" where
  "alone E m = (\<lambda>s. case m s of (c, t) \<Rightarrow> co_run E c t)"

section \<open>The asynchronous functions of the glue\<close>

definition load_streaming_async :: "'w js_env \<Rightarrow> js_string \<Rightarrow> js_val \<Rightarrow> js_val \<Rightarrow> ('w, js_val option) async" where
  "load_streaming_async E warning module imports =
     async_catch
       (async_let (async_let (async_do (js_static E ''WebAssembly'' ''instantiateStreaming'' [js_return module, js_return imports])) async_await)
          (\<lambda>r. async_do (js_return (Some r))))
       (\<lambda>e. async_do (js_let (wrong_mime E module) (\<lambda>wrong.
          if wrong
          then js_seq (js_static E ''console'' ''warn'' [js_return (Str warning), js_return e]) (js_return None)
          else js_throw e)))"

definition load_streaming_checked_async :: "'w js_env \<Rightarrow> js_val \<Rightarrow> js_val \<Rightarrow> ('w, js_val option) async" where
  "load_streaming_checked_async E module imports =
     async_catch
       (async_let (async_let (async_do (js_static E ''WebAssembly'' ''instantiateStreaming'' [js_return module, js_return imports])) async_await)
          (\<lambda>r. async_do (js_return (Some r))))
       (\<lambda>e. async_do (js_let (validResponse E module) (\<lambda>valid.
          js_let (if valid then wrong_mime E module else js_return False) (\<lambda>fallback.
          if fallback
          then js_seq (js_static E ''console'' ''warn'' [js_return (Str mime_warning), js_return e]) (js_return None)
          else js_throw e))))"

definition load_bytes_async :: "'w js_env \<Rightarrow> js_val \<Rightarrow> js_val \<Rightarrow> ('w, js_val) async" where
  "load_bytes_async E module imports =
     async_let (async_let (async_do (js_method E module ''arrayBuffer'' [])) async_await) (\<lambda>bytes.
     async_let (async_do (js_static E ''WebAssembly'' ''instantiate'' [js_return bytes, js_return imports])) async_await)"

definition load_with_async ::
  "'w js_env \<Rightarrow> (js_val \<Rightarrow> js_val \<Rightarrow> ('w, js_val option) async) \<Rightarrow> js_val \<Rightarrow> js_val \<Rightarrow> ('w, js_val) async" where
  "load_with_async E streaming module imports =
     async_let (async_do (is_a E module ''Response'')) (\<lambda>resp.
     if resp then
       async_let (async_do (webassembly E ''instantiateStreaming'')) (\<lambda>f.
       async_let (async_do (js_gets (js_typeof E f))) (\<lambda>ty.
       async_let (if ty = ''function'' then streaming module imports else async_do (js_return None)) (\<lambda>r.
       case r of Some v \<Rightarrow> async_do (js_return v) | None \<Rightarrow> load_bytes_async E module imports)))
     else
       async_let (async_let (async_do (js_static E ''WebAssembly'' ''instantiate'' [js_return module, js_return imports])) async_await) (\<lambda>inst.
       async_do (js_let (instance_of E inst ''Instance'') (\<lambda>b.
         if b then host_object E [(''instance'', inst), (''module'', module)] else js_return inst))))"

type_synonym 'w two_values_async = "js_val \<Rightarrow> js_val \<Rightarrow> ('w, js_val) async"

definition load_and_finalize_async ::
  "'w js_env \<Rightarrow> 'w two_values_async \<Rightarrow> 'w two_values \<Rightarrow> js_val \<Rightarrow> js_val \<Rightarrow> ('w, js_val) async" where
  "load_and_finalize_async E load fin input imports =
     async_let (async_await input) (\<lambda>m.
     async_let (await_call (load m imports)) (\<lambda>r.
     async_do (js_let (js_member E r ''instance'') (\<lambda>inst.
       js_let (js_member E r ''module'') (\<lambda>module.
       fin inst module)))))"

text \<open>\<^verbatim>\<open>__wbg_init\<close> in its three generations.\<close>

definition wbg_init_async ::
  "'w js_env \<Rightarrow> 'w two_values_async \<Rightarrow> 'w two_values \<Rightarrow> js_val \<Rightarrow> ('w, js_val) wjs \<Rightarrow> 'w two_values_async" where
  "wbg_init_async E load fin imports url module_or_path memory =
     async_let (async_do (js_gets wasm)) (\<lambda>w.
     if w \<noteq> Undefined then async_do (js_return w)
     else
       async_let (async_do (init_args E ''module_or_path'' ''the initialization function'' module_or_path memory)) (\<lambda>(input, memory).
       async_let (async_do (if input = Undefined then url else js_return input)) (\<lambda>input.
       async_let (async_do (fetch_if_url E input)) (\<lambda>input.
       async_let (async_do (wbg_init_memory E imports memory)) (\<lambda>_.
       load_and_finalize_async E load fin input imports)))))"

definition wbg_init_old_async ::
  "'w js_env \<Rightarrow> 'w two_values_async \<Rightarrow> 'w two_values \<Rightarrow> js_val \<Rightarrow> ('w, js_val) wjs \<Rightarrow> 'w two_values_async" where
  "wbg_init_old_async E load fin imports url input maybe_memory =
     async_let (async_do (js_gets wasm)) (\<lambda>w.
     if w \<noteq> Undefined then async_do (js_return w)
     else
       async_let (async_do (if input = Undefined then url else js_return input)) (\<lambda>input.
       async_let (async_do (fetch_if_url E input)) (\<lambda>input.
       async_let (async_do (wbg_init_memory E imports maybe_memory)) (\<lambda>_.
       load_and_finalize_async E load fin input imports))))"

definition wbg_init_new_async ::
  "'w js_env \<Rightarrow> 'w two_values_async \<Rightarrow> 'w two_values \<Rightarrow> (js_val \<Rightarrow> ('w, js_val) wjs) \<Rightarrow> ('w, js_val) wjs \<Rightarrow> 'w two_values_async" where
  "wbg_init_new_async E load fin build url module_or_path memory =
     async_let (async_do (js_gets wasm)) (\<lambda>w.
     if w \<noteq> Undefined then async_do (js_return w)
     else
       async_let (async_do (init_args E ''module_or_path'' ''the initialization function'' module_or_path memory)) (\<lambda>(input, memory).
       async_let (async_do (if input = Undefined then url else js_return input)) (\<lambda>input.
       async_let (async_do (js_let (memory_or_new E memory) build)) (\<lambda>imports.
       async_let (async_do (fetch_if_url E input)) (\<lambda>input.
       load_and_finalize_async E load fin input imports)))))"

text \<open>The entry points of the seven modules.\<close>

definition rattlegram_init_async :: "'w js_env \<Rightarrow> js_val \<Rightarrow> js_val \<Rightarrow> 'w two_values_async" where
  "rattlegram_init_async E imports base =
     wbg_init_old_async E (load_with_async E (load_streaming_async E mime_warning_old)) (rattlegram_finalize_init E) imports
       (bg_url E ''wasm-decoder_bg.wasm'' base)"

definition prophecy_init_async :: "'w js_env \<Rightarrow> js_val \<Rightarrow> js_val \<Rightarrow> 'w two_values_async" where
  "prophecy_init_async E imports base =
     wbg_init_async E (load_with_async E (load_streaming_async E mime_warning)) (prophecy_finalize_init E) imports
       (bg_url E ''prophecy_bg.wasm'' base)"

definition spectrum_init_async :: "'w js_env \<Rightarrow> js_val \<Rightarrow> js_val \<Rightarrow> 'w two_values_async" where
  "spectrum_init_async E imports base =
     wbg_init_async E (load_with_async E (load_streaming_async E mime_warning)) (spectrum_finalize_init E) imports
       (bg_url E ''frontend_bg.wasm'' base)"

definition wlan_swap_init_async :: "'w js_env \<Rightarrow> js_val \<Rightarrow> js_val \<Rightarrow> 'w two_values_async" where
  "wlan_swap_init_async E imports base =
     wbg_init_async E (load_with_async E (load_streaming_checked_async E)) (wlan_swap_finalize_init E) imports
       (bg_url E ''frontend_bg.wasm'' base)"

definition wlan_init_async :: "'w js_env \<Rightarrow> (string \<times> js_val) list \<Rightarrow> js_val \<Rightarrow> 'w two_values_async" where
  "wlan_init_async E functions base =
     wbg_init_new_async E (load_with_async E (load_streaming_checked_async E)) (wlan_finalize_init E)
       (wlan_import_object E functions) (bg_url E ''frontend_bg.wasm'' base)"

definition wlan_debug_init_async :: "'w js_env \<Rightarrow> (string \<times> js_val) list \<Rightarrow> js_val \<Rightarrow> 'w two_values_async" where
  "wlan_debug_init_async E functions base =
     wbg_init_new_async E (load_with_async E (load_streaming_checked_async E)) (wlan_debug_finalize_init E)
       (wlan_debug_import_object E functions) (bg_url E ''frontend_bg.wasm'' base)"

definition wgpu_init_async :: "'w js_env \<Rightarrow> js_val \<Rightarrow> js_val \<Rightarrow> 'w two_values_async" where
  "wgpu_init_async E imports base =
     wbg_init_async E (load_with_async E (load_streaming_async E mime_warning)) (wgpu_finalize_init E) imports
       (bg_url E ''loopback_bg.wasm'' base)"

lemmas async_entry_defs = rattlegram_init_async_def prophecy_init_async_def spectrum_init_async_def wlan_swap_init_async_def
  wlan_init_async_def wlan_debug_init_async_def wgpu_init_async_def

section \<open>A call that nothing interrupts\<close>

lemma co_run_then: "co_run E c s = (r, t) \<Longrightarrow> alone E (\<lambda>s. co_then c f s) s = alone E (f r) t"
proof (induction c arbitrary: s)
  case (Settled x)
  then show ?case by (simp add: alone_def)
next
  case (Waiting p k)
  obtain x u where x: "settle E p s = (x, u)" by fastforce
  obtain c v where c: "k x u = (c, v)" by fastforce
  have "co_run E c v = (r, t)" using Waiting.prems x c by simp
  then have "alone E (\<lambda>s. co_then c f s) v = alone E (f r) t"
    using Waiting.IH [of "k x" "k x u" c v] c rangeI [of "k x" u] by (simp add: fsts.simps)
  then show ?case using x c by (simp add: alone_def split: prod.splits)
qed

lemma alone_bind: "alone E (async_bind m f) s = (case alone E m s of (r, t) \<Rightarrow> alone E (f r) t)"
proof -
  obtain c u where m: "m s = (c, u)" by fastforce
  obtain r t where r: "co_run E c u = (r, t)" by fastforce
  show ?thesis using co_run_then [OF r, of f] m r by (simp add: alone_def async_bind_def)
qed

lemma alone_do [simp]: "alone E (async_do m) = m"
  by (simp add: fun_eq_iff alone_def async_do_def split: prod.splits)

lemma alone_let [simp]: "alone E (async_let m f) = js_let (alone E m) (\<lambda>v. alone E (f v))"
  by (simp add: fun_eq_iff async_let_def alone_bind js_let_def split: prod.splits outcome.splits)

lemma alone_catch [simp]: "alone E (async_catch m h) = js_try_catch (alone E m) (\<lambda>e. alone E (h e))"
  by (simp add: fun_eq_iff async_catch_def alone_bind js_try_catch_def split: prod.splits outcome.splits)

lemma alone_await [simp]: "alone E (async_await v) = host_await E v"
  by (simp add: fun_eq_iff alone_def async_await_def split: prod.splits)

lemma alone_call [simp]: "alone E (await_call m) = alone E m"
  by (simp add: fun_eq_iff await_call_def alone_bind) (simp add: alone_def split: prod.splits)

lemma alone_if: "alone E (if b then m else n) = (if b then alone E m else alone E n)"
  by simp

lemma alone_option: "alone E (case x of None \<Rightarrow> m | Some v \<Rightarrow> f v) = (case x of None \<Rightarrow> alone E m | Some v \<Rightarrow> alone E (f v))"
  by (cases x) simp_all

lemma alone_split: "alone E (case p of (a, b) \<Rightarrow> f a b) = (case p of (a, b) \<Rightarrow> alone E (f a b))"
  by (cases p) simp

lemmas alone_laws = alone_if alone_option alone_split

lemma load_alone:
  "alone E (load_with_async E (load_streaming_async E w) m imports) = load_with E (load_streaming E w) m imports"
  "alone E (load_with_async E (load_streaming_checked_async E) m imports) = load_with E (load_streaming_checked E) m imports"
  by (simp_all add: load_with_async_def load_with_def load_streaming_async_def load_streaming_def load_streaming_checked_async_def
      load_streaming_checked_def load_bytes_async_def load_bytes_def await_def alone_laws cong: if_cong option.case_cong)

lemma init_alone:
  assumes "\<And>a b. alone E (load' a b) = load a b"
  shows "alone E (wbg_init_async E load' fin imports url m memory) = wbg_init E load fin imports url m memory"
    "alone E (wbg_init_old_async E load' fin imports url m memory) = wbg_init_old E load fin imports url m memory"
    "alone E (wbg_init_new_async E load' fin build url m memory) = wbg_init_new E load fin build url m memory"
  by (simp_all add: wbg_init_async_def wbg_init_def wbg_init_old_async_def wbg_init_old_def wbg_init_new_async_def
      wbg_init_new_def load_and_finalize_async_def load_and_finalize_def alone_laws assms js_seq_def cong: if_cong)

section \<open>Overlapping calls\<close>

text \<open>
  A page: the state of the script and the calls made so far. A step calls an entry point, resumes a waiting
  call, or runs other code of the page, which cannot reach the module-local variable \<^verbatim>\<open>wasm\<close>.
\<close>

record 'w page =
  now :: "'w js_state"
  calls :: "('w, js_val) co list"

inductive init_step :: "'w js_env \<Rightarrow> ('w, js_val) wjs set \<Rightarrow> ('w, js_val) async set \<Rightarrow> 'w page \<Rightarrow> 'w page \<Rightarrow> bool"
  for E Sync Async where
  call_sync: "m \<in> Sync \<Longrightarrow> m (now P) = (r, t) \<Longrightarrow>
    init_step E Sync Async P \<lparr>now = t, calls = calls P @ [Settled r]\<rparr>"
| call_async: "m \<in> Async \<Longrightarrow> m (now P) = (c, t) \<Longrightarrow>
    init_step E Sync Async P \<lparr>now = t, calls = calls P @ [c]\<rparr>"
| resume: "i < length (calls P) \<Longrightarrow> calls P ! i = Waiting p k \<Longrightarrow> settle E p (now P) = (r, u) \<Longrightarrow> k r u = (c, t) \<Longrightarrow>
    init_step E Sync Async P \<lparr>now = t, calls = (calls P)[i := c]\<rparr>"
| other: "wasm t = wasm (now P) \<Longrightarrow> init_step E Sync Async P (P\<lparr>now := t\<rparr>)"

definition page0 :: "'w js_state \<Rightarrow> 'w page" where
  "page0 s = \<lparr>now = s, calls = []\<rparr>"

fun waiting :: "('w, 'a) co \<Rightarrow> bool" where
  "waiting (Settled r) = False"
| "waiting (Waiting p k) = True"

text \<open>
  What one stretch of a call may do, from the state \<open>s\<close> to the state \<open>t\<close>: while it goes on waiting it leaves
  \<^verbatim>\<open>wasm\<close> alone; when it settles, \<open>R\<close> holds.
\<close>

inductive stretch :: "('w js_state \<Rightarrow> 'a outcome \<Rightarrow> 'w js_state \<Rightarrow> bool) \<Rightarrow> ('w, 'a) co \<Rightarrow> 'w js_state \<Rightarrow> 'w js_state \<Rightarrow> bool"
  for R where
  settled: "R s r t \<Longrightarrow> stretch R (Settled r) s t"
| waits: "wasm t = wasm s \<Longrightarrow> (\<And>x u. stretch R (fst (k x u)) u (snd (k x u))) \<Longrightarrow> stretch R (Waiting p k) s t"

inductive_simps stretch_Settled [simp]: "stretch R (Settled r) s t"
inductive_simps stretch_Waiting: "stretch R (Waiting p k) s t"

definition obeys :: "('w js_state \<Rightarrow> 'a outcome \<Rightarrow> 'w js_state \<Rightarrow> bool) \<Rightarrow> ('w, 'a) async \<Rightarrow> bool" where
  "obeys R m \<longleftrightarrow> (\<forall>s. stretch R (fst (m s)) s (snd (m s)))"

text \<open>Code that leaves \<^verbatim>\<open>wasm\<close> alone, and an initialisation.\<close>

definition same_wasm :: "'w js_state \<Rightarrow> 'a outcome \<Rightarrow> 'w js_state \<Rightarrow> bool" where
  "same_wasm s r t \<longleftrightarrow> wasm t = wasm s"

definition initialises :: "'w js_env \<Rightarrow> 'w js_state \<Rightarrow> js_val outcome \<Rightarrow> 'w js_state \<Rightarrow> bool" where
  "initialises E s r t \<longleftrightarrow> (case r of
     Ret v \<Rightarrow> v = wasm t \<and> v \<noteq> Undefined
   | Throw e \<Rightarrow> wasm t = wasm s \<or> wasm t \<noteq> Undefined \<and> start_failed E e t)"

text \<open>
  The exports \<open>w\<close> come from an instance that was made and started between \<open>s\<close> and \<open>t\<close>: they are read off it, put into
  \<^verbatim>\<open>wasm\<close>, and the start function of the module runs on them. A call that has waited returns in no other way.
\<close>

definition started_between :: "'w js_env \<Rightarrow> 'w js_state \<Rightarrow> js_val \<Rightarrow> 'w js_state \<Rightarrow> bool" where
  "started_between E s w t \<longleftrightarrow> (\<exists>inst u u' v x. wasm u = wasm s \<and> host_get E inst ''exports'' u = (Ret w, u')
     \<and> wasm v = w \<and> wasm_call E ''__wbindgen_start'' [] v = (Ret x, t))"

definition instantiates :: "'w js_env \<Rightarrow> 'w js_state \<Rightarrow> js_val outcome \<Rightarrow> 'w js_state \<Rightarrow> bool" where
  "instantiates E s r t \<longleftrightarrow> initialises E s r t \<and> (\<forall>w. r = Ret w \<longrightarrow> started_between E s w t)"

definition wasm_frame :: "('w js_state \<Rightarrow> 'a outcome \<Rightarrow> 'w js_state \<Rightarrow> bool) \<Rightarrow> bool" where
  "wasm_frame R \<longleftrightarrow> (\<forall>s s' r t. wasm s = wasm s' \<longrightarrow> R s r t \<longrightarrow> R s' r t)"

lemma wasm_frames: "wasm_frame same_wasm" "wasm_frame (initialises E)" "wasm_frame (instantiates E)"
  by (auto simp: wasm_frame_def same_wasm_def initialises_def instantiates_def started_between_def split: outcome.splits)

lemma stretch_initialises: "stretch (instantiates E) c s t \<Longrightarrow> stretch (initialises E) c s t"
  by (induction rule: stretch.induct) (auto simp: instantiates_def intro: stretch.intros)

lemma stretch_frame:
  assumes "wasm_frame R" "stretch R c s t" "wasm s = wasm s'"
  shows "stretch R c s' t"
proof (cases c)
  case (Settled r)
  then show ?thesis using assms unfolding wasm_frame_def by (metis stretch_Settled)
next
  case (Waiting p k)
  then show ?thesis using assms(2,3) by (simp add: stretch_Waiting)
qed

lemma stretch_then:
  assumes "wasm_frame R" "\<And>r. obeys R (f r)" "stretch same_wasm c s t"
  shows "stretch R (fst (co_then c f t)) s (snd (co_then c f t))"
  using assms(3)
proof induction
  case (settled s r t)
  then show ?case using assms(1,2) stretch_frame [of R _ t _ s] by (simp add: obeys_def same_wasm_def)
next
  case (waits t s k p)
  then show ?case by (auto intro!: stretch.waits simp: case_prod_beta)
qed

lemma obeys_bind: "wasm_frame R \<Longrightarrow> obeys same_wasm m \<Longrightarrow> (\<And>r. obeys R (f r)) \<Longrightarrow> obeys R (async_bind m f)"
  using stretch_then [of R f] unfolding obeys_def async_bind_def by (auto simp: case_prod_beta)

lemma obeys_do: "(\<And>s. R s (fst (m s)) (snd (m s))) \<Longrightarrow> obeys R (async_do m)"
  by (simp add: obeys_def async_do_def case_prod_beta)

lemma obeys_keeps: "keeps_wasm m \<Longrightarrow> obeys same_wasm (async_do m)"
  by (rule obeys_do) (simp add: same_wasm_def keeps_wasm_def)

lemma throws_obey: "obeys (instantiates E) (async_do (js_throw e))" "obeys same_wasm (async_do (js_throw e))"
  by (rule obeys_do; simp add: instantiates_def initialises_def same_wasm_def)+

lemma obeys_let:
  "obeys same_wasm m \<Longrightarrow> (\<And>v. obeys same_wasm (f v)) \<Longrightarrow> obeys same_wasm (async_let m f)"
  "obeys same_wasm m \<Longrightarrow> (\<And>v. obeys (instantiates E) (g v)) \<Longrightarrow> obeys (instantiates E) (async_let m g)"
  unfolding async_let_def by (intro obeys_bind wasm_frames; simp add: throws_obey split: outcome.splits)+

lemma obeys_catch:
  "obeys same_wasm m \<Longrightarrow> (\<And>e. obeys same_wasm (h e)) \<Longrightarrow> obeys same_wasm (async_catch m h)"
  unfolding async_catch_def
  by (intro obeys_bind wasm_frames; simp add: obeys_keeps keeps_wasm_local split: outcome.splits)

lemma obeys_await: "obeys same_wasm (async_await v)"
  by (simp add: obeys_def async_await_def stretch_Waiting same_wasm_def)

lemma obeys_call: "obeys same_wasm m \<Longrightarrow> obeys same_wasm (await_call m)"
  unfolding await_call_def by (rule obeys_bind [OF wasm_frames(1)]) (simp_all add: obeys_def stretch_Waiting same_wasm_def)

lemma obeys_if: "(b \<Longrightarrow> obeys R m) \<Longrightarrow> (\<not> b \<Longrightarrow> obeys R n) \<Longrightarrow> obeys R (if b then m else n)"
  by simp

lemma obeys_option: "obeys R m \<Longrightarrow> (\<And>x. obeys R (f x)) \<Longrightarrow> obeys R (case r of None \<Rightarrow> m | Some x \<Rightarrow> f x)"
  by (cases r) simp_all

lemma obeys_split: "(\<And>a b. obeys R (f a b)) \<Longrightarrow> obeys R (case p of (a, b) \<Rightarrow> f a b)"
  by (cases p) simp

lemmas obeys_intros = obeys_let obeys_catch obeys_await obeys_call obeys_if obeys_option obeys_split obeys_keeps

lemma obeys_load:
  assumes "host_frame E"
  shows "obeys same_wasm (load_with_async E (load_streaming_async E w) m imports)"
    "obeys same_wasm (load_with_async E (load_streaming_checked_async E) m imports)"
  unfolding load_with_async_def load_streaming_async_def load_streaming_checked_async_def load_bytes_async_def wrong_mime_def
    validResponse_def is_a_def webassembly_def instance_of_def
  by (intro obeys_intros keeps_wasm_intros keeps_wasm_calls [OF assms] host_frameD [OF assms]; auto simp: keeps_wasm_local)+

lemma finalize_starts:
  assumes "host_frame E" "wbg_finalize_init E cs inst m s = (Ret v, t)"
  shows "started_between E s v t"
proof -
  obtain x u where x: "js_member E inst ''exports'' s = (x, u)" by fastforce
  obtain ex where ex: "x = Ret ex" using assms(2) x by (cases x) (auto simp: wbg_finalize_init_def js_let_Throw)
  let ?u = "clear_caches cs (u\<lparr>wasm := ex, wasm_module := m\<rparr>)"
  have "host_get E inst ''exports'' s = (Ret ex, u)" using x ex by (auto simp: js_member_def split: if_splits)
  moreover obtain y where y: "wasm_call E ''__wbindgen_start'' [] ?u = (Ret y, t)" "v = wasm t"
    using assms(2) x ex by (auto simp: wbg_finalize_init_def js_seq_def js_let_def split: prod.splits outcome.splits)
  moreover have "wasm t = wasm ?u"
    using y(1) host_frameD(8) [OF assms(1), of "''__wbindgen_start''" "[]"] unfolding keeps_wasm_def by (metis snd_conv)
  ultimately show ?thesis unfolding started_between_def
    by (intro exI [of _ inst] exI [of _ s] exI [of _ u] exI [of _ ?u] exI [of _ y]) simp
qed

lemma finalize_initialises:
  fixes E :: "'w js_env"
  assumes "host_frame E" "has_exports E"
  shows "initialises E s (fst (wbg_finalize_init E cs inst m s)) (snd (wbg_finalize_init E cs inst m s))"
proof -
  obtain r t where run: "wbg_finalize_init E cs inst m s = (r, t)" by fastforce
  show ?thesis
  proof (cases r)
    case (Ret v)
    then show ?thesis using run finalize_sets_wasm [OF assms, of cs inst m] finalize_returns_wasm [of E cs inst m]
      unfolding sets_wasm_def returns_wasm_def initialises_def by fastforce
  next
    case (Throw e)
    obtain x u where x: "js_member E inst ''exports'' s = (x, u)" by fastforce
    have "wasm u = wasm s" using x keeps_wasm_calls(1) [OF assms(1)] unfolding keeps_wasm_def by (metis snd_conv)
    then show ?thesis
    proof (cases x)
      case (Throw y)
      then show ?thesis using run x \<open>wasm u = wasm s\<close> by (auto simp: wbg_finalize_init_def js_let_Throw initialises_def)
    next
      case (Ret ex)
      let ?u = "clear_caches cs (u\<lparr>wasm := ex, wasm_module := m\<rparr>)"
      have ex: "ex \<noteq> Undefined" using x Ret assms(2) by (auto simp: js_member_def has_exports_def split: if_splits)
      have "wasm_call E ''__wbindgen_start'' [] ?u = (Throw e, t)"
        using run Throw x Ret by (auto simp: wbg_finalize_init_def js_seq_def js_let_def split: prod.splits outcome.splits)
      moreover from this have "wasm t = wasm ?u"
        using host_frameD(8) [OF assms(1), of "''__wbindgen_start''" "[]"] unfolding keeps_wasm_def by (metis snd_conv)
      ultimately show ?thesis using run Throw ex by (auto simp: initialises_def start_failed_def)
    qed
  qed
qed

lemma finalize_instantiates:
  assumes "host_frame E" "has_exports E"
  shows "instantiates E s (fst (wbg_finalize_init E cs inst m s)) (snd (wbg_finalize_init E cs inst m s))"
  using finalize_initialises [OF assms] finalize_starts [OF assms(1), of cs inst m s] unfolding instantiates_def
  by (metis prod.collapse)

text \<open>The same for a stretch of synchronous code.\<close>

lemma instantiates_let:
  assumes "keeps_wasm m" "\<And>v t. instantiates E t (fst (f v t)) (snd (f v t))"
  shows "instantiates E s (fst (js_let m f s)) (snd (js_let m f s))"
proof -
  obtain r u where m: "m s = (r, u)" by fastforce
  have u: "wasm u = wasm s" using assms(1) m unfolding keeps_wasm_def by (metis snd_conv)
  show ?thesis
  proof (cases r)
    case (Ret v)
    then show ?thesis using m u assms(2) [of u v] wasm_frames(3) [of E] unfolding wasm_frame_def
      by (metis js_let_Ret)
  next
    case (Throw e)
    then show ?thesis using m u by (simp add: js_let_Throw instantiates_def initialises_def)
  qed
qed

lemma obeys_load_and_finalize:
  assumes "host_frame E" "has_exports E" "\<And>a b. obeys same_wasm (load a b)"
  shows "obeys (instantiates E) (load_and_finalize_async E load (wbg_finalize_init E cs) input imports)"
  unfolding load_and_finalize_async_def
proof (intro obeys_let(2) obeys_call obeys_await assms(3) obeys_do)
  fix r s
  show "instantiates E s (fst (js_let (js_member E r ''instance'') (\<lambda>inst. js_let (js_member E r ''module'') (wbg_finalize_init E cs inst)) s))
    (snd (js_let (js_member E r ''instance'') (\<lambda>inst. js_let (js_member E r ''module'') (wbg_finalize_init E cs inst)) s))"
    by (intro instantiates_let keeps_wasm_calls [OF assms(1)] finalize_instantiates [OF assms(1,2)])
qed

text \<open>What a call is obliged to do after it has waited.\<close>

definition late_ok :: "'w js_env \<Rightarrow> ('w, js_val) co \<Rightarrow> bool" where
  "late_ok E c \<longleftrightarrow> (case c of Settled r \<Rightarrow> True
     | Waiting p k \<Rightarrow> (\<forall>x u. stretch (instantiates E) (fst (k x u)) u (snd (k x u))))"

lemma stretch_late_ok: "stretch (instantiates E) c s t \<Longrightarrow> late_ok E c"
  by (cases c) (auto simp: late_ok_def stretch_Waiting)

lemma obeys_guard:
  assumes "obeys (instantiates E) n"
  shows "obeys (initialises E) (async_let (async_do (js_gets wasm)) (\<lambda>w. if w \<noteq> Undefined then async_do (js_return w) else n))"
    "late_ok E (fst (async_let (async_do (js_gets wasm)) (\<lambda>w. if w \<noteq> Undefined then async_do (js_return w) else n) s))"
proof -
  have n: "stretch (instantiates E) (fst (n s)) s (snd (n s))" for s using assms by (simp add: obeys_def)
  show "obeys (initialises E) (async_let (async_do (js_gets wasm)) (\<lambda>w. if w \<noteq> Undefined then async_do (js_return w) else n))"
    using stretch_initialises [OF n] by (simp add: obeys_def async_let_def async_bind_def async_do_def initialises_def)
  show "late_ok E (fst (async_let (async_do (js_gets wasm)) (\<lambda>w. if w \<noteq> Undefined then async_do (js_return w) else n) s))"
    using stretch_late_ok [OF n] by (simp add: async_let_def async_bind_def async_do_def) (simp add: late_ok_def)
qed

lemma initialises_guard:
  assumes "\<And>s. instantiates E s (fst (n s)) (snd (n s))"
  shows "initialises E s (fst (js_let (js_gets wasm) (\<lambda>w. if w \<noteq> Undefined then js_return w else n) s))
    (snd (js_let (js_gets wasm) (\<lambda>w. if w \<noteq> Undefined then js_return w else n) s))"
  using assms by (auto simp: js_let_Ret [OF js_gets_run] instantiates_def) (simp add: initialises_def)

lemma instantiates_split:
  "(\<And>a b. instantiates E s (fst (f a b s)) (snd (f a b s))) \<Longrightarrow>
   instantiates E s (fst ((case p of (a, b) \<Rightarrow> f a b) s)) (snd ((case p of (a, b) \<Rightarrow> f a b) s))"
  by (cases p) simp

lemma instantiate_starts:
  assumes "host_frame E" "has_exports E"
  shows "instantiates E s (fst (instantiate_sync E (wbg_finalize_init E cs) imports m s))
    (snd (instantiate_sync E (wbg_finalize_init E cs) imports m s))"
  unfolding instantiate_sync_def webassembly_def instance_of_def
  by (intro instantiates_let finalize_instantiates assms keeps_wasm_intros keeps_wasm_calls host_frameD)

lemma sync_initialises:
  assumes "host_frame E" "has_exports E" "\<And>v. keeps_wasm (build v)"
  shows "initialises E s (fst (initSync E (wbg_finalize_init E cs) imports m memory s)) (snd (initSync E (wbg_finalize_init E cs) imports m memory s))"
    "initialises E s (fst (initSync_old E (wbg_finalize_init E cs) imports m memory s)) (snd (initSync_old E (wbg_finalize_init E cs) imports m memory s))"
    "initialises E s (fst (initSync_new E (wbg_finalize_init E cs) build m memory s)) (snd (initSync_new E (wbg_finalize_init E cs) build m memory s))"
  unfolding initSync_def initSync_old_def initSync_new_def js_seq_def
  by (intro initialises_guard instantiates_let instantiates_split instantiate_starts keeps_wasm_setup keeps_wasm_let assms)+

lemma async_initialises:
  assumes "host_frame E" "has_exports E" "\<And>a b. obeys same_wasm (load a b)" "keeps_wasm url" "\<And>v. keeps_wasm (build v)"
  shows "obeys (initialises E) (wbg_init_async E load (wbg_finalize_init E cs) imports url m memory)"
    "obeys (initialises E) (wbg_init_old_async E load (wbg_finalize_init E cs) imports url m memory)"
    "obeys (initialises E) (wbg_init_new_async E load (wbg_finalize_init E cs) build url m memory)"
    "late_ok E (fst (wbg_init_async E load (wbg_finalize_init E cs) imports url m memory s))"
    "late_ok E (fst (wbg_init_old_async E load (wbg_finalize_init E cs) imports url m memory s))"
    "late_ok E (fst (wbg_init_new_async E load (wbg_finalize_init E cs) build url m memory s))"
  unfolding wbg_init_async_def wbg_init_old_async_def wbg_init_new_async_def
  by (intro obeys_guard obeys_let(2) obeys_split obeys_keeps obeys_load_and_finalize keeps_wasm_setup keeps_wasm_if
      keeps_wasm_local keeps_wasm_let assms)+

lemma async_early:
  assumes "wasm s \<noteq> Undefined"
  shows "wbg_init_async E load fin imports url m memory s = (Settled (Ret (wasm s)), s)"
    "wbg_init_old_async E load fin imports url m memory s = (Settled (Ret (wasm s)), s)"
    "wbg_init_new_async E load fin build url m memory s = (Settled (Ret (wasm s)), s)"
  using assms by (simp_all add: wbg_init_async_def wbg_init_old_async_def wbg_init_new_async_def async_let_def async_bind_def async_do_def)

section \<open>The calls as an interface\<close>

text \<open>
  What a page with overlapping calls relies on: a call made when the exports are there returns them at once, and
  every call keeps to \<open>initialises\<close>, stretch by stretch.
\<close>

definition call_inv :: "'w js_env \<Rightarrow> 'w js_state \<Rightarrow> ('w, js_val) co \<Rightarrow> bool" where
  "call_inv E s c \<longleftrightarrow> (case c of
     Settled r \<Rightarrow> (\<forall>v. r = Ret v \<longrightarrow> v \<noteq> Undefined \<and> wasm s \<noteq> Undefined)
   | Waiting p k \<Rightarrow> (\<forall>x u. stretch (initialises E) (fst (k x u)) u (snd (k x u))))"

definition page_inv :: "'w js_env \<Rightarrow> 'w page \<Rightarrow> bool" where
  "page_inv E P \<longleftrightarrow> (\<forall>c\<in>set (calls P). call_inv E (now P) c)"

lemma call_inv_later: "call_inv E s c \<Longrightarrow> (wasm s \<noteq> Undefined \<Longrightarrow> wasm t \<noteq> Undefined) \<Longrightarrow> call_inv E t c"
  unfolding call_inv_def by (auto split: co.splits)

lemma stretch_result:
  assumes "stretch (initialises E) c s t"
  shows "call_inv E t c" "wasm s \<noteq> Undefined \<Longrightarrow> wasm t \<noteq> Undefined" "c = Settled (Ret v) \<Longrightarrow> v = wasm t"
  using assms by (cases c; auto simp: call_inv_def stretch_Waiting initialises_def split: outcome.splits)+

locale init_calls =
  fixes E :: "'w js_env" and Sync :: "('w, js_val) wjs set" and Async :: "('w, js_val) async set"
  assumes sync_early: "m \<in> Sync \<Longrightarrow> wasm s \<noteq> Undefined \<Longrightarrow> m s = (Ret (wasm s), s)"
    and async_early: "g \<in> Async \<Longrightarrow> wasm s \<noteq> Undefined \<Longrightarrow> g s = (Settled (Ret (wasm s)), s)"
    and sync_ok: "host_frame E \<Longrightarrow> has_exports E \<Longrightarrow> m \<in> Sync \<Longrightarrow> initialises E s (fst (m s)) (snd (m s))"
    and async_ok: "host_frame E \<Longrightarrow> has_exports E \<Longrightarrow> g \<in> Async \<Longrightarrow> obeys (initialises E) g"
    and async_late: "host_frame E \<Longrightarrow> has_exports E \<Longrightarrow> g \<in> Async \<Longrightarrow> late_ok E (fst (g s))"
begin

lemma step_new:
  assumes "page_inv E P" "stretch (initialises E) c (now P) t"
  shows "page_inv E \<lparr>now = t, calls = calls P @ [c]\<rparr>" "wasm (now P) \<noteq> Undefined \<Longrightarrow> wasm t \<noteq> Undefined"
  using assms stretch_result [OF assms(2)] call_inv_later [of E "now P" _ t] by (auto simp: page_inv_def)

lemma settle_keeps: "host_frame E \<Longrightarrow> settle E p s = (r, u) \<Longrightarrow> wasm u = wasm s"
proof -
  assume "host_frame E" "settle E p s = (r, u)"
  moreover have "keeps_wasm (settle E p)" using host_frameD(7) [OF \<open>host_frame E\<close>] by (cases p) (simp_all add: keeps_wasm_local)
  ultimately show "wasm u = wasm s" unfolding keeps_wasm_def by (metis snd_conv)
qed

lemma resumed_stretch:
  assumes "host_frame E" "page_inv E P" "i < length (calls P)" "calls P ! i = Waiting p k"
    and "settle E p (now P) = (r, u)" "k r u = (c, t)"
  shows "stretch (initialises E) c (now P) t"
proof -
  have "wasm (now P) = wasm u" using settle_keeps [OF assms(1,5)] by simp
  moreover have "call_inv E (now P) (Waiting p k)" using assms(2,4) nth_mem [OF assms(3)] by (simp add: page_inv_def)
  then have "stretch (initialises E) (fst (k r u)) u (snd (k r u))" by (simp add: call_inv_def)
  then have "stretch (initialises E) c u t" using assms(6) by simp
  ultimately show ?thesis using stretch_frame [OF wasm_frames(2), of E c u t "now P"] by simp
qed

lemma step_inv:
  assumes "host_frame E" "has_exports E" "init_step E Sync Async P Q" "page_inv E P"
  shows "page_inv E Q \<and> (wasm (now P) \<noteq> Undefined \<longrightarrow> wasm (now Q) \<noteq> Undefined)"
  using assms(3)
proof cases
  case (call_sync m r t)
  then have "stretch (initialises E) (Settled r) (now P) t" using sync_ok [OF assms(1,2), of m "now P"] by simp
  from step_new [OF assms(4) this] show ?thesis using call_sync by simp
next
  case (call_async m c t)
  then have "stretch (initialises E) c (now P) t" using async_ok [OF assms(1,2), of m] unfolding obeys_def by (metis fst_conv snd_conv)
  from step_new [OF assms(4) this] show ?thesis using call_async by simp
next
  case (resume i p k r u c t)
  note st = stretch_result [OF resumed_stretch [OF assms(1,4) resume(2-5)]]
  have "call_inv E t d" if "d \<in> set ((calls P)[i := c])" for d
    using that st(1,2) assms(4) call_inv_later [of E "now P" d t] set_update_subset_insert [of "calls P" i c]
    by (auto simp: page_inv_def)
  then show ?thesis using st(2) resume by (simp add: page_inv_def)
next
  case (other t)
  then show ?thesis using assms(4) call_inv_later [of E "now P" _ t] by (auto simp: page_inv_def)
qed

lemma reach_inv:
  assumes "host_frame E" "has_exports E" "(init_step E Sync Async)\<^sup>*\<^sup>* P Q" "page_inv E P"
  shows "page_inv E Q \<and> (wasm (now P) \<noteq> Undefined \<longrightarrow> wasm (now Q) \<noteq> Undefined)"
  using assms(3,4) by induction (use step_inv [OF assms(1,2)] in auto)

lemma quiet_step:
  assumes "init_step E Sync Async P Q" "wasm (now P) \<noteq> Undefined" "\<not> list_ex waiting (calls P)"
  shows "wasm (now Q) = wasm (now P) \<and> \<not> list_ex waiting (calls Q)
    \<and> (\<exists>n. calls Q = calls P @ replicate n (Settled (Ret (wasm (now P)))))"
  using assms(1)
proof cases
  case (call_sync m r t)
  then show ?thesis using assms(2,3) sync_early [of m "now P"] by (auto intro!: exI [of _ 1])
next
  case (call_async m c t)
  then show ?thesis using assms(2,3) async_early [of m "now P"] by (auto intro!: exI [of _ 1])
next
  case (resume i p k r u c t)
  then have "waiting (calls P ! i)" by simp
  then show ?thesis using assms(3) nth_mem [OF resume(2)] by (auto simp: list_ex_iff)
next
  case (other t)
  then show ?thesis using assms(3) by (auto intro: exI [of _ 0])
qed

lemma quiet_reach:
  assumes "(init_step E Sync Async)\<^sup>*\<^sup>* P Q" "wasm (now P) \<noteq> Undefined" "\<not> list_ex waiting (calls P)"
  shows "wasm (now Q) = wasm (now P) \<and> \<not> list_ex waiting (calls Q)
    \<and> (\<exists>n. calls Q = calls P @ replicate n (Settled (Ret (wasm (now P)))))"
  using assms
proof induction
  case base
  then show ?case by (auto intro: exI [of _ 0])
next
  case (step Q R)
  then obtain n where n: "calls Q = calls P @ replicate n (Settled (Ret (wasm (now P))))" "wasm (now Q) = wasm (now P)"
    "\<not> list_ex waiting (calls Q)" by auto
  with quiet_step [OF step.hyps(2)] step.prems(1) obtain k where
    "calls R = calls P @ replicate (n + k) (Settled (Ret (wasm (now P))))" "wasm (now R) = wasm (now P)" "\<not> list_ex waiting (calls R)"
    by (auto simp: replicate_add)
  then show ?case by blast
qed

lemma step_late:
  assumes "host_frame E" "has_exports E" "init_step E Sync Async P Q" "\<forall>c\<in>set (calls P). late_ok E c"
  shows "\<forall>c\<in>set (calls Q). late_ok E c"
  using assms(3)
proof cases
  case (call_sync m r t)
  then show ?thesis using assms(4) by (auto simp: late_ok_def)
next
  case (call_async m c t)
  then show ?thesis using assms(4) async_late [OF assms(1,2), of m "now P"] by auto
next
  case (resume i p k r u c t)
  have "late_ok E (Waiting p k)" using assms(4) nth_mem [OF resume(2)] resume(3) by simp
  then have "stretch (instantiates E) (fst (k r u)) u (snd (k r u))" by (simp add: late_ok_def)
  then have "late_ok E c" using resume(5) stretch_late_ok [of E "fst (k r u)"] by simp
  then show ?thesis using assms(4) resume(1) set_update_subset_insert [of "calls P" i c] by auto
next
  case (other t)
  then show ?thesis using assms(4) by simp
qed

lemma reach_late:
  assumes "host_frame E" "has_exports E" "(init_step E Sync Async)\<^sup>*\<^sup>* (page0 s) P"
  shows "\<forall>c\<in>set (calls P). late_ok E c"
  using assms(3) by induction (simp_all add: page0_def step_late [OF assms(1,2)])

lemma late_call:
  assumes "host_frame E" "has_exports E" "(init_step E Sync Async)\<^sup>*\<^sup>* (page0 s) P" "init_step E Sync Async P Q"
    and "j < length (calls P)" "waiting (calls P ! j)" "calls Q ! j = Settled (Ret w)"
  shows "started_between E (now P) w (now Q) \<and> wasm (now Q) = w \<and> w \<noteq> Undefined
    \<and> (\<forall>i < length (calls P). i \<noteq> j \<longrightarrow> calls Q ! i = calls P ! i)"
  using assms(4)
proof cases
  case (resume i p k r u c t)
  have "i = j"
  proof (rule ccontr)
    assume "i \<noteq> j"
    then show False using assms(6,7) resume(1) by simp
  qed
  then have c: "c = Settled (Ret w)" using assms(5,7) resume(1) by simp
  have "late_ok E (Waiting p k)" using reach_late [OF assms(1-3)] nth_mem [OF resume(2)] resume(3) by simp
  then have "instantiates E u (Ret w) t" using c resume(5) by (simp add: late_ok_def) (metis fst_conv snd_conv stretch_Settled)
  moreover have "wasm u = wasm (now P)" using settle_keeps [OF assms(1)] resume(4) .
  ultimately show ?thesis using resume(1) \<open>i = j\<close>
    by (auto simp: instantiates_def initialises_def started_between_def)
qed (use assms(5-7) in \<open>auto simp: nth_append\<close>)

end

section \<open>The calls of the seven modules\<close>

text \<open>All calls a page can make, with any arguments and import objects.\<close>

definition rattlegram_calls :: "'w js_env \<Rightarrow> ('w, js_val) wjs set \<times> ('w, js_val) async set" where
  "rattlegram_calls E = ({rattlegram_initSync E ob m memory | ob m memory. True}, {rattlegram_init_async E ob base m memory | ob base m memory. True})"

definition prophecy_calls :: "'w js_env \<Rightarrow> ('w, js_val) wjs set \<times> ('w, js_val) async set" where
  "prophecy_calls E = ({prophecy_initSync E ob m memory | ob m memory. True}, {prophecy_init_async E ob base m memory | ob base m memory. True})"

definition spectrum_calls :: "'w js_env \<Rightarrow> ('w, js_val) wjs set \<times> ('w, js_val) async set" where
  "spectrum_calls E = ({spectrum_initSync E ob m memory | ob m memory. True}, {spectrum_init_async E ob base m memory | ob base m memory. True})"

definition wlan_swap_calls :: "'w js_env \<Rightarrow> ('w, js_val) wjs set \<times> ('w, js_val) async set" where
  "wlan_swap_calls E = ({wlan_swap_initSync E ob m memory | ob m memory. True}, {wlan_swap_init_async E ob base m memory | ob base m memory. True})"

definition wlan_calls :: "'w js_env \<Rightarrow> ('w, js_val) wjs set \<times> ('w, js_val) async set" where
  "wlan_calls E = ({wlan_initSync E fs m memory | fs m memory. True}, {wlan_init_async E fs base m memory | fs base m memory. True})"

definition wlan_debug_calls :: "'w js_env \<Rightarrow> ('w, js_val) wjs set \<times> ('w, js_val) async set" where
  "wlan_debug_calls E = ({wlan_debug_initSync E fs m memory | fs m memory. True}, {wlan_debug_init_async E fs base m memory | fs base m memory. True})"

definition wgpu_calls :: "'w js_env \<Rightarrow> ('w, js_val) wjs set \<times> ('w, js_val) async set" where
  "wgpu_calls E = ({wgpu_initSync E ob m memory | ob m memory. True}, {wgpu_init_async E ob base m memory | ob base m memory. True})"

lemmas calls_defs = rattlegram_calls_def prophecy_calls_def spectrum_calls_def wlan_swap_calls_def wlan_calls_def wlan_debug_calls_def wgpu_calls_def

lemmas init_law_facts = entries_return_early async_early sync_initialises async_initialises obeys_load keeps_wasm_setup(5)
  import_object_keeps

interpretation rattlegram_init: init_calls E "fst (rattlegram_calls E)" "snd (rattlegram_calls E)" for E :: "'w js_env"
  by unfold_locales (auto simp: rattlegram_calls_def rattlegram_entry_defs rattlegram_init_async_def intro!: init_law_facts)

interpretation prophecy_init: init_calls E "fst (prophecy_calls E)" "snd (prophecy_calls E)" for E :: "'w js_env"
  by unfold_locales (auto simp: prophecy_calls_def prophecy_entry_defs prophecy_init_async_def intro!: init_law_facts)

interpretation spectrum_init: init_calls E "fst (spectrum_calls E)" "snd (spectrum_calls E)" for E :: "'w js_env"
  by unfold_locales (auto simp: spectrum_calls_def spectrum_entry_defs spectrum_init_async_def intro!: init_law_facts)

interpretation wlan_swap_init: init_calls E "fst (wlan_swap_calls E)" "snd (wlan_swap_calls E)" for E :: "'w js_env"
  by unfold_locales (auto simp: wlan_swap_calls_def wlan_swap_entry_defs wlan_swap_init_async_def intro!: init_law_facts)

interpretation wlan_init: init_calls E "fst (wlan_calls E)" "snd (wlan_calls E)" for E :: "'w js_env"
  by unfold_locales (auto simp: wlan_calls_def wlan_entry_defs wlan_init_async_def intro!: init_law_facts)

interpretation wlan_debug_init: init_calls E "fst (wlan_debug_calls E)" "snd (wlan_debug_calls E)" for E :: "'w js_env"
  by unfold_locales (auto simp: wlan_debug_calls_def wlan_debug_entry_defs wlan_debug_init_async_def intro!: init_law_facts)

interpretation wgpu_init: init_calls E "fst (wgpu_calls E)" "snd (wgpu_calls E)" for E :: "'w js_env"
  by unfold_locales (auto simp: wgpu_calls_def wgpu_entry_defs wgpu_init_async_def intro!: init_law_facts)

definition module_calls :: "'w js_env \<Rightarrow> (('w, js_val) wjs set \<times> ('w, js_val) async set) list" where
  "module_calls E = [rattlegram_calls E, prophecy_calls E, spectrum_calls E, wlan_swap_calls E, wlan_calls E, wlan_debug_calls E, wgpu_calls E]"

lemma module_calls_ok: "(Sync, Async) \<in> set (module_calls E) \<Longrightarrow> init_calls E Sync Async"
  using rattlegram_init.init_calls_axioms [of E] prophecy_init.init_calls_axioms [of E] spectrum_init.init_calls_axioms [of E] wlan_swap_init.init_calls_axioms [of E] wlan_init.init_calls_axioms [of E] wlan_debug_init.init_calls_axioms [of E] wgpu_init.init_calls_axioms [of E]
  by (auto simp: module_calls_def) (metis fst_conv snd_conv)+

section \<open>How often a call waits\<close>

text \<open>A call after some resumptions, each with any outcome and in any state that the page has reached.\<close>

fun after :: "('w, 'a) co \<Rightarrow> (js_val outcome \<times> 'w js_state) list \<Rightarrow> ('w, 'a) co" where
  "after (Settled r) xs = Settled r"
| "after (Waiting p k) [] = Waiting p k"
| "after (Waiting p k) ((r, u) # xs) = after (fst (k r u)) xs"

primrec settles :: "nat \<Rightarrow> ('w, 'a) co \<Rightarrow> bool" where
  "settles 0 c \<longleftrightarrow> \<not> waiting c"
| "settles (Suc n) c \<longleftrightarrow> (case c of Settled r \<Rightarrow> True | Waiting p k \<Rightarrow> \<forall>x u. settles n (fst (k x u)))"

definition settles_in :: "nat \<Rightarrow> ('w, 'a) async \<Rightarrow> bool" where
  "settles_in n m \<longleftrightarrow> (\<forall>s. settles n (fst (m s)))"

lemma settles_Settled [simp]: "settles n (Settled r)"
  by (cases n) simp_all

lemma settles_after: "settles (length xs) c \<Longrightarrow> \<not> waiting (after c xs)"
proof (induction xs arbitrary: c)
  case Nil
  then show ?case by (cases c) simp_all
next
  case (Cons x xs)
  then show ?case by (cases x; cases c) simp_all
qed

lemma settles_Suc: "settles n c \<Longrightarrow> settles (Suc n) c"
proof (induction n arbitrary: c)
  case 0
  then show ?case by (cases c) simp_all
next
  case (Suc n)
  then show ?case by (cases c) simp_all
qed

lemma settles_more: "settles n c \<Longrightarrow> settles (m + n) c"
  by (induction m) (simp_all only: add_0 add_Suc settles_Suc)

lemma settles_then:
  "settles a c \<Longrightarrow> (\<And>r. settles_in b (f r)) \<Longrightarrow> settles (a + b) (fst (co_then c f t))"
proof (induction a arbitrary: c t)
  case 0
  then show ?case by (cases c) (simp_all add: settles_in_def)
next
  case (Suc a)
  show ?case
  proof (cases c)
    case (Settled r)
    then show ?thesis using settles_more [of b "fst (f r t)" "Suc a"] Suc.prems(2) by (simp add: settles_in_def)
  next
    case (Waiting p k)
    then show ?thesis using Suc by (auto simp: case_prod_beta)
  qed
qed

lemma settles_bind: "settles_in a m \<Longrightarrow> (\<And>r. settles_in b (f r)) \<Longrightarrow> settles_in (a + b) (async_bind m f)"
proof -
  assume m: "settles_in a m" and f: "\<And>r. settles_in b (f r)"
  have "settles (a + b) (fst (co_then (fst (m s)) f (snd (m s))))" for s
    using settles_then [of a "fst (m s)" b f, OF _ f] m by (simp add: settles_in_def)
  then show ?thesis by (simp add: settles_in_def async_bind_def case_prod_beta)
qed

lemma settles_do: "settles_in n (async_do m)"
  by (simp add: settles_in_def async_do_def case_prod_beta)

lemma settles_let: "settles_in a m \<Longrightarrow> (\<And>v. settles_in b (f v)) \<Longrightarrow> settles_in (a + b) (async_let m f)"
  unfolding async_let_def by (rule settles_bind) (simp_all add: settles_do split: outcome.splits)

lemma settles_let_do: "(\<And>v. settles_in n (f v)) \<Longrightarrow> settles_in n (async_let (async_do m) f)"
  using settles_let [OF settles_do [of 0 m], of n f] by simp

lemma settles_catch: "settles_in n m \<Longrightarrow> (\<And>e. settles_in 0 (h e)) \<Longrightarrow> settles_in n (async_catch m h)"
  unfolding async_catch_def by (rule settles_bind [of n _ 0, simplified]) (simp_all add: settles_do split: outcome.splits)

lemma settles_await: "settles_in 1 (async_await v)" "settles_in 1 (async_let (async_do m) async_await)"
  using settles_let_do [of 1 async_await] by (simp_all add: settles_in_def async_await_def)

lemma settles_await_call: "settles_in n m \<Longrightarrow> settles_in (n + 1) (await_call m)"
  unfolding await_call_def by (rule settles_bind) (simp_all add: settles_in_def)

lemma settles_load:
  assumes "\<And>a b. settles_in 1 (streaming a b)"
  shows "settles_in 3 (load_with_async E streaming m imports)"
proof -
  have bytes: "settles_in 2 (load_bytes_async E m imports)"
    unfolding load_bytes_async_def one_add_one [symmetric] by (intro settles_let settles_await)
  have let3: "settles_in 3 (async_let n f)" if "settles_in 1 n" "\<And>v. settles_in 2 (f v)"
    for n :: "('a, 'b) async" and f :: "'b \<Rightarrow> ('a, 'c) async"
    using settles_let [OF that] by (simp add: eval_nat_numeral)
  have "settles_in 3 (async_let (if b then streaming m imports else async_do (js_return None))
      (\<lambda>r. case r of None \<Rightarrow> load_bytes_async E m imports | Some v \<Rightarrow> async_do (js_return v)))" for b
    using bytes by (intro let3) (simp_all add: assms [simplified] settles_do split: option.splits)
  moreover have "settles_in 3 (async_let (async_let (async_do (js_static E ''WebAssembly'' ''instantiate'' [js_return m, js_return imports])) async_await)
      (\<lambda>inst. async_do (g inst)))" for g :: "js_val \<Rightarrow> ('a, js_val) wjs"
    by (intro let3 settles_await settles_do)
  ultimately show ?thesis unfolding load_with_async_def by (auto intro!: settles_let_do)
qed

lemma settles_streaming:
  "settles_in 1 (load_streaming_async E w m imports)" "settles_in 1 (load_streaming_checked_async E m imports)"
  unfolding load_streaming_async_def load_streaming_checked_async_def
  using settles_let [OF settles_await(2) settles_do [of 0]] by (auto intro!: settles_catch settles_do)

lemma settles_load_and_finalize:
  assumes "\<And>a b. settles_in 3 (load a b)"
  shows "settles_in 5 (load_and_finalize_async E load fin input imports)"
proof -
  have "settles_in 4 (async_let (await_call (load m imports)) (\<lambda>r. async_do (g r)))" for m and g :: "js_val \<Rightarrow> ('a, js_val) wjs"
    using settles_let [OF settles_await_call [OF assms] settles_do [of 0]] by simp
  from settles_let [OF settles_await(1) this] show ?thesis by (simp add: load_and_finalize_async_def)
qed

lemma settles_init:
  assumes "\<And>a b. settles_in 3 (load a b)"
  shows "settles_in 5 (wbg_init_async E load fin imports url m memory)"
    "settles_in 5 (wbg_init_old_async E load fin imports url m memory)"
    "settles_in 5 (wbg_init_new_async E load fin build url m memory)"
  unfolding wbg_init_async_def wbg_init_old_async_def wbg_init_new_async_def
  by (auto intro!: settles_let_do settles_do settles_load_and_finalize assms split: prod.splits)

lemmas settles_laws = settles_init settles_load settles_streaming

section \<open>A page that calls twice\<close>

text \<open>The environment of the samples, in which every instance has exports of its own.\<close>

definition two_instances :: "int js_env" where
  "two_instances = sample_env\<lparr>host_apply := (\<lambda>f this args. js_return (Ref 9)),
     host_get := (\<lambda>obj p s. if p = ''exports'' then (Ret (Ref (nat (world s))), s\<lparr>world := world s + 1\<rparr>)
       else (Ret (Str (js ''abc'')), s))\<rparr>"

lemma two_instances_frame: "host_frame two_instances" "has_exports two_instances"
  using sample_call_keeps_wasm
  by (auto simp: host_frame_def has_exports_def two_instances_def sample_env_def keeps_wasm_local)
    (auto simp: keeps_wasm_def)

abbreviation sample_call :: "(int, js_val) async" where
  "sample_call \<equiv> prophecy_init_async two_instances (Ref 5) (Ref 6) Undefined Undefined"

fun resume_call :: "'w js_env \<Rightarrow> nat \<Rightarrow> 'w page \<Rightarrow> 'w page" where
  "resume_call E i P = (case calls P ! i of
     Settled r \<Rightarrow> P
   | Waiting p k \<Rightarrow> (case settle E p (now P) of (r, u) \<Rightarrow> case k r u of (c, t) \<Rightarrow> \<lparr>now = t, calls = (calls P)[i := c]\<rparr>))"

fun new_call :: "('w, js_val) async \<Rightarrow> 'w page \<Rightarrow> 'w page" where
  "new_call m P = (case m (now P) of (c, t) \<Rightarrow> \<lparr>now = t, calls = calls P @ [c]\<rparr>)"

lemma resume_call_step:
  "i < length (calls P) \<Longrightarrow> (init_step E Sync Async)\<^sup>*\<^sup>* P (resume_call E i P)"
  by (auto intro!: r_into_rtranclp init_step.resume split: co.splits prod.splits)

lemma new_call_step: "m \<in> Async \<Longrightarrow> (init_step E Sync Async)\<^sup>*\<^sup>* P (new_call m P)"
  by (auto intro!: r_into_rtranclp init_step.call_async split: prod.splits)

definition overlapping :: "int page" where
  "overlapping = resume_call two_instances 0 (resume_call two_instances 0 (resume_call two_instances 0
     (new_call sample_call (new_call sample_call (page0 sample_state)))))"

definition about_to_settle :: "int page" where
  "about_to_settle = resume_call two_instances 1 (resume_call two_instances 1 overlapping)"

lemmas sample_async_run = prophecy_init_async_def wbg_init_async_def load_and_finalize_async_def load_with_async_def
  prophecy_finalize_init_def wbg_finalize_init_def
  init_args_def bg_url_def fetch_if_url_def wbg_init_memory_def memory_or_new_def webassembly_def instance_of_def is_a_def
  js_typeof_global_def async_let_def async_bind_def async_do_def async_await_def await_call_def js_member_def js_assign_def
  js_global_def js_static_def js_new_def js_method_def isLikeNone_def js_let_def js_seq_def two_instances_def sample_env_def
  sample_wasm_call_def clear_caches_def js_def sample_state_def page0_def

lemma overlapping_run:
  "\<exists>p k. calls overlapping = [Settled (Ret (Ref 24)), Waiting p k]" "wasm (now overlapping) = Ref 24"
  by (simp_all add: overlapping_def sample_async_run)

lemma about_to_settle_run:
  "\<exists>p k. calls about_to_settle = [Settled (Ret (Ref 24)), Waiting p k]"
  "calls (resume_call two_instances 1 about_to_settle) = [Settled (Ret (Ref 24)), Settled (Ret (Ref 25))]"
  by (simp_all add: about_to_settle_def overlapping_def sample_async_run)

lemma sample_call_listed: "sample_call \<in> snd (prophecy_calls two_instances)"
  by (auto simp: prophecy_calls_def)

lemma overlapping_reached:
  "(init_step two_instances Sync (snd (prophecy_calls two_instances)))\<^sup>*\<^sup>* (page0 sample_state) overlapping"
  unfolding overlapping_def
  by (intro rtranclp_trans [OF _ resume_call_step] rtranclp_trans [OF _ new_call_step] rtranclp.rtrancl_refl sample_call_listed;
      simp add: page0_def split: co.splits prod.splits)

lemma about_to_settle_reached:
  "(init_step two_instances Sync (snd (prophecy_calls two_instances)))\<^sup>*\<^sup>* overlapping about_to_settle"
  using overlapping_run(1) unfolding about_to_settle_def
  by (intro rtranclp_trans [OF _ resume_call_step] rtranclp.rtrancl_refl; auto split: co.splits prod.splits)

section \<open>Properties\<close>

text \<open>
  A call of \<^verbatim>\<open>__wbg_init\<close> that nothing interrupts, suspended and resumed at each of its
  \<^verbatim>\<open>await\<close>s, does what the function does as one piece, in all seven modules: the theorems about the sequential
  functions are about the asynchronous ones when calls do not overlap.
\<close>

theorem uninterrupted_init:
  "alone E (rattlegram_init_async E ob base m memory) = rattlegram_init E ob base m memory \<and>
   alone E (prophecy_init_async E ob base m memory) = prophecy_init E ob base m memory \<and>
   alone E (spectrum_init_async E ob base m memory) = spectrum_init E ob base m memory \<and>
   alone E (wlan_swap_init_async E ob base m memory) = wlan_swap_init E ob base m memory \<and>
   alone E (wlan_init_async E fs base m memory) = wlan_init E fs base m memory \<and>
   alone E (wlan_debug_init_async E fs base m memory) = wlan_debug_init E fs base m memory \<and>
   alone E (wgpu_init_async E ob base m memory) = wgpu_init E ob base m memory"
  by (intro conjI) (simp_all add: async_entry_defs entry_defs loads init_alone load_alone)

text \<open>
  Property C12. However calls of the entry points of a module overlap, a call that returns gives exports, once
  some call has returned the module stays initialised and every new call returns the exports of the moment
  without doing anything, and when besides no call is waiting the exports never change again and all later
  calls return the same ones. This holds for every order in which a page makes and resumes calls and runs
  other code, in all seven modules.
\<close>

theorem overlapping_calls_agree:
  assumes "host_frame E" "has_exports E" "(Sync, Async) \<in> set (module_calls E)"
    and "(init_step E Sync Async)\<^sup>*\<^sup>* (page0 s) P" "(init_step E Sync Async)\<^sup>*\<^sup>* P Q"
    and "Settled (Ret v) \<in> set (calls P)"
  shows "v \<noteq> Undefined \<and> wasm (now Q) \<noteq> Undefined
    \<and> (\<forall>m\<in>Sync. m (now Q) = (Ret (wasm (now Q)), now Q))
    \<and> (\<forall>m\<in>Async. m (now Q) = (Settled (Ret (wasm (now Q))), now Q))
    \<and> (\<not> list_ex waiting (calls P) \<longrightarrow> wasm (now Q) = wasm (now P)
         \<and> (\<exists>n. calls Q = calls P @ replicate n (Settled (Ret (wasm (now P))))))"
proof -
  note m = module_calls_ok [OF assms(3)]
  have inv: "page_inv E P" using init_calls.reach_inv [OF m assms(1,2,4)] by (simp add: page0_def page_inv_def)
  then have v: "v \<noteq> Undefined" "wasm (now P) \<noteq> Undefined" using assms(6) by (auto simp: page_inv_def call_inv_def)
  then have w: "wasm (now Q) \<noteq> Undefined" using init_calls.reach_inv [OF m assms(1,2,5) inv] by blast
  show ?thesis
    using v w init_calls.sync_early [OF m _ w] init_calls.async_early [OF m _ w] init_calls.quiet_reach [OF m assms(5) v(2)]
    by blast
qed

theorem overlapping_calls_agree_witness:
  "prophecy_calls two_instances \<in> set (module_calls two_instances)
    \<and> Settled (Ret (Ref 24)) \<in> set (calls overlapping)
    \<and> sample_call (now overlapping) = (Settled (Ret (Ref 24)), now overlapping)"
proof -
  have m: "(fst (prophecy_calls two_instances), snd (prophecy_calls two_instances)) \<in> set (module_calls two_instances)"
    by (simp add: module_calls_def)
  have v: "Settled (Ret (Ref 24)) \<in> set (calls overlapping)" using overlapping_run(1) by auto
  from overlapping_calls_agree [OF two_instances_frame m overlapping_reached rtranclp.rtrancl_refl v] overlapping_run(2)
  show ?thesis using m v sample_call_listed by simp
qed

text \<open>
  Property C13. A call of \<^verbatim>\<open>__wbg_init\<close> waits at most five times (for its input, for the streaming compilation, for the
  bytes, for their compilation, and for \<^verbatim>\<open>__wbg_load\<close>): whatever the awaited promises give, and whatever else
  happens to the page in between, after five resumptions it has settled, in all seven modules.
\<close>

theorem init_settles:
  assumes "length xs = 5"
  shows "\<not> waiting (after (fst (rattlegram_init_async E ob base m memory s)) xs)
   \<and> \<not> waiting (after (fst (prophecy_init_async E ob base m memory s)) xs)
   \<and> \<not> waiting (after (fst (spectrum_init_async E ob base m memory s)) xs)
   \<and> \<not> waiting (after (fst (wlan_swap_init_async E ob base m memory s)) xs)
   \<and> \<not> waiting (after (fst (wlan_init_async E fs base m memory s)) xs)
   \<and> \<not> waiting (after (fst (wlan_debug_init_async E fs base m memory s)) xs)
   \<and> \<not> waiting (after (fst (wgpu_init_async E ob base m memory s)) xs)"
proof -
  have "settles_in 5 g \<Longrightarrow> \<not> waiting (after (fst (g s)) xs)" for g :: "('a, js_val) async"
    using settles_after [of xs "fst (g s)"] assms by (simp add: settles_in_def)
  then show ?thesis unfolding async_entry_defs by (intro conjI settles_laws; blast intro: settles_laws)
qed

theorem init_settles_witness:
  "waiting (fst (sample_call sample_state)) \<and>
   \<not> waiting (after (fst (sample_call sample_state)) (replicate 5 (Ret Null, sample_state)))"
  using init_settles [of "replicate 5 (Ret Null, sample_state)" two_instances "Ref 5" "Ref 6" Undefined Undefined sample_state "[]"]
  by (simp add: sample_async_run)

text \<open>
  Property C28. A call that was waiting when another one returned does not look at \<^verbatim>\<open>wasm\<close> again: when it returns
  in its turn, it returns the exports of an instance that it has read off, installed and started itself in the
  stretch since it was resumed. They replace those of the first caller, which keeps the old ones, and from then
  on every call returns the new ones. In the witness two calls of the prophecy module return different exports.
\<close>

theorem late_call_replaces_exports:
  assumes "host_frame E" "has_exports E" "(Sync, Async) \<in> set (module_calls E)"
    and "(init_step E Sync Async)\<^sup>*\<^sup>* (page0 s) P" "init_step E Sync Async P Q"
    and "i < length (calls P)" "calls P ! i = Settled (Ret v)"
    and "j < length (calls P)" "waiting (calls P ! j)" "calls Q ! j = Settled (Ret w)"
  shows "started_between E (now P) w (now Q) \<and> calls Q ! i = Settled (Ret v) \<and> wasm (now Q) = w
    \<and> (\<forall>m\<in>Async. m (now Q) = (Settled (Ret w), now Q)) \<and> (\<forall>m\<in>Sync. m (now Q) = (Ret w, now Q))"
proof -
  note m = module_calls_ok [OF assms(3)]
  note l = init_calls.late_call [OF m assms(1,2,4,5,8,9,10)]
  then show ?thesis
    using assms(6,7,9) init_calls.sync_early [OF m, of _ "now Q"] init_calls.async_early [OF m, of _ "now Q"] by auto
qed

theorem late_call_replaces_exports_witness:
  "\<exists>Q. calls about_to_settle ! 0 = Settled (Ret (Ref 24)) \<and> init_step two_instances (fst (prophecy_calls two_instances))
      (snd (prophecy_calls two_instances)) about_to_settle Q
    \<and> calls Q ! 0 = Settled (Ret (Ref 24)) \<and> wasm (now Q) = Ref 25"
proof -
  let ?S = "fst (prophecy_calls two_instances)" and ?A = "snd (prophecy_calls two_instances)"
  let ?Q = "resume_call two_instances 1 about_to_settle"
  have m: "(?S, ?A) \<in> set (module_calls two_instances)" by (simp add: module_calls_def)
  obtain p k where c: "calls about_to_settle = [Settled (Ret (Ref 24)), Waiting p k]" using about_to_settle_run(1) by blast
  have step: "init_step two_instances ?S ?A about_to_settle ?Q"
    using init_step.resume [of 1 about_to_settle p k two_instances] c by (auto split: prod.splits)
  have q: "calls ?Q ! 1 = Settled (Ret (Ref 25))" using about_to_settle_run(2) by simp
  have "calls ?Q ! 0 = Settled (Ret (Ref 24)) \<and> wasm (now ?Q) = Ref 25"
    using late_call_replaces_exports [OF two_instances_frame m rtranclp_trans [OF overlapping_reached about_to_settle_reached]
        step, of 0 "Ref 24" 1 "Ref 25"] c q by simp
  with step c show ?thesis by auto
qed

end
