(* ===== verification/Audio_Setup.thy ===== *)
theory Audio_Setup
  imports Sample_Env
begin

text \<open>
  The audio graph of the rattlegram example: \<^verbatim>\<open>getWebAudioMediaStream\<close> and \<^verbatim>\<open>setupAudio\<close> of
  \<^verbatim>\<open>src/examples/rattlegram/assets/setup-decoder.js\<close> and of its copy under \<^verbatim>\<open>worklet/snippets\<close>, with the errors
  that the page reports.
\<close>

section \<open>Set-up\<close>

text \<open>\<^verbatim>\<open>throw new Error(`... ${e.message}`)\<close>\<close>

definition throw_with_cause :: "'w js_env \<Rightarrow> js_string \<Rightarrow> js_val \<Rightarrow> ('w, js_val) wjs" where
  "throw_with_cause E text e =
     js_let (js_member E e ''message'') (\<lambda>m.
     js_let (js_template E m) (\<lambda>t. js_throw (Err (text @ t))))"

definition media_devices :: "'w js_env \<Rightarrow> ('w, js_val) wjs" where
  "media_devices E =
     js_let (js_global E ''window'') (\<lambda>w.
     js_let (js_member E w ''navigator'') (\<lambda>n. js_member E n ''mediaDevices''))"

text \<open>\<open>mode\<close> is \<^verbatim>\<open>ideal\<close> in the sources and \<^verbatim>\<open>exact\<close> in the copy under \<^verbatim>\<open>worklet/snippets\<close>, the only difference of the two.\<close>

definition media_constraints :: "'w js_env \<Rightarrow> string \<Rightarrow> ('w, js_val) wjs" where
  "media_constraints E mode =
     js_let (host_object E [(mode, Bool False)]) (\<lambda>echo.
     js_let (host_object E [(mode, Bool False)]) (\<lambda>noise.
     js_let (host_object E [(''exact'', Num 48000)]) (\<lambda>rate.
     js_let (host_object E [(''echoCancellation'', echo), (''noiseSuppression'', noise), (''sampleRate'', rate)]) (\<lambda>audio.
     host_object E [(''audio'', audio), (''video'', Bool False)]))))"

definition media_error :: "'w js_env \<Rightarrow> js_val \<Rightarrow> ('w, js_val) wjs" where
  "media_error E e =
     js_let (js_member E e ''name'') (\<lambda>name.
       if name = Str (js ''NotAllowedError'') then
         js_throw (Err (js ''A recording device was found but has been disallowed for this application. Enable the device in the browser settings.''))
       else if name = Str (js ''NotFoundError'') then
         js_throw (Err (js ''No recording device was found. Please attach a microphone and click Retry.''))
       else js_throw e)"

definition getWebAudioMediaStream :: "'w js_env \<Rightarrow> string \<Rightarrow> ('w, js_val) wjs" where
  "getWebAudioMediaStream E mode =
     js_let (media_devices E) (\<lambda>md.
     if \<not> truthy md then
       js_throw (Err (js ''This browser does not support web audio or it is not enabled.''))
     else
       js_try_catch
         (await E (js_let (media_devices E) (\<lambda>md. js_method E md ''getUserMedia'' [media_constraints E mode])))
         (media_error E))"

definition processorUrl :: string where
  "processorUrl = ''decoder-processor.js''"

definition wasm_failure :: js_string where
  "wasm_failure = js ''Failed to load audio analyzer WASM module. Further info: ''"

definition worklet_failure :: js_string where
  "worklet_failure = js (''Failed to load audio analyzer worklet at url: '' @ processorUrl @ ''. Further info: '')"

definition add_module :: "'w js_env \<Rightarrow> js_val \<Rightarrow> ('w, js_val) wjs" where
  "add_module E context =
     await E (js_let (js_member E context ''audioWorklet'') (\<lambda>aw.
       js_method E aw ''addModule'' [js_return (Str (js processorUrl))]))"

definition add_worklet :: "'w js_env \<Rightarrow> js_val \<Rightarrow> ('w, js_val) wjs" where
  "add_worklet E context = js_try_catch (add_module E context) (throw_with_cause E worklet_failure)"

text \<open>The context and the source node of \<^verbatim>\<open>setupAudio\<close>.\<close>

definition audio_source :: "'w js_env \<Rightarrow> js_val \<Rightarrow> ('w, js_val \<times> js_val) wjs" where
  "audio_source E mediaStream =
     js_let (js_let (js_global E ''window'') (\<lambda>w. js_let (js_member E w ''AudioContext'') (\<lambda>k. host_construct E k []))) (\<lambda>context.
     js_let (js_method E context ''createMediaStreamSource'' [js_return mediaStream]) (\<lambda>audioSource.
     js_return (context, audioSource)))"

text \<open>
  \<^verbatim>\<open>new DecoderNode(context, name)\<close> of \<^verbatim>\<open>decoder-node.js\<close>: the class has no constructor of its own and builds an object of
  the class it extends. The classes and the listener are values of the script: \<open>base\<close> is \<^verbatim>\<open>AudioWorkletNode\<close> as the
  class definition found it, and \<open>listener node\<close> the arrow function that hands \<^verbatim>\<open>event.data\<close> to \<^verbatim>\<open>onmessage\<close> of that node.
\<close>

record decoder_node_class =
  base :: js_val
  listener :: "js_val \<Rightarrow> js_val"

definition new_DecoderNode :: "'w js_env \<Rightarrow> decoder_node_class \<Rightarrow> js_val \<Rightarrow> string \<Rightarrow> ('w, js_val) wjs" where
  "new_DecoderNode E K context name = host_construct E (base K) [context, Str (js name)]"

text \<open>\<^verbatim>\<open>node.init(wasmBytes, messageSetter)\<close>; its effect on the worklet is \<open>node_init\<close>.\<close>

definition DecoderNode_init :: "'w js_env \<Rightarrow> decoder_node_class \<Rightarrow> js_val \<Rightarrow> js_val \<Rightarrow> js_val \<Rightarrow> ('w, js_val) wjs" where
  "DecoderNode_init E K this wasmBytes messageSetter =
     js_seq (js_assign E this ''messageSetter'' (js_return messageSetter))
     (js_seq (js_let (js_member E this ''port'') (\<lambda>port. js_assign E port ''onmessage'' (js_return (listener K this))))
     (js_do (js_let (js_member E this ''port'') (\<lambda>port. js_method E port ''postMessage''
        [host_object E [(''type'', Str (js ''send-wasm-module'')), (''wasmBytes'', wasmBytes)]]))))"

text \<open>The \<^verbatim>\<open>try\<close> block of \<^verbatim>\<open>setupAudio\<close>: the bytes of the module, the worklet, and the graph.\<close>

definition fetch_bytes :: "'w js_env \<Rightarrow> ('w, js_val) wjs" where
  "fetch_bytes E =
     js_let (await E (js_let (js_global E ''window'') (\<lambda>w. js_method E w ''fetch'' [js_return (Str (js ''wasm-decoder_bg.wasm''))]))) (\<lambda>response.
     await E (js_method E response ''arrayBuffer'' []))"

definition connect_node ::
  "'w js_env \<Rightarrow> decoder_node_class \<Rightarrow> js_val \<Rightarrow> js_val \<Rightarrow> js_val \<Rightarrow> js_val \<Rightarrow> ('w, js_val) wjs" where
  "connect_node E K messageSetter context audioSource wasmBytes =
     js_let (new_DecoderNode E K context ''DecoderProcessor'') (\<lambda>node.
     js_seq (DecoderNode_init E K node wasmBytes messageSetter)
     (js_seq (js_method E audioSource ''connect'' [js_return node])
     (js_seq (js_method E node ''connect'' [js_member E context ''destination''])
     (js_return node))))"

definition load_graph ::
  "'w js_env \<Rightarrow> decoder_node_class \<Rightarrow> js_val \<Rightarrow> js_val \<Rightarrow> js_val \<Rightarrow> ('w, js_val) wjs" where
  "load_graph E K messageSetter context audioSource =
     js_let (fetch_bytes E) (\<lambda>wasmBytes.
     js_seq (add_worklet E context)
     (connect_node E K messageSetter context audioSource wasmBytes))"

definition setupAudio_with :: "'w js_env \<Rightarrow> string \<Rightarrow> decoder_node_class \<Rightarrow> js_val \<Rightarrow> ('w, js_val) wjs" where
  "setupAudio_with E mode K messageSetter =
     js_let (getWebAudioMediaStream E mode) (\<lambda>mediaStream.
     js_let (audio_source E mediaStream) (\<lambda>(context, audioSource).
     js_let (js_try_catch (load_graph E K messageSetter context audioSource) (throw_with_cause E wasm_failure)) (\<lambda>node.
     host_object E [(''context'', context), (''node'', node)])))"

definition setupAudio :: "'w js_env \<Rightarrow> decoder_node_class \<Rightarrow> js_val \<Rightarrow> ('w, js_val) wjs" where
  "setupAudio E = setupAudio_with E ''ideal''"

definition setupAudio_built :: "'w js_env \<Rightarrow> decoder_node_class \<Rightarrow> js_val \<Rightarrow> ('w, js_val) wjs" where
  "setupAudio_built E = setupAudio_with E ''exact''"

section \<open>Errors\<close>

text \<open>The errors the page reports.\<close>

lemma media_error_run:
  assumes "\<not> isLikeNone e" "host_get E e ''name'' s = (Ret name, t)"
  shows "media_error E e s = (Throw
     (if name = Str (js ''NotAllowedError'') then Err (js ''A recording device was found but has been disallowed for this application. Enable the device in the browser settings.'')
      else if name = Str (js ''NotFoundError'') then Err (js ''No recording device was found. Please attach a microphone and click Retry.'')
      else e), t)"
  using assms by (simp add: media_error_def js_member_def js_let_Ret)

text \<open>
  What is reported of a cause \<open>x\<close> with a given text. Anything can be thrown: of \<^verbatim>\<open>null\<close> and \<^verbatim>\<open>undefined\<close> no \<^verbatim>\<open>message\<close> can be
  read, and reading it or making a string of it may throw in its turn; otherwise the report is an \<^verbatim>\<open>Error\<close>.
\<close>

definition reported :: "'w js_env \<Rightarrow> js_string \<Rightarrow> js_val \<Rightarrow> 'w js_state \<Rightarrow> js_val \<Rightarrow> 'w js_state \<Rightarrow> bool" where
  "reported E text x s e t \<longleftrightarrow>
     (if isLikeNone x then e = TypeError \<and> t = s
      else (case host_get E x ''message'' s of
          (Throw y, u) \<Rightarrow> e = y \<and> t = u
        | (Ret m, u) \<Rightarrow> (case js_template E m u of
            (Throw y, v) \<Rightarrow> e = y \<and> t = v
          | (Ret str, v) \<Rightarrow> e = Err (text @ str) \<and> t = v)))"

lemma cause_reported: "throw_with_cause E text x s = (Throw e, t) \<Longrightarrow> reported E text x s e t"
  by (auto simp: throw_with_cause_def reported_def js_member_def js_let_def split: prod.splits outcome.splits if_splits)

text \<open>What the language promises: the message of an \<^verbatim>\<open>Error\<close> that the script made is its text, and object literals are made.\<close>

definition error_objects :: "'w js_env \<Rightarrow> bool" where
  "error_objects E \<longleftrightarrow> (\<forall>m s. host_get E (Err m) ''message'' s = (Ret (Str m), s))
     \<and> (\<forall>ps s. \<exists>r t. host_object E ps s = (Ret r, t))"

lemma error_reported:
  "error_objects E \<Longrightarrow> reported E text (Err m) s e t \<longleftrightarrow> e = Err (text @ m) \<and> t = s"
  by (simp add: reported_def error_objects_def isLikeNone_def js_template_def)

lemma js_let_ThrowE:
  assumes "js_let m f s = (Throw e, t)"
  obtains "m s = (Throw e, t)" | v u where "m s = (Ret v, u)" "f v u = (Throw e, t)"
  using assms by (auto simp: js_let_def split: prod.splits outcome.splits)

lemma js_try_catch_ThrowE:
  assumes "js_try_catch m h s = (Throw e, t)"
  obtains x u where "m s = (Throw x, u)" "h x u = (Throw e, t)"
  using assms by (auto simp: js_try_catch_def split: prod.splits outcome.splits)

text \<open>
  Where loading fails, from the state \<open>s\<close>: the cause \<open>x\<close> is what the fetch or the graph threw; or the worklet was
  refused for a reason \<open>y\<close>, and the cause is the report of that.
\<close>

inductive load_fails :: "'w js_env \<Rightarrow> decoder_node_class \<Rightarrow> js_val \<Rightarrow> js_val \<Rightarrow> js_val \<Rightarrow> 'w js_state \<Rightarrow> js_val \<Rightarrow> 'w js_state \<Rightarrow> bool"
  for E K setter ctx src s where
  no_bytes: "fetch_bytes E s = (Throw x, t) \<Longrightarrow> load_fails E K setter ctx src s x t"
| no_worklet: "fetch_bytes E s = (Ret bytes, u) \<Longrightarrow> add_module E ctx u = (Throw y, v) \<Longrightarrow> reported E worklet_failure y v x t \<Longrightarrow>
    load_fails E K setter ctx src s x t"
| no_graph: "fetch_bytes E s = (Ret bytes, u) \<Longrightarrow> add_module E ctx u = (Ret m, v) \<Longrightarrow>
    connect_node E K setter ctx src bytes v = (Throw x, t) \<Longrightarrow> load_fails E K setter ctx src s x t"

lemma load_graph_fails:
  assumes "load_graph E K setter ctx src s = (Throw x, t)"
  shows "load_fails E K setter ctx src s x t"
  using assms unfolding load_graph_def js_seq_def
proof (elim js_let_ThrowE, goal_cases)
  case 1
  then show ?case by (rule no_bytes)
next
  case (2 bytes u)
  then show ?case unfolding add_worklet_def by (elim js_try_catch_ThrowE) (blast intro: no_worklet cause_reported)
next
  case (3 bytes u m v)
  have "add_module E ctx u = (Ret m, v)"
  proof (cases "add_module E ctx u")
    case (Pair r w)
    then show ?thesis using 3(2)
      by (cases r) (auto simp: add_worklet_def js_try_catch_def throw_with_cause_def js_let_def split: prod.splits outcome.splits)
  qed
  then show ?case using 3 no_graph by blast
qed

lemma refused_worklet_named:
  assumes "error_objects E" "\<not> isLikeNone y" "host_get E y ''message'' v = (Ret (Str m), u)"
    and "reported E worklet_failure y v x w" "reported E wasm_failure x w e t"
  shows "e = Err (wasm_failure @ worklet_failure @ m)"
  using assms(2-5) error_reported [OF assms(1)] by (auto simp: reported_def [of E worklet_failure] js_template_def)

section \<open>Properties\<close>

text \<open>
  Property C29. When \<^verbatim>\<open>setupAudio\<close> fails, it fails with what \<^verbatim>\<open>getWebAudioMediaStream\<close> threw, or with what making the
  context and the source threw, and otherwise with the report of a cause: what the fetch of the module or the
  building of the graph threw, or the report that the worklet was refused. So every value that can be thrown in
  loading is accounted for; in particular, when the browser refuses the worklet with a string message \<open>m\<close>, the
  page sees an \<^verbatim>\<open>Error\<close> that names both failures and ends in \<open>m\<close>. This holds for both copies of the script.
\<close>

theorem audio_setup_failures:
  assumes "error_objects E"
    and "setupAudio E K setter s = (Throw e, t) \<and> mode = ''ideal'' \<or> setupAudio_built E K setter s = (Throw e, t) \<and> mode = ''exact''"
  shows "getWebAudioMediaStream E mode s = (Throw e, t)
    \<or> (\<exists>stream u. getWebAudioMediaStream E mode s = (Ret stream, u) \<and> audio_source E stream u = (Throw e, t))
    \<or> (\<exists>stream u ctx src v x w. getWebAudioMediaStream E mode s = (Ret stream, u)
         \<and> audio_source E stream u = (Ret (ctx, src), v)
         \<and> load_fails E K setter ctx src v x w \<and> reported E wasm_failure x w e t
         \<and> (\<forall>bytes u' y v' m w'. fetch_bytes E v = (Ret bytes, u') \<and> add_module E ctx u' = (Throw y, v') \<and> \<not> isLikeNone y
              \<and> host_get E y ''message'' v' = (Ret (Str m), w') \<longrightarrow> e = Err (wasm_failure @ worklet_failure @ m)))"
proof -
  have "setupAudio_with E mode K setter s = (Throw e, t)"
    using assms(2) by (auto simp: setupAudio_def setupAudio_built_def)
  then show ?thesis unfolding setupAudio_with_def
  proof (elim js_let_ThrowE, goal_cases)
    case 1
    then show ?case by simp
  next
    case (2 stream u)
    then show ?case by auto
  next
    case (3 stream u p v)
    obtain ctx src where p: "p = (ctx, src)" by fastforce
    have "js_try_catch (load_graph E K setter ctx src) (throw_with_cause E wasm_failure) v = (Throw e, t)"
      using 3(3) p assms(1) by (auto simp: error_objects_def elim!: js_let_ThrowE) (metis Pair_inject outcome.distinct(1))
    then obtain x w where x: "load_fails E K setter ctx src v x w" "reported E wasm_failure x w e t"
      by (elim js_try_catch_ThrowE) (blast intro: load_graph_fails cause_reported)
    have "e = Err (wasm_failure @ worklet_failure @ m)"
      if "fetch_bytes E v = (Ret bytes, u')" "add_module E ctx u' = (Throw y, v')" "\<not> isLikeNone y"
        "host_get E y ''message'' v' = (Ret (Str m), w')" for bytes u' y v' m w'
      using x(1) that(1,2) refused_worklet_named [OF assms(1) that(3,4) _ x(2)] by cases auto
    with x 3(1,2) p show ?case by blast
  qed
qed

text \<open>A browser that refuses the worklet; the message of an \<^verbatim>\<open>Error\<close> of the script is its text.\<close>

definition refusing_env :: "int js_env" where
  "refusing_env = sample_env\<lparr>
     host_get := (\<lambda>obj p. js_return (if p = ''message'' then (case obj of Err x \<Rightarrow> Str x | _ \<Rightarrow> Str (js ''abc''))
       else if p = ''addModule'' then Ref 7 else Ref 8)),
     host_apply := (\<lambda>f this args. if f = Ref 7 then js_throw TypeError else js_return (Ref 9))\<rparr>"

definition sample_class :: decoder_node_class where
  "sample_class = \<lparr>base = Ref 3, listener = (\<lambda>node. Ref 6)\<rparr>"

lemmas audio_run = getWebAudioMediaStream_def media_devices_def media_constraints_def audio_source_def fetch_bytes_def add_module_def
  load_graph_def add_worklet_def await_def throw_with_cause_def js_template_def js_member_def js_method_def js_global_def
  js_let_def js_seq_def js_try_catch_def isLikeNone_def refusing_env_def sample_env_def

lemma refused_stages:
  "getWebAudioMediaStream refusing_env ''ideal'' sample_state = (Ret (Ref 9), sample_state)"
  "audio_source refusing_env (Ref 9) sample_state = (Ret (Ref 1, Ref 9), sample_state)"
  "fetch_bytes refusing_env sample_state = (Ret (Ref 9), sample_state)"
  "add_module refusing_env (Ref 1) sample_state = (Throw TypeError, sample_state)"
  by (simp_all add: audio_run)

lemma refused_run:
  "\<exists>e t. setupAudio refusing_env sample_class (Ref 4) sample_state = (Throw e, t)"
  by (simp add: setupAudio_def setupAudio_with_def js_let_def js_try_catch_def refused_stages)
    (simp add: audio_run)

lemma refusing_objects: "error_objects refusing_env"
  by (auto simp: error_objects_def refusing_env_def sample_env_def)

theorem audio_setup_failures_witness:
  "\<exists>t. setupAudio refusing_env sample_class (Ref 4) sample_state = (Throw (Err (wasm_failure @ worklet_failure @ js ''abc'')), t)"
proof -
  obtain e t where run: "setupAudio refusing_env sample_class (Ref 4) sample_state = (Throw e, t)" using refused_run by blast
  have "host_get refusing_env TypeError ''message'' sample_state = (Ret (Str (js ''abc'')), sample_state)"
    by (simp add: refusing_env_def)
  then have "e = Err (wasm_failure @ worklet_failure @ js ''abc'')"
    using audio_setup_failures [OF refusing_objects disjI1 [OF conjI [OF run refl]]] refused_stages
    by (auto simp: isLikeNone_def)
  with run show ?thesis by blast
qed

end
