(* ===== verification/Rattlegram_System.thy ===== *)
theory Rattlegram_System
  imports Sample_Env
begin

text \<open>
  The rattlegram decoder as it runs: the page and the audio thread of \<^verbatim>\<open>Rattlegram_Worklet\<close> together with the
  module behind \<^verbatim>\<open>wasm-decoder.js\<close> of \<^verbatim>\<open>Rattlegram_Decoder\<close>. Where the worklet alone leaves the results of
  loading, of \<^verbatim>\<open>WasmDecoder.new()\<close> and of \<^verbatim>\<open>decoder.process(...)\<close> open, the system runs the functions of the
  glue. The theorems show that the system refines the worklet, that what reaches the page is what the
  decoder returned, that the stack of the module is balanced over a whole run, and what a silent input
  does.
\<close>

section \<open>State and steps\<close>

text \<open>
  \<open>page\<close> has the two ends of the message port, \<open>audio\<close> the state of the module's script on the audio thread,
  \<open>handle\<close> the object that \<^verbatim>\<open>this.decoder\<close> refers to. \<open>decoded\<close> are the values that \<^verbatim>\<open>decoder.process\<close> has returned;
  \<open>thrown\<close> are the exceptions that left the audio callback: the engine reports one to \<^verbatim>\<open>onprocessorerror\<close>
  and calls \<^verbatim>\<open>process\<close> no more.
\<close>

record 'w system =
  page :: worklet
  audio :: "'w js_state"
  handle :: "nat option"
  decoded :: "js_val list"
  thrown :: "js_val list"

definition system0 :: "'w js_state \<Rightarrow> 'w system" where
  "system0 a = \<lparr>page = worklet0, audio = a, handle = None, decoded = [], thrown = []\<rparr>"

text \<open>The promise of \<^verbatim>\<open>init(WebAssembly.compile(bytes))\<close> settles; \<open>compiled\<close> is its argument.\<close>

definition system_init :: "'w js_env \<Rightarrow> js_val \<Rightarrow> js_val \<Rightarrow> js_val \<Rightarrow> 'w system \<Rightarrow> 'w system" where
  "system_init E ob base compiled s =
     (case rattlegram_init E ob base compiled Undefined (audio s) of
        (Ret v, a) \<Rightarrow> s\<lparr>audio := a, page := init_fulfilled (page s)\<rparr>
      | (Throw e, a) \<Rightarrow> s\<lparr>audio := a, page := init_rejected (page s)\<rparr>)"

text \<open>
  \<^verbatim>\<open>this.decoder = WasmDecoder.new(); console.log("decoder initialized, sample rate ", sampleRate);\<close> without a
  module the call of the export is a \<^verbatim>\<open>TypeError\<close>.
\<close>

definition make_decoder :: "'w js_env \<Rightarrow> int \<Rightarrow> 'w system \<Rightarrow> 'w system" where
  "make_decoder E sampleRate s =
     (if wasm (audio s) = Undefined then s\<lparr>page := (page s)\<lparr>uncaught := True, make_failed := True\<rparr>\<rparr>
      else
        (case wasmdecoder_new E (audio s) of
           (Ret (Obj i), a) \<Rightarrow>
             (let s' = s\<lparr>handle := Some i, page := (page s)\<lparr>decoder := True\<rparr>\<rparr> in
              case js_static E ''console'' ''log''
                     [js_return (Str (js ''decoder initialized, sample rate '')), js_return (Num sampleRate)] a of
                (Ret v, b) \<Rightarrow> s'\<lparr>audio := b\<rparr>
              | (Throw e, b) \<Rightarrow> s'\<lparr>audio := b, page := (page s')\<lparr>uncaught := True\<rparr>\<rparr>)
         | (r, a) \<Rightarrow> s\<lparr>audio := a, page := (page s)\<lparr>uncaught := True, make_failed := True\<rparr>\<rparr>))"

definition system_message :: "'w js_env \<Rightarrow> message \<Rightarrow> 'w system \<Rightarrow> 'w system" where
  "system_message E event s =
     (case event of
        Init_decoder sampleRate \<Rightarrow> make_decoder E sampleRate s
      | _ \<Rightarrow> s\<lparr>page := processor_onmessage Made event (page s)\<rparr>)"

definition first_channel :: "f32 list list \<Rightarrow> f32 list option" where
  "first_channel inputChannels = (case inputChannels of [] \<Rightarrow> None | c # _ \<Rightarrow> Some c)"

definition post_result :: "js_val \<Rightarrow> worklet \<Rightarrow> worklet" where
  "post_result result w =
     (if truthy result then w\<lparr>to_node := to_node w @ [Data result], results := results w @ [result]\<rparr> else w)"

definition system_process :: "'w js_env \<Rightarrow> f32 list list list \<Rightarrow> 'w system \<Rightarrow> bool outcome \<times> 'w system" where
  "system_process E inputs s =
     (case handle s of
        None \<Rightarrow> (Ret True, s)
      | Some i \<Rightarrow>
          (case inputs of
             [] \<Rightarrow> (Throw TypeError, s\<lparr>thrown := thrown s @ [TypeError]\<rparr>)
           | inputChannels # _ \<Rightarrow>
               (case wasmdecoder_process E i (first_channel inputChannels) (audio s) of
                  (Throw e, a) \<Rightarrow> (Throw e, s\<lparr>audio := a, thrown := thrown s @ [e]\<rparr>)
                | (Ret result, a) \<Rightarrow>
                    (Ret True, s\<lparr>audio := a, decoded := decoded s @ [result], page := post_result result (page s)\<rparr>))))"

inductive system_step :: "'w js_env \<Rightarrow> js_val \<Rightarrow> js_val \<Rightarrow> int \<Rightarrow> 'w system \<Rightarrow> 'w system \<Rightarrow> bool"
  for E :: "'w js_env" and ob base :: js_val and rate :: int where
  sys_start: "\<not> started (page s) \<Longrightarrow> system_step E ob base rate s (s\<lparr>page := node_init bytes (page s)\<rparr>)"
| sys_processor: "to_processor (page s) = m # ms \<Longrightarrow>
     system_step E ob base rate s (system_message E m (s\<lparr>page := (page s)\<lparr>to_processor := ms\<rparr>\<rparr>))"
| sys_node: "to_node (page s) = m # ms \<Longrightarrow>
     system_step E ob base rate s (s\<lparr>page := node_onmessage b rate m ((page s)\<lparr>to_node := ms\<rparr>)\<rparr>)"
| sys_init: "loading (page s) > 0 \<Longrightarrow> system_step E ob base rate s (system_init E ob base compiled s)"
| sys_audio: "thrown s = [] \<Longrightarrow> system_process E inputs s = (r, t) \<Longrightarrow> system_step E ob base rate s t"

section \<open>The system refines the worklet\<close>

text \<open>
  What the start-up needs of the module and the browser: every instance has exports, the constructor of the
  decoder returns a pointer, and the console accepts what it is given.
\<close>

definition decoder_contract :: "'w js_env \<Rightarrow> bool" where
  "decoder_contract E \<longleftrightarrow> host_frame E \<and> has_exports E
   \<and> (\<forall>s. wasm s \<noteq> Undefined \<longrightarrow> (\<exists>p t. wasm_call E ''wasmdecoder_new'' [] s = (Ret (Num p), t)))
   \<and> (\<forall>m n s. \<exists>v t. js_static E ''console'' ''log'' [js_return m, js_return n] s = (Ret v, t))"

definition coupled :: "'w system \<Rightarrow> bool" where
  "coupled s \<longleftrightarrow> (handle s \<noteq> None \<longleftrightarrow> decoder (page s))
     \<and> (handle s = None \<longrightarrow> loaded (page s) \<longrightarrow> wasm (audio s) \<noteq> Undefined)
     \<and> results (page s) = filter truthy (decoded s) \<and> \<not> uncaught (page s)"

lemma make_decoder_run:
  assumes "decoder_contract E" "wasm (audio s) \<noteq> Undefined"
  shows "\<exists>i a. make_decoder E rate s = s\<lparr>handle := Some i, page := (page s)\<lparr>decoder := True\<rparr>, audio := a\<rparr>"
proof -
  obtain p t where t: "wasm_call E ''wasmdecoder_new'' [] (audio s) = (Ret (Num p), t)"
    using assms unfolding decoder_contract_def by blast
  obtain i a where a: "wasmdecoder_new E (audio s) = (Ret (Obj i), a)" using wasmdecoder_new_run [OF t] by blast
  obtain v b where "js_static E ''console'' ''log''
      [js_return (Str (js ''decoder initialized, sample rate '')), js_return (Num rate)] a = (Ret v, b)"
    using assms(1) unfolding decoder_contract_def by blast
  then show ?thesis using a assms(2) by (auto simp: make_decoder_def Let_def)
qed

lemma process_is_worklet_process:
  assumes "coupled s" "system_process E inputs s = (r, t)"
  shows "\<exists>dec. processor_process dec inputs (page s) = (r, page t)" "coupled t" "handle t = handle s"
proof -
  show "\<exists>dec. processor_process dec inputs (page s) = (r, page t)"
  proof (cases "handle s")
    case None
    then show ?thesis using assms by (auto simp: system_process_def processor_process_def coupled_def)
  next
    case (Some i)
    then have d: "decoder (page s)" using assms(1) by (simp add: coupled_def)
    show ?thesis
      using assms(2) Some d
      by (intro exI [of _ "\<lambda>x. fst (wasmdecoder_process E i x (audio s))"])
        (auto simp: system_process_def processor_process_def post_result_def first_channel_def
          split: list.splits prod.splits outcome.splits)
  qed
  show "coupled t" "handle t = handle s" using assms
    by (auto simp: system_process_def coupled_def post_result_def split: option.splits list.splits prod.splits outcome.splits if_splits)
qed

lemma no_init_request:
  assumes "worklet_inv w" "decoder w"
  shows "loading w = 0" "init_requests (to_processor w) = 0" "load_requests (to_processor w) = 0" "load_replies (to_node w) = 0"
  using assms by (cases "started w"; auto simp: worklet_inv_def startup_tokens_def)+

lemma message_simulated:
  assumes "decoder_contract E" "worklet_inv (page s)" "coupled s" "to_processor (page s) = m # ms"
  defines "s' \<equiv> s\<lparr>page := (page s)\<lparr>to_processor := ms\<rparr>\<rparr>"
  shows "page (system_message E m s') = processor_onmessage Made m ((page s)\<lparr>to_processor := ms\<rparr>)
    \<and> coupled (system_message E m s')"
proof (cases "\<exists>r. m = Init_decoder r")
  case True
  then obtain r where m: "m = Init_decoder r" ..
  have l: "loaded (page s)" using assms(2,4) m by (auto simp: worklet_inv_def)
  have "\<not> decoder (page s)" using no_init_request(2) [OF assms(2)] assms(4) m by auto
  then have "handle s = None" using assms(3) by (auto simp: coupled_def)
  then have "wasm (audio s') \<noteq> Undefined" using l assms(3) by (simp add: coupled_def s'_def)
  from make_decoder_run [OF assms(1) this, of r] obtain i a where
    "make_decoder E r s' = s'\<lparr>handle := Some i, page := (page s')\<lparr>decoder := True\<rparr>, audio := a\<rparr>" by blast
  then show ?thesis using m l assms(3)
    by (auto simp: system_message_def processor_onmessage_def coupled_def s'_def)
next
  case False
  then show ?thesis using assms(3)
    by (cases m) (auto simp: system_message_def processor_onmessage_def coupled_def s'_def)
qed

lemma init_simulated:
  assumes "decoder_contract E" "worklet_inv (page s)" "coupled s" "loading (page s) > 0"
  shows "(page (system_init E ob base c s) = init_fulfilled (page s) \<or> page (system_init E ob base c s) = init_rejected (page s))
    \<and> coupled (system_init E ob base c s)"
proof -
  obtain r a where run: "rattlegram_init E ob base c Undefined (audio s) = (r, a)" by fastforce
  have h: "handle s = None"
    using no_init_request(1) [OF assms(2)] assms(3,4) by (auto simp: coupled_def)
  show ?thesis
  proof (cases r)
    case (Ret v)
    have "sets_wasm (rattlegram_init E ob base c Undefined)"
      using assms(1) unfolding rattlegram_entry_defs decoder_contract_def
      by (intro init_old_sets_wasm finalize_sets_wasm) blast+
    then have "wasm a \<noteq> Undefined" using run Ret unfolding sets_wasm_def by blast
    then show ?thesis using run Ret h assms(3) by (simp add: system_init_def coupled_def init_fulfilled_def)
  next
    case (Throw e)
    then have "wasm (audio s) = Undefined" using run rattlegram.async_early by (metis outcome.distinct(1) prod.inject)
    then have "\<not> loaded (page s)" using assms(3) h by (simp add: coupled_def)
    then show ?thesis using run Throw h assms(3) by (simp add: system_init_def coupled_def init_rejected_def)
  qed
qed

lemma system_step_simulated:
  assumes "decoder_contract E"
  shows "system_step E ob base rate s t \<Longrightarrow> worklet_inv (page s) \<Longrightarrow> coupled s \<Longrightarrow>
    worklet_step rate (page s) (page t) \<and> coupled t"
proof (induction rule: system_step.induct)
  case (sys_start s bytes)
  then show ?case by (auto simp: coupled_def node_init_def intro: start [unfolded node_init_def])
next
  case (sys_processor s m ms)
  then show ?case using message_simulated [OF assms] processor_receives by metis
next
  case (sys_node s m ms b)
  then have "coupled (s\<lparr>page := node_onmessage b rate m ((page s)\<lparr>to_node := ms\<rparr>)\<rparr>)"
    by (cases m) (auto simp: coupled_def node_onmessage_def)
  then show ?case using node_receives [OF sys_node.hyps] by simp
next
  case (sys_init s compiled)
  then show ?case using init_simulated [OF assms] init_ok init_bad by metis
next
  case (sys_audio s inputs r t)
  note p = process_is_worklet_process [OF sys_audio.prems(2) sys_audio.hyps(2)]
  from p(1) obtain dec where "processor_process dec inputs (page s) = (r, page t)" ..
  then show ?case using p(2) by (auto intro: worklet_step.audio)
qed

lemma system_run_simulated:
  assumes "decoder_contract E"
  shows "(system_step E ob base rate)\<^sup>*\<^sup>* (system0 a) s \<Longrightarrow>
    (worklet_step rate)\<^sup>*\<^sup>* worklet0 (page s) \<and> coupled s"
proof (induction rule: rtranclp_induct)
  case base
  then show ?case by (simp add: system0_def coupled_def worklet0_def)
next
  case (step s t)
  then have "worklet_step rate (page s) (page t) \<and> coupled t"
    using system_step_simulated [OF assms] worklet_reach_inv by blast
  then show ?case using step.IH by (meson rtranclp.rtrancl_into_rtrancl)
qed

section \<open>The stack over a whole run\<close>

lemma thrown_grows: "system_step E ob base rate s t \<Longrightarrow> set (thrown s) \<subseteq> set (thrown t)"
  by (induction rule: system_step.induct)
    (auto simp: system_message_def make_decoder_def system_init_def system_process_def Let_def
      split: message.splits prod.splits outcome.splits js_val.splits option.splits list.splits if_splits)

lemma processor_ignores:
  assumes "worklet_inv (page s)" "decoder (page s)" "to_processor (page s) = m # ms"
  shows False
  using no_init_request [OF assms(1,2)] assms(1,3) by (cases m) (auto simp: worklet_inv_def)

lemma system_step_stack:
  assumes "stack_contract E sp trap"
  shows "system_step E ob base rate s t \<Longrightarrow> worklet_inv (page s) \<Longrightarrow> coupled s \<Longrightarrow> handle s = Some i \<Longrightarrow>
    handle t = Some i \<and> (sp (world (audio t)) = sp (world (audio s)) \<or> (\<exists>e \<in> set (thrown t). trap e))"
proof (induction rule: system_step.induct)
  case (sys_processor s m ms)
  then show ?case using processor_ignores by (auto simp: coupled_def)
next
  case (sys_init s compiled)
  then show ?case using no_init_request(1) by (auto simp: coupled_def)
next
  case (sys_audio s inputs r t)
  show ?case
  proof (cases inputs)
    case Nil
    then show ?thesis using sys_audio by (auto simp: system_process_def)
  next
    case (Cons ch rest)
    obtain r' a where p: "wasmdecoder_process E i (first_channel ch) (audio s) = (r', a)" by fastforce
    then show ?thesis
      using sys_audio Cons process_keeps_stack [OF assms p] by (cases r') (auto simp: system_process_def)
  qed
qed auto

lemma system_run_stack:
  assumes "decoder_contract E" "stack_contract E sp trap"
    and "(system_step E ob base rate)\<^sup>*\<^sup>* (system0 a) s" "handle s = Some i"
  shows "(system_step E ob base rate)\<^sup>*\<^sup>* s t \<Longrightarrow>
    handle t = Some i \<and> (sp (world (audio t)) = sp (world (audio s)) \<or> (\<exists>e \<in> set (thrown t). trap e))"
proof (induction rule: rtranclp_induct)
  case base
  then show ?case using assms(4) by simp
next
  case (step t u)
  have "(system_step E ob base rate)\<^sup>*\<^sup>* (system0 a) t" using assms(3) step.hyps(1) by (rule rtranclp_trans)
  then have "worklet_inv (page t)" "coupled t"
    using system_run_simulated [OF assms(1)] worklet_reach_inv by blast+
  then have "handle u = Some i \<and> (sp (world (audio u)) = sp (world (audio t)) \<or> (\<exists>e \<in> set (thrown u). trap e))"
    using system_step_stack [OF assms(2) step.hyps(2)] step.IH by blast
  then show ?case using step.IH thrown_grows [OF step.hyps(2)] by auto
qed

section \<open>A silent input\<close>

lemma process_without_samples: "\<exists>e t. wasmdecoder_process E i None s = (Throw e, t)"
  by (auto simp: wasmdecoder_process_def process_body_def passArrayF32ToWasm0_def js_try_finally_def js_let_def
      split: prod.splits outcome.splits)

lemma dead_step: "system_step E ob base rate s t \<Longrightarrow> thrown s \<noteq> [] \<Longrightarrow> decoded t = decoded s \<and> thrown t = thrown s"
  by (induction rule: system_step.induct)
    (auto simp: system_message_def make_decoder_def system_init_def Let_def
      split: message.splits prod.splits outcome.splits js_val.splits)

lemma dead_run: "(system_step E ob base rate)\<^sup>*\<^sup>* s t \<Longrightarrow> thrown s \<noteq> [] \<Longrightarrow> decoded t = decoded s \<and> thrown t = thrown s"
proof (induction rule: rtranclp_induct)
  case (step t u)
  then show ?case using dead_step by metis
qed simp

section \<open>A sample system\<close>

definition system_env :: "int js_env" where
  "system_env = sample_env\<lparr>host_apply := (\<lambda>f this args. js_return Undefined),
     wasm_call := (\<lambda>f args. if f = ''wasmdecoder_new'' then js_return (Num 8) else sample_wasm_call f args)\<rparr>"

lemma system_env_contract: "decoder_contract system_env"
  using sample_call_keeps_wasm
  by (simp add: decoder_contract_def host_frame_def has_exports_def system_env_def sample_env_def keeps_wasm_local
      js_static_def js_method_def js_member_def js_global_def isLikeNone_def js_let_def)

lemma system_env_stack: "stack_contract system_env (\<lambda>w. w) ((=) (EngineErr ''RuntimeError''))"
  by (auto simp: stack_contract_def add_to_stack_pointer_def system_env_def sample_env_def sample_wasm_call_def js_param_def
      bump_malloc_def bump_def js_let_def sample_process_def Let_def split: prod.splits outcome.splits)

lemma sample_init: "\<exists>v a. rattlegram_init system_env (Ref 5) (Ref 6) (Ref 9) Undefined sample_state = (Ret v, a)"
  by (simp add: rattlegram_entry_defs wbg_init_old_def wbg_load_old_def load_with_def load_and_finalize_def fetch_if_url_def
      is_a_def js_typeof_global_def await_def wbg_init_memory_def memory_or_new_def webassembly_def instance_of_def
      wbg_finalize_init_def js_static_def js_method_def js_member_def js_assign_def js_global_def isLikeNone_def
      js_let_def js_seq_def system_env_def sample_env_def sample_wasm_call_def sample_state_def)

abbreviation sample_step :: "int system \<Rightarrow> int system \<Rightarrow> bool" where
  "sample_step \<equiv> system_step system_env (Ref 5) (Ref 6) 48000"

lemma sample_system: "\<exists>s i. sample_step\<^sup>*\<^sup>* (system0 sample_state) s \<and> handle s = Some i \<and> thrown s = []"
proof -
  obtain v a where a: "rattlegram_init system_env (Ref 5) (Ref 6) (Ref 9) Undefined sample_state = (Ret v, a)"
    using sample_init by blast
  have "sets_wasm (rattlegram_init system_env (Ref 5) (Ref 6) (Ref 9) Undefined)"
    using system_env_contract unfolding rattlegram_entry_defs decoder_contract_def
    by (intro init_old_sets_wasm finalize_sets_wasm) blast+
  then have w: "wasm a \<noteq> Undefined" using a unfolding sets_wasm_def by blast
  let ?s0 = "system0 sample_state"
  let ?s1 = "?s0\<lparr>page := node_init 0 (page ?s0)\<rparr>"
  let ?s2 = "system_message system_env (Send_wasm_module 0) (?s1\<lparr>page := (page ?s1)\<lparr>to_processor := []\<rparr>\<rparr>)"
  let ?s3 = "system_init system_env (Ref 5) (Ref 6) (Ref 9) ?s2"
  let ?s4 = "?s3\<lparr>page := node_onmessage False 48000 Wasm_module_loaded ((page ?s3)\<lparr>to_node := []\<rparr>)\<rparr>"
  let ?s5 = "system_message system_env (Init_decoder 48000) (?s4\<lparr>page := (page ?s4)\<lparr>to_processor := []\<rparr>\<rparr>)"
  note run = system0_def worklet0_def node_init_def system_message_def processor_onmessage_def init_fulfilled_def
    node_onmessage_def
  have s2: "audio ?s2 = sample_state" by (simp add: run)
  have s3: "?s3 = ?s2\<lparr>audio := a, page := init_fulfilled (page ?s2)\<rparr>" unfolding system_init_def s2 a by simp
  have "sample_step ?s0 ?s1" by (rule sys_start) (simp add: run)
  moreover have "sample_step ?s1 ?s2" by (rule sys_processor) (simp add: run)
  moreover have "sample_step ?s2 ?s3" by (rule sys_init) (simp add: run)
  moreover have "sample_step ?s3 ?s4" by (rule sys_node) (simp only: s3, simp add: run)
  moreover have "sample_step ?s4 ?s5" by (rule sys_processor) (simp only: s3, simp add: run)
  moreover let ?u = "?s4\<lparr>page := (page ?s4)\<lparr>to_processor := []\<rparr>\<rparr>"
  have "wasm (audio ?u) \<noteq> Undefined" using w by (simp only: s3, simp)
  from make_decoder_run [OF system_env_contract this, of 48000]
  have "\<exists>i b. ?s5 = ?u\<lparr>handle := Some i, page := (page ?u)\<lparr>decoder := True\<rparr>, audio := b\<rparr>"
    by (simp only: system_message_def message.case)
  then have "\<exists>i. handle ?s5 = Some i \<and> thrown ?s5 = thrown ?s4" by force
  moreover have "thrown ?s4 = []" by (simp only: s3, simp add: run)
  ultimately show ?thesis
    by (intro exI [of _ ?s5]) (auto intro: converse_rtranclp_into_rtranclp)
qed

section \<open>Properties\<close>



text \<open>
  Property C22. Once the decoder exists, the worklet keeps it, and over any number of audio callbacks and
  messages the stack pointer of the module stays where it was, unless the module has trapped and the
  engine has been told.
\<close>

theorem run_keeps_stack_pointer:
  assumes "decoder_contract E" "stack_contract E sp trap"
    and "(system_step E ob base rate)\<^sup>*\<^sup>* (system0 a) s" "handle s = Some i" "(system_step E ob base rate)\<^sup>*\<^sup>* s t"
  shows "handle t = Some i \<and> (sp (world (audio t)) = sp (world (audio s)) \<or> (\<exists>e \<in> set (thrown t). trap e))"
  using system_run_stack [OF assms] .

theorem run_keeps_stack_pointer_witness:
  "\<exists>s i. sample_step\<^sup>*\<^sup>* (system0 sample_state) s
    \<and> (let t = snd (system_process system_env [[[1, 2]]] s) in handle t = Some i
       \<and> (world (audio t) = world (audio s) \<or> EngineErr ''RuntimeError'' \<in> set (thrown t)))"
proof -
  obtain s i where s: "sample_step\<^sup>*\<^sup>* (system0 sample_state) s" "handle s = Some i" "thrown s = []"
    using sample_system by blast
  let ?t = "snd (system_process system_env [[[1, 2]]] s)"
  have "sample_step s ?t" by (rule sys_audio [OF s(3)]) (rule surjective_pairing)
  then have "sample_step\<^sup>*\<^sup>* s ?t" by blast
  from run_keeps_stack_pointer [OF system_env_contract system_env_stack s(1,2) this] s(1) show ?thesis by (auto simp: Let_def)
qed

text \<open>
  Property C37. An input without channels ends the decoding: the decoder is called without samples, which
  always throws out of the audio callback, and no result is ever decoded after that, whatever the
  environment.
\<close>

theorem silent_input_ends_decoding:
  assumes "handle s = Some i" "system_process E ([] # others) s = (r, t)" "(system_step E ob base rate)\<^sup>*\<^sup>* t u"
  shows "(\<exists>e. r = Throw e) \<and> decoded u = decoded s"
proof -
  obtain e a where "wasmdecoder_process E i None (audio s) = (Throw e, a)" using process_without_samples by blast
  then have "r = Throw e" "t = s\<lparr>audio := a, thrown := thrown s @ [e]\<rparr>"
    using assms(1,2) by (auto simp: system_process_def first_channel_def)
  then show ?thesis using dead_run [OF assms(3)] by simp
qed

theorem silent_input_ends_decoding_witness:
  "\<exists>s e. sample_step\<^sup>*\<^sup>* (system0 sample_state) s \<and> fst (system_process system_env [[]] s) = Throw e
    \<and> decoded (snd (system_process system_env [[]] s)) = decoded s"
proof -
  obtain s i where s: "sample_step\<^sup>*\<^sup>* (system0 sample_state) s" "handle s = Some i" using sample_system by blast
  let ?t = "snd (system_process system_env [[]] s)"
  have "sample_step\<^sup>*\<^sup>* ?t ?t" by simp
  from silent_input_ends_decoding [OF s(2) surjective_pairing this] s(1) show ?thesis by blast
qed

end
