(* ===== verification/Adsb_Map.thy ===== *)
theory Adsb_Map
  imports Js_Prelude Complex_Main
begin

text \<open>
  The aircraft map of the ADS-B example, \<^verbatim>\<open>src/examples/adsb/dist/script.js\<close>: drawing a marker and a path
  for every aircraft, removing those that are gone, and the automatic zoom; the page around it is the
  next theory. Leaflet is a library outside the repository: the script's calls of it are recorded in
  order, and what they do to the set of layers on the map is stated by \<open>on_map\<close>, after Leaflet's
  documentation of layer groups.
\<close>

section \<open>The register the receiver sends\<close>

text \<open>The fields of the JSON that the script reads. A number is the exact value of the double.\<close>

record position =
  latitude :: rat
  longitude :: rat
  altitude :: "int option"

record velocity =
  heading :: rat
  ground_speed :: rat
  vertical_rate :: int
  vertical_rate_source :: js_string

record aircraft =
  callsign :: "js_string option"
  emitter_category :: "int option"
  positions :: "position list"
  velocities :: "velocity list"
  last_seen :: "int \<times> int"

text \<open>The members of \<^verbatim>\<open>register.register\<close> in the order of a \<^verbatim>\<open>for ... in\<close> loop.\<close>

type_synonym register = "(js_string \<times> aircraft) list"

section \<open>Numbers as text\<close>

fun digits :: "nat \<Rightarrow> js_string" where
  "digits n = (if n < 10 then [of_nat (48 + n)] else digits (n div 10) @ [of_nat (48 + n mod 10)])"

declare digits.simps [simp del]

definition int_text :: "int \<Rightarrow> js_string" where
  "int_text i = (if i < 0 then js ''-'' @ digits (nat (- i)) else digits (nat i))"

text \<open>\<^verbatim>\<open>x.toFixed(f)\<close> below \<open>10 ^ 21\<close>: the nearest multiple of \<open>10 ^ - f\<close>, the larger one of two.\<close>

definition pad_zeros :: "nat \<Rightarrow> js_string \<Rightarrow> js_string" where
  "pad_zeros k t = replicate (k - length t) 48 @ t"

definition toFixed :: "nat \<Rightarrow> rat \<Rightarrow> js_string" where
  "toFixed f x =
     (let n = nat (floor (\<bar>x\<bar> * 10 ^ f + 1 / 2));
          m = pad_zeros (f + 1) (digits n);
          k = length m - f
      in (if x < 0 then js ''-'' else []) @ (if f = 0 then m else take k m @ js ''.'' @ drop k m))"

section \<open>State\<close>

text \<open>A position as an array: the altitude is left out when it is missing or zero.\<close>

type_synonym latlng = "rat \<times> rat \<times> int option"

definition latlng_of :: "position \<Rightarrow> latlng" where
  "latlng_of p = (latitude p, longitude p,
     case altitude p of Some a \<Rightarrow> if a \<noteq> 0 then Some a else None | None \<Rightarrow> None)"

text \<open>
  The calls of Leaflet and of the timer. Layers are numbered in the order in which they are made;
  \<open>SetStyle\<close> sets the opacity of a path.
\<close>

datatype call =
    NewMap
  | Locate int
  | MapOn string
  | TileLayer string int
  | LayerGroup
  | SetInterval int
  | SetStyle nat rat
  | Marker nat latlng rat
  | BindPopup nat js_string
  | On nat string js_string
  | AddToGroup nat
  | Polyline nat "latlng list"
  | SetLatLng nat latlng
  | SetRotationAngle nat rat
  | SetPopupContent nat js_string
  | SetLatLngs nat "latlng list"
  | RemoveLayer nat
  | ClearLayers
  | FlyToBounds "latlng list"

text \<open>
  The variables of the script. \<open>markers_group\<close> says that the variable of that name is set, \<open>tracker_block\<close> is
  the block's id. \<open>markers\<close> is \<^verbatim>\<open>aircraft_markers\<close>: for each
  ICAO address its marker and its path. \<open>fg_requests\<close> and \<open>aircraft_requests\<close> count the requests that
  have not been answered; \<open>console_errors\<close> and \<open>uncaught_errors\<close> count what the page reports.
\<close>

record map_state =
  markers_group :: bool
  autozoom_in_progress :: bool
  autozoom :: bool
  poll_state :: nat
  tracker_block :: "int option"
  markers :: "(js_string \<times> nat \<times> nat) list"
  next_layer :: nat
  calls :: "call list"
  fg_requests :: nat
  aircraft_requests :: nat
  console_errors :: nat
  uncaught_errors :: nat

definition map_state0 :: map_state where
  "map_state0 = \<lparr>markers_group = False, autozoom_in_progress = False, autozoom = True, poll_state = 0, tracker_block = None,
     markers = [], next_layer = 0, calls = [], fg_requests = 0, aircraft_requests = 0,
     console_errors = 0, uncaught_errors = 0\<rparr>"

definition emit :: "call list \<Rightarrow> map_state \<Rightarrow> map_state" where
  "emit cs s = s\<lparr>calls := calls s @ cs\<rparr>"

section \<open>Updating the aircraft\<close>

text \<open>
  The formatting the browser provides: dates in the user's locale, upper case.
\<close>

record format_env =
  toLocaleString :: "rat \<Rightarrow> js_string"
  toUpperCase :: "js_string \<Rightarrow> js_string"

definition last_velocity :: "aircraft \<Rightarrow> velocity option" where
  "last_velocity a = (if velocities a = [] then None else Some (last (velocities a)))"

text \<open>\<^verbatim>\<open>(cur_velocity && cur_velocity.p) || "N/A"\<close>: a zero is falsy too.\<close>

definition ground_speed_text :: "aircraft \<Rightarrow> js_string" where
  "ground_speed_text a =
     (case last_velocity a of Some v \<Rightarrow> toFixed 2 (ground_speed v) | None \<Rightarrow> js ''N/A'')"

definition vertical_rate_text :: "aircraft \<Rightarrow> js_string" where
  "vertical_rate_text a =
     (case last_velocity a of
        Some v \<Rightarrow> if vertical_rate v \<noteq> 0 then int_text (vertical_rate v) else js ''N/A''
      | None \<Rightarrow> js ''N/A'')"

definition vertical_rate_source_text :: "aircraft \<Rightarrow> js_string" where
  "vertical_rate_source_text a =
     (case last_velocity a of
        Some v \<Rightarrow> if vertical_rate_source v \<noteq> [] then vertical_rate_source v else js ''N/A''
      | None \<Rightarrow> js ''N/A'')"

text \<open>\<^verbatim>\<open>(cur_velocity && cur_velocity.heading) || 0\<close>\<close>

definition rotation_angle :: "aircraft \<Rightarrow> rat" where
  "rotation_angle a = (case last_velocity a of Some v \<Rightarrow> heading v | None \<Rightarrow> 0)"

text \<open>A line of the template literal, with its line break and indentation.\<close>

definition template_line :: "js_string \<Rightarrow> js_string" where
  "template_line t = [10] @ js ''                '' @ t"

definition table_row :: "string \<Rightarrow> js_string \<Rightarrow> js_string" where
  "table_row label content =
     template_line (js ''<tr><td>'' @ js label @ js '':</td><td>'' @ content @ js ''</td></tr>'')"

definition popup_content :: "format_env \<Rightarrow> js_string \<Rightarrow> aircraft \<Rightarrow> js_string" where
  "popup_content E icao a =
     (case latlng_of (last (positions a)) of (lat, lng, alt) \<Rightarrow>
      template_line (js ''<center><h3>'' @ toUpperCase E icao @ js ''</h3></center>'') @
      template_line (js ''<table>'') @
      table_row ''Callsign'' (case callsign a of Some t \<Rightarrow> t | None \<Rightarrow> js ''null'') @
      table_row ''Last seen'' (toLocaleString E (of_int (fst (last_seen a)) * 1000 + of_int (snd (last_seen a)) / 1000000)) @
      table_row ''Emitter category'' (case emitter_category a of Some c \<Rightarrow> int_text c | None \<Rightarrow> js ''null'') @
      table_row ''Altitude'' ((case alt of Some h \<Rightarrow> int_text h | None \<Rightarrow> js ''undefined'') @ js '' ft'') @
      table_row ''Latitude'' (toFixed 4 lat) @
      table_row ''Longitude'' (toFixed 4 lng) @
      table_row ''Ground speed'' (ground_speed_text a @ js '' kt'') @
      table_row ''Vertical rate'' (vertical_rate_text a @ js '' ft/min'') @
      table_row ''Vertical rate source'' (vertical_rate_source_text a) @
      template_line (js ''</table>''))"

text \<open>One turn of the loop over the register, for an aircraft with at least one position.\<close>

definition update_marker :: "format_env \<Rightarrow> js_string \<Rightarrow> aircraft \<Rightarrow> map_state \<Rightarrow> map_state" where
  "update_marker E icao a s =
     (let pos_arr = map latlng_of (positions a); cur_pos = last pos_arr;
          angle = rotation_angle a; content = popup_content E icao a in
      case map_of (markers s) icao of
        Some (marker, pathline) \<Rightarrow>
          emit [SetLatLng marker cur_pos, SetRotationAngle marker angle, SetPopupContent marker content,
                On marker ''popupopen'' icao, On marker ''popupclose'' icao, SetLatLngs pathline pos_arr] s
      | None \<Rightarrow>
          (let marker = next_layer s; pathline = marker + 1 in
           (emit [Marker marker cur_pos angle, BindPopup marker content, On marker ''popupopen'' icao,
                  On marker ''popupclose'' icao, AddToGroup marker, Polyline pathline pos_arr, AddToGroup pathline] s)
             \<lparr>next_layer := pathline + 1, markers := markers s @ [(icao, marker, pathline)]\<rparr>))"

fun update_loop :: "format_env \<Rightarrow> register \<Rightarrow> latlng list \<Rightarrow> map_state \<Rightarrow> latlng list \<times> map_state" where
  "update_loop E [] cur s = (cur, s)"
| "update_loop E ((icao, a) # rest) cur s =
     (if length (positions a) > 0
      then update_loop E rest (cur @ [last (map latlng_of (positions a))]) (update_marker E icao a s)
      else update_loop E rest cur s)"

text \<open>The loop that removes the aircraft that are not in the register any more.\<close>

fun remove_loop :: "js_string list \<Rightarrow> (js_string \<times> nat \<times> nat) list \<Rightarrow> map_state \<Rightarrow> map_state" where
  "remove_loop known [] s = s"
| "remove_loop known ((icao, marker, pathline) # rest) s =
     remove_loop known rest
       (if icao \<in> set known then s
        else (emit [RemoveLayer marker, RemoveLayer pathline] s)\<lparr>markers := filter (\<lambda>m. fst m \<noteq> icao) (markers s)\<rparr>)"

text \<open>
  The order of \<^verbatim>\<open>for ... in\<close>: the keys that are array indices (an ICAO address may consist of decimal digits
  only) come first, in ascending order, then the others in the order in which they were added.
\<close>

definition key_value :: "js_string \<Rightarrow> nat" where
  "key_value t = foldl (\<lambda>n u. 10 * n + (unat u - 48)) 0 t"

definition array_index :: "js_string \<Rightarrow> bool" where
  "array_index t \<longleftrightarrow> t \<noteq> [] \<and> list_all (\<lambda>u. 48 \<le> unat u \<and> unat u \<le> 57) t
     \<and> (hd t \<noteq> 48 \<or> length t = 1) \<and> key_value t < 4294967295"

definition for_in :: "(js_string \<times> 'a) list \<Rightarrow> (js_string \<times> 'a) list" where
  "for_in m = sort_key (\<lambda>e. key_value (fst e)) (filter (\<lambda>e. array_index (fst e)) m)
     @ filter (\<lambda>e. \<not> array_index (fst e)) m"

lemma set_for_in [simp]: "set (for_in m) = set m"
  by (auto simp: for_in_def)

lemma distinct_for_in: "distinct (map fst m) \<Longrightarrow> distinct (map fst (for_in m))"
  unfolding distinct_map set_for_in by (auto simp: for_in_def)

text \<open>The listeners that \<^verbatim>\<open>initialize_aircraft_poll\<close> installs on the map.\<close>

datatype map_event = Zoomstart | Dragstart

fun on_map_event :: "map_event \<Rightarrow> map_state \<Rightarrow> map_state" where
  "on_map_event Zoomstart s = (if \<not> autozoom_in_progress s then s\<lparr>autozoom := False\<rparr> else s)"
| "on_map_event Dragstart s = s\<lparr>autozoom := False\<rparr>"

text \<open>\<open>events\<close> are those that the map fires while \<^verbatim>\<open>flyToBounds\<close> runs.\<close>

definition update_aircrafts :: "format_env \<Rightarrow> map_event list \<Rightarrow> register \<Rightarrow> map_state \<Rightarrow> map_state" where
  "update_aircrafts E events register s =
     (case update_loop E register [] s of (cur_aircraft_positions, s1) \<Rightarrow>
      let s2 = remove_loop (map fst register) (for_in (markers s1)) s1 in
      if length cur_aircraft_positions > 0 \<and> autozoom s2
      then (fold on_map_event events (emit [FlyToBounds cur_aircraft_positions] (s2\<lparr>autozoom_in_progress := True\<rparr>)))
             \<lparr>autozoom_in_progress := False\<rparr>
      else s2)"

section \<open>The layers on the map\<close>

fun on_map_step :: "call \<Rightarrow> nat set \<Rightarrow> nat set" where
  "on_map_step (AddToGroup i) M = insert i M"
| "on_map_step (RemoveLayer i) M = M - {i}"
| "on_map_step ClearLayers M = {}"
| "on_map_step _ M = M"

definition on_map :: "map_state \<Rightarrow> nat set" where
  "on_map s = fold on_map_step (calls s) {}"

definition layers_of :: "(js_string \<times> nat \<times> nat) list \<Rightarrow> nat set" where
  "layers_of ms = (\<Union>(icao, m, p) \<in> set ms. {m, p})"

lemma on_map_emit: "on_map (emit cs s) = fold on_map_step cs (on_map s)"
  by (simp add: on_map_def emit_def)

lemma on_map_cong [simp]:
  "on_map (s\<lparr>markers := m\<rparr>) = on_map s" "on_map (s\<lparr>next_layer := n\<rparr>) = on_map s"
  "on_map (s\<lparr>autozoom_in_progress := b\<rparr>) = on_map s"
  by (simp_all add: on_map_def)

lemma emit_fields [simp]:
  "markers (emit cs s) = markers s" "next_layer (emit cs s) = next_layer s" "autozoom (emit cs s) = autozoom s"
  by (simp_all add: emit_def)

text \<open>
  Every aircraft has one entry, its two layers are its own, and the layers on the map are exactly those
  of the entries.
\<close>

definition layer_ids :: "(js_string \<times> nat \<times> nat) list \<Rightarrow> nat list" where
  "layer_ids ms = concat (map (\<lambda>(icao, m, p). [m, p]) ms)"

definition entries_ok :: "map_state \<Rightarrow> bool" where
  "entries_ok s \<longleftrightarrow> distinct (map fst (markers s)) \<and> distinct (layer_ids (markers s))
     \<and> (\<forall>i \<in> set (layer_ids (markers s)). i < next_layer s)"

text \<open>How the layers on the map relate to those of the entries: equal, or at least among them.\<close>

definition tracked :: "(nat set \<Rightarrow> nat set \<Rightarrow> bool) \<Rightarrow> map_state \<Rightarrow> bool" where
  "tracked R s \<longleftrightarrow> entries_ok s \<and> R (on_map s) (set (layer_ids (markers s)))"

abbreviation synced :: "map_state \<Rightarrow> bool" where
  "synced \<equiv> tracked (=)"

lemma layer_ids_simps [simp]:
  "layer_ids [] = []" "layer_ids ((icao, m, p) # ms) = m # p # layer_ids ms"
  "layer_ids (ms @ ns) = layer_ids ms @ layer_ids ns"
  by (simp_all add: layer_ids_def)

text \<open>The entries after the removal loop, whatever part of them the loop still has to visit.\<close>

lemma layer_ids_filter: "set (layer_ids (filter P ms)) \<subseteq> set (layer_ids ms)"
  by (auto simp: layer_ids_def)

lemma distinct_layer_ids_filter: "distinct (layer_ids ms) \<Longrightarrow> distinct (layer_ids (filter P ms))"
proof (induction ms)
  case (Cons x ms)
  obtain icao m p where x: "x = (icao, m, p)" by (cases x)
  then show ?case using Cons layer_ids_filter [of P ms] by auto
qed simp

lemma filter_removes:
  assumes "distinct (layer_ids ms)" "distinct (map fst ms)" "(icao, m, p) \<in> set ms"
  shows "set (layer_ids (filter (\<lambda>e. fst e \<noteq> icao) ms)) = set (layer_ids ms) - {m, p}"
  using assms
proof (induction ms)
  case (Cons x ms)
  obtain icao' m' p' where x: "x = (icao', m', p')" by (cases x)
  show ?case
  proof (cases "icao' = icao")
    case True
    then have "icao \<notin> fst ` set ms" using Cons.prems(2) x by simp
    then have "(icao, m, p) \<notin> set ms" "filter (\<lambda>e. fst e \<noteq> icao) ms = ms"
      by (force, auto simp: filter_id_conv)
    then show ?thesis using Cons.prems x True by auto
  next
    case False
    then have "(icao, m, p) \<in> set ms" using Cons.prems(3) x by auto
    moreover from this have "m \<in> set (layer_ids ms)" "p \<in> set (layer_ids ms)"
      by (force simp: layer_ids_def)+
    ultimately show ?thesis using Cons x False by auto
  qed
qed simp

lemma remove_loop_markers:
  "markers (remove_loop known ms s) =
     filter (\<lambda>e. fst e \<in> set known \<or> fst e \<notin> fst ` set ms) (markers s)"
proof (induction known ms s rule: remove_loop.induct)
  case (2 known icao m p rest s)
  then show ?case by (auto intro!: filter_cong)
qed (simp add: emit_def)

lemma remove_all_markers:
  "markers (remove_loop known (for_in (markers s)) s) = filter (\<lambda>e. fst e \<in> set known) (markers s)"
  by (auto simp: remove_loop_markers intro!: filter_cong)

lemma on_map_event_keeps [simp]:
  "markers (on_map_event e s) = markers s" "calls (on_map_event e s) = calls s"
  "next_layer (on_map_event e s) = next_layer s" "poll_state (on_map_event e s) = poll_state s"
  by (cases e; simp)+

lemma map_events_keep:
  "markers (fold on_map_event es s) = markers s" "calls (fold on_map_event es s) = calls s"
  "next_layer (fold on_map_event es s) = next_layer s"
  "poll_state (fold on_map_event es s) = poll_state s"
  by (induction es arbitrary: s) simp_all

lemma update_aircrafts_markers:
  "markers (update_aircrafts E events reg s) =
     filter (\<lambda>e. fst e \<in> fst ` set reg) (markers (snd (update_loop E reg [] s)))"
  by (simp add: update_aircrafts_def Let_def map_events_keep remove_all_markers split: prod.split)

text \<open>What is needed of such a relation: it survives adding and removing the same layers on both sides.\<close>

locale layer_relation =
  fixes R :: "nat set \<Rightarrow> nat set \<Rightarrow> bool"
  assumes R_insert: "R A B \<Longrightarrow> R (insert x A) (insert x B)"
    and R_remove: "R A B \<Longrightarrow> R (A - X) (B - X)"
begin

lemma update_marker_tracked:
  assumes "tracked R s"
  shows "tracked R (update_marker E icao a s)"
proof (cases "map_of (markers s) icao")
  case None
  then have "icao \<notin> fst ` set (markers s)" by (simp add: map_of_eq_None_iff)
  moreover have "R (insert (Suc (next_layer s)) (insert (next_layer s) (on_map s)))
     (insert (Suc (next_layer s)) (insert (next_layer s) (set (layer_ids (markers s)))))"
    using assms by (intro R_insert) (simp add: tracked_def)
  ultimately show ?thesis using assms None
    by (auto simp: tracked_def entries_ok_def update_marker_def Let_def on_map_emit insert_commute)
next
  case (Some e)
  then show ?thesis using assms
    by (cases e) (simp add: tracked_def entries_ok_def update_marker_def Let_def on_map_emit)
qed

lemma update_loop_tracked: "tracked R s \<Longrightarrow> tracked R (snd (update_loop E reg cur s))"
  by (induction E reg cur s rule: update_loop.induct) (simp_all add: update_marker_tracked)

lemma remove_one_tracked:
  assumes "tracked R s" "(icao, m, p) \<in> set (markers s)"
  shows "tracked R ((emit [RemoveLayer m, RemoveLayer p] s)\<lparr>markers := filter (\<lambda>e. fst e \<noteq> icao) (markers s)\<rparr>)"
proof -
  have "set (layer_ids (filter (\<lambda>e. fst e \<noteq> icao) (markers s))) = set (layer_ids (markers s)) - {m, p}"
    using assms by (intro filter_removes) (auto simp: tracked_def entries_ok_def)
  moreover have "on_map s - {m} - {p} = on_map s - {m, p}" by blast
  ultimately show ?thesis
    using assms R_remove [of "on_map s" "set (layer_ids (markers s))" "{m, p}"]
    by (auto simp: tracked_def entries_ok_def on_map_emit distinct_layer_ids_filter distinct_map_filter)
qed

lemma remove_loop_tracked:
  assumes "tracked R s" "set ms \<subseteq> set (markers s)" "distinct (map fst ms)"
  shows "tracked R (remove_loop known ms s)"
  using assms
proof (induction known ms s rule: remove_loop.induct)
  case (2 known icao m p rest s)
  let ?s = "(emit [RemoveLayer m, RemoveLayer p] s)\<lparr>markers := filter (\<lambda>e. fst e \<noteq> icao) (markers s)\<rparr>"
  have "tracked R ?s" using 2(2,3) by (intro remove_one_tracked) auto
  moreover have "icao \<notin> fst ` set rest" using 2(4) by simp
  then have "set rest \<subseteq> set (markers ?s)" using 2(3) by force
  ultimately show ?case using 2 by auto
qed simp

lemma update_aircrafts_tracked:
  assumes "tracked R s"
  shows "tracked R (update_aircrafts E events reg s)"
proof -
  obtain cur s1 where s1: "update_loop E reg [] s = (cur, s1)" by (cases "update_loop E reg [] s")
  then have "tracked R s1" using update_loop_tracked [OF assms, of E reg "[]"] by simp
  then have s2: "tracked R (remove_loop (map fst reg) (for_in (markers s1)) s1)"
    by (intro remove_loop_tracked) (auto simp: tracked_def entries_ok_def intro: distinct_for_in)
  let ?s2 = "remove_loop (map fst reg) (for_in (markers s1)) s1"
  let ?s3 = "(fold on_map_event events (emit [FlyToBounds cur] (?s2\<lparr>autozoom_in_progress := True\<rparr>)))\<lparr>autozoom_in_progress := False\<rparr>"
  have "on_map ?s3 = on_map ?s2"
    by (simp add: on_map_def map_events_keep emit_def)
  then have "tracked R ?s3 = tracked R ?s2" by (simp add: tracked_def entries_ok_def map_events_keep)
  then show ?thesis using s1 s2 by (simp add: update_aircrafts_def Let_def)
qed

end

interpretation exact_layers: layer_relation "(=)"
  by unfold_locales auto

interpretation any_layers: layer_relation "\<lambda>_ _. True"
  by unfold_locales auto

interpretation some_layers: layer_relation "(\<subseteq>)"
  by unfold_locales auto

section \<open>Where the markers are\<close>

text \<open>The position that a marker was last given, and the path a line was last given.\<close>

fun marker_pos_step :: "call \<Rightarrow> (nat \<Rightarrow> latlng option) \<Rightarrow> nat \<Rightarrow> latlng option" where
  "marker_pos_step (Marker i p r) M = M(i \<mapsto> p)"
| "marker_pos_step (SetLatLng i p) M = M(i \<mapsto> p)"
| "marker_pos_step _ M = M"

definition marker_pos :: "map_state \<Rightarrow> nat \<Rightarrow> latlng option" where
  "marker_pos s = fold marker_pos_step (calls s) (\<lambda>_. None)"

fun path_step :: "call \<Rightarrow> (nat \<Rightarrow> latlng list option) \<Rightarrow> nat \<Rightarrow> latlng list option" where
  "path_step (Polyline i ps) M = M(i \<mapsto> ps)"
| "path_step (SetLatLngs i ps) M = M(i \<mapsto> ps)"
| "path_step _ M = M"

definition path_of :: "map_state \<Rightarrow> nat \<Rightarrow> latlng list option" where
  "path_of s = fold path_step (calls s) (\<lambda>_. None)"

lemma drawn_emit:
  "marker_pos (emit cs s) = fold marker_pos_step cs (marker_pos s)"
  "path_of (emit cs s) = fold path_step cs (path_of s)"
  by (simp_all add: marker_pos_def path_of_def emit_def)

lemma drawn_cong [simp]:
  "marker_pos (s\<lparr>markers := m\<rparr>) = marker_pos s" "marker_pos (s\<lparr>next_layer := n\<rparr>) = marker_pos s"
  "path_of (s\<lparr>markers := m\<rparr>) = path_of s" "path_of (s\<lparr>next_layer := n\<rparr>) = path_of s"
  by (simp_all add: marker_pos_def path_of_def)

text \<open>An aircraft is drawn: its marker is at its last position and its path goes through all of them.\<close>

definition drawn :: "js_string \<Rightarrow> aircraft \<Rightarrow> map_state \<Rightarrow> bool" where
  "drawn icao a s \<longleftrightarrow> (\<exists>m p. map_of (markers s) icao = Some (m, p)
     \<and> marker_pos s m = Some (latlng_of (last (positions a)))
     \<and> path_of s p = Some (map latlng_of (positions a)))"

lemma update_marker_draws:
  assumes "positions a \<noteq> []"
  shows "drawn icao a (update_marker E icao a s)"
proof (cases "map_of (markers s) icao")
  case None
  then show ?thesis using assms
    by (simp add: drawn_def update_marker_def Let_def drawn_emit last_map map_add_def map_of_append)
next
  case (Some e)
  then show ?thesis using assms
    by (cases e) (simp add: drawn_def update_marker_def Let_def drawn_emit last_map)
qed

lemma entry_ids:
  "map_of ms icao = Some (m, p) \<Longrightarrow> m \<in> set (layer_ids ms) \<and> p \<in> set (layer_ids ms)"
  by (force dest: map_of_SomeD simp: layer_ids_def)

lemma entries_apart:
  assumes "distinct (layer_ids ms)" "map_of ms i = Some (m, p)" "map_of ms j = Some (n, q)" "i \<noteq> j"
  shows "m \<noteq> n" "m \<noteq> q" "p \<noteq> n" "p \<noteq> q"
  using assms
proof (induction ms)
  case (Cons x ms)
  obtain k u v where x: "x = (k, u, v)" by (cases x)
  {
    case 1 then show ?case using Cons.IH x entry_ids [of ms i m p] entry_ids [of ms j n q] by (auto split: if_splits)
  next
    case 2 then show ?case using Cons.IH x entry_ids [of ms i m p] entry_ids [of ms j n q] by (auto split: if_splits)
  next
    case 3 then show ?case using Cons.IH x entry_ids [of ms i m p] entry_ids [of ms j n q] by (auto split: if_splits)
  next
    case 4 then show ?case using Cons.IH x entry_ids [of ms i m p] entry_ids [of ms j n q] by (auto split: if_splits)
  }
qed simp_all

lemma update_marker_keeps_drawn:
  assumes "drawn i a s" "i \<noteq> j" "entries_ok s"
  shows "drawn i a (update_marker E j b s)"
proof -
  obtain m p where e: "map_of (markers s) i = Some (m, p)" "marker_pos s m = Some (latlng_of (last (positions a)))"
    "path_of s p = Some (map latlng_of (positions a))"
    using assms(1) by (auto simp: drawn_def)
  have b: "m < next_layer s" "p < next_layer s"
    using entry_ids [OF e(1)] assms(3) by (auto simp: entries_ok_def)
  show ?thesis
  proof (cases "map_of (markers s) j")
    case None
    then show ?thesis using e b assms(2)
      by (simp add: drawn_def update_marker_def Let_def drawn_emit map_of_append map_add_def)
  next
    case (Some x)
    obtain n q where x: "x = (n, q)" by (cases x)
    have "m \<noteq> n" "p \<noteq> q"
      using entries_apart [of "markers s" i m p j n q] assms(2,3) e(1) Some x by (auto simp: entries_ok_def)
    then show ?thesis using e Some x
      by (simp add: drawn_def update_marker_def Let_def drawn_emit)
  qed
qed

lemma update_marker_entries: "entries_ok s \<Longrightarrow> entries_ok (update_marker E j b s)"
  using any_layers.update_marker_tracked [of s E j b] by (simp add: tracked_def)

lemma update_loop_keeps_drawn:
  assumes "drawn i a s" "i \<notin> fst ` set reg" "entries_ok s"
  shows "drawn i a (snd (update_loop E reg cur s))"
  using assms
proof (induction E reg cur s rule: update_loop.induct)
  case (2 E j b rest cur s)
  then show ?case by (simp add: update_marker_keeps_drawn update_marker_entries)
qed simp

lemma update_loop_draws:
  assumes "entries_ok s" "distinct (map fst reg)" "(i, a) \<in> set reg" "positions a \<noteq> []"
  shows "drawn i a (snd (update_loop E reg cur s))"
  using assms
proof (induction E reg cur s rule: update_loop.induct)
  case (2 E j b rest cur s)
  show ?case
  proof (cases "(i, a) = (j, b)")
    case True
    then have "drawn i a (snd (update_loop E rest (cur @ [last (map latlng_of (positions b))]) (update_marker E j b s)))"
      using 2(4,6) update_marker_draws [OF 2(6)] update_marker_entries [OF 2(3)]
      by (intro update_loop_keeps_drawn) auto
    then show ?thesis using True 2(6) by simp
  next
    case False
    then have "(i, a) \<in> set rest" using 2(5) by auto
    then show ?thesis using 2 update_marker_entries [OF 2(3)] by simp
  qed
qed simp

text \<open>Removing the others does not touch it.\<close>

lemma map_of_filter_other: "i \<noteq> j \<Longrightarrow> map_of (filter (\<lambda>e. fst e \<noteq> j) ms) i = map_of ms i"
  by (induction ms) auto

lemma remove_loop_keeps_drawn:
  assumes "drawn i a s" "i \<in> set known"
  shows "drawn i a (remove_loop known ms s)"
  using assms
proof (induction known ms s rule: remove_loop.induct)
  case (2 known j m p rest s)
  show ?case
  proof (cases "j \<in> set known")
    case True
    then show ?thesis using 2 by simp
  next
    case False
    then have "i \<noteq> j" using 2(3) by auto
    then have "drawn i a ((emit [RemoveLayer m, RemoveLayer p] s)\<lparr>markers := filter (\<lambda>e. fst e \<noteq> j) (markers s)\<rparr>)"
      using 2(2) by (simp add: drawn_def drawn_emit map_of_filter_other)
    then show ?thesis using 2 False by simp
  qed
qed simp

lemma update_aircrafts_draws:
  assumes "entries_ok s" "distinct (map fst reg)" "(i, a) \<in> set reg" "positions a \<noteq> []"
  shows "drawn i a (update_aircrafts E events reg s)"
proof -
  obtain cur s1 where s1: "update_loop E reg [] s = (cur, s1)" by (cases "update_loop E reg [] s")
  have "drawn i a s1" using update_loop_draws [OF assms, of E "[]"] s1 by simp
  then have d: "drawn i a (remove_loop (map fst reg) (for_in (markers s1)) s1)"
    using assms(3) by (intro remove_loop_keeps_drawn) force+
  have "drawn i a u = drawn i a v" if "markers u = markers v" "marker_pos u = marker_pos v" "path_of u = path_of v" for u v
    using that by (simp add: drawn_def)
  from this [OF _ _ _] show ?thesis using d s1
    by (auto simp: update_aircrafts_def Let_def drawn_def map_events_keep marker_pos_def path_of_def emit_def)
qed

section \<open>The zoom\<close>

text \<open>What the user does decides the zoom: once off it stays off.\<close>

lemma update_marker_autozoom: "autozoom (update_marker E i a s) = autozoom s"
  by (simp add: update_marker_def Let_def emit_def split: option.split)

lemma update_loop_autozoom: "autozoom (snd (update_loop E reg cur s)) = autozoom s"
  by (induction E reg cur s rule: update_loop.induct) (simp_all add: update_marker_autozoom)

lemma remove_loop_autozoom: "autozoom (remove_loop known ms s) = autozoom s"
  by (induction known ms s rule: remove_loop.induct) simp_all

lemma zoomstart_while_flying:
  "set events \<subseteq> {Zoomstart} \<Longrightarrow> autozoom_in_progress s \<Longrightarrow> fold on_map_event events s = s"
  by (induction events) auto

lemma autozoom_stays_off: "\<not> autozoom s \<Longrightarrow> \<not> autozoom (fold on_map_event events s)"
proof (induction events arbitrary: s)
  case (Cons e es)
  then show ?case by (cases e) auto
qed simp

lemma update_autozoom:
  shows "\<not> autozoom s \<Longrightarrow> \<not> autozoom (update_aircrafts E events reg s)"
    and "set events \<subseteq> {Zoomstart} \<Longrightarrow> autozoom (update_aircrafts E events reg s) = autozoom s"
proof -
  obtain cur s1 where s1: "update_loop E reg [] s = (cur, s1)" by (cases "update_loop E reg [] s")
  have a: "autozoom (remove_loop (map fst reg) (for_in (markers s1)) s1) = autozoom s"
    using update_loop_autozoom [of E reg "[]" s] s1 by (simp add: remove_loop_autozoom)
  show "\<not> autozoom s \<Longrightarrow> \<not> autozoom (update_aircrafts E events reg s)"
    using a s1 by (simp add: update_aircrafts_def Let_def)
  assume "set events \<subseteq> {Zoomstart}"
  then show "autozoom (update_aircrafts E events reg s) = autozoom s"
    using a s1 by (simp add: update_aircrafts_def Let_def zoomstart_while_flying emit_def)
qed

section \<open>Properties\<close>

lemma update_marker_keys:
  "fst ` set (markers (update_marker E i a s)) = insert i (fst ` set (markers s))"
proof (cases "map_of (markers s) i")
  case (Some e)
  then have "i \<in> fst ` set (markers s)" by (metis map_of_eq_None_iff option.distinct(1))
  then show ?thesis using Some by (cases e) (auto simp: update_marker_def Let_def insert_absorb)
qed (simp add: update_marker_def Let_def)

lemma update_loop_keys:
  "fst ` set (markers (snd (update_loop E reg cur s))) =
     fst ` set (markers s) \<union> fst ` {(i, a) \<in> set reg. positions a \<noteq> []}"
proof (induction E reg cur s rule: update_loop.induct)
  case (2 E icao a rest cur s)
  have "fst ` {(i, b) \<in> set ((icao, a) # rest). positions b \<noteq> []} =
      (if positions a \<noteq> [] then insert icao else id) (fst ` {(i, b) \<in> set rest. positions b \<noteq> []})"
    by force
  then show ?case using 2 by (auto simp: update_marker_keys)
qed simp

text \<open>
  After an update every aircraft of the register that has a position is drawn: it has an
  entry, its marker stands at its last position and its path runs through all its positions, whatever
  was drawn before and in whatever order the register lists the aircraft.
\<close>

theorem update_draws_every_aircraft:
  assumes "entries_ok s" "distinct (map fst reg)" "(icao, a) \<in> set reg" "positions a \<noteq> []"
  shows "drawn icao a (update_aircrafts E events reg s)"
  using update_aircrafts_draws [OF assms] .

definition sample_format :: format_env where
  "sample_format = \<lparr>toLocaleString = (\<lambda>t. js ''today''), toUpperCase = (\<lambda>t. t)\<rparr>"

definition sample_aircraft :: aircraft where
  "sample_aircraft = \<lparr>callsign = None, emitter_category = Some 3,
     positions = [\<lparr>latitude = 1, longitude = 2, altitude = Some 100\<rparr>, \<lparr>latitude = 3, longitude = 4, altitude = Some 0\<rparr>],
     velocities = [], last_seen = (0, 0)\<rparr>"

theorem update_draws_every_aircraft_witness:
  "drawn (js ''4b'') sample_aircraft (update_aircrafts sample_format [] [(js ''4a'', sample_aircraft), (js ''4b'', sample_aircraft)] map_state0)"
  by (rule update_draws_every_aircraft) (simp_all add: entries_ok_def map_state0_def js_def sample_aircraft_def)

text \<open>
  Property C10. An update keeps the map in step: if the layers on the map are exactly those of the known
  aircraft before, they are so afterwards, and the known aircraft are then those of the register that
  were known or have a position.
\<close>

theorem update_keeps_map_in_step:
  assumes "synced s"
  shows "synced (update_aircrafts E events reg s) \<and>
    fst ` set (markers (update_aircrafts E events reg s)) =
      fst ` set reg \<inter> (fst ` set (markers s) \<union> fst ` {(i, a) \<in> set reg. positions a \<noteq> []})"
proof
  show "synced (update_aircrafts E events reg s)" using assms by (rule exact_layers.update_aircrafts_tracked)
  show "fst ` set (markers (update_aircrafts E events reg s)) =
      fst ` set reg \<inter> (fst ` set (markers s) \<union> fst ` {(i, a) \<in> set reg. positions a \<noteq> []})"
    unfolding update_aircrafts_markers update_loop_keys [of E reg "[]" s, symmetric] by force
qed

theorem update_keeps_map_in_step_witness:
  "synced (update_aircrafts sample_format [Zoomstart] [(js ''4a'', sample_aircraft)] map_state0)"
  using update_keeps_map_in_step [of map_state0]
  by (simp add: tracked_def entries_ok_def map_state0_def on_map_def)

text \<open>
  Property C34. The zoom that an update starts does not switch the automatic zoom off, although it fires
  the event that a zoom of the user fires; once the user has switched it off, no update switches it on.
\<close>

theorem autozoom_survives_its_own_zoom:
  "(set events \<subseteq> {Zoomstart} \<longrightarrow> autozoom (update_aircrafts E events reg s) = autozoom s)
   \<and> (\<not> autozoom s \<longrightarrow> \<not> autozoom (update_aircrafts E events reg s))"
  using update_autozoom by blast

theorem autozoom_survives_its_own_zoom_witness:
  "autozoom (update_aircrafts sample_format [Zoomstart] [(js ''4a'', sample_aircraft)] map_state0)
   \<and> \<not> autozoom (update_aircrafts sample_format [Zoomstart] [] (map_state0\<lparr>autozoom := False\<rparr>))"
  using autozoom_survives_its_own_zoom [of "[Zoomstart]" sample_format "[(js ''4a'', sample_aircraft)]" map_state0]
    autozoom_survives_its_own_zoom [of "[Zoomstart]" sample_format "[]" "map_state0\<lparr>autozoom := False\<rparr>"]
  by (simp add: map_state0_def)

end
