(* ===== verification/Adsb_Page.thy ===== *)
theory Adsb_Page
  imports Adsb_Map
begin

text \<open>
  The page around the aircraft map, \<^verbatim>\<open>src/examples/adsb/dist/script.js\<close>: setting up the map, polling the
  receiver over HTTP, and the popups, as a transition system over what the browser, the user and the
  receiver may do. The theorems show that no layer is left behind, that a popup always highlights the
  path of its own aircraft, and two ways in which the page goes wrong.
\<close>

section \<open>Setting up\<close>

definition UPDATE_INTERVAL_MS :: int where
  "UPDATE_INTERVAL_MS = 1000"

definition window_onload :: "map_state \<Rightarrow> map_state" where
  "window_onload s =
     (emit [NewMap, Locate 10, MapOn ''locationfound'', MapOn ''locationerror'',
            TileLayer ''https://tile.openstreetmap.org/{z}/{x}/{y}.png'' 19, LayerGroup] s)\<lparr>markers_group := True\<rparr>"

section \<open>Polling\<close>

text \<open>
  \<^verbatim>\<open>fetch_fg\<close>'s search for the tracker: the last block of that type, or the value the variable had.
\<close>

definition find_tracker :: "(int \<times> js_string) list \<Rightarrow> int option \<Rightarrow> int option" where
  "find_tracker blocks old =
     fold (\<lambda>(block, type_name) t. if type_name = js ''Tracker'' then Some block else t) blocks old"

text \<open>
  \<^verbatim>\<open>aircraft_poll\<close>, called by the timer. In the connected state \<^verbatim>\<open>tracker_block.id\<close> of \<^verbatim>\<open>null\<close> is a \<^verbatim>\<open>TypeError\<close>
  before there is a promise to catch it.
\<close>

definition aircraft_poll :: "map_state \<Rightarrow> map_state" where
  "aircraft_poll s =
     (if poll_state s = 1 then s\<lparr>fg_requests := fg_requests s + 1\<rparr>
      else if poll_state s = 2 then
        (case tracker_block s of
           Some block \<Rightarrow> s\<lparr>aircraft_requests := aircraft_requests s + 1\<rparr>
         | None \<Rightarrow> s\<lparr>uncaught_errors := uncaught_errors s + 1\<rparr>)
      else s)"

definition initialize_aircraft_poll :: "map_state \<Rightarrow> map_state" where
  "initialize_aircraft_poll s =
     (let s1 = emit [MapOn ''zoomstart'', MapOn ''dragstart''] s in
      emit [SetInterval UPDATE_INTERVAL_MS] (aircraft_poll (s1\<lparr>poll_state := 1\<rparr>)))"

text \<open>The answer of \<^verbatim>\<open>/api/fg/0/\<close> and a failure of that request.\<close>

definition fg_arrives :: "(int \<times> js_string) list \<Rightarrow> map_state \<Rightarrow> map_state" where
  "fg_arrives blocks s =
     (if markers_group s then emit [ClearLayers] s else s)\<lparr>fg_requests := fg_requests s - 1,
        tracker_block := find_tracker blocks (tracker_block s), poll_state := 2\<rparr>"

definition fg_fails :: "map_state \<Rightarrow> map_state" where
  "fg_fails s = s\<lparr>fg_requests := fg_requests s - 1, console_errors := console_errors s + 1\<rparr>"

text \<open>The answer of the tracker's control port and a failure of that request.\<close>

definition aircrafts_arrive :: "format_env \<Rightarrow> map_event list \<Rightarrow> register \<Rightarrow> map_state \<Rightarrow> map_state" where
  "aircrafts_arrive E events register s =
     update_aircrafts E events register (s\<lparr>aircraft_requests := aircraft_requests s - 1\<rparr>)"

definition aircrafts_fail :: "map_state \<Rightarrow> map_state" where
  "aircrafts_fail s =
     s\<lparr>aircraft_requests := aircraft_requests s - 1, console_errors := console_errors s + 1, poll_state := 1\<rparr>"

section \<open>Popups\<close>

text \<open>
  The listeners of a marker in the order in which they were added: each update of an aircraft adds one
  more of each kind. All that a listener keeps is the ICAO address.
\<close>

fun handler :: "string \<Rightarrow> nat \<Rightarrow> call \<Rightarrow> js_string list" where
  "handler ev m (On m' ev' icao) = (if m' = m \<and> ev' = ev then [icao] else [])"
| "handler ev m _ = []"

definition handlers :: "string \<Rightarrow> nat \<Rightarrow> call list \<Rightarrow> js_string list" where
  "handlers ev m cs = concat (map (handler ev m) cs)"

definition popup_opacity :: "string \<Rightarrow> rat" where
  "popup_opacity ev = (if ev = ''popupopen'' then 1 else 1 / 5)"

text \<open>
  \<^verbatim>\<open>aircraft_markers[icao].pathline.setStyle(...)\<close> in each of them; for an aircraft without an entry it would be
  a \<^verbatim>\<open>TypeError\<close> that ends the dispatch.
\<close>

fun run_handlers :: "string \<Rightarrow> js_string list \<Rightarrow> map_state \<Rightarrow> map_state" where
  "run_handlers ev [] s = s"
| "run_handlers ev (icao # rest) s =
     (case map_of (markers s) icao of
        Some (marker, pathline) \<Rightarrow> run_handlers ev rest (emit [SetStyle pathline (popup_opacity ev)] s)
      | None \<Rightarrow> s\<lparr>uncaught_errors := uncaught_errors s + 1\<rparr>)"

definition popup_event :: "string \<Rightarrow> nat \<Rightarrow> map_state \<Rightarrow> map_state" where
  "popup_event ev m s = run_handlers ev (handlers ev m (calls s)) s"

section \<open>The page\<close>

inductive map_step :: "format_env \<Rightarrow> map_state \<Rightarrow> map_state \<Rightarrow> bool" for E :: format_env where
  onload: "\<not> markers_group s \<Longrightarrow> map_step E s (window_onload s)"
| located: "markers_group s \<Longrightarrow> poll_state s = 0 \<Longrightarrow> map_step E s (initialize_aircraft_poll s)"
| tick: "poll_state s \<noteq> 0 \<Longrightarrow> map_step E s (aircraft_poll s)"
| fg_ok: "fg_requests s > 0 \<Longrightarrow> map_step E s (fg_arrives blocks s)"
| fg_bad: "fg_requests s > 0 \<Longrightarrow> map_step E s (fg_fails s)"
| register_ok: "aircraft_requests s > 0 \<Longrightarrow> distinct (map fst reg) \<Longrightarrow>
     map_step E s (aircrafts_arrive E events reg s)"
| register_bad: "aircraft_requests s > 0 \<Longrightarrow> map_step E s (aircrafts_fail s)"
| user_event: "poll_state s \<noteq> 0 \<Longrightarrow> map_step E s (on_map_event e s)"
| popup: "m \<in> on_map s \<Longrightarrow> ev \<in> {''popupopen'', ''popupclose''} \<Longrightarrow> map_step E s (popup_event ev m s)"

lemmas poll_defs = initialize_aircraft_poll_def aircraft_poll_def fg_arrives_def fg_fails_def
  aircrafts_arrive_def aircrafts_fail_def

text \<open>
  In every reachable state the entries are in order and no layer is on the map without an entry: a
  marker that stays behind is always one that a later update can still remove.
\<close>

lemma tracked_cong:
  "markers s = markers t \<Longrightarrow> next_layer s = next_layer t \<Longrightarrow> calls s = calls t \<Longrightarrow> tracked R s = tracked R t"
  by (simp add: tracked_def entries_ok_def on_map_def)

lemma aircraft_poll_keeps:
  "markers (aircraft_poll s) = markers s" "next_layer (aircraft_poll s) = next_layer s"
  "calls (aircraft_poll s) = calls s" "poll_state (aircraft_poll s) = poll_state s"
  "tracker_block (aircraft_poll s) = tracker_block s"
  by (simp_all add: aircraft_poll_def split: option.split)

lemma on_map_listeners [simp]:
  "on_map (emit [MapOn e, MapOn e'] s) = on_map s" "on_map (emit [SetInterval n] s) = on_map s"
  "on_map (emit [SetStyle p x] s) = on_map s"
  by (simp_all add: on_map_emit)

lemma tracked_eq:
  "markers s = markers t \<Longrightarrow> next_layer s = next_layer t \<Longrightarrow> on_map s = on_map t \<Longrightarrow> tracked R s = tracked R t"
  by (simp add: tracked_def entries_ok_def)

lemma aircraft_poll_on_map [simp]: "on_map (aircraft_poll s) = on_map s"
  by (simp add: on_map_def aircraft_poll_keeps)

lemma run_handlers_keeps:
  "markers (run_handlers ev hs s) = markers s" "next_layer (run_handlers ev hs s) = next_layer s"
  "on_map (run_handlers ev hs s) = on_map s" "poll_state (run_handlers ev hs s) = poll_state s"
  "tracker_block (run_handlers ev hs s) = tracker_block s" "fg_requests (run_handlers ev hs s) = fg_requests s"
  "aircraft_requests (run_handlers ev hs s) = aircraft_requests s" "markers_group (run_handlers ev hs s) = markers_group s"
  by (induction ev hs s rule: run_handlers.induct)
    (auto simp: emit_def on_map_def split: option.splits)

lemma map_step_tracked: "map_step E s t \<Longrightarrow> tracked (\<subseteq>) s \<Longrightarrow> tracked (\<subseteq>) t"
proof (induction rule: map_step.induct)
  case (onload s)
  then show ?case by (subst tracked_eq [where t = s]) (simp_all add: window_onload_def on_map_def emit_def)
next
  case (located s)
  then show ?case
    by (subst tracked_eq [where t = s])
      (simp_all add: initialize_aircraft_poll_def aircraft_poll_keeps on_map_def emit_def)
next
  case (tick s)
  then show ?case by (subst tracked_cong [where t = s]) (simp_all add: aircraft_poll_keeps)
next
  case (fg_ok s blocks)
  then show ?case by (auto simp: tracked_def entries_ok_def fg_arrives_def on_map_def emit_def)
next
  case (fg_bad s)
  then show ?case by (subst tracked_cong [where t = s]) (simp_all add: fg_fails_def)
next
  case (register_ok s reg events)
  have "tracked (\<subseteq>) (s\<lparr>aircraft_requests := aircraft_requests s - 1\<rparr>)"
    using register_ok by (subst tracked_cong [where t = s]) simp_all
  then show ?case unfolding aircrafts_arrive_def by (rule some_layers.update_aircrafts_tracked)
next
  case (register_bad s)
  then show ?case by (subst tracked_cong [where t = s]) (simp_all add: aircrafts_fail_def)
next
  case (user_event s e)
  then show ?case by (subst tracked_cong [where t = s]) simp_all
next
  case (popup m s ev)
  then show ?case by (subst tracked_eq [where t = s]) (simp_all add: popup_event_def run_handlers_keeps)
qed

lemma map_reach_tracked: "(map_step E)\<^sup>*\<^sup>* map_state0 s \<Longrightarrow> tracked (\<subseteq>) s"
proof (induction rule: rtranclp_induct)
  case base
  then show ?case by (simp add: tracked_def entries_ok_def map_state0_def on_map_def)
next
  case (step s t)
  then show ?case using map_step_tracked by blast
qed

section \<open>What the popups do\<close>

text \<open>The opacity that a path was last given; a new one has 0.2.\<close>

fun opacity_step :: "call \<Rightarrow> (nat \<Rightarrow> rat option) \<Rightarrow> nat \<Rightarrow> rat option" where
  "opacity_step (Polyline i ps) M = M(i \<mapsto> 1 / 5)"
| "opacity_step (SetStyle i x) M = M(i \<mapsto> x)"
| "opacity_step _ M = M"

definition opacity :: "map_state \<Rightarrow> nat \<Rightarrow> rat option" where
  "opacity s = fold opacity_step (calls s) (\<lambda>_. None)"

lemma opacity_emit: "opacity (emit cs s) = fold opacity_step cs (opacity s)"
  by (simp add: opacity_def emit_def)

abbreviation popup_events :: "string set" where
  "popup_events \<equiv> {''popupopen'', ''popupclose''}"

text \<open>The listeners of a marker all belong to the aircraft of its entry, and there is one at least.\<close>

definition handlers_ok :: "map_state \<Rightarrow> bool" where
  "handlers_ok s \<longleftrightarrow>
     (\<forall>ev m. next_layer s \<le> m \<longrightarrow> handlers ev m (calls s) = [])
   \<and> (\<forall>(icao, m, p) \<in> set (markers s). \<forall>ev \<in> popup_events. set (handlers ev m (calls s)) = {icao})"

lemma handlers_append [simp]: "handlers ev m (cs @ ds) = handlers ev m cs @ handlers ev m ds"
  by (simp add: handlers_def)

lemma handlers_simps [simp]:
  "handlers ev m [] = []" "handlers ev m (c # cs) = handler ev m c @ handlers ev m cs"
  by (simp_all add: handlers_def)

lemma calls_emit [simp]: "calls (emit cs s) = calls s @ cs"
  by (simp add: emit_def)

lemma handlers_okI:
  assumes "handlers_ok s" "set (markers t) \<subseteq> set (markers s)" "next_layer t = next_layer s"
    and "\<And>ev m. handlers ev m (calls t) = handlers ev m (calls s)"
  shows "handlers_ok t"
  using assms(1,2) unfolding handlers_ok_def assms(3,4) by blast

lemma entry_marker:
  assumes "(icao, m, p) \<in> set ms" shows "m \<in> set (layer_ids ms)" "p \<in> set (layer_ids ms)"
  using assms by (force simp: layer_ids_def)+

lemma same_marker:
  assumes "entries_ok s" "(i, m, p) \<in> set (markers s)" "map_of (markers s) j = Some (m, q)"
  shows "i = j"
proof (rule ccontr)
  assume "i \<noteq> j"
  moreover have "map_of (markers s) i = Some (m, p)" using assms(1,2) by (simp add: entries_ok_def)
  ultimately show False
    using entries_apart(1) [of "markers s" i m p j m q] assms by (simp add: entries_ok_def)
qed

lemma update_marker_handlers:
  assumes "handlers_ok s" "entries_ok s"
  shows "handlers_ok (update_marker E j a s)"
proof (cases "map_of (markers s) j")
  case None
  have fresh: "m \<noteq> next_layer s" if "(i, m, p) \<in> set (markers s)" for i m p
    using entry_marker(1) [OF that] assms(2) by (auto simp: entries_ok_def)
  show ?thesis using None assms(1) fresh
    by (auto simp: handlers_ok_def update_marker_def Let_def)
next
  case (Some e)
  obtain n q where e: "e = (n, q)" by (cases e)
  have "n < next_layer s" using entry_ids [of "markers s" j n q] Some e assms(2) by (auto simp: entries_ok_def)
  then show ?thesis using Some e assms same_marker [OF assms(2)]
    by (fastforce simp: handlers_ok_def update_marker_def Let_def)
qed

lemma update_loop_handlers:
  "handlers_ok s \<Longrightarrow> entries_ok s \<Longrightarrow> handlers_ok (snd (update_loop E reg cur s))"
  by (induction E reg cur s rule: update_loop.induct) (simp_all add: update_marker_handlers update_marker_entries)

lemma remove_loop_calls:
  "handlers ev m (calls (remove_loop known ms s)) = handlers ev m (calls s)"
  "next_layer (remove_loop known ms s) = next_layer s"
  by (induction known ms s rule: remove_loop.induct) simp_all

lemma update_aircrafts_handlers:
  assumes "handlers_ok s" "entries_ok s"
  shows "handlers_ok (update_aircrafts E events reg s)"
proof -
  obtain cur s1 where s1: "update_loop E reg [] s = (cur, s1)" by (cases "update_loop E reg [] s")
  then have "handlers_ok s1" using update_loop_handlers [OF assms, of E reg "[]"] by simp
  moreover have "set (markers (update_aircrafts E events reg s)) \<subseteq> set (markers s1)"
    by (simp add: update_aircrafts_markers s1)
  ultimately show ?thesis
    by (rule handlers_okI) (simp_all add: s1 update_aircrafts_def Let_def map_events_keep remove_loop_calls)
qed

lemma run_handlers_calls: "handlers ev' m (calls (run_handlers ev hs s)) = handlers ev' m (calls s)"
  by (induction ev hs s rule: run_handlers.induct) (auto split: option.splits)

lemma map_step_handlers: "map_step E s t \<Longrightarrow> handlers_ok s \<Longrightarrow> entries_ok s \<Longrightarrow> handlers_ok t"
proof (induction rule: map_step.induct)
  case (register_ok s reg events)
  have "handlers_ok (s\<lparr>aircraft_requests := aircraft_requests s - 1\<rparr>)"
    using register_ok(3) by (rule handlers_okI) simp_all
  then show ?case unfolding aircrafts_arrive_def
    using register_ok(4) by (intro update_aircrafts_handlers) (simp_all add: entries_ok_def)
qed (erule handlers_okI; simp add: window_onload_def initialize_aircraft_poll_def aircraft_poll_keeps
      fg_arrives_def fg_fails_def aircrafts_fail_def popup_event_def run_handlers_keeps run_handlers_calls Let_def)+

lemma map_reach_handlers: "(map_step E)\<^sup>*\<^sup>* map_state0 s \<Longrightarrow> handlers_ok s"
proof (induction rule: rtranclp_induct)
  case base
  then show ?case by (simp add: handlers_ok_def map_state0_def)
next
  case (step s t)
  then show ?case using map_step_handlers map_reach_tracked [OF step.hyps(1)] by (simp add: tracked_def)
qed

lemma run_handlers_same:
  assumes "set hs = {icao}" "map_of (markers s) icao = Some (m, p)"
  shows "opacity (run_handlers ev hs s) p = Some (popup_opacity ev)
    \<and> uncaught_errors (run_handlers ev hs s) = uncaught_errors s"
  using assms
proof (induction ev hs s rule: run_handlers.induct)
  case (2 ev j rest s)
  then have j: "j = icao" "set rest \<subseteq> {icao}" by auto
  have o: "opacity (emit [SetStyle p (popup_opacity ev)] s) p = Some (popup_opacity ev)"
    by (simp add: opacity_emit)
  show ?case
  proof (cases rest)
    case Nil
    then show ?thesis using 2(3) j o by (simp add: emit_def)
  next
    case (Cons k ks)
    then have "set rest = {icao}" using j by auto
    then show ?thesis using 2 j by (simp add: emit_def)
  qed
qed simp

section \<open>Two ways the map goes wrong\<close>

text \<open>
  A flow graph without a tracker block leaves the script in the connected state, and nothing it does
  leads out of it: every tick throws before a request is made.
\<close>

definition stuck :: "map_state \<Rightarrow> bool" where
  "stuck s \<longleftrightarrow> poll_state s = 2 \<and> tracker_block s = None \<and> fg_requests s = 0 \<and> aircraft_requests s = 0"

lemma on_map_event_poll [simp]:
  "tracker_block (on_map_event e s) = tracker_block s" "fg_requests (on_map_event e s) = fg_requests s"
  "aircraft_requests (on_map_event e s) = aircraft_requests s"
  by (cases e; simp)+

lemma stuck_step: "map_step E s t \<Longrightarrow> stuck s \<Longrightarrow> stuck t"
  by (induction rule: map_step.induct)
    (auto simp: stuck_def aircraft_poll_def window_onload_def emit_def popup_event_def run_handlers_keeps)

lemma stuck_forever: "(map_step E)\<^sup>*\<^sup>* s t \<Longrightarrow> stuck s \<Longrightarrow> stuck t"
  by (induction rule: rtranclp_induct) (auto intro: stuck_step)

text \<open>
  A reconnection clears the map but keeps the entries, and an update of a known aircraft does not add
  its layers again.
\<close>

lemma update_known_not_added:
  assumes "map_of (markers s) icao = Some e"
  shows "on_map (update_marker E icao a s) = on_map s"
  using assms by (cases e) (simp add: update_marker_def Let_def on_map_emit)

lemma fg_arrives_clears:
  "markers_group s \<Longrightarrow> on_map (fg_arrives blocks s) = {}" "markers (fg_arrives blocks s) = markers s"
  by (simp_all add: fg_arrives_def on_map_def emit_def)

section \<open>Properties\<close>

text \<open>
  Property C32. In every reachable state of the page each known aircraft has one entry with two layers of
  its own, and every layer on the map belongs to an entry, so that a later update can remove it.
\<close>

theorem no_orphan_layers:
  assumes "(map_step E)\<^sup>*\<^sup>* map_state0 s"
  shows "distinct (map fst (markers s)) \<and> distinct (layer_ids (markers s))
    \<and> on_map s \<subseteq> set (layer_ids (markers s))"
  using map_reach_tracked [OF assms] by (simp add: tracked_def entries_ok_def)

text \<open>A run of the page: it is loaded, located, connected to a flow graph with a tracker, and draws one aircraft.\<close>

definition sample_page :: map_state where
  "sample_page = aircrafts_arrive sample_format [Zoomstart] [(js ''4a'', sample_aircraft)]
     (aircraft_poll (fg_arrives [(7, js ''Tracker'')] (initialize_aircraft_poll (window_onload map_state0))))"

lemmas page_defs = window_onload_def poll_defs find_tracker_def map_state0_def emit_def Let_def

lemma sample_page_reached: "(map_step sample_format)\<^sup>*\<^sup>* map_state0 sample_page"
proof -
  let ?s1 = "window_onload map_state0"
  let ?s2 = "initialize_aircraft_poll ?s1"
  let ?s3 = "fg_arrives [(7, js ''Tracker'')] ?s2"
  let ?s4 = "aircraft_poll ?s3"
  have "map_step sample_format map_state0 ?s1" by (rule onload) (simp add: map_state0_def)
  moreover have "map_step sample_format ?s1 ?s2" by (rule located) (simp_all add: page_defs)
  moreover have "map_step sample_format ?s2 ?s3" by (rule fg_ok) (simp add: page_defs)
  moreover have "map_step sample_format ?s3 ?s4" by (rule tick) (simp add: page_defs)
  moreover have "map_step sample_format ?s4 sample_page"
    unfolding sample_page_def by (rule register_ok) (simp_all add: page_defs)
  ultimately show ?thesis by (blast intro: converse_rtranclp_into_rtranclp)
qed

theorem no_orphan_layers_witness: "on_map sample_page \<subseteq> set (layer_ids (markers sample_page))"
  using no_orphan_layers [OF sample_page_reached] by blast

text \<open>
  Property C33. In every reachable state, opening the popup of a known aircraft highlights the path of that
  aircraft and closing it dims the path again, however often the listeners were added, and no listener
  throws.
\<close>

theorem popup_highlights_own_path:
  assumes "(map_step E)\<^sup>*\<^sup>* map_state0 s" "(icao, m, p) \<in> set (markers s)"
  shows "opacity (popup_event ''popupopen'' m s) p = Some 1 \<and> opacity (popup_event ''popupclose'' m s) p = Some (1 / 5)
    \<and> uncaught_errors (popup_event ''popupopen'' m s) = uncaught_errors s
    \<and> uncaught_errors (popup_event ''popupclose'' m s) = uncaught_errors s"
proof -
  have "map_of (markers s) icao = Some (m, p)"
    using map_reach_tracked [OF assms(1)] assms(2) by (simp add: tracked_def entries_ok_def)
  moreover have "\<forall>ev \<in> popup_events. set (handlers ev m (calls s)) = {icao}"
    using map_reach_handlers [OF assms(1)] assms(2) unfolding handlers_ok_def by blast
  ultimately show ?thesis
    by (simp add: popup_event_def run_handlers_same popup_opacity_def)
qed

lemma sample_page_markers: "markers sample_page = [(js ''4a'', 0, 1)]"
  by (simp add: sample_page_def page_defs update_aircrafts_markers update_marker_def sample_aircraft_def js_def)

theorem popup_highlights_own_path_witness:
  "opacity (popup_event ''popupopen'' 0 sample_page) 1 = Some 1"
  using popup_highlights_own_path [OF sample_page_reached, of "js ''4a''" 0 1] by (simp add: sample_page_markers)

lemma update_marker_handler_count:
  assumes "map_of (markers s) icao = Some (m, p)" "entries_ok s" "ev \<in> popup_events"
  shows "length (handlers ev m (calls (update_marker E j a s))) =
    length (handlers ev m (calls s)) + (if j = icao then 1 else 0)"
proof (cases "map_of (markers s) j")
  case None
  have "m < next_layer s" using entry_ids [OF assms(1)] assms(2) by (auto simp: entries_ok_def)
  then show ?thesis using None assms(1) by (auto simp: update_marker_def Let_def)
next
  case (Some e)
  obtain n q where e: "e = (n, q)" by (cases e)
  have "j \<noteq> icao \<Longrightarrow> n \<noteq> m"
    using Some e assms(1,2) entries_apart(1) [of "markers s" icao m p j n q] by (auto simp: entries_ok_def)
  moreover have "j = icao \<Longrightarrow> n = m" using Some e assms(1) by simp
  ultimately have "j = icao \<longleftrightarrow> n = m" by blast
  then show ?thesis using Some e assms(3) by (auto simp: update_marker_def Let_def)
qed

lemma update_marker_entry: "map_of (markers s) i = Some e \<Longrightarrow> map_of (markers (update_marker E j a s)) i = Some e"
  by (auto simp: update_marker_def Let_def map_of_append map_add_def split: option.splits)

lemma update_loop_entry:
  "map_of (markers s) i = Some e \<Longrightarrow> map_of (markers (snd (update_loop E reg cur s))) i = Some e"
  by (induction E reg cur s rule: update_loop.induct) (simp_all add: update_marker_entry)

lemma map_of_filter_in: "i \<in> K \<Longrightarrow> map_of (filter (\<lambda>e. fst e \<in> K) ms) i = map_of ms i"
  by (induction ms) auto

lemma update_aircrafts_entry:
  "map_of (markers s) i = Some e \<Longrightarrow> i \<in> fst ` set reg \<Longrightarrow>
   map_of (markers (update_aircrafts E events reg s)) i = Some e"
  by (simp add: update_aircrafts_markers map_of_filter_in update_loop_entry)

lemma update_loop_handler_count:
  assumes "map_of (markers s) icao = Some (m, p)" "entries_ok s" "ev \<in> popup_events" "distinct (map fst reg)"
  shows "length (handlers ev m (calls (snd (update_loop E reg cur s)))) = length (handlers ev m (calls s))
     + (if icao \<in> fst ` {(i, a) \<in> set reg. positions a \<noteq> []} then 1 else 0)"
  using assms
proof (induction E reg cur s rule: update_loop.induct)
  case (2 E j b rest cur s)
  have "icao \<in> fst ` {(i, a) \<in> set ((j, b) # rest). positions a \<noteq> []} \<longleftrightarrow>
      (j = icao \<and> positions b \<noteq> []) \<or> icao \<in> fst ` {(i, a) \<in> set rest. positions a \<noteq> []}" by force
  moreover have "j = icao \<Longrightarrow> icao \<notin> fst ` {(i, a) \<in> set rest. positions a \<noteq> []}" using 2(6) by force
  ultimately show ?case
    using 2 update_marker_handler_count [OF 2(3-5), of E j b] update_marker_entry [OF 2(3)] update_marker_entries [OF 2(4)]
    by auto
qed simp

lemma update_aircrafts_calls:
  "handlers ev m (calls (update_aircrafts E events reg s)) = handlers ev m (calls (snd (update_loop E reg [] s)))"
  by (simp add: update_aircrafts_def Let_def map_events_keep remove_loop_calls split: prod.split)

lemma updates_keep_entry:
  assumes "map_of (markers s) icao = Some (m, p)" "entries_ok s" "icao \<in> fst ` set reg"
  shows "map_of (markers ((update_aircrafts E events reg ^^ n) s)) icao = Some (m, p)
    \<and> entries_ok ((update_aircrafts E events reg ^^ n) s)"
proof (induction n)
  case (Suc n)
  then show ?case using assms(3) any_layers.update_aircrafts_tracked
    by (simp add: update_aircrafts_entry tracked_def)
qed (simp add: assms)

text \<open>
  Property C38. Every update of a known aircraft adds one more listener of each kind to its marker, and none
  is ever removed: their number grows with the running time of the page.
\<close>

theorem popup_listeners_accumulate:
  assumes "entries_ok s" "map_of (markers s) icao = Some (m, p)" "distinct (map fst reg)"
    and "(icao, a) \<in> set reg" "positions a \<noteq> []" "ev \<in> popup_events"
  shows "length (handlers ev m (calls ((update_aircrafts E events reg ^^ n) s))) = length (handlers ev m (calls s)) + n"
proof (induction n)
  case (Suc n)
  have "icao \<in> fst ` {(i, a) \<in> set reg. positions a \<noteq> []}" "icao \<in> fst ` set reg" using assms(4,5) by force+
  moreover note updates_keep_entry [OF assms(2,1), where reg = reg and E = E and events = events and n = n]
  ultimately show ?case
    using Suc update_loop_handler_count [OF _ _ assms(6,3), where s = "(update_aircrafts E events reg ^^ n) s" and icao = icao
        and m = m and p = p and E = E and cur = "[]"]
    by (simp add: update_aircrafts_calls)
qed simp

theorem popup_listeners_accumulate_witness:
  "length (handlers ''popupopen'' 0 (calls ((update_aircrafts sample_format [] [(js ''4a'', sample_aircraft)] ^^ 100)
     (map_state0\<lparr>markers := [(js ''4a'', 0, 1)], next_layer := 2\<rparr>)))) = 100"
  using popup_listeners_accumulate [where s = "map_state0\<lparr>markers := [(js ''4a'', 0, 1)], next_layer := 2\<rparr>"
      and icao = "js ''4a''" and m = 0 and p = 1 and reg = "[(js ''4a'', sample_aircraft)]" and a = sample_aircraft
      and ev = "''popupopen''" and E = sample_format and events = "[]" and n = 100]
  by (simp add: entries_ok_def map_state0_def sample_aircraft_def)

text \<open>
  Property C39. Suppose that the page has known no tracker so far, waits for the flow graph and has no other
  request outstanding, as after its first poll. When the receiver then answers with a flow graph that has no
  tracker block, the page never asks again: it stays in the connected state for ever, without a request,
  whatever happens afterwards.
\<close>

theorem no_tracker_never_recovers:
  assumes "fg_requests s = 1" "aircraft_requests s = 0" "tracker_block s = None"
    and "\<forall>(block, type_name) \<in> set blocks. type_name \<noteq> js ''Tracker''"
    and "(map_step E)\<^sup>*\<^sup>* (fg_arrives blocks s) t"
  shows "poll_state t = 2 \<and> tracker_block t = None \<and> fg_requests t = 0 \<and> aircraft_requests t = 0"
proof -
  have "find_tracker blocks None = None" using assms(4) unfolding find_tracker_def
    by (induction blocks) auto
  then have "stuck (fg_arrives blocks s)" using assms(1-3) by (simp add: stuck_def fg_arrives_def emit_def)
  then show ?thesis using stuck_forever [OF assms(5)] by (simp add: stuck_def)
qed

theorem no_tracker_never_recovers_witness:
  "poll_state (aircraft_poll (fg_arrives [(3, js ''Sink'')] (initialize_aircraft_poll (window_onload map_state0)))) = 2"
proof -
  let ?s = "initialize_aircraft_poll (window_onload map_state0)"
  let ?t = "fg_arrives [(3, js ''Sink'')] ?s"
  have "(map_step sample_format)\<^sup>*\<^sup>* ?t (aircraft_poll ?t)"
    by (rule r_into_rtranclp, rule tick) (simp add: page_defs)
  then show ?thesis
    using no_tracker_never_recovers [of ?s "[(3, js ''Sink'')]" sample_format "aircraft_poll ?t"]
    by (simp add: page_defs js_def)
qed

lemma update_loop_known:
  "fst ` set reg \<subseteq> fst ` set (markers s) \<Longrightarrow> on_map (snd (update_loop E reg cur s)) = on_map s"
proof (induction E reg cur s rule: update_loop.induct)
  case (2 E icao a rest cur s)
  then obtain e where "map_of (markers s) icao = Some e"
    by (metis (no_types, opaque_lifting) fst_conv image_insert insert_subset list.set(2) map_of_eq_None_iff option.exhaust)
  then show ?case using 2 by (auto simp: update_known_not_added update_marker_keys)
qed simp

lemma remove_loop_shrinks: "on_map (remove_loop known ms s) \<subseteq> on_map s"
  by (induction known ms s rule: remove_loop.induct) (auto simp: on_map_emit)

text \<open>
  Property C40. After a reconnection the aircraft that were known before are not shown any more: the map
  has been cleared, and an update whose register lists known aircraft only puts no layer back.
\<close>

theorem reconnect_hides_known_aircraft:
  assumes "markers_group s" "fst ` set reg \<subseteq> fst ` set (markers s)"
  shows "on_map (update_aircrafts E events reg (fg_arrives blocks s)) = {}"
proof -
  let ?s = "fg_arrives blocks s"
  obtain cur s1 where s1: "update_loop E reg [] ?s = (cur, s1)" by (cases "update_loop E reg [] ?s")
  have "on_map s1 = {}"
    using update_loop_known [of reg ?s E "[]"] assms s1 by (simp add: fg_arrives_clears)
  then have "on_map (remove_loop (map fst reg) (for_in (markers s1)) s1) = {}"
    using remove_loop_shrinks [of "map fst reg" "for_in (markers s1)" s1] by simp
  then show ?thesis using s1 by (simp add: update_aircrafts_def Let_def on_map_def map_events_keep emit_def)
qed

theorem reconnect_hides_known_aircraft_witness:
  "on_map (update_aircrafts sample_format [] [(js ''4a'', sample_aircraft)]
     (fg_arrives [] (map_state0\<lparr>markers_group := True, markers := [(js ''4a'', 0, 1)]\<rparr>))) = {}"
  by (rule reconnect_hides_known_aircraft) simp_all

end
