(* ===== verification/Adsb_Picture.thy ===== *)
theory Adsb_Picture
  imports Adsb_Page
begin

text \<open>
  What the user sees of the aircraft map, as an abstract specification: for each known aircraft the place of
  its marker, its trail, whether the two are shown and how bright the trail is. The script works with
  numbered layers and a sequence of calls of Leaflet; \<open>picture\<close> reads the abstract state off it. An update of
  the script is exactly one redrawing of the picture, and every run of the page is a run of the
  specification, so that what holds of all pictures holds of the page.
\<close>

section \<open>Pictures\<close>

record view =
  spot :: "latlng option"
  trail :: "latlng list option"
  shown :: "bool \<times> bool"
  bright :: "rat option"

type_synonym picture = "js_string \<rightharpoonup> view"

definition view_of :: "map_state \<Rightarrow> nat \<times> nat \<Rightarrow> view" where
  "view_of s e = (case e of (m, p) \<Rightarrow>
     \<lparr>spot = marker_pos s m, trail = path_of s p, shown = (m \<in> on_map s, p \<in> on_map s), bright = opacity s p\<rparr>)"

definition picture :: "map_state \<Rightarrow> picture" where
  "picture s icao = map_option (view_of s) (map_of (markers s) icao)"

text \<open>Drawing one aircraft: what was there keeps its visibility and brightness, a new one is shown, dimmed.\<close>

definition drawn_view :: "aircraft \<Rightarrow> view option \<Rightarrow> view" where
  "drawn_view a old =
     (let ps = map latlng_of (positions a) in
      case old of
        Some v \<Rightarrow> v\<lparr>spot := Some (last ps), trail := Some ps\<rparr>
      | None \<Rightarrow> \<lparr>spot = Some (last ps), trail = Some ps, shown = (True, True), bright = Some (1 / 5)\<rparr>)"

definition draw :: "js_string \<Rightarrow> aircraft \<Rightarrow> picture \<Rightarrow> picture" where
  "draw icao a P = P(icao \<mapsto> drawn_view a (P icao))"

text \<open>A register: aircraft that it does not list disappear, those without a position stay as they are.\<close>

definition redraw :: "register \<Rightarrow> picture \<Rightarrow> picture" where
  "redraw reg P = (\<lambda>icao.
     case map_of reg icao of
       None \<Rightarrow> None
     | Some a \<Rightarrow> if positions a = [] then P icao else Some (drawn_view a (P icao)))"

definition hide :: "picture \<Rightarrow> picture" where
  "hide P = (\<lambda>icao. map_option (\<lambda>v. v\<lparr>shown := (False, False)\<rparr>) (P icao))"

definition brighten :: "js_string \<Rightarrow> rat \<Rightarrow> picture \<Rightarrow> picture" where
  "brighten icao x P = P(icao := map_option (\<lambda>v. v\<lparr>bright := Some x\<rparr>) (P icao))"

inductive picture_step :: "picture \<Rightarrow> picture \<Rightarrow> bool" where
  redraws: "distinct (map fst reg) \<Longrightarrow> picture_step P (redraw reg P)"
| hides: "picture_step P (hide P)"
| brightens: "x \<in> {1, 1 / 5} \<Longrightarrow> picture_step P (brighten icao x P)"

section \<open>Drawing one aircraft\<close>

lemma view_of_cong:
  "marker_pos s = marker_pos t \<Longrightarrow> path_of s = path_of t \<Longrightarrow> on_map s = on_map t \<Longrightarrow> opacity s = opacity t \<Longrightarrow>
   view_of s = view_of t"
  by (simp add: view_of_def fun_eq_iff)

lemma opacity_cong [simp]:
  "opacity (s\<lparr>markers := m\<rparr>) = opacity s" "opacity (s\<lparr>next_layer := n\<rparr>) = opacity s"
  by (simp_all add: opacity_def)

lemmas view_emit = drawn_emit on_map_emit opacity_emit

lemma picture_new_marker:
  assumes "entries_ok s" "positions a \<noteq> []" "map_of (markers s) icao = None"
  shows "picture (update_marker E icao a s) = draw icao a (picture s)"
proof
  fix j
  show "picture (update_marker E icao a s) j = draw icao a (picture s) j"
  proof (cases "j = icao")
    case True
    then show ?thesis using assms(2,3)
      by (simp add: picture_def draw_def drawn_view_def view_of_def update_marker_def Let_def view_emit
          map_of_append map_add_def)
  next
    case other: False
    show ?thesis
    proof (cases "map_of (markers s) j")
      case None
      then show ?thesis using assms(3) other
        by (simp add: picture_def draw_def update_marker_def Let_def map_of_append map_add_def)
    next
      case (Some e)
      obtain n q where e: "e = (n, q)" by (cases e)
      then have "n < next_layer s" "q < next_layer s"
        using entry_ids [of "markers s" j n q] Some assms(1) by (auto simp: entries_ok_def)
      then show ?thesis using Some e assms(3) other
        by (simp add: picture_def draw_def view_of_def update_marker_def Let_def view_emit map_of_append map_add_def)
    qed
  qed
qed

lemma picture_known_marker:
  assumes "entries_ok s" "positions a \<noteq> []" "map_of (markers s) icao = Some (m, p)"
  shows "picture (update_marker E icao a s) = draw icao a (picture s)"
proof
  fix j
  show "picture (update_marker E icao a s) j = draw icao a (picture s) j"
  proof (cases "j = icao")
    case True
    then show ?thesis using assms(2,3)
      by (simp add: picture_def draw_def drawn_view_def view_of_def update_marker_def Let_def view_emit)
  next
    case other: False
    show ?thesis
    proof (cases "map_of (markers s) j")
      case None
      then show ?thesis using assms(3) other by (simp add: picture_def draw_def update_marker_def Let_def)
    next
      case (Some e)
      obtain n q where e: "e = (n, q)" by (cases e)
      then have "n \<noteq> m" "q \<noteq> p"
        using entries_apart [of "markers s" j n q icao m p] Some assms(1,3) other by (auto simp: entries_ok_def)
      then show ?thesis using Some e assms(3) other
        by (simp add: picture_def draw_def view_of_def update_marker_def Let_def view_emit)
    qed
  qed
qed

lemma picture_update_marker:
  assumes "entries_ok s" "positions a \<noteq> []"
  shows "picture (update_marker E icao a s) = draw icao a (picture s)"
  using picture_new_marker [OF assms] picture_known_marker [OF assms]
  by (cases "map_of (markers s) icao") auto

section \<open>The two loops\<close>

definition draw_all :: "register \<Rightarrow> picture \<Rightarrow> picture" where
  "draw_all reg P = (\<lambda>icao.
     case map_of reg icao of
       None \<Rightarrow> P icao
     | Some a \<Rightarrow> if positions a = [] then P icao else Some (drawn_view a (P icao)))"

lemma draw_all_Cons:
  assumes "icao \<notin> fst ` set rest"
  shows "draw_all ((icao, a) # rest) P = draw_all rest (if positions a = [] then P else draw icao a P)"
proof -
  have "map_of rest icao = None" using assms by (simp add: map_of_eq_None_iff)
  then show ?thesis by (auto simp: draw_all_def draw_def fun_eq_iff split: option.splits)
qed

lemma picture_update_loop:
  assumes "entries_ok s" "distinct (map fst reg)"
  shows "picture (snd (update_loop E reg cur s)) = draw_all reg (picture s)"
  using assms
proof (induction E reg cur s rule: update_loop.induct)
  case (2 E icao a rest cur s)
  then show ?case
    by (cases "positions a = []") (simp_all add: draw_all_Cons picture_update_marker update_marker_entries)
qed (simp add: draw_all_def)

lemma picture_remove_one:
  assumes "entries_ok s" "(icao, m, p) \<in> set (markers s)"
  shows "picture ((emit [RemoveLayer m, RemoveLayer p] s)\<lparr>markers := filter (\<lambda>e. fst e \<noteq> icao) (markers s)\<rparr>) =
    (picture s)(icao := None)"
proof
  fix j
  let ?t = "(emit [RemoveLayer m, RemoveLayer p] s)\<lparr>markers := filter (\<lambda>e. fst e \<noteq> icao) (markers s)\<rparr>"
  show "picture ?t j = ((picture s)(icao := None)) j"
  proof (cases "j = icao")
    case True
    then have "map_of (markers ?t) j = None" by (auto simp: map_of_eq_None_iff)
    then show ?thesis using True by (simp add: picture_def)
  next
    case other: False
    then have t: "map_of (markers ?t) j = map_of (markers s) j" by (simp add: map_of_filter_other)
    show ?thesis
    proof (cases "map_of (markers s) j")
      case None
      then show ?thesis using t other by (simp add: picture_def)
    next
      case (Some e)
      obtain n q where e: "e = (n, q)" by (cases e)
      have "map_of (markers s) icao = Some (m, p)" using assms by (simp add: entries_ok_def)
      then have "n \<noteq> m" "n \<noteq> p" "q \<noteq> m" "q \<noteq> p"
        using entries_apart [of "markers s" j n q icao m p] Some e assms(1) other by (auto simp: entries_ok_def)
      then show ?thesis using Some e t other by (simp add: picture_def view_of_def view_emit)
    qed
  qed
qed

lemma remove_one_entries:
  "entries_ok s \<Longrightarrow> (icao, m, p) \<in> set (markers s) \<Longrightarrow>
   entries_ok ((emit [RemoveLayer m, RemoveLayer p] s)\<lparr>markers := filter (\<lambda>e. fst e \<noteq> icao) (markers s)\<rparr>)"
  using any_layers.remove_one_tracked [of s icao m p] by (simp add: tracked_def)

lemma picture_remove_loop:
  assumes "entries_ok s" "set ms \<subseteq> set (markers s)" "distinct (map fst ms)"
  shows "picture (remove_loop known ms s) =
    (\<lambda>j. if j \<in> fst ` set ms \<and> j \<notin> set known then None else picture s j)"
  using assms
proof (induction known ms s rule: remove_loop.induct)
  case (2 known icao m p rest s)
  let ?t = "(emit [RemoveLayer m, RemoveLayer p] s)\<lparr>markers := filter (\<lambda>e. fst e \<noteq> icao) (markers s)\<rparr>"
  have e: "(icao, m, p) \<in> set (markers s)" using 2(3) by simp
  have "icao \<notin> fst ` set rest" using 2(4) by simp
  then have "set rest \<subseteq> set (markers ?t)" using 2(3) by force
  then have new: "picture (remove_loop known rest ?t) =
      (\<lambda>j. if j \<in> fst ` set rest \<and> j \<notin> set known then None else picture ?t j)" if "icao \<notin> set known"
    using that 2(1) 2(4) remove_one_entries [OF 2(2) e] by simp
  show ?case
  proof (cases "icao \<in> set known")
    case True
    then have "picture (remove_loop known rest s) = (\<lambda>j. if j \<in> fst ` set rest \<and> j \<notin> set known then None else picture s j)"
      using 2 by simp
    then show ?thesis using True by (simp add: fun_eq_iff)
  next
    case False
    then show ?thesis using new picture_remove_one [OF 2(2) e] by (simp add: fun_eq_iff)
  qed
qed auto

lemma picture_remove_all:
  assumes "entries_ok s"
  shows "picture (remove_loop known (for_in (markers s)) s) = (\<lambda>j. if j \<in> set known then picture s j else None)"
proof -
  have "picture s j = None" if "j \<notin> fst ` set (markers s)" for j
    using that by (simp add: picture_def map_of_eq_None_iff)
  then show ?thesis using picture_remove_loop [OF assms, of "for_in (markers s)" known] assms
    by (auto simp: fun_eq_iff entries_ok_def distinct_for_in)
qed

text \<open>An update of the script is one redrawing of the picture.\<close>

lemma picture_cong: "markers s = markers t \<Longrightarrow> view_of s = view_of t \<Longrightarrow> picture s = picture t"
  by (rule ext) (simp add: picture_def)

lemma picture_same_calls: "markers s = markers t \<Longrightarrow> calls s = calls t \<Longrightarrow> picture s = picture t"
  by (intro picture_cong view_of_cong) (simp_all add: marker_pos_def path_of_def on_map_def opacity_def)

lemma picture_fly: "picture (emit [FlyToBounds ps] s) = picture s"
  by (intro picture_cong view_of_cong) (simp_all add: view_emit)

lemma redraw_alt: "redraw reg P = (\<lambda>j. if j \<in> fst ` set reg then draw_all reg P j else None)"
proof -
  have "j \<in> fst ` set reg \<longleftrightarrow> map_of reg j \<noteq> None" for j by (simp add: map_of_eq_None_iff)
  then show ?thesis by (auto simp: redraw_def draw_all_def fun_eq_iff split: option.splits)
qed

lemma picture_update_aircrafts:
  assumes "entries_ok s" "distinct (map fst reg)"
  shows "picture (update_aircrafts E events reg s) = redraw reg (picture s)"
proof -
  obtain cur s1 where s1: "update_loop E reg [] s = (cur, s1)" by (cases "update_loop E reg [] s")
  let ?s2 = "remove_loop (map fst reg) (for_in (markers s1)) s1"
  have "entries_ok s1"
    using any_layers.update_loop_tracked [of s E reg "[]"] assms(1) s1 by (simp add: tracked_def)
  then have "picture ?s2 = (\<lambda>j. if j \<in> fst ` set reg then draw_all reg (picture s) j else None)"
    using picture_update_loop [OF assms, of E "[]"] picture_remove_all [of s1 "map fst reg"] s1
    by (simp cong: if_cong)
  then have p: "picture ?s2 = redraw reg (picture s)" by (simp add: redraw_alt)
  let ?f = "emit [FlyToBounds cur] (?s2\<lparr>autozoom_in_progress := True\<rparr>)"
  have "picture ((fold on_map_event events ?f)\<lparr>autozoom_in_progress := False\<rparr>) = picture ?f"
    by (rule picture_same_calls) (simp_all add: map_events_keep)
  also have "\<dots> = picture (?s2\<lparr>autozoom_in_progress := True\<rparr>)" by (rule picture_fly)
  also have "\<dots> = picture ?s2" by (rule picture_same_calls) simp_all
  finally show ?thesis using s1 p by (simp add: update_aircrafts_def Let_def)
qed

section \<open>Every run of the page is a run of the specification\<close>

lemma picture_no_layers:
  assumes "on_map (emit cs s) = on_map s" "marker_pos (emit cs s) = marker_pos s" "path_of (emit cs s) = path_of s"
    "opacity (emit cs s) = opacity s"
  shows "picture (emit cs s) = picture s"
  using assms by (intro picture_cong view_of_cong) simp_all

lemma picture_setup:
  "picture (window_onload s) = picture s" "picture (initialize_aircraft_poll s) = picture s"
  "picture (aircraft_poll s) = picture s"
proof -
  have e: "picture (emit [MapOn ''zoomstart'', MapOn ''dragstart''] s) = picture s"
    "picture (emit [SetInterval n] s') = picture s'" for n s'
    by (rule picture_no_layers; simp add: view_emit)+
  have p: "picture (aircraft_poll s') = picture s'" for s'
    by (rule picture_same_calls) (simp_all add: aircraft_poll_keeps)
  then show "picture (aircraft_poll s) = picture s" .
  let ?u = "emit [MapOn ''zoomstart'', MapOn ''dragstart''] s"
  have "picture (?u\<lparr>poll_state := 1\<rparr>) = picture ?u" by (rule picture_same_calls) simp_all
  then show "picture (initialize_aircraft_poll s) = picture s"
    using e p by (simp add: initialize_aircraft_poll_def Let_def)
  have "picture (window_onload s) = picture (emit [NewMap, Locate 10, MapOn ''locationfound'', MapOn ''locationerror'',
            TileLayer ''https://tile.openstreetmap.org/{z}/{x}/{y}.png'' 19, LayerGroup] s)"
    by (rule picture_same_calls) (simp_all add: window_onload_def)
  also have "\<dots> = picture s" by (rule picture_no_layers; simp add: view_emit)
  finally show "picture (window_onload s) = picture s" .
qed

lemma picture_clear: "picture (emit [ClearLayers] s) = hide (picture s)"
proof
  fix j
  show "picture (emit [ClearLayers] s) j = hide (picture s) j"
    by (cases "map_of (markers s) j") (auto simp: picture_def hide_def view_of_def view_emit split: prod.splits)
qed

lemma picture_fg_arrives:
  "picture (fg_arrives blocks s) = (if markers_group s then hide (picture s) else picture s)"
proof -
  have "picture (fg_arrives blocks s) = picture (if markers_group s then emit [ClearLayers] s else s)"
    by (rule picture_same_calls) (simp_all add: fg_arrives_def)
  then show ?thesis by (simp add: picture_clear)
qed

lemma picture_brighten:
  assumes "entries_ok s" "map_of (markers s) icao = Some (m, p)"
  shows "picture (emit [SetStyle p x] s) = brighten icao x (picture s)"
proof
  fix j
  show "picture (emit [SetStyle p x] s) j = brighten icao x (picture s) j"
  proof (cases "j = icao")
    case True
    then show ?thesis using assms(2) by (simp add: picture_def brighten_def view_of_def view_emit)
  next
    case other: False
    show ?thesis
    proof (cases "map_of (markers s) j")
      case (Some e)
      obtain n q where e: "e = (n, q)" by (cases e)
      then have "q \<noteq> p"
        using entries_apart(4) [of "markers s" j n q icao m p] Some assms other by (auto simp: entries_ok_def)
      then show ?thesis using Some e other by (simp add: picture_def brighten_def view_of_def view_emit)
    qed (simp add: picture_def brighten_def other)
  qed
qed

lemma picture_run_handlers:
  "entries_ok s \<Longrightarrow> picture_step\<^sup>*\<^sup>* (picture s) (picture (run_handlers ev hs s))"
proof (induction ev hs s rule: run_handlers.induct)
  case (2 ev icao rest s)
  show ?case
  proof (cases "map_of (markers s) icao")
    case None
    then have "picture (run_handlers ev (icao # rest) s) = picture s"
      by (intro picture_same_calls) simp_all
    then show ?thesis by simp
  next
    case (Some e)
    obtain m p where e: "e = (m, p)" by (cases e)
    let ?t = "emit [SetStyle p (popup_opacity ev)] s"
    have "entries_ok ?t" using 2 by (simp add: entries_ok_def)
    then have "picture_step\<^sup>*\<^sup>* (picture ?t) (picture (run_handlers ev rest ?t))" using 2 Some e by blast
    moreover have "picture ?t = brighten icao (popup_opacity ev) (picture s)"
      using picture_brighten [of s icao m p] 2 Some e by blast
    moreover have "popup_opacity ev \<in> {1, 1 / 5}" by (simp add: popup_opacity_def)
    moreover have "picture_step (picture s) (brighten icao (popup_opacity ev) (picture s))"
      by (rule brightens) fact
    ultimately show ?thesis using Some e by (simp add: converse_rtranclp_into_rtranclp)
  qed
qed simp

lemma map_step_simulated:
  "map_step E s t \<Longrightarrow> entries_ok s \<Longrightarrow> picture_step\<^sup>*\<^sup>* (picture s) (picture t)"
proof (induction rule: map_step.induct)
  case (fg_ok s blocks)
  then show ?case by (auto simp: picture_fg_arrives intro: hides)
next
  case (fg_bad s)
  have "picture (fg_fails s) = picture s" by (rule picture_same_calls) (simp_all add: fg_fails_def)
  then show ?case by simp
next
  case (register_ok s reg events)
  let ?s = "s\<lparr>aircraft_requests := aircraft_requests s - 1\<rparr>"
  have "picture ?s = picture s" by (rule picture_same_calls) simp_all
  moreover have "entries_ok ?s" using register_ok by (simp add: entries_ok_def)
  ultimately have "picture (aircrafts_arrive E events reg s) = redraw reg (picture s)"
    using picture_update_aircrafts [of ?s reg E events] register_ok by (simp add: aircrafts_arrive_def)
  then show ?case using redraws [OF register_ok(2)] by auto
next
  case (register_bad s)
  have "picture (aircrafts_fail s) = picture s" by (rule picture_same_calls) (simp_all add: aircrafts_fail_def)
  then show ?case by simp
next
  case (user_event s e)
  have "picture (on_map_event e s) = picture s" by (rule picture_same_calls) simp_all
  then show ?case by simp
next
  case (popup m s ev)
  then show ?case by (simp add: popup_event_def picture_run_handlers)
qed (simp_all add: picture_setup)

lemma page_simulated: "(map_step E)\<^sup>*\<^sup>* map_state0 s \<Longrightarrow> picture_step\<^sup>*\<^sup>* Map.empty (picture s)"
proof (induction rule: rtranclp_induct)
  case base
  have "picture map_state0 = Map.empty" by (simp add: picture_def map_state0_def fun_eq_iff)
  then show ?case by simp
next
  case (step s t)
  have "entries_ok s" using map_reach_tracked [OF step.hyps(1)] by (simp add: tracked_def)
  then show ?case using step map_step_simulated by (meson rtranclp_trans)
qed

section \<open>What holds of every picture\<close>

definition view_ok :: "view \<Rightarrow> bool" where
  "view_ok v \<longleftrightarrow> (\<exists>ps. ps \<noteq> [] \<and> trail v = Some ps \<and> spot v = Some (last ps)) \<and> fst (shown v) = snd (shown v)
     \<and> bright v \<in> {Some 1, Some (1 / 5)}"

definition picture_ok :: "picture \<Rightarrow> bool" where
  "picture_ok P \<longleftrightarrow> (\<forall>icao v. P icao = Some v \<longrightarrow> view_ok v)"

lemma drawn_view_ok: "positions a \<noteq> [] \<Longrightarrow> (\<And>v. old = Some v \<Longrightarrow> view_ok v) \<Longrightarrow> view_ok (drawn_view a old)"
  by (auto simp: drawn_view_def view_ok_def Let_def split: option.split)

lemma picture_step_ok: "picture_step P Q \<Longrightarrow> picture_ok P \<Longrightarrow> picture_ok Q"
proof (induction rule: picture_step.induct)
  case (redraws reg P)
  show ?case unfolding picture_ok_def
  proof (intro allI impI)
    fix icao v assume v: "redraw reg P icao = Some v"
    then obtain a where a: "map_of reg icao = Some a" by (auto simp: redraw_def split: option.splits)
    show "view_ok v"
    proof (cases "positions a = []")
      case True
      then show ?thesis using v a redraws(2) by (simp add: redraw_def picture_ok_def)
    next
      case False
      then have "v = drawn_view a (P icao)" using v a by (simp add: redraw_def)
      then show ?thesis using drawn_view_ok [OF False] redraws(2) by (auto simp: picture_ok_def)
    qed
  qed
next
  case (hides P)
  then show ?case by (fastforce simp: picture_ok_def hide_def view_ok_def)
next
  case (brightens x P icao)
  then show ?case by (auto simp: picture_ok_def brighten_def view_ok_def split: if_splits)
qed

lemma picture_run_ok: "picture_step\<^sup>*\<^sup>* P Q \<Longrightarrow> picture_ok P \<Longrightarrow> picture_ok Q"
  by (induction rule: rtranclp_induct) (auto intro: picture_step_ok)

section \<open>Properties\<close>

text \<open>
  Property C4. An update of the map implements the specification: whatever layers and calls it takes, what
  is seen afterwards is the picture seen before with the register drawn into it. Aircraft that are not
  listed disappear, listed ones without a position stay, the others move to their last position, and a new
  one appears, dimmed.
\<close>

theorem update_refines_redraw:
  assumes "entries_ok s" "distinct (map fst reg)"
  shows "picture (update_aircrafts E events reg s) = redraw reg (picture s)"
  using picture_update_aircrafts [OF assms] .

theorem update_refines_redraw_witness:
  "picture (update_aircrafts sample_format [Zoomstart] [(js ''4a'', sample_aircraft)] sample_page)
     = redraw [(js ''4a'', sample_aircraft)] (picture sample_page)
   \<and> redraw [(js ''4a'', sample_aircraft)] (picture sample_page) (js ''4b'') = None"
proof -
  have "entries_ok sample_page" using map_reach_tracked [OF sample_page_reached] by (simp add: tracked_def)
  then show ?thesis
    using update_refines_redraw [of sample_page "[(js ''4a'', sample_aircraft)]"] by (simp add: redraw_def js_def)
qed

text \<open>
  Property C25. Every run of the page is a run of the specification, and in every reachable state the
  picture is consistent: the marker of an aircraft stands at the end of its trail, marker and trail are
  shown or hidden together, and a trail is either dimmed or highlighted.
\<close>

theorem page_shows_consistent_picture:
  assumes "(map_step E)\<^sup>*\<^sup>* map_state0 s"
  shows "picture_step\<^sup>*\<^sup>* Map.empty (picture s) \<and> (\<forall>icao v. picture s icao = Some v \<longrightarrow> view_ok v)"
proof -
  have "picture_ok Map.empty" by (simp add: picture_ok_def)
  then show ?thesis using page_simulated [OF assms] picture_run_ok unfolding picture_ok_def by blast
qed

theorem page_shows_consistent_picture_witness:
  "\<exists>v. picture sample_page (js ''4a'') = Some v \<and> view_ok v"
proof -
  obtain v where "picture sample_page (js ''4a'') = Some v" by (simp add: picture_def sample_page_markers)
  then show ?thesis using page_shows_consistent_picture [OF sample_page_reached] by blast
qed

end
