(* ===== verification/Spec2Isabelle.thy ===== *)
theory Spec2Isabelle
  imports
    Init_Overlap
    Audio_Setup
    Rattlegram_System
    Adsb_Picture
    Rotated_Marker
begin

text \<open>
  The JavaScript of the FutureSDR repository: what runs in the browser when one of its web examples is
  opened. FutureSDR is a runtime for software-defined radio, written in Rust; its examples compile parts of
  it to WebAssembly, and the scripts modelled here connect these modules, the browser and the receiver.

  \<^bold>\<open>The parts of the program and their theories.\<close>

  \<^item> \<^verbatim>\<open>src/examples/rattlegram/assets/text-encoder.js\<close>: a UTF-8 codec for the audio worklet, where the browser
    has none. Theory \<^verbatim>\<open>Text_Codec\<close>: one function per loop of the script (\<open>encode_loop\<close>, \<open>encode_trail\<close>,
    \<open>decode_loop\<close>, \<open>decode_trail\<close>), with the operators of the language at 32 bits. The locale \<open>text_codec\<close> states
    what the glue needs of a codec; it is interpreted on this one and on a model of the browser's.

  \<^item> The glue that wasm-bindgen generated for seven modules: \<^verbatim>\<open>src/examples/rattlegram/worklet/wasm-decoder.js\<close>,
    \<^verbatim>\<open>src/crates/prophecy/dist/prophecy-e16c97ecc1556028.js\<close>, \<^verbatim>\<open>src/examples/spectrum/dist\<close>, \<^verbatim>\<open>wlan/dist\<close>, \<^verbatim>\<open>wlan_debug/dist\<close>,
    \<^verbatim>\<open>wlan-swap/dist\<close> (\<^verbatim>\<open>frontend-*.js\<close>) and \<^verbatim>\<open>wgpu/dist/loopback-65daf9cf8bd0f5a7.js\<close>. Their common functions are modelled
    once: \<^verbatim>\<open>Wasm_Runtime\<close> (views of the memory, strings, the reference table, exceptions), \<^verbatim>\<open>Js_Interop\<close> (the
    expressions the import functions consist of), \<^verbatim>\<open>Debug_String\<close> (\<^verbatim>\<open>debugString\<close>), \<^verbatim>\<open>Closures\<close> (\<^verbatim>\<open>makeMutClosure\<close> in its two
    forms), \<^verbatim>\<open>Wbg_Objects\<close> (the classes over Rust values), \<^verbatim>\<open>Wasm_Init\<close> (loading and initialising, in three
    generations). \<^verbatim>\<open>Glue_Modules\<close> says for each module which views it caches, how it reads and passes strings, which
    form its closures have, the method tables of its stream classes, and its own \<^verbatim>\<open>__wbg_load\<close>,
    \<^verbatim>\<open>__wbg_finalize_init\<close>, \<^verbatim>\<open>initSync\<close> and \<^verbatim>\<open>__wbg_init\<close>; the locale \<open>glue_entry\<close> states what a page may rely on of the two
    entry points and is interpreted on all seven modules. \<^verbatim>\<open>Module_Laws\<close> proves what holds of every module.
    \<^verbatim>\<open>Init_Overlap\<close> models \<^verbatim>\<open>__wbg_init\<close> once more as a coroutine that is suspended at every \<^verbatim>\<open>await\<close>, and a page with
    any number of calls under way as a transition system; the locale \<open>init_calls\<close> states what such a page
    relies on and is interpreted on all seven modules. The
    import objects are modelled per module: \<^verbatim>\<open>Prophecy_Imports\<close>, \<^verbatim>\<open>Spectrum_Imports\<close>,
    \<^verbatim>\<open>Wlan_Swap_Imports\<close>, \<^verbatim>\<open>Wlan_Imports\<close>, \<^verbatim>\<open>Wlan_Debug_Imports\<close> and \<^verbatim>\<open>Wgpu_Imports\<close> hold every import function,
    adapter and enumeration of their module, over the kinds of imports of \<^verbatim>\<open>Import_Table\<close>; \<^verbatim>\<open>Rattlegram_Decoder\<close>
    holds the classes and imports of \<^verbatim>\<open>wasm-decoder.js\<close>.

  \<^item> The rattlegram worklet: \<^verbatim>\<open>decoder-node.js\<close>, \<^verbatim>\<open>decoder-processor.js\<close> and \<^verbatim>\<open>setup-decoder.js\<close> under
    \<^verbatim>\<open>src/examples/rattlegram/assets\<close>. Theory \<^verbatim>\<open>Rattlegram_Worklet\<close>: the two ends of the message port as a transition
    system over every order of deliveries. The decoder's constructor, the console and the
    message setter may throw. \<^verbatim>\<open>Audio_Setup\<close>: the set-up of the audio graph with its errors, and the making and
    \<^verbatim>\<open>init\<close> of the \<^verbatim>\<open>DecoderNode\<close>. \<^verbatim>\<open>Rattlegram_System\<close>
    composes it with the glue of the decoder: loading, making the decoder and processing samples run the
    functions of \<^verbatim>\<open>Rattlegram_Decoder\<close>, and the composed system refines the worklet.

  \<^item> The ADS-B map: \<^verbatim>\<open>script.js\<close> and \<^verbatim>\<open>leaflet.rotatedMarker.js\<close> under \<^verbatim>\<open>src/examples/adsb/dist\<close>. Theories \<^verbatim>\<open>Adsb_Map\<close>
    (\<^verbatim>\<open>update_aircrafts\<close> and what it draws), \<^verbatim>\<open>Adsb_Page\<close> (set-up, polling and popups as a transition system),
    \<^verbatim>\<open>Adsb_Picture\<close> (what the user sees, as an abstract specification that the page refines) and
    \<^verbatim>\<open>Rotated_Marker\<close>.

  \<^bold>\<open>How the code is modelled.\<close> A statement is a function from the state to an outcome, a value or a thrown
  exception, and a new state; \<^verbatim>\<open>Js_Prelude\<close> has the combinators for sequence, \<^verbatim>\<open>try/catch\<close> and \<^verbatim>\<open>try/finally\<close>. The
  state \<open>js_state\<close> has the module-level variables of the glue, the memory and the reference table of the
  instance, the closures and the objects; a buffer has an identity, so that a view cached before the
  memory grew is stale. What is not in the repository is a parameter: the record \<open>js_env\<close> has the exports
  of the compiled module and the browser as functions on the whole state, since a call may re-enter the
  script. What the theorems need of them are named predicates: \<open>malloc_contract\<close> (a block inside the memory and
  outside a reserved range) and \<open>realloc_contract\<close> (a block that was handed out keeps its contents when it is
  resized; nothing is promised of other addresses), \<open>exn_contract\<close> (the reference table has
  a free slot), \<open>stack_contract\<close> (exports leave the stack pointer alone), \<open>host_frame\<close> (the browser does not touch the
  script's variable \<^verbatim>\<open>wasm\<close>), \<open>decoder_contract\<close> (an instance has exports, the constructor of the decoder
  returns a pointer, the console does not throw), \<open>has_exports\<close> (an instance has exports), \<open>error_objects\<close> (the
  message of an \<^verbatim>\<open>Error\<close> of the script is its text; other values may be thrown and may have any message or none) and
  \<open>recorded\<close> (the module logs its calls and leaves the wrapper objects alone). The environments of \<^verbatim>\<open>Sample_Env\<close> and their
  variants beside the theorems meet them; the witnesses run there. Calls of Leaflet are recorded in order; \<open>on_map\<close>,
  \<open>marker_pos\<close>, \<open>path_of\<close> and \<open>opacity\<close> read off the record what is on the map.

  \<^bold>\<open>What is proved.\<close> Strings survive the passage into the memory of a module and back, for every
  allocator, for both codecs and with the reader and the writer of each module; the codec computes UTF-8 and
  is a round trip on all strings. A Rust closure is released exactly once and never while it runs, over any
  nesting of calls, drops and finalization, in both forms; from the import that makes it to the shim that
  runs, each closure of each module has its destructor, its export and the arguments it hands on, written out
  row by row (\<open>prophecy_shims\<close> and its like). A typed array that a module makes is a range of a current view that the
  module keeps and lies inside its memory. A wrapped value is given back once; the methods of the stream classes
  are checked against tables of what each calls, passes and returns (\<open>byte_source_spec\<close>, \<open>sink_spec\<close>, \<open>source_spec\<close>),
  and over a whole life of an object the calls that reach the module are the trace of its class. No guarded import
  throws into a module, every string getter and every debug text fills the return slot, and no name occurs
  twice, in all six tables. A module is initialised once, without a view of an older memory; a failing
  initialisation can be tried again unless the start function failed. A call of \<^verbatim>\<open>__wbg_init\<close> settles after at
  most five resumptions, run alone it is the sequential function, and calls that overlap leave the module
  initialised, in every order of resumptions. \<^verbatim>\<open>debugString\<close> returns exactly on the
  values whose arrays are well-founded. The decoder gives the stack back on every path and over whole runs of
  the worklet, returns the text that the module left, and what reaches the page is what it returned, in
  order. The worklet makes a decoder only after the module is loaded, and its exchange of messages ends, with
  exactly one of a decoder, a failed load and a failed constructor. An update of the map is one redrawing of the picture the user sees, and
  every run of the page is a run of that specification; popups highlight the right path; the automatic zoom
  is left alone; rotations do not pile up. A failing set-up of the audio graph is
  reported with its cause, whatever was thrown. Six theorems state what goes wrong: a flow graph without a tracker, a reconnection,
  listeners of popups that pile up, an input without channels, a start function that fails, and two
  overlapping initialisations, of which the later one replaces the exports of the first by those of an instance
  it has started itself.

  \<^bold>\<open>Bounds.\<close> All functions are total; the loops of the codec terminate by a measure. Only \<open>debug_stack\<close> has fuel,
  the depth of the engine's call stack, and its theorem says for which values some depth is enough. Numbers
  that cross the boundary are integers with the conversion to 32 bits written out (\<open>to_uint32\<close>,
  \<open>to_int32\<close>), code units are 16-bit words and bytes 8-bit words. A number that is not an integer is its bit
  pattern in the glue and an exact rational in the map, where the script only prints it.

  \<^bold>\<open>Not modelled.\<close> The Rust sources (they appear as exports and as the HTTP interface), the minified mermaid
  library and the configuration files, which have no code. \<^verbatim>\<open>passStringToWasm0\<close> on a value that is neither a
  string nor missing is a parameter (\<open>pass_nonstring\<close>): browser properties of string type never give one.
  An \<^verbatim>\<open>await\<close> is one step of the host, except in \<^verbatim>\<open>Init_Overlap\<close>, where other code runs meanwhile. A page without \<^verbatim>\<open>TextEncoder\<close>, where the glue would throw on the first string, is left out. The
  function values inside an import object are an argument of the entry points; what they do is in the import
  tables.
\<close>

section \<open>Strings across the boundary\<close>

lemma boundary_roundtrip:
  assumes "text_codec enc dec into keeps" "text_encode E = enc" "text_decode E = dec" "encodeInto E = into" "keeps t"
    and "malloc_contract (0, 0) trap malloc" "realloc_contract (0, 0) trap malloc realloc"
  shows "case passStringToWasm0 E t malloc (Some realloc) s of
      (Ret p, s') \<Rightarrow> fst (getStringFromWasm0 E p (WASM_VECTOR_LEN s') s') = Ret t
    | (Throw e, s') \<Rightarrow> trap e"
proof -
  have "covers (0, 0) s" by (simp add: covers_def)
  then have "passed (0, 0) trap (enc t) (passStringToWasm0 E t malloc (Some realloc) s)"
    using text_codec.pass_with_realloc [OF assms(1,2,4,6,7)] by blast
  then show ?thesis using assms(3) text_codec.dec_enc [OF assms(1,5)]
    by (auto simp: passed_def getStringFromWasm0_run split: prod.splits outcome.splits)
qed

text \<open>
  Property C1. In the worklet, where the page's codec is the one of \<^verbatim>\<open>text-encoder.js\<close>, a string of any code
  units that is passed into the memory of the module and read back is the same string, for every
  allocator that keeps its contract; the only exception is one of the allocator.
\<close>

theorem string_boundary_roundtrip:
  assumes "text_encode E = polyfill_encode" "text_decode E = polyfill_decode" "encodeInto E = None"
    and "malloc_contract (0, 0) trap malloc" "realloc_contract (0, 0) trap malloc realloc"
  shows "case passStringToWasm0 E t malloc (Some realloc) s of
      (Ret p, s') \<Rightarrow> fst (getStringFromWasm0 E p (WASM_VECTOR_LEN s') s') = Ret t
    | (Throw e, s') \<Rightarrow> trap e"
  using boundary_roundtrip [OF polyfill.text_codec_axioms assms(1-3) TrueI assms(4,5)] .

theorem string_boundary_roundtrip_witness:
  "case passStringToWasm0 sample_env [0x68, 0x20AC, 0xD800] bump_malloc (Some bump_realloc) sample_state of
      (Ret p, s') \<Rightarrow> fst (getStringFromWasm0 sample_env p (WASM_VECTOR_LEN s') s') = Ret [0x68, 0x20AC, 0xD800]
    | (Throw e, s') \<Rightarrow> EngineErr ''RuntimeError'' = e"
  by (rule string_boundary_roundtrip) (simp_all add: sample_env_def bump_malloc_contract bump_realloc_contract)

text \<open>
  With the browser's own codec, which replaces unpaired surrogates, the same holds for every
  well-formed string, also through \<^verbatim>\<open>encodeInto\<close>.
\<close>

theorem string_boundary_roundtrip_native:
  assumes "text_encode E = native_encode" "text_decode E = native_decode" "encodeInto E = Some native_encodeInto"
    and "well_formed t" "malloc_contract (0, 0) trap malloc" "realloc_contract (0, 0) trap malloc realloc"
  shows "case passStringToWasm0 E t malloc (Some realloc) s of
      (Ret p, s') \<Rightarrow> fst (getStringFromWasm0 E p (WASM_VECTOR_LEN s') s') = Ret t
    | (Throw e, s') \<Rightarrow> trap e"
  using boundary_roundtrip [OF native.text_codec_axioms assms(1-3) assms(4-6)] .

theorem string_boundary_roundtrip_native_witness:
  "case passStringToWasm0 native_env [0x68, 0x20AC] bump_malloc (Some bump_realloc) sample_state of
      (Ret p, s') \<Rightarrow> fst (getStringFromWasm0 native_env p (WASM_VECTOR_LEN s') s') = Ret [0x68, 0x20AC]
    | (Throw e, s') \<Rightarrow> EngineErr ''RuntimeError'' = e"
  by (rule string_boundary_roundtrip_native)
    (simp_all add: native_env_def sample_env_def bump_malloc_contract bump_realloc_contract well_formed_def
      is_high_surrogate_def is_low_surrogate_def)

lemma slot_length:
  assumes "slot_holds s a ptr (int n)" "n < 2 ^ 31"
  shows "read32 (mem s) (nat a + 4) = int n"
proof -
  have r: "- (2 ^ 31) \<le> read32 (mem s) (nat a + 4)" "read32 (mem s) (nat a + 4) < 2 ^ 31"
    using to_int32_range by (simp_all add: read32_def)
  have "to_uint32 (read32 (mem s) (nat a + 4)) = int n"
    using assms to_uint32_id [of "int n"] by (simp add: slot_holds_def)
  then show ?thesis using r to_uint32_neg [of "read32 (mem s) (nat a + 4)"] assms(2)
      to_uint32_id [of "read32 (mem s) (nat a + 4)"]
    by (cases "0 \<le> read32 (mem s) (nat a + 4)") auto
qed

lemma prophecy_string_get:
  "map_of (prophecy_imports E) ''__wbindgen_string_get'' = Some (fn2 (\<lambda>arg0 arg1.
     js_let (js_gets (\<lambda>s. if js_typeof E arg1 s = ''string'' then arg1 else Undefined)) (ret_opt_string E arg0)))"
  by (rule import_found [OF prophecy_ascending]) (simp add: prophecy_imports_def prophecy_imports_3_def)

lemma prophecy_string_new:
  "map_of (prophecy_imports E) ''__wbindgen_string_new'' = Some (fn2 (\<lambda>arg0 arg1. js_str E arg0 arg1))"
  by (rule import_found [OF prophecy_ascending]) (simp add: prophecy_imports_def prophecy_imports_3_def)

lemma string_get_run:
  "ret_opt_string E arg0 (Str t) = ret_string E arg0 (Str t)"
  by (simp add: ret_opt_string_def ret_string_def isLikeNone_def)

text \<open>
  Property C6. Two imports of the prophecy module undo each other, with the codec of the browser, where the module
  runs: what \<^verbatim>\<open>__wbindgen_string_get\<close> writes into the return slot for a well-formed JavaScript string of less than
  \<open>2^31 / 3\<close> units is an address and a length from which \<^verbatim>\<open>__wbindgen_string_new\<close> makes the same string again,
  for every allocator that keeps its contract and leaves the slot alone. (A lone surrogate is not well-formed,
  and the browser's encoder replaces it.)
\<close>

theorem string_imports_roundtrip:
  assumes "text_encode E = native_encode" "text_decode E = native_decode" "encodeInto E = Some native_encodeInto"
    and "malloc_contract (a, a + 8) trap (wasm_malloc E)" "realloc_contract (a, a + 8) trap (wasm_malloc E) (wasm_realloc E)"
    and "fits s a 8" "well_formed t" "3 * length t < 2 ^ 31"
  shows "\<exists>get new. map_of (prophecy_imports E) ''__wbindgen_string_get'' = Some get
    \<and> map_of (prophecy_imports E) ''__wbindgen_string_new'' = Some new
    \<and> (case get [Num a, Str t] s of
         (Ret v, s') \<Rightarrow> fst (new [Num (read32 (mem s') (nat a)), Num (read32 (mem s') (nat a + 4))] s') = Ret (Str t)
       | (Throw e, s') \<Rightarrow> trap e)"
proof -
  let ?bs = "native_encode t"
  have len: "length ?bs < 2 ^ 31" using native.enc_room [of t] assms(8) by linarith
  have ret: "string_returned trap ?bs a (ret_string E (Num a) (Str t) s)"
    by (rule native.ret_string_returned [OF assms(1,3-6)])
  have "case ret_string E (Num a) (Str t) s of
      (Ret v, s') \<Rightarrow> fst (js_str E (Num (read32 (mem s') (nat a))) (Num (read32 (mem s') (nat a + 4))) s') = Ret (Str t)
    | (Throw e, s') \<Rightarrow> trap e"
  proof (cases "ret_string E (Num a) (Str t) s")
    case (Pair o' s')
    show ?thesis
    proof (cases o')
      case (Ret v)
      then obtain ptr where p: "to_uint32 ptr = ptr" "slot_holds s' a ptr (int (length ?bs))"
        "fits s' ptr (int (length ?bs))" "region s' ptr (int (length ?bs)) = ?bs"
        using ret Pair by (auto simp: string_returned_def)
      have n: "read32 (mem s') (nat a + 4) = int (length ?bs)" using slot_length [OF p(2) len] .
      have q: "to_uint32 (read32 (mem s') (nat a)) = ptr" using p(1,2) by (simp add: slot_holds_def)
      have "getStringFromWasm0 E (read32 (mem s') (nat a)) (int (length ?bs)) s' =
          (Ret t, s'\<lparr>cachedUint8Memory0 := Some (buffer s')\<rparr>)"
        using getStringFromWasm0_run [of s' "read32 (mem s') (nat a)" "int (length ?bs)" E] q p(3,4) assms(2)
          native_decode_encode [OF assms(7)] by simp
      then show ?thesis using Pair Ret n by (simp add: js_str_def js_let_Ret)
    qed (use Pair ret in \<open>simp add: string_returned_def\<close>)
  qed
  then show ?thesis unfolding prophecy_string_get prophecy_string_new
    by (auto simp: fn_defs js_param_def js_let_Ret [OF js_gets_run] string_get_run
        split: prod.splits outcome.splits)
qed

theorem string_imports_roundtrip_witness:
  "\<exists>get new. map_of (prophecy_imports native_env) ''__wbindgen_string_get'' = Some get
    \<and> map_of (prophecy_imports native_env) ''__wbindgen_string_new'' = Some new
    \<and> (case get [Num 8, Str [0x68, 0x20AC]] sample_state of
         (Ret v, s') \<Rightarrow> fst (new [Num (read32 (mem s') (nat 8)), Num (read32 (mem s') (nat 8 + 4))] s') = Ret (Str [0x68, 0x20AC])
       | (Throw e, s') \<Rightarrow> EngineErr ''RuntimeError'' = e)"
proof (rule string_imports_roundtrip)
  show "malloc_contract (8, 8 + 8) ((=) (EngineErr ''RuntimeError'')) (wasm_malloc native_env)"
    "realloc_contract (8, 8 + 8) ((=) (EngineErr ''RuntimeError'')) (wasm_malloc native_env) (wasm_realloc native_env)"
    by (simp_all only: native_alloc bump_malloc_contract bump_realloc_contract)
  show "well_formed [0x68, 0x20AC]" by (simp add: well_formed_def is_high_surrogate_def is_low_surrogate_def)
qed (simp_all add: native_env_def sample_state_def fits_def)

text \<open>
  The reader with a byte count decodes the same bytes as the plain one, and its count never
  reaches the limit at which the decoder has to be replaced, as long as no single string is that long.
\<close>

theorem counted_reader_same_string:
  assumes "fits s (to_uint32 p) n" "n < MAX_SAFARI_DECODE_BYTES"
  shows "fst (getStringFromWasm0_counted E p n s) = fst (getStringFromWasm0 E p n s)
    \<and> numBytesDecoded (snd (getStringFromWasm0_counted E p n s)) < MAX_SAFARI_DECODE_BYTES"
  using assms(2) by (simp add: decodeText_run [OF assms(1)] getStringFromWasm0_run [OF assms(1)])

theorem counted_reader_same_string_witness:
  "numBytesDecoded (snd (getStringFromWasm0_counted sample_env 4 2 (sample_state\<lparr>numBytesDecoded := 2146435071\<rparr>)))
     < MAX_SAFARI_DECODE_BYTES"
  using counted_reader_same_string [of "sample_state\<lparr>numBytesDecoded := 2146435071\<rparr>" 4 2 sample_env]
  by (simp add: fits_def sample_state_def to_uint32_id MAX_SAFARI_DECODE_BYTES_def)

section \<open>Views, references and exceptions\<close>

text \<open>
  Every accessor of the memory returns a view of the current buffer, whatever view was cached
  before and however often the memory has grown since.
\<close>

theorem views_follow_the_memory:
  "fst (getUint8Memory0 s) = Ret (buffer s) \<and> fst (getInt32Memory0 s) = Ret (buffer s)
   \<and> fst (getFloat32Memory0 s) = Ret (buffer s) \<and> fst (getUint16ArrayMemory0 s) = Ret (buffer s)
   \<and> fst (getUint32ArrayMemory0 s) = Ret (buffer s) \<and> fst (getDataViewMemory0 E s) = Ret (buffer s)"
  using stale_cached [of "cachedUint16Memory0 s" s] stale_cached [of "cachedUint32Memory0 s" s]
  by (auto simp: getUint8Memory0_run getInt32Memory0_run getFloat32Memory0_run getDataViewMemory0_run
      getUint16ArrayMemory0_def getUint32ArrayMemory0_def)

text \<open>
  An exception of an import is handed to Rust: \<^verbatim>\<open>handleError\<close> stores it in a slot of the
  reference table, reports the index of that slot to the module, and returns without an exception.
\<close>

theorem handleError_hands_over:
  assumes "exn_contract E" "m s = (Throw e, t)"
  shows "\<exists>i u v x. 0 \<le> i \<and> i < int (length (externrefs u)) \<and> externrefs u ! nat i = e
    \<and> wasm_call E ''__wbindgen_exn_store'' [Num i] u = (Ret v, x) \<and> handleError E m s = (Ret Undefined, x)"
proof -
  obtain i u where u: "wasm_call E ''__externref_table_alloc'' [] t = (Ret (Num i), u)"
    "0 \<le> i" "i < int (length (externrefs u))"
    using assms(1) unfolding exn_contract_def by blast
  let ?u = "u\<lparr>externrefs := (externrefs u)[nat i := e]\<rparr>"
  obtain v x where x: "wasm_call E ''__wbindgen_exn_store'' [Num i] ?u = (Ret v, x)"
    using assms(1) unfolding exn_contract_def by blast
  have "handleError E m s = (Ret Undefined, x)" using assms(2) u x by (rule handleError_Throw)
  then show ?thesis using u x by (intro exI [of _ i] exI [of _ ?u]) auto
qed

theorem handleError_hands_over_witness:
  "\<exists>i u v x. 0 \<le> i \<and> i < int (length (externrefs u)) \<and> externrefs u ! nat i = TypeError
    \<and> wasm_call sample_env ''__wbindgen_exn_store'' [Num i] u = (Ret v, x)
    \<and> handleError sample_env (js_throw TypeError) sample_state = (Ret Undefined, x)"
  by (rule handleError_hands_over [OF sample_exn_contract js_throw_run])

text \<open>
  The initialisation of the reference table appends the four slots of the constants
  \<^verbatim>\<open>undefined\<close>, \<^verbatim>\<open>null\<close>, \<^verbatim>\<open>true\<close> and \<^verbatim>\<open>false\<close>, in this order, and keeps every other slot but the first.
\<close>

theorem externref_table_constants:
  "wbindgen_init_externref_table s =
     (Ret Undefined, s\<lparr>externrefs :=
        (if externrefs s = [] then [] else (externrefs s)[0 := Undefined]) @ [Undefined, Null, Bool True, Bool False]\<rparr>)"
  by (rule init_table_run)

section \<open>Calls of closures\<close>

text \<open>
  A call of a closure that Rust does not drop meanwhile ends, with a value or with an
  exception, with the state object as it was before the call, and the Rust function received the
  closure's pointers; in both forms of the generated code.
\<close>

theorem closure_call_restores:
  assumes "closures s i = Some c" "clo_cnt c \<noteq> 0"
    and "adapters (clo_f c) (Num (clo_a c) # Num (clo_b c) # args) (entered i c s) = (r, t)"
    and "closures t i = Some (snd (closure_enter c))"
  shows "call_closure E adapters i args s = (r, t\<lparr>closures := (closures t)(i \<mapsto> c)\<rparr>)
    \<and> call_closure_unref E adapters i args s = (r, t\<lparr>closures := (closures t)(i \<mapsto> c)\<rparr>)"
  using call_closure_keeps [of s i c adapters args r t E, OF assms]
    call_closure_unref_keeps [of s i c adapters args r t E, OF assms] by simp

definition closure_state :: "int js_state" where
  "closure_state = sample_state\<lparr>closures := [0 \<mapsto> sample_closure], next_closure := 1, registry := {0}\<rparr>"

theorem closure_call_restores_witness:
  "call_closure sample_env (\<lambda>f args. js_throw TypeError) 0 [] closure_state =
     (Throw TypeError, (entered 0 sample_closure closure_state)\<lparr>closures :=
        (closures (entered 0 sample_closure closure_state))(0 \<mapsto> sample_closure)\<rparr>)"
  using closure_call_restores [of closure_state 0 sample_closure "\<lambda>f args. js_throw TypeError" "[]"
      "Throw TypeError" "entered 0 sample_closure closure_state" sample_env]
  by (simp add: closure_state_def sample_closure_def entered_def)

text \<open>
  A closure that Rust drops while it runs is destroyed when the call ends: the destructor is
  called once, with the closure's own pointers, the finalizer is cancelled, and the outcome of the call
  is that of the Rust function.
\<close>

theorem closure_dropped_in_call:
  assumes "closures s i = Some c" "clo_cnt c = 1"
    and "adapters (clo_f c) (Num (clo_a c) # Num (clo_b c) # args) (entered i c s) = (r, t)"
    and "closures t i = Some (snd (cb_drop (snd (closure_enter c))))"
    and "call_dtor E (clo_dtor c) [Num (clo_a c), Num (clo_b c)]
           (t\<lparr>closures := (closures t)(i \<mapsto> c\<lparr>clo_a := 0, clo_cnt := 0\<rparr>)\<rparr>) = (Ret v, u)"
  shows "call_closure E adapters i args s = (r, u\<lparr>registry := registry u - {i}\<rparr>)"
  using call_closure_drops [of s i c adapters args r t E v u, OF assms] .

definition dropping_adapter :: "string \<Rightarrow> js_val list \<Rightarrow> (int, js_val) wjs" where
  "dropping_adapter f args = wbindgen_cb_drop (Clo 0)"

theorem closure_dropped_in_call_witness:
  "\<exists>u. call_closure sample_env dropping_adapter 0 [] closure_state = (Ret (Bool False), u\<lparr>registry := registry u - {0}\<rparr>)"
proof -
  let ?t = "snd (dropping_adapter ''adapter'' [] (entered 0 sample_closure closure_state))"
  let ?u = "?t\<lparr>closures := (closures ?t)(0 \<mapsto> sample_closure\<lparr>clo_a := 0, clo_cnt := 0\<rparr>)\<rparr>"
  note run = dropping_adapter_def wbindgen_cb_drop_def counted_closure_state_def entered_def closure_enter_def
    js_let_def with_closure_def cb_drop_def sample_closure_def
  have "call_closure sample_env dropping_adapter 0 [] closure_state = (Ret (Bool False), ?u\<lparr>registry := registry ?u - {0}\<rparr>)"
  proof (rule closure_dropped_in_call)
    show "closures closure_state 0 = Some sample_closure" by (simp add: closure_state_def)
    show "clo_cnt sample_closure = 1" by (simp add: sample_closure_def)
    show "dropping_adapter (clo_f sample_closure) [Num (clo_a sample_closure), Num (clo_b sample_closure)]
        (entered 0 sample_closure closure_state) = (Ret (Bool False), ?t)" by (simp add: run)
    show "closures ?t 0 = Some (snd (cb_drop (snd (closure_enter sample_closure))))" by (simp add: run)
    show "call_dtor sample_env (clo_dtor sample_closure) [Num (clo_a sample_closure), Num (clo_b sample_closure)] ?u
        = (Ret Undefined, ?u)" by (simp add: call_dtor_def sample_env_def sample_closure_def)
  qed
  then show ?thesis by blast
qed

section \<open>Callbacks for one call\<close>

text \<open>
  When the call of an import that made a promise is over, whichever way it ended, the executor
  it made holds no pointer of Rust any more: a host that calls it later hands null pointers to the module.
\<close>

theorem promise_executor_cleared:
  assumes "new_promise E f (Num a) (Num b) s = (r, t)"
    and "\<forall>u. closures u (next_closure s) \<noteq> None \<longrightarrow>
          closures (snd (js_new E ''Promise'' [js_return (Clo (next_closure s))] u)) (next_closure s) \<noteq> None"
  shows "\<exists>c. closures t (next_closure s) = Some c \<and> clo_a c = 0 \<and> clo_b c = 0"
  by (rule with_callback_clears [OF assms(1) [unfolded new_promise_def]]) (use assms(2) in blast)

theorem promise_executor_cleared_witness:
  "\<exists>t c. new_promise sample_env ''adapter'' (Num 5) (Num 6) sample_state = (Ret (Ref 1), t)
    \<and> closures t 0 = Some c \<and> clo_a c = 0 \<and> clo_b c = 0"
proof -
  note run = new_promise_def with_callback_def Let_def js_try_finally_def js_new_def js_global_def js_let_def
    sample_env_def sample_state_def with_closure_def
  obtain t where t: "new_promise sample_env ''adapter'' (Num 5) (Num 6) sample_state = (Ret (Ref 1), t)"
    by (simp add: run)
  have "\<exists>c. closures t (next_closure sample_state) = Some c \<and> clo_a c = 0 \<and> clo_b c = 0"
    by (rule promise_executor_cleared [OF t])
      (simp add: js_new_def js_global_def js_let_def sample_env_def)
  then show ?thesis using t by (simp add: sample_state_def)
qed

section \<open>The import tables\<close>

text \<open>
  In each of the six generated modules the names of the import functions are in strictly
  ascending order, so that no name is given twice and a lookup finds the function that the module defines
  under it.
\<close>

theorem import_names_unique:
  "ascending (import_names (prophecy_imports E)) \<and> ascending (import_names (spectrum_imports E))
   \<and> ascending (import_names (wlan_swap_imports E)) \<and> ascending (import_names (wlan_imports E))
   \<and> ascending (import_names (wlan_debug_imports E)) \<and> ascending (import_names (wgpu_imports E))"
  by (intro conjI prophecy_ascending spectrum_ascending wlan_swap_ascending wlan_ascending wlan_debug_ascending
      wgpu_ascending)

text \<open>A lookup under each of the names finds a function with the property that goes with the name.\<close>

definition looked_up :: "'w import_table \<Rightarrow> ('b \<Rightarrow> 'w import_fn \<Rightarrow> bool) \<Rightarrow> (string \<times> 'b) list \<Rightarrow> bool" where
  "looked_up tbl P ns \<longleftrightarrow> list_all (\<lambda>(n, x). \<exists>f. map_of tbl n = Some f \<and> P x f) ns"

abbreviation looked_up_all :: "'w import_table \<Rightarrow> ('w import_fn \<Rightarrow> bool) \<Rightarrow> string list \<Rightarrow> bool" where
  "looked_up_all tbl P ns \<equiv> looked_up tbl (\<lambda>_. P) (map (\<lambda>n. (n, ())) ns)"

lemma looked_upI: "ascending (import_names tbl) \<Longrightarrow> provides tbl P ns \<Longrightarrow> looked_up tbl P ns"
  unfolding looked_up_def list_all_iff using provides_found by fastforce

lemma looked_up_all_append [simp]: "looked_up t P (ns @ ms) \<longleftrightarrow> looked_up t P ns \<and> looked_up t P ms"
  by (simp add: looked_up_def)

text \<open>
  Property C9. The imports that the generator wraps in \<^verbatim>\<open>handleError\<close> never throw into the wasm module,
  whatever their arguments and whatever the browser does, in any of the six modules; all that is needed
  is that the module's table of references has room.
\<close>

theorem guarded_imports_return:
  assumes "exn_contract E"
  shows "looked_up_all (prophecy_imports E) always_returns prophecy_guarded
    \<and> looked_up_all (spectrum_imports E) always_returns spectrum_guarded
    \<and> looked_up_all (wlan_swap_imports E) always_returns wlan_swap_guarded
    \<and> looked_up_all (wlan_imports E) always_returns wlan_guarded
    \<and> looked_up_all (wlan_debug_imports E) always_returns wlan_debug_guarded
    \<and> looked_up_all (wgpu_imports E) always_returns wgpu_guarded"
  using prophecy_guarded_provided [OF assms] spectrum_guarded_provided [OF assms] wlan_swap_guarded_provided [OF assms]
    wlan_guarded_provided [OF assms] wlan_debug_guarded_provided [OF assms] wgpu_guarded_provided [OF assms]
  by (intro conjI looked_upI prophecy_ascending spectrum_ascending wlan_swap_ascending wlan_ascending
      wlan_debug_ascending wgpu_ascending)

theorem guarded_imports_return_witness:
  "looked_up_all (prophecy_imports sample_env) always_returns prophecy_guarded"
  using guarded_imports_return [OF sample_exn_contract] by blast

text \<open>
  Every type test of the modules (\<^verbatim>\<open>instanceof\<close>) answers with a boolean, also for a class that
  the browser does not have.
\<close>

theorem type_tests_answer:
  "looked_up_all (prophecy_imports E) answers prophecy_type_tests
   \<and> looked_up_all (spectrum_imports E) answers spectrum_type_tests
   \<and> looked_up_all (wlan_swap_imports E) answers wlan_swap_type_tests
   \<and> looked_up_all (wlan_imports E) answers wlan_type_tests
   \<and> looked_up_all (wlan_debug_imports E) answers wlan_debug_type_tests
   \<and> looked_up_all (wgpu_imports E) answers wgpu_type_tests"
  using prophecy_type_tests_provided spectrum_type_tests_provided wlan_swap_type_tests_provided
    wlan_type_tests_provided wlan_debug_type_tests_provided wgpu_type_tests_provided
  by (intro conjI looked_upI prophecy_ascending spectrum_ascending wlan_swap_ascending wlan_ascending
      wlan_debug_ascending wgpu_ascending)

text \<open>
  Property C30. Every import that returns a string property of a browser object, in all six modules: with the
  browser's own codec, and an allocator that keeps its contract and leaves the return slot alone, it leaves the
  address and the length of the encoded string in the slot, or throws what the allocator threw. The imports
  that \<^verbatim>\<open>handleError\<close> guards (origin, hostname, protocol) do the same, but hand an exception of the allocator, or of
  the property itself, to Rust and return.
\<close>

theorem string_getters_fill_slot:
  assumes "text_encode E = native_encode" "encodeInto E = Some native_encodeInto"
  shows "looked_up (prophecy_imports E) (string_getter E trap native_encode) prophecy_string_getters
    \<and> looked_up (spectrum_imports E) (string_getter E trap native_encode) spectrum_string_getters
    \<and> looked_up (wlan_swap_imports E) (string_getter E trap native_encode) wlan_swap_string_getters
    \<and> looked_up (wlan_imports E) (string_getter E trap native_encode) wlan_string_getters
    \<and> looked_up (wlan_debug_imports E) (string_getter E trap native_encode) wlan_debug_string_getters
    \<and> looked_up (wgpu_imports E) (string_getter E trap native_encode) wgpu_string_getters
    \<and> looked_up (prophecy_imports E) (guarded_getter E trap native_encode) prophecy_guarded_getters
    \<and> looked_up (spectrum_imports E) (guarded_getter E trap native_encode) spectrum_guarded_getters
    \<and> looked_up (wlan_swap_imports E) (guarded_getter E trap native_encode) wlan_swap_guarded_getters"
proof -
  note g = prophecy_string_getters_provided spectrum_string_getters_provided wlan_swap_string_getters_provided
    wlan_string_getters_provided wlan_debug_string_getters_provided wgpu_string_getters_provided
    prophecy_guarded_getters_provided spectrum_guarded_getters_provided wlan_swap_guarded_getters_provided
  note n = g [OF native.text_codec_axioms assms]
  show ?thesis using n
    by (intro conjI looked_upI prophecy_ascending spectrum_ascending wlan_swap_ascending wlan_ascending
        wlan_debug_ascending wgpu_ascending)
qed

theorem string_getters_fill_slot_witness:
  "\<exists>url origin res. map_of (prophecy_imports native_env) ''__wbg_url_8f9653b899456042'' = Some url
    \<and> string_returned ((=) (EngineErr ''RuntimeError'')) (native_encode (js ''abc'')) 8 (url [Num 8, Ref 1] sample_state)
    \<and> map_of (prophecy_imports native_env) ''__wbg_origin_7c5d649acdace3ea'' = Some origin
    \<and> string_returned ((=) (EngineErr ''RuntimeError'')) (native_encode (js ''abc'')) 8 res
    \<and> origin [Num 8, Ref 1] sample_state = handed_over native_env res"
proof -
  let ?trap = "(=) (EngineErr ''RuntimeError'')"
  have E: "text_encode native_env = native_encode" "encodeInto native_env = Some native_encodeInto"
    by (simp_all add: native_env_def)
  note all = string_getters_fill_slot [OF E, where trap = ?trap]
  have c: "malloc_contract (8, 8 + 8) ?trap (wasm_malloc native_env)"
    "realloc_contract (8, 8 + 8) ?trap (wasm_malloc native_env) (wasm_realloc native_env)"
    by (simp_all only: native_alloc bump_malloc_contract bump_realloc_contract)
  have h: "\<not> isLikeNone (Ref 1)" "host_get native_env (Ref 1) p sample_state = (Ret (Str (js ''abc'')), sample_state)"
    "fits sample_state 8 8" for p
    by (simp_all add: isLikeNone_def native_env_def sample_env_def sample_state_def fits_def)
  obtain url where u: "map_of (prophecy_imports native_env) ''__wbg_url_8f9653b899456042'' = Some url"
    "string_getter native_env ?trap native_encode ''url'' url"
    using all by (auto simp: looked_up_def prophecy_string_getters_def)
  obtain origin where o: "map_of (prophecy_imports native_env) ''__wbg_origin_7c5d649acdace3ea'' = Some origin"
    "guarded_getter native_env ?trap native_encode ''origin'' origin"
    using all by (auto simp: looked_up_def prophecy_guarded_getters_def)
  have "string_returned ?trap (native_encode (js ''abc'')) 8 (url [Num 8, Ref 1] sample_state)"
    using u(2) h c unfolding string_getter_def by blast
  moreover obtain res where "string_returned ?trap (native_encode (js ''abc'')) 8 res"
    "origin [Num 8, Ref 1] sample_state = handed_over native_env res"
    using o(2) h c unfolding guarded_getter_def by blast
  ultimately show ?thesis using u(1) o(1) by blast
qed

text \<open>
  Every import that makes a closure makes it for an adapter that the module defines, so that a
  call of the closure always finds its adapter.
\<close>

theorem closure_imports_have_adapters:
  "looked_up (prophecy_imports E) (closure_maker (prophecy_adapters E)) prophecy_closures
   \<and> looked_up (spectrum_imports E) (closure_maker (spectrum_adapters E)) spectrum_closures
   \<and> looked_up (wlan_swap_imports E) (closure_maker (wlan_swap_adapters E)) wlan_swap_closures
   \<and> looked_up (wlan_imports E) (closure_maker (wlan_adapters E)) wlan_closures
   \<and> looked_up (wlan_debug_imports E) (closure_maker (wlan_debug_adapters E)) wlan_debug_closures
   \<and> looked_up (wgpu_imports E) (closure_maker (wgpu_adapters E)) wgpu_closures"
  using prophecy_closures_provided spectrum_closures_provided wlan_swap_closures_provided
    wlan_closures_provided wlan_debug_closures_provided wgpu_closures_provided
  by (intro conjI looked_upI prophecy_ascending spectrum_ascending wlan_swap_ascending wlan_ascending
      wlan_debug_ascending wgpu_ascending)

section \<open>The decoder\<close>

text \<open>
  Property C5. \<^verbatim>\<open>process\<close> gives the stack of the module back: whatever the samples, and whether it returns or
  throws, the stack pointer is afterwards where it was, unless the module itself trapped.
\<close>

theorem process_restores_stack_pointer:
  assumes "stack_contract E sp trap" "wasmdecoder_process E i samples s = (r, t)"
  shows "sp (world t) = sp (world s) \<or> (\<exists>e. r = Throw e \<and> trap e)"
  using process_keeps_stack [OF assms] .

lemma sample_stack_contract: "stack_contract sample_env (\<lambda>w. w) ((=) (EngineErr ''RuntimeError''))"
  by (auto simp: stack_contract_def add_to_stack_pointer_def sample_env_def sample_wasm_call_def js_param_def
      bump_malloc_def bump_def js_let_def sample_process_def Let_def split: prod.splits outcome.splits)

theorem process_restores_stack_pointer_witness:
  "world (snd (wasmdecoder_process sample_env 0 None sample_state)) = 24
    \<or> (\<exists>e. fst (wasmdecoder_process sample_env 0 None sample_state) = Throw e \<and> EngineErr ''RuntimeError'' = e)"
  using process_restores_stack_pointer [OF sample_stack_contract, of 0 None sample_state
      "fst (wasmdecoder_process sample_env 0 None sample_state)" "snd (wasmdecoder_process sample_env 0 None sample_state)"]
  by (simp add: sample_state_def)

text \<open>
  The samples arrive in the module: the block that the allocator gave holds their bytes, the
  returned address is its address, and the recorded length counts samples, not bytes.
\<close>

theorem samples_passed:
  assumes "malloc (int (length xs) * 4) 4 s = (Ret p, s1)"
    and "fits s1 (to_uint32 p) (int (length xs) * 4)" "4 dvd to_uint32 p"
  shows "\<exists>t. passArrayF32ToWasm0 (Some xs) malloc s = (Ret (to_uint32 p), t) \<and>
     WASM_VECTOR_LEN t = int (length xs) \<and> region t (to_uint32 p) (int (length xs) * 4) = f32_bytes xs"
  using passArrayF32_run [where malloc = malloc, OF assms] by blast

theorem samples_passed_witness:
  "\<exists>t. passArrayF32ToWasm0 (Some [1, 2]) bump_malloc sample_state = (Ret 32, t) \<and>
     WASM_VECTOR_LEN t = 2 \<and> region t 32 8 = f32_bytes [1, 2]"
proof -
  have u: "to_uint32 32 = 32" by (simp add: to_uint32_id)
  have "bump_malloc (int (length [1 :: f32, 2]) * 4) 4 sample_state = (Ret (to_int32 32),
      sample_state\<lparr>mem := replicate 40 0, buffer := 1\<rparr>)"
    by (simp add: bump_malloc_def bump_def sample_state_def replicate_add [symmetric])
  from samples_passed [where malloc = bump_malloc, OF this] show ?thesis by (simp add: u fits_def sample_state_def)
qed

text \<open>
  Property C27. One run of \<^verbatim>\<open>process\<close>: it returns the string whose address and length the module left in the
  return slot, after freeing it and giving the stack back.
\<close>

theorem process_returns_decoded_text:
  assumes "add_to_stack_pointer E (- 16) s = (Ret (Num a), s1)"
    and "passArrayF32ToWasm0 samples (wasm_malloc E) s1 = (Ret p, s2)"
    and "objects s2 i = Some x"
    and "wasm_call E ''wasmdecoder_process'' [Num a, Num (wbg_ptr x), Num p, Num (WASM_VECTOR_LEN s2)] s2 = (Ret u, s3)"
    and "fits s3 a 8" "4 dvd a" "read32 (mem s3) (nat a) = r0" "read32 (mem s3) (nat a + 4) = r1" "r0 \<noteq> 0"
    and "fits s3 (to_uint32 r0) r1" "text_decode E (region s3 (to_uint32 r0) r1) = Ret t"
    and "wasm_call E ''__wbindgen_free'' [Num r0, Num r1, Num 1]
        (s3\<lparr>cachedInt32Memory0 := Some (buffer s3), cachedUint8Memory0 := Some (buffer s3)\<rparr>) = (Ret v, s4)"
    and "add_to_stack_pointer E 16 s4 = (Ret w, s5)"
  shows "wasmdecoder_process E i samples s = (Ret (Str t), s5)"
  using process_returns_string [OF assms] .

definition decoder_state :: "int js_state" where
  "decoder_state = sample_state\<lparr>objects := [0 \<mapsto> \<lparr>wbg_ptr = 8, wbg_registered = True\<rparr>], next_object := 1\<rparr>"

theorem process_returns_decoded_text_witness:
  "fst (wasmdecoder_process sample_env 0 (Some [1]) decoder_state) = Ret (Str (js ''OK''))"
proof -
  let ?s1 = "decoder_state\<lparr>world := 8\<rparr>"
  let ?m1 = "replicate 32 0 @ [1, 0, 0, 0]"
  let ?s2 = "?s1\<lparr>mem := ?m1, buffer := 1, cachedFloat32Memory0 := Some 1, WASM_VECTOR_LEN := 1\<rparr>"
  let ?m3 = "replicate 8 0 @ [36, 0, 0, 0, 2, 0, 0, 0] @ replicate 16 0 @ [1, 0, 0, 0, 79, 75, 0, 0]"
  let ?s3 = "?s2\<lparr>mem := ?m3\<rparr>"
  let ?s4 = "?s3\<lparr>cachedInt32Memory0 := Some 1, cachedUint8Memory0 := Some 1\<rparr>"
  have decoded: "polyfill_decode [79, 75] = Ret (js ''OK'')" by code_simp
  have "wasmdecoder_process sample_env 0 (Some [1]) decoder_state = (Ret (Str (js ''OK'')), ?s4\<lparr>world := 24\<rparr>)"
  proof (rule process_returns_decoded_text [where ?s2.0 = ?s2 and ?s3.0 = ?s3 and ?s4.0 = ?s4 and ?r0.0 = 36 and ?r1.0 = 2
        and x = "\<lparr>wbg_ptr = 8, wbg_registered = True\<rparr>" and p = 32])
    show "add_to_stack_pointer sample_env (- 16) decoder_state = (Ret (Num 8), ?s1)"
      by (simp add: add_to_stack_pointer_def decoder_state_def sample_state_def sample_env_def sample_wasm_call_def
          js_param_def)
    show "passArrayF32ToWasm0 (Some [1]) (wasm_malloc sample_env) ?s1 = (Ret 32, ?s2)"
      by (simp add: passArrayF32ToWasm0_def sample_alloc bump_malloc_def bump_def js_let_def js_seq_def
          getFloat32Memory0_run f32_set_def f32_bytes_def le32_def write_bytes_def decoder_state_def sample_state_def
          to_uint32_id Let_def)
    show "objects ?s2 0 = Some \<lparr>wbg_ptr = 8, wbg_registered = True\<rparr>" by (simp add: decoder_state_def)
    show "fits ?s3 8 8" "fits ?s3 (to_uint32 36) 2" by (simp_all add: fits_def to_uint32_id)
    show "text_decode sample_env (region ?s3 (to_uint32 36) 2) = Ret (js ''OK'')"
      by (simp add: region_def to_uint32_id sample_env_def decoded)
    show "wasm_call sample_env ''wasmdecoder_process'' [Num 8, Num (wbg_ptr \<lparr>wbg_ptr = 8, wbg_registered = True\<rparr>), Num 32,
        Num (WASM_VECTOR_LEN ?s2)] ?s2 = (Ret Undefined, ?s3)"
      by (simp add: sample_env_def sample_wasm_call_def sample_process_def js_param_def write_bytes_def le32_def Let_def
          decoder_state_def sample_state_def)
    show "read32 (mem ?s3) (nat 8) = 36" "read32 (mem ?s3) (nat 8 + 4) = 2"
      by (simp_all add: read32_def nth_append to_int32_id)
    show "wasm_call sample_env ''__wbindgen_free'' [Num 36, Num 2, Num 1]
        (?s3\<lparr>cachedInt32Memory0 := Some (buffer ?s3), cachedUint8Memory0 := Some (buffer ?s3)\<rparr>) = (Ret Undefined, ?s4)"
      by (simp add: sample_env_def sample_wasm_call_def)
    show "add_to_stack_pointer sample_env 16 ?s4 = (Ret (Num 24), ?s4\<lparr>world := 24\<rparr>)"
      by (simp add: add_to_stack_pointer_def sample_env_def sample_wasm_call_def js_param_def)
  qed simp_all
  then show ?thesis by simp
qed

text \<open>
  The text that the page's message setter is called with reaches the module: the export receives
  the pointer of the setter, the address of a block that holds the encoded text, and its length in bytes.
\<close>

theorem message_text_reaches_module:
  assumes "text_encode E = native_encode" "encodeInto E = Some native_encodeInto"
    and "malloc_contract (0, 0) trap (wasm_malloc E)" "realloc_contract (0, 0) trap (wasm_malloc E) (wasm_realloc E)"
    and "pass_value E (Str t) s = (Ret p, u)" "objects u i = Some x"
  shows "messagesetter_message E i (Str t) s =
      js_do (wasm_call E ''messagesetter_message'' [Num (wbg_ptr x), Num p, Num (int (length (native_encode t)))]) u
    \<and> fits u p (int (length (native_encode t))) \<and> region u p (int (length (native_encode t))) = native_encode t"
proof -
  have "covers (0, 0) s" by (simp add: covers_def)
  then have "passed (0, 0) trap (native_encode t) (passStringToWasm0 E t (wasm_malloc E) (Some (wasm_realloc E)) s)"
    using native.pass_with_realloc [OF assms(1-4)] by blast
  then have "passed (0, 0) trap (native_encode t) (Ret p, u)" using assms(5) by (simp add: pass_value_def)
  then show ?thesis using messagesetter_message_run [OF assms(5,6)] by (simp add: passed_def)
qed

theorem message_text_reaches_module_witness:
  "\<exists>p u. pass_value native_env (Str [0x68, 0x69]) decoder_state = (Ret p, u) \<and> region u p 2 = native_encode [0x68, 0x69]"
proof -
  note run = pass_value_def passStringToWasm0_def js_let_def js_seq_def bump_malloc_def
    bump_def getUint8Memory0_run write_ascii.simps u8_store_def decoder_state_def sample_state_def to_uint32_id Let_def
  have alloc: "wasm_malloc native_env = bump_malloc" "wasm_realloc native_env = bump_realloc"
    using sample_alloc by (simp_all add: native_env_def wasm_malloc_def wasm_realloc_def fun_eq_iff)
  obtain p u where u: "pass_value native_env (Str [0x68, 0x69]) decoder_state = (Ret p, u)"
    "objects u 0 = Some \<lparr>wbg_ptr = 8, wbg_registered = True\<rparr>"
    by (simp add: run alloc)
  have "length (native_encode [0x68, 0x69]) = 2" by code_simp
  then show ?thesis
    using u message_text_reaches_module [of native_env "(=) (EngineErr ''RuntimeError'')" "[0x68, 0x69]" decoder_state p u 0]
    by (auto simp: alloc bump_malloc_contract bump_realloc_contract) (auto simp: native_env_def)
qed

end
